(* ===== verification/Prelude.thy ===== *)
theory Prelude
  imports Main "HOL-Library.Word" "HOL-Library.State_Monad" "HOL-Library.Sublist"
begin

text \<open>
  What every component shares: Go strings and the functions of \<^verbatim>\<open>strings\<close> and \<^verbatim>\<open>strconv\<close>
  the operator calls, 64-bit \<^verbatim>\<open>int\<close> arithmetic, Go errors and panics as values, Go maps,
  and the lemma collections of the development.

  A Go \<^verbatim>\<open>string\<close> is a list of bytes (\<^typ>\<open>string\<close>).  A \<^verbatim>\<open>map[string]string\<close> read as a
  value is a partial function; \<open>m ++ n\<close> is the loop \<^verbatim>\<open>for k, v := range n { m[k] = v }\<close>,
  whose result does not depend on Go's iteration order.
\<close>

named_theorems op_defs "equations that unfold the operations of a component"
named_theorems emits_intros "rules for the calls an operation may emit"

type_synonym strmap = "string \<rightharpoonup> string"

section \<open>Strings\<close>

abbreviation HasPrefix :: "string \<Rightarrow> string \<Rightarrow> bool" where
  "HasPrefix s p \<equiv> prefix p s"

abbreviation Contains :: "string \<Rightarrow> string \<Rightarrow> bool" where
  "Contains s t \<equiv> sublist t s"

text \<open>\<^verbatim>\<open>strings.ToLower\<close> on ASCII: the bytes 65..90 move up by 32.\<close>

definition lower_char :: "char \<Rightarrow> char" where
  "lower_char c = (if 65 \<le> (of_char c :: nat) \<and> (of_char c :: nat) \<le> 90
                   then char_of ((of_char c :: nat) + 32) else c)"

definition ToLower :: "string \<Rightarrow> string" where
  "ToLower s = map lower_char s"

text \<open>\<^verbatim>\<open>strings.ReplaceAll\<close> for a one-byte pattern.\<close>

definition ReplaceChar :: "char \<Rightarrow> string \<Rightarrow> string \<Rightarrow> string" where
  "ReplaceChar c r s = concat (map (\<lambda>x. if x = c then r else [x]) s)"

definition ContainsAny :: "string \<Rightarrow> string \<Rightarrow> bool" where
  "ContainsAny s cs = list_ex (\<lambda>c. c \<in> set cs) s"

definition is_space :: "char \<Rightarrow> bool" where
  "is_space c = ((of_char c :: nat) \<in> {9, 10, 11, 12, 13, 32})"

definition TrimSpace :: "string \<Rightarrow> string" where
  "TrimSpace s = rev (dropWhile is_space (rev (dropWhile is_space s)))"

lemma ToLower_append [simp]: "ToLower (s @ t) = ToLower s @ ToLower t"
  by (simp add: ToLower_def)

lemma length_ToLower [simp]: "length (ToLower s) = length s"
  by (simp add: ToLower_def)

lemma lower_char_idem [simp]: "lower_char (lower_char c) = lower_char c"
proof -
  have "(65::nat) \<le> n \<Longrightarrow> n \<le> 90 \<Longrightarrow> (of_char (char_of (n + 32) :: char) :: nat) = n + 32" for n
    by (simp add: take_bit_nat_eq_self)
  then show ?thesis by (auto simp: lower_char_def)
qed

lemma ToLower_idem [simp]: "ToLower (ToLower s) = ToLower s"
  by (simp add: ToLower_def)

lemma ReplaceChar_removes: "c \<notin> set r \<Longrightarrow> c \<notin> set (ReplaceChar c r s)"
  by (auto simp: ReplaceChar_def)

lemma sublist_code [code]:
  "sublist xs ys = (prefix xs ys \<or> (case ys of [] \<Rightarrow> False | y # ys' \<Rightarrow> sublist xs ys'))"
  by (cases ys) (auto simp: sublist_Cons_right)

section \<open>Decimal numbers\<close>

text \<open>\<^verbatim>\<open>strconv.Itoa\<close> and \<^verbatim>\<open>%d\<close>: most significant digit first, \<^verbatim>\<open>-\<close> for a negative number.\<close>

definition digit_char :: "nat \<Rightarrow> char" where
  "digit_char d = char_of (48 + d)"

fun nat_digits :: "nat \<Rightarrow> string" where
  "nat_digits n = (if n < 10 then [digit_char n] else nat_digits (n div 10) @ [digit_char (n mod 10)])"

declare nat_digits.simps [simp del]

definition Itoa :: "int \<Rightarrow> string" where
  "Itoa i = (if i < 0 then CHR ''-'' # nat_digits (nat (- i)) else nat_digits (nat i))"

definition digit_val :: "char \<Rightarrow> nat option" where
  "digit_val c = (if 48 \<le> (of_char c :: nat) \<and> (of_char c :: nat) \<le> 57
                  then Some ((of_char c :: nat) - 48) else None)"

fun parse_digits :: "string \<Rightarrow> nat \<Rightarrow> nat option" where
  "parse_digits [] acc = Some acc"
| "parse_digits (c # cs) acc =
     (case digit_val c of None \<Rightarrow> None | Some d \<Rightarrow> parse_digits cs (10 * acc + d))"

text \<open>
  \<^verbatim>\<open>strconv.Atoi\<close>: an optional sign and at least one digit.  The result is the value and
  whether the error is nil; on a syntax error the value is 0, out of the 64-bit range it is
  the nearest bound, as \<^verbatim>\<open>ParseInt\<close> documents.
\<close>

definition clamp64 :: "int \<Rightarrow> int" where
  "clamp64 i = (if i < - (2 ^ 63) then - (2 ^ 63) else if i > 2 ^ 63 - 1 then 2 ^ 63 - 1 else i)"

definition Atoi :: "string \<Rightarrow> int \<times> bool" where
  "Atoi s =
     (let neg = (case s of [] \<Rightarrow> False | c # _ \<Rightarrow> c = CHR ''-'');
          body = (case s of [] \<Rightarrow> [] | c # cs \<Rightarrow> if c = CHR ''-'' \<or> c = CHR ''+'' then cs else s)
      in if body = [] then (0, False)
         else case parse_digits body 0 of
                None \<Rightarrow> (0, False)
              | Some n \<Rightarrow> (let i = (if neg then - int n else int n)
                          in (clamp64 i, clamp64 i = i)))"

text \<open>\<^verbatim>\<open>int\<close> arithmetic wraps at 64 bits.\<close>

definition wrap64 :: "int \<Rightarrow> int" where
  "wrap64 i = sint (word_of_int i :: 64 word)"

lemma wrap64_id: "- (2 ^ 63) \<le> i \<Longrightarrow> i < 2 ^ 63 \<Longrightarrow> wrap64 i = i"
  by (simp add: wrap64_def sint_sbintrunc' signed_take_bit_int_eq_self)

lemma wrap64_range: "- (2 ^ 63) \<le> wrap64 i \<and> wrap64 i < 2 ^ 63"
proof -
  have "- (2 ^ (LENGTH(64) - 1)) \<le> sint (word_of_int i :: 64 word)
        \<and> sint (word_of_int i :: 64 word) < 2 ^ (LENGTH(64) - 1)"
    using sint_ge sint_lt by blast
  then show ?thesis by (simp add: wrap64_def)
qed

lemma digit_val_digit_char [simp]: "d < 10 \<Longrightarrow> digit_val (digit_char d) = Some d"
  by (simp add: digit_val_def digit_char_def take_bit_nat_eq_self)

lemma nat_digits_nonempty [simp]: "nat_digits n \<noteq> []"
  by (subst nat_digits.simps) simp

lemma parse_digits_append:
  "parse_digits (xs @ ys) a = (case parse_digits xs a of None \<Rightarrow> None | Some b \<Rightarrow> parse_digits ys b)"
  by (induction xs arbitrary: a) (auto split: option.splits)

lemma parse_nat_digits: "parse_digits (nat_digits n) 0 = Some n"
proof (induction n rule: nat_digits.induct)
  case (1 n)
  show ?case
  proof (cases "n < 10")
    case True
    then show ?thesis by (simp add: nat_digits.simps [of n])
  next
    case False
    with "1.IH" have "parse_digits (nat_digits (n div 10)) 0 = Some (n div 10)" by simp
    with False show ?thesis
      by (simp add: nat_digits.simps [of n] parse_digits_append)
  qed
qed

lemma nat_digits_all: "\<forall>c \<in> set (nat_digits n). digit_val c \<noteq> None"
proof (induction n rule: nat_digits.induct)
  case (1 n)
  show ?case
  proof (cases "n < 10")
    case True
    then show ?thesis by (simp add: nat_digits.simps [of n])
  next
    case False
    with "1.IH" have "\<forall>c \<in> set (nat_digits (n div 10)). digit_val c \<noteq> None" by simp
    with False show ?thesis by (auto simp: nat_digits.simps [of n])
  qed
qed

lemma digit_val_sign [simp]: "digit_val (CHR ''-'') = None" "digit_val (CHR ''+'') = None"
  by (simp_all add: digit_val_def)

lemma Atoi_Itoa_nonneg:
  assumes "0 \<le> i" and "i < 2 ^ 63"
  shows "Atoi (Itoa i) = (i, True)"
proof -
  obtain c cs where nd: "nat_digits (nat i) = c # cs"
    by (cases "nat_digits (nat i)") auto
  with nat_digits_all [of "nat i"] have "digit_val c \<noteq> None" by simp
  then have "c \<noteq> CHR ''-''" and "c \<noteq> CHR ''+''" by auto
  moreover have "parse_digits (c # cs) 0 = Some (nat i)"
    using parse_nat_digits [of "nat i"] nd by simp
  moreover have "clamp64 i = i" using assms by (simp add: clamp64_def)
  ultimately show ?thesis
    using assms nd by (simp add: Atoi_def Itoa_def Let_def)
qed

section \<open>Errors, panics and outcomes\<close>

text \<open>
  A Go error is kept as the tree of calls that built it: an API error with its reason,
  \<^verbatim>\<open>errors.New\<close>, \<^verbatim>\<open>fmt.Errorf\<close> (format and arguments), and \<^verbatim>\<open>errors.Wrap\<close>.  Rendering it
  to text is left to a parameter of the operations that store the text.
\<close>

datatype api_reason = NotFound | AlreadyExists | OtherReason string

datatype go_error =
    ApiError api_reason
  | New string
  | Errorf string "string list"
  | Wrap go_error string

fun IsNotFound :: "go_error \<Rightarrow> bool" where
  "IsNotFound (ApiError r) = (r = NotFound)"
| "IsNotFound (Wrap e _) = IsNotFound e"
| "IsNotFound _ = False"

fun IsAlreadyExists :: "go_error \<Rightarrow> bool" where
  "IsAlreadyExists (ApiError r) = (r = AlreadyExists)"
| "IsAlreadyExists (Wrap e _) = IsAlreadyExists e"
| "IsAlreadyExists _ = False"

text \<open>
  What a call returns: a value, a non-nil error, or a run-time panic (nil dereference or
  index out of range), which unwinds past every error handler.
\<close>

datatype 'a outcome = Ok 'a | Err go_error | Panic string

fun bindO :: "'a outcome \<Rightarrow> ('a \<Rightarrow> 'b outcome) \<Rightarrow> 'b outcome" where
  "bindO (Ok x) f = f x"
| "bindO (Err e) f = Err e"
| "bindO (Panic p) f = Panic p"

lemma bindO_eq_Ok: "bindO m f = Ok y \<longleftrightarrow> (\<exists>x. m = Ok x \<and> f x = Ok y)"
  by (cases m) auto

lemma bindO_assoc: "bindO (bindO m f) g = bindO m (\<lambda>x. bindO (f x) g)"
  by (cases m) auto

fun wrapO :: "string \<Rightarrow> 'a outcome \<Rightarrow> 'a outcome" where
  "wrapO msg (Err e) = Err (Wrap e msg)"
| "wrapO msg r = r"

definition guardO :: "bool \<Rightarrow> go_error \<Rightarrow> unit outcome" where
  "guardO ok e = (if ok then Ok () else Err e)"

lemma wrapO_eq_Ok [simp]: "wrapO msg m = Ok x \<longleftrightarrow> m = Ok x"
  by (cases m) auto

lemma guardO_eq_Ok [simp]: "guardO b e = Ok u \<longleftrightarrow> b"
  by (simp add: guardO_def)

section \<open>Maps\<close>

text \<open>\<open>keeps P m\<close> is the map of the entries of \<open>m\<close> that satisfy \<open>P\<close>: a range loop with a filter.\<close>

definition keeps :: "('k \<Rightarrow> 'v \<Rightarrow> bool) \<Rightarrow> ('k \<rightharpoonup> 'v) \<Rightarrow> ('k \<rightharpoonup> 'v)" where
  "keeps P m = (\<lambda>k. case m k of None \<Rightarrow> None | Some v \<Rightarrow> if P k v then Some v else None)"

lemma keeps_Some [simp]: "keeps P m k = Some v \<longleftrightarrow> m k = Some v \<and> P k v"
  by (auto simp: keeps_def split: option.splits)

lemma keeps_all: "(\<And>k v. m k = Some v \<Longrightarrow> P k v) \<Longrightarrow> keeps P m = m"
  by (rule ext) (auto simp: keeps_def split: option.splits)

lemma dom_keeps: "dom (keeps P m) \<subseteq> dom m"
  by auto

lemma keeps_le: "keeps P m \<subseteq>\<^sub>m m"
  by (auto simp: map_le_def)

text \<open>A label selector matches a label map when every required label is present with its value.\<close>

definition matches_labels :: "strmap \<Rightarrow> strmap \<Rightarrow> bool" where
  "matches_labels sel labels = (sel \<subseteq>\<^sub>m labels)"

lemma matches_labels_iff: "matches_labels sel labels \<longleftrightarrow> (\<forall>k v. sel k = Some v \<longrightarrow> labels k = Some v)"
  by (force simp: matches_labels_def map_le_def dom_def)

lemma matches_labels_refl [simp]: "matches_labels m m"
  by (simp add: matches_labels_def)

section \<open>List search\<close>

text \<open>The loop \<^verbatim>\<open>for i, x := range xs { if P(x) { return i } }\<close>.\<close>

fun find_index :: "('a \<Rightarrow> bool) \<Rightarrow> 'a list \<Rightarrow> nat option" where
  "find_index P [] = None"
| "find_index P (x # xs) = (if P x then Some 0 else map_option Suc (find_index P xs))"

lemma find_index_Some:
  "find_index P xs = Some i \<Longrightarrow> i < length xs \<and> P (xs ! i) \<and> (\<forall>j < i. \<not> P (xs ! j))"
proof (induction xs arbitrary: i)
  case Nil
  then show ?case by simp
next
  case (Cons x xs)
  then show ?case
    by (auto simp: nth_Cons' less_Suc_eq_0_disj split: if_splits)
qed

lemma find_index_None: "find_index P xs = None \<longleftrightarrow> (\<forall>x \<in> set xs. \<not> P x)"
  by (induction xs) auto

lemma find_first_Some: "find P xs = Some x \<Longrightarrow> x \<in> set xs \<and> P x"
  by (auto simp: find_Some_iff)

end
