(* ===== verification/K8sTypes.thy ===== *)
theory K8sTypes
  imports Prelude
begin

text \<open>
  The Kubernetes API types, as far as the operator reads or writes their fields.  They come
  from \<^verbatim>\<open>k8s.io/api\<close> and are data only: payloads the operator passes through without looking
  inside (affinity, tolerations, security contexts, DNS configuration) are kept as an opaque
  value.  Numbers of width 32 that are only stored and compared are \<^typ>\<open>int\<close>.

  A Go map is a reference: two structs can hold the same map object, and a write through one
  is seen through the other.  The operator's label helpers return the very map object stored
  in the custom resource, so a map field is either nil, a map of its own, or the map object of
  a named field of the resource.
\<close>

datatype maploc = ResourceLabelsLoc | PodExtraAnnotationsLoc | JobExtraLabelsLoc | JobExtraAnnotationsLoc

datatype gomap = NilMap | MapLit strmap | MapAt maploc

datatype opaque = Opaque string

type_synonym resource_list = "(string \<times> string) list"

record ResourceRequirements =
  rr_Requests :: resource_list
  rr_Limits :: resource_list
  rr_Claims :: "string list"

text \<open>The protobuf size of the struct is 0 exactly when it has no request, limit or claim.\<close>

definition rr_empty :: "ResourceRequirements \<Rightarrow> bool" where
  "rr_empty r = (rr_Requests r = [] \<and> rr_Limits r = [] \<and> rr_Claims r = [])"

definition no_resources :: ResourceRequirements where
  "no_resources = \<lparr>rr_Requests = [], rr_Limits = [], rr_Claims = []\<rparr>"

record OwnerReference =
  or_Group :: string
  or_Version :: string
  or_Kind :: string
  or_Name :: string
  or_UID :: string
  or_Controller :: bool

record ObjectMeta =
  om_Name :: string
  om_Namespace :: string
  om_Labels :: gomap
  om_Annotations :: gomap
  om_OwnerReferences :: "OwnerReference list"
  om_ResourceVersion :: string
  om_Generation :: int
  om_UID :: string
  om_Deleting :: bool

definition empty_meta :: ObjectMeta where
  "empty_meta = \<lparr>om_Name = [], om_Namespace = [], om_Labels = NilMap, om_Annotations = NilMap,
     om_OwnerReferences = [], om_ResourceVersion = [], om_Generation = 0, om_UID = [],
     om_Deleting = False\<rparr>"

section \<open>Pods\<close>

datatype EnvVarSource = SecretKeyRef string string | OtherSource opaque

record EnvVar =
  ev_Name :: string
  ev_Value :: string
  ev_ValueFrom :: "EnvVarSource option"

definition env_value :: "string \<Rightarrow> string \<Rightarrow> EnvVar" where
  "env_value n v = \<lparr>ev_Name = n, ev_Value = v, ev_ValueFrom = None\<rparr>"

definition env_from :: "string \<Rightarrow> EnvVarSource \<Rightarrow> EnvVar" where
  "env_from n s = \<lparr>ev_Name = n, ev_Value = [], ev_ValueFrom = Some s\<rparr>"

lemma env_var_sel [simp]:
  "ev_Name (env_value n v) = n" "ev_Name (env_from n s) = n"
  "ev_Value (env_value n v) = v" "ev_ValueFrom (env_from n s) = Some s"
  "ev_ValueFrom (env_value n v) = None"
  by (simp_all add: env_value_def env_from_def)

record HTTPGetAction =
  hg_Path :: string
  hg_Port :: int
  hg_Rest :: opaque

record ProbeHandler =
  ph_Exec :: "opaque option"
  ph_HTTPGet :: "HTTPGetAction option"
  ph_TCPSocket :: "opaque option"
  ph_GRPC :: "opaque option"

definition empty_handler :: ProbeHandler where
  "empty_handler = \<lparr>ph_Exec = None, ph_HTTPGet = None, ph_TCPSocket = None, ph_GRPC = None\<rparr>"

record Probe =
  pr_Handler :: ProbeHandler
  pr_InitialDelaySeconds :: int
  pr_TimeoutSeconds :: int
  pr_PeriodSeconds :: int
  pr_SuccessThreshold :: int
  pr_FailureThreshold :: int
  pr_TerminationGracePeriodSeconds :: "int option"

record ContainerPort =
  cp_Name :: string
  cp_ContainerPort :: int
  cp_Rest :: opaque

record VolumeMount =
  vm_Name :: string
  vm_MountPath :: string
  vm_ReadOnly :: bool
  vm_Rest :: opaque

text \<open>The volume sources the operator tells apart, and any other one.\<close>

record VolumeSource =
  vs_ConfigMap :: "opaque option"
  vs_Secret :: "string option"
  vs_EmptyDir :: "opaque option"
  vs_PersistentVolumeClaim :: "string option"
  vs_Projected :: "opaque option"
  vs_DownwardAPI :: "opaque option"
  vs_CSI :: "opaque option"
  vs_Other :: "opaque option"

definition no_source :: VolumeSource where
  "no_source = \<lparr>vs_ConfigMap = None, vs_Secret = None, vs_EmptyDir = None,
     vs_PersistentVolumeClaim = None, vs_Projected = None, vs_DownwardAPI = None,
     vs_CSI = None, vs_Other = None\<rparr>"

record Volume =
  vol_Name :: string
  vol_Source :: VolumeSource

record Container =
  c_Name :: string
  c_Image :: string
  c_ImagePullPolicy :: string
  c_TerminationMessagePolicy :: string
  c_Command :: "string list"
  c_Args :: "string list"
  c_Env :: "EnvVar list"
  c_Ports :: "ContainerPort list"
  c_ReadinessProbe :: "Probe option"
  c_LivenessProbe :: "Probe option"
  c_VolumeMounts :: "VolumeMount list"
  c_Resources :: ResourceRequirements
  c_SecurityContext :: "opaque option"
  c_Rest :: opaque

definition empty_container :: Container where
  "empty_container = \<lparr>c_Name = [], c_Image = [], c_ImagePullPolicy = [],
     c_TerminationMessagePolicy = [], c_Command = [], c_Args = [], c_Env = [], c_Ports = [],
     c_ReadinessProbe = None, c_LivenessProbe = None, c_VolumeMounts = [],
     c_Resources = no_resources, c_SecurityContext = None, c_Rest = Opaque []\<rparr>"

record PodSpec =
  ps_ServiceAccountName :: string
  ps_InitContainers :: "Container list"
  ps_Containers :: "Container list"
  ps_ImagePullSecrets :: "string list"
  ps_Volumes :: "Volume list"
  ps_DNSConfig :: "opaque option"
  ps_DNSPolicy :: string
  ps_Affinity :: "opaque option"
  ps_NodeSelector :: strmap
  ps_Tolerations :: "opaque list"
  ps_SecurityContext :: "opaque option"
  ps_RestartPolicy :: string

record PodTemplateSpec =
  pt_Labels :: gomap
  pt_Annotations :: gomap
  pt_Spec :: PodSpec

record Pod =
  pod_Meta :: ObjectMeta
  pod_Spec :: PodSpec
  pod_Phase :: string
  pod_Conditions :: "(string \<times> string) list"

section \<open>Workloads\<close>

record DeploymentStrategy =
  st_Type :: string
  st_RollingUpdate :: "(int \<times> int) option"

record Deployment =
  d_Meta :: ObjectMeta
  d_Strategy :: DeploymentStrategy
  d_RevisionHistoryLimit :: "int option"
  d_Replicas :: "int option"
  d_Selector :: gomap
  d_Template :: PodTemplateSpec
  d_Status_ObservedGeneration :: int
  d_Status_Replicas :: int

record ReplicaSet =
  rs_Meta :: ObjectMeta
  rs_Status_ObservedGeneration :: int
  rs_Status_AvailableReplicas :: int

record StatefulSet =
  ss_Meta :: ObjectMeta
  ss_Status_ReadyReplicas :: int

record Job =
  j_Meta :: ObjectMeta
  j_Template :: PodTemplateSpec
  j_BackoffLimit :: "int option"
  j_Status_CompletionTime :: "string option"
  j_Status_Failed :: int

section \<open>Networking\<close>

record ServicePort =
  sp_Name :: string
  sp_Port :: int
  sp_AppProtocol :: "string option"
  sp_TargetPort :: string

record LoadBalancerIngress =
  lb_IP :: string
  lb_Hostname :: string

record Service =
  svc_Meta :: ObjectMeta
  svc_Ports :: "ServicePort list"
  svc_Type :: string
  svc_ClusterIP :: string
  svc_ClusterIPs :: "string list"
  svc_LoadBalancerIP :: string
  svc_Selector :: gomap
  svc_PublishNotReadyAddresses :: bool
  svc_Status_LoadBalancer :: "LoadBalancerIngress list option"

record IngressPath =
  ip_Path :: string
  ip_ServiceName :: string
  ip_ServicePort :: int
  ip_PathType :: string

record IngressRule =
  ir_Host :: string
  ir_Paths :: "IngressPath list"

record IngressTLS =
  it_Hosts :: "string list"
  it_SecretName :: string

record IngressObj =
  i_Meta :: ObjectMeta
  i_IngressClassName :: "string option"
  i_Rules :: "IngressRule list"
  i_TLS :: "IngressTLS list"

record IngressClass =
  ic_Meta :: ObjectMeta
  ic_Controller :: string

section \<open>Access control, configuration and storage\<close>

record Secret =
  sec_Meta :: ObjectMeta
  sec_Data :: strmap
  sec_StringData :: strmap

record ServiceAccount =
  sa_Meta :: ObjectMeta

record PolicyRule =
  rule_Verbs :: "string list"
  rule_APIGroups :: "string list"
  rule_Resources :: "string list"
  rule_ResourceNames :: "string list"

record Role =
  role_Meta :: ObjectMeta
  role_Rules :: "PolicyRule list"

record Subject =
  sub_Kind :: string
  sub_Name :: string
  sub_Namespace :: string

record RoleBinding =
  rb_Meta :: ObjectMeta
  rb_Subjects :: "Subject list"
  rb_RoleRef_Kind :: string
  rb_RoleRef_Name :: string

record PVC =
  pvc_Meta :: ObjectMeta
  pvc_AccessModes :: "string list"
  pvc_Storage :: string
  pvc_Status_Phase :: string

record MinIOInstance =
  mi_Meta :: ObjectMeta
  mi_Replicas :: int
  mi_Mountpath :: string
  mi_CredsSecret :: string
  mi_ClaimName :: string
  mi_AccessModes :: "string list"
  mi_Storage :: string

section \<open>References to map objects\<close>

text \<open>What a map reference reads as, given the contents of the resource's own maps.\<close>

fun deref :: "(maploc \<Rightarrow> strmap) \<Rightarrow> gomap \<Rightarrow> strmap" where
  "deref h NilMap = Map.empty"
| "deref h (MapLit m) = m"
| "deref h (MapAt l) = h l"

fun freeze_map :: "(maploc \<Rightarrow> strmap) \<Rightarrow> gomap \<Rightarrow> gomap" where
  "freeze_map h NilMap = NilMap"
| "freeze_map h (MapLit m) = MapLit m"
| "freeze_map h (MapAt l) = MapLit (h l)"

lemma deref_freeze [simp]: "deref h (freeze_map h' g) = deref h' g"
  by (cases g) auto

definition freeze_meta :: "(maploc \<Rightarrow> strmap) \<Rightarrow> ObjectMeta \<Rightarrow> ObjectMeta" where
  "freeze_meta h m = m\<lparr>om_Labels := freeze_map h (om_Labels m),
                       om_Annotations := freeze_map h (om_Annotations m)\<rparr>"

definition freeze_template :: "(maploc \<Rightarrow> strmap) \<Rightarrow> PodTemplateSpec \<Rightarrow> PodTemplateSpec" where
  "freeze_template h t = t\<lparr>pt_Labels := freeze_map h (pt_Labels t),
                           pt_Annotations := freeze_map h (pt_Annotations t)\<rparr>"

lemma freeze_meta_sel [simp]:
  "om_Name (freeze_meta h m) = om_Name m"
  "om_Namespace (freeze_meta h m) = om_Namespace m"
  "om_Labels (freeze_meta h m) = freeze_map h (om_Labels m)"
  "om_Annotations (freeze_meta h m) = freeze_map h (om_Annotations m)"
  "om_OwnerReferences (freeze_meta h m) = om_OwnerReferences m"
  by (simp_all add: freeze_meta_def)

lemma freeze_template_sel [simp]:
  "pt_Labels (freeze_template h t) = freeze_map h (pt_Labels t)"
  "pt_Annotations (freeze_template h t) = freeze_map h (pt_Annotations t)"
  "pt_Spec (freeze_template h t) = pt_Spec t"
  by (simp_all add: freeze_template_def)

section \<open>Zero values\<close>

definition zero_pod_spec :: PodSpec where
  "zero_pod_spec = \<lparr>ps_ServiceAccountName = [], ps_InitContainers = [], ps_Containers = [],
     ps_ImagePullSecrets = [], ps_Volumes = [], ps_DNSConfig = None, ps_DNSPolicy = [],
     ps_Affinity = None, ps_NodeSelector = Map.empty, ps_Tolerations = [],
     ps_SecurityContext = None, ps_RestartPolicy = []\<rparr>"

definition zero_template :: PodTemplateSpec where
  "zero_template = \<lparr>pt_Labels = NilMap, pt_Annotations = NilMap, pt_Spec = zero_pod_spec\<rparr>"

definition zero_deployment :: Deployment where
  "zero_deployment = \<lparr>d_Meta = empty_meta, d_Strategy = \<lparr>st_Type = [], st_RollingUpdate = None\<rparr>,
     d_RevisionHistoryLimit = None, d_Replicas = None, d_Selector = NilMap,
     d_Template = zero_template, d_Status_ObservedGeneration = 0, d_Status_Replicas = 0\<rparr>"

definition zero_service :: Service where
  "zero_service = \<lparr>svc_Meta = empty_meta, svc_Ports = [], svc_Type = [], svc_ClusterIP = [],
     svc_ClusterIPs = [], svc_LoadBalancerIP = [], svc_Selector = NilMap,
     svc_PublishNotReadyAddresses = False, svc_Status_LoadBalancer = None\<rparr>"

definition zero_job :: Job where
  "zero_job = \<lparr>j_Meta = empty_meta, j_Template = zero_template, j_BackoffLimit = None,
     j_Status_CompletionTime = None, j_Status_Failed = 0\<rparr>"

end
