(* ===== verification/MattermostTypes.thy ===== *)
theory MattermostTypes
  imports K8sTypes
begin

text \<open>
  The \<^verbatim>\<open>Mattermost\<close> custom resource of \<^verbatim>\<open>apis/mattermost/v1beta1/mattermost_types.go\<close>, struct by
  struct.  A Go pointer to a struct or an integer is an option, a map that the code compares
  with nil is an optional map, and a slice that is only ranged over or appended is a list.
\<close>

record Patch =
  p_Disable :: bool
  p_Patch :: string

record ResourcePatch =
  rp_Service :: "Patch option"
  rp_Deployment :: "Patch option"

type_synonym IngressHost = string

record Ingress =
  ing_Enabled :: bool
  ing_Host :: string
  ing_Hosts :: "IngressHost list"
  ing_Annotations :: "strmap option"
  ing_TLSSecret :: string
  ing_IngressClass :: "string option"

record AWSLoadBalancerController =
  aws_Enabled :: bool
  aws_CertificateARN :: string
  aws_InternetFacing :: bool
  aws_Hosts :: "IngressHost list"
  aws_IngressClassName :: string
  aws_Annotations :: "strmap option"

record Scheduling =
  sch_Resources :: ResourceRequirements
  sch_NodeSelector :: strmap
  sch_Affinity :: "opaque option"
  sch_Tolerations :: "opaque list"

record Probes =
  prb_LivenessProbe :: Probe
  prb_ReadinessProbe :: Probe

record PodTemplate =
  ptm_Command :: "string list option"
  ptm_SecurityContext :: "opaque option"
  ptm_ContainerSecurityContext :: "opaque option"
  ptm_ExtraAnnotations :: "strmap option"
  ptm_ExtraLabels :: "strmap option"

record DeploymentTemplate =
  dt_DeploymentStrategyType :: string
  dt_RevisionHistoryLimit :: "int option"

record UpdateJob =
  uj_Disabled :: bool
  uj_ExtraAnnotations :: "strmap option"
  uj_ExtraLabels :: "strmap option"

record JobServer =
  js_DedicatedJobServer :: bool

record PodExtensions =
  pe_InitContainers :: "Container list"
  pe_SidecarContainers :: "Container list"
  pe_ContainerPorts :: "ContainerPort list"

text \<open>The readiness check modes; the timeout is a duration in nanoseconds.\<close>

definition DatabaseReadinessCheckModeExternal :: string where
  "DatabaseReadinessCheckModeExternal = ''external''"

definition DatabaseReadinessCheckModeBuiltin :: string where
  "DatabaseReadinessCheckModeBuiltin = ''builtin''"

record DatabaseReadinessCheck =
  drc_Mode :: string
  drc_Timeout :: "int option"

record ExternalDatabase =
  edb_Secret :: string

record OperatorManagedDatabase =
  omd_Type :: string
  omd_StorageSize :: string
  omd_Replicas :: "int option"
  omd_Resources :: ResourceRequirements
  omd_InitBucketURL :: string
  omd_BackupSchedule :: string
  omd_BackupURL :: string
  omd_BackupRemoteDeletePolicy :: string
  omd_BackupSecretName :: string
  omd_BackupRestoreSecretName :: string
  omd_Version :: string

record Database =
  db_External :: "ExternalDatabase option"
  db_OperatorManaged :: "OperatorManagedDatabase option"
  db_DisableReadinessCheck :: bool
  db_ReadinessCheck :: "DatabaseReadinessCheck option"

record ExternalFileStoreSpec =
  efs_URL :: string
  efs_Bucket :: string
  efs_Secret :: string
  efs_UseServiceAccount :: bool

record ExternalVolumeFileStoreSpec =
  evs_VolumeClaimName :: string

record OperatorManagedMinio =
  omm_StorageSize :: string
  omm_Replicas :: "int option"
  omm_Resources :: ResourceRequirements

record LocalFileStoreSpec =
  lfs_Enabled :: bool
  lfs_StorageSize :: string
  lfs_AccessModes :: "string list"

record FileStore =
  fs_External :: "ExternalFileStoreSpec option"
  fs_ExternalVolume :: "ExternalVolumeFileStoreSpec option"
  fs_OperatorManaged :: "OperatorManagedMinio option"
  fs_Local :: "LocalFileStoreSpec option"

record ElasticSearch =
  es_Host :: string
  es_UserName :: string
  es_Password :: string

record MattermostSpec =
  s_Size :: string
  s_Image :: string
  s_Version :: string
  s_Replicas :: "int option"
  s_MattermostEnv :: "EnvVar list"
  s_LicenseSecret :: string
  s_IngressName :: string
  s_IngressAnnotations :: "strmap option"
  s_UseIngressTLS :: bool
  s_UseServiceLoadBalancer :: bool
  s_ServiceAnnotations :: "strmap option"
  s_ResourceLabels :: "strmap option"
  s_Ingress :: "Ingress option"
  s_AWSLoadBalancerController :: "AWSLoadBalancerController option"
  s_Volumes :: "Volume list"
  s_VolumeMounts :: "VolumeMount list"
  s_ImagePullPolicy :: string
  s_ImagePullSecrets :: "string list"
  s_DNSConfig :: "opaque option"
  s_DNSPolicy :: string
  s_Database :: Database
  s_FileStore :: FileStore
  s_ElasticSearch :: ElasticSearch
  s_Scheduling :: Scheduling
  s_Probes :: Probes
  s_PodTemplate :: "PodTemplate option"
  s_DeploymentTemplate :: "DeploymentTemplate option"
  s_UpdateJob :: "UpdateJob option"
  s_JobServer :: "JobServer option"
  s_PodExtensions :: PodExtensions
  s_ResourcePatch :: "ResourcePatch option"

text \<open>A running state is a string in Go: besides the constants there is the empty initial one.\<close>

type_synonym RunningState = string

definition Reconciling :: RunningState where "Reconciling = ''reconciling''"
definition Ready :: RunningState where "Ready = ''ready''"
definition Stable :: RunningState where "Stable = ''stable''"

lemma running_states_distinct [simp]:
  "Reconciling \<noteq> Ready" "Ready \<noteq> Reconciling" "Reconciling \<noteq> Stable" "Stable \<noteq> Reconciling"
  "Ready \<noteq> Stable" "Stable \<noteq> Ready" "Reconciling \<noteq> []" "Ready \<noteq> []" "Stable \<noteq> []"
  "[] \<noteq> Reconciling" "[] \<noteq> Ready" "[] \<noteq> Stable"
  by (simp_all add: Reconciling_def Ready_def Stable_def)

record PatchStatus =
  pst_Applied :: bool
  pst_Error :: string

record ResourcePatchStatus =
  rps_ServicePatch :: "PatchStatus option"
  rps_DeploymentPatch :: "PatchStatus option"

record MattermostStatus =
  st_State :: RunningState
  st_Version :: string
  st_Image :: string
  st_Endpoint :: string
  st_Replicas :: int
  st_UpdatedReplicas :: int
  st_ObservedGeneration :: int
  st_Error :: string
  st_ResourcePatch :: "ResourcePatchStatus option"

record Mattermost =
  mm_Meta :: ObjectMeta
  mm_Spec :: MattermostSpec
  mm_Status :: MattermostStatus

abbreviation mm_Name :: "Mattermost \<Rightarrow> string" where
  "mm_Name mm \<equiv> om_Name (mm_Meta mm)"

abbreviation mm_Namespace :: "Mattermost \<Rightarrow> string" where
  "mm_Namespace mm \<equiv> om_Namespace (mm_Meta mm)"

text \<open>The contents of the map objects the resource holds, read through their field.\<close>

fun mm_maps :: "Mattermost \<Rightarrow> maploc \<Rightarrow> strmap" where
  "mm_maps mm ResourceLabelsLoc =
     (case s_ResourceLabels (mm_Spec mm) of None \<Rightarrow> Map.empty | Some m \<Rightarrow> m)"
| "mm_maps mm PodExtraAnnotationsLoc =
     (case s_PodTemplate (mm_Spec mm) of None \<Rightarrow> Map.empty
      | Some t \<Rightarrow> (case ptm_ExtraAnnotations t of None \<Rightarrow> Map.empty | Some m \<Rightarrow> m))"
| "mm_maps mm JobExtraLabelsLoc =
     (case s_UpdateJob (mm_Spec mm) of None \<Rightarrow> Map.empty
      | Some u \<Rightarrow> (case uj_ExtraLabels u of None \<Rightarrow> Map.empty | Some m \<Rightarrow> m))"
| "mm_maps mm JobExtraAnnotationsLoc =
     (case s_UpdateJob (mm_Spec mm) of None \<Rightarrow> Map.empty
      | Some u \<Rightarrow> (case uj_ExtraAnnotations u of None \<Rightarrow> Map.empty | Some m \<Rightarrow> m))"

section \<open>Zero values\<close>

text \<open>The Go zero value of each struct, from which composite literals are written.\<close>

definition zero_probe :: Probe where
  "zero_probe = \<lparr>pr_Handler = empty_handler, pr_InitialDelaySeconds = 0, pr_TimeoutSeconds = 0,
     pr_PeriodSeconds = 0, pr_SuccessThreshold = 0, pr_FailureThreshold = 0,
     pr_TerminationGracePeriodSeconds = None\<rparr>"

definition zero_omd :: OperatorManagedDatabase where
  "zero_omd = \<lparr>omd_Type = [], omd_StorageSize = [], omd_Replicas = None,
     omd_Resources = no_resources, omd_InitBucketURL = [], omd_BackupSchedule = [],
     omd_BackupURL = [], omd_BackupRemoteDeletePolicy = [], omd_BackupSecretName = [],
     omd_BackupRestoreSecretName = [], omd_Version = []\<rparr>"

definition zero_omm :: OperatorManagedMinio where
  "zero_omm = \<lparr>omm_StorageSize = [], omm_Replicas = None, omm_Resources = no_resources\<rparr>"

definition zero_status :: MattermostStatus where
  "zero_status = \<lparr>st_State = [], st_Version = [], st_Image = [], st_Endpoint = [],
     st_Replicas = 0, st_UpdatedReplicas = 0, st_ObservedGeneration = 0, st_Error = [],
     st_ResourcePatch = None\<rparr>"

definition zero_spec :: MattermostSpec where
  "zero_spec = \<lparr>s_Size = [], s_Image = [], s_Version = [], s_Replicas = None,
     s_MattermostEnv = [], s_LicenseSecret = [], s_IngressName = [],
     s_IngressAnnotations = None, s_UseIngressTLS = False, s_UseServiceLoadBalancer = False,
     s_ServiceAnnotations = None, s_ResourceLabels = None, s_Ingress = None,
     s_AWSLoadBalancerController = None, s_Volumes = [], s_VolumeMounts = [],
     s_ImagePullPolicy = [], s_ImagePullSecrets = [], s_DNSConfig = None, s_DNSPolicy = [],
     s_Database = \<lparr>db_External = None, db_OperatorManaged = None,
       db_DisableReadinessCheck = False, db_ReadinessCheck = None\<rparr>,
     s_FileStore = \<lparr>fs_External = None, fs_ExternalVolume = None, fs_OperatorManaged = None,
       fs_Local = None\<rparr>,
     s_ElasticSearch = \<lparr>es_Host = [], es_UserName = [], es_Password = []\<rparr>,
     s_Scheduling = \<lparr>sch_Resources = no_resources, sch_NodeSelector = Map.empty,
       sch_Affinity = None, sch_Tolerations = []\<rparr>,
     s_Probes = \<lparr>prb_LivenessProbe = zero_probe, prb_ReadinessProbe = zero_probe\<rparr>,
     s_PodTemplate = None, s_DeploymentTemplate = None, s_UpdateJob = None, s_JobServer = None,
     s_PodExtensions = \<lparr>pe_InitContainers = [], pe_SidecarContainers = [],
       pe_ContainerPorts = []\<rparr>,
     s_ResourcePatch = None\<rparr>"

definition new_mattermost :: "string \<Rightarrow> string \<Rightarrow> MattermostSpec \<Rightarrow> Mattermost" where
  "new_mattermost name ns spec =
     \<lparr>mm_Meta = empty_meta\<lparr>om_Name := name, om_Namespace := ns\<rparr>, mm_Spec = spec,
      mm_Status = zero_status\<rparr>"

lemma new_mattermost_sel [simp]:
  "mm_Spec (new_mattermost n ns s) = s"
  "mm_Status (new_mattermost n ns s) = zero_status"
  "om_Name (mm_Meta (new_mattermost n ns s)) = n"
  "om_Namespace (mm_Meta (new_mattermost n ns s)) = ns"
  by (simp_all add: new_mattermost_def)

end
