(* ===== verification/ClusterSize.thy ===== *)
theory ClusterSize
  imports K8sTypes
begin

text \<open>
  The sizing tables of \<^verbatim>\<open>apis/mattermost/v1alpha1/clusterinstallation_sizes.go\<close>: which replicas
  and resource requests a size name stands for, and the CPU and memory a size adds up to.
  Quantities keep the text they are parsed from; the number of milli-units of a quantity is
  the library's \<^verbatim>\<open>MilliValue\<close>, a parameter of the functions that add them up.
\<close>

record ComponentSize =
  cs_Replicas :: int
  cs_Resources :: ResourceRequirements

record ClusterInstallationSize =
  cis_App :: ComponentSize
  cis_Minio :: ComponentSize
  cis_Database :: ComponentSize

definition reqs :: "string \<Rightarrow> string \<Rightarrow> ResourceRequirements" where
  "reqs cpu mem = \<lparr>rr_Requests = [(''cpu'', cpu), (''memory'', mem)], rr_Limits = [], rr_Claims = []\<rparr>"

definition reqs_limits :: "string \<Rightarrow> string \<Rightarrow> string \<Rightarrow> string \<Rightarrow> ResourceRequirements" where
  "reqs_limits cpu mem lcpu lmem =
     \<lparr>rr_Requests = [(''cpu'', cpu), (''memory'', mem)],
      rr_Limits = [(''cpu'', lcpu), (''memory'', lmem)], rr_Claims = []\<rparr>"

definition size100 :: ClusterInstallationSize where
  "size100 = \<lparr>
     cis_App = \<lparr>cs_Replicas = 1, cs_Resources = reqs_limits ''100m'' ''256Mi'' ''2000m'' ''4Gi''\<rparr>,
     cis_Minio = \<lparr>cs_Replicas = 1, cs_Resources = reqs ''100m'' ''256Mi''\<rparr>,
     cis_Database = \<lparr>cs_Replicas = 1, cs_Resources = reqs ''200m'' ''512Mi''\<rparr>\<rparr>"

definition cloudSize10 :: ClusterInstallationSize where
  "cloudSize10 = \<lparr>
     cis_App = \<lparr>cs_Replicas = 2, cs_Resources = reqs_limits ''10m'' ''150Mi'' ''2000m'' ''4Gi''\<rparr>,
     cis_Minio = \<lparr>cs_Replicas = 4, cs_Resources = reqs ''100m'' ''256Mi''\<rparr>,
     cis_Database = \<lparr>cs_Replicas = 2, cs_Resources = reqs ''200m'' ''512Mi''\<rparr>\<rparr>"

definition cloudSize100 :: ClusterInstallationSize where
  "cloudSize100 = \<lparr>
     cis_App = \<lparr>cs_Replicas = 2, cs_Resources = reqs_limits ''50m'' ''256Mi'' ''2000m'' ''4Gi''\<rparr>,
     cis_Minio = \<lparr>cs_Replicas = 4, cs_Resources = reqs ''100m'' ''256Mi''\<rparr>,
     cis_Database = \<lparr>cs_Replicas = 2, cs_Resources = reqs ''200m'' ''512Mi''\<rparr>\<rparr>"

definition size1000 :: ClusterInstallationSize where
  "size1000 = \<lparr>
     cis_App = \<lparr>cs_Replicas = 2, cs_Resources = reqs_limits ''150m'' ''256Mi'' ''2000m'' ''4Gi''\<rparr>,
     cis_Minio = \<lparr>cs_Replicas = 4, cs_Resources = reqs ''150m'' ''512Mi''\<rparr>,
     cis_Database = \<lparr>cs_Replicas = 2, cs_Resources = reqs ''250m'' ''512Mi''\<rparr>\<rparr>"

definition size5000 :: ClusterInstallationSize where
  "size5000 = \<lparr>
     cis_App = \<lparr>cs_Replicas = 2, cs_Resources = reqs_limits ''500m'' ''500Mi'' ''4000m'' ''8Gi''\<rparr>,
     cis_Minio = \<lparr>cs_Replicas = 4, cs_Resources = reqs ''200m'' ''500Mi''\<rparr>,
     cis_Database = \<lparr>cs_Replicas = 3, cs_Resources = reqs ''500m'' ''500Mi''\<rparr>\<rparr>"

definition size10000 :: ClusterInstallationSize where
  "size10000 = \<lparr>
     cis_App = \<lparr>cs_Replicas = 2, cs_Resources = reqs_limits ''500m'' ''500Mi'' ''4000m'' ''8Gi''\<rparr>,
     cis_Minio = \<lparr>cs_Replicas = 4, cs_Resources = reqs ''200m'' ''500Mi''\<rparr>,
     cis_Database = \<lparr>cs_Replicas = 3, cs_Resources = reqs ''500m'' ''500Mi''\<rparr>\<rparr>"

definition size25000 :: ClusterInstallationSize where
  "size25000 = \<lparr>
     cis_App = \<lparr>cs_Replicas = 2, cs_Resources = reqs_limits ''1000m'' ''4Gi'' ''4000m'' ''16Gi''\<rparr>,
     cis_Minio = \<lparr>cs_Replicas = 4, cs_Resources = reqs ''300m'' ''500Mi''\<rparr>,
     cis_Database = \<lparr>cs_Replicas = 3, cs_Resources = reqs ''500m'' ''1Gi''\<rparr>\<rparr>"

definition sizeMiniSingleton :: ClusterInstallationSize where
  "sizeMiniSingleton = \<lparr>
     cis_App = \<lparr>cs_Replicas = 1, cs_Resources = reqs_limits ''10m'' ''150Mi'' ''2000m'' ''4Gi''\<rparr>,
     cis_Minio = \<lparr>cs_Replicas = 1, cs_Resources = reqs ''100m'' ''256Mi''\<rparr>,
     cis_Database = \<lparr>cs_Replicas = 1, cs_Resources = reqs ''200m'' ''512Mi''\<rparr>\<rparr>"

definition sizeMiniHA :: ClusterInstallationSize where
  "sizeMiniHA = \<lparr>
     cis_App = \<lparr>cs_Replicas = 2, cs_Resources = reqs_limits ''10m'' ''150Mi'' ''2000m'' ''4Gi''\<rparr>,
     cis_Minio = \<lparr>cs_Replicas = 4, cs_Resources = reqs ''100m'' ''256Mi''\<rparr>,
     cis_Database = \<lparr>cs_Replicas = 2, cs_Resources = reqs ''200m'' ''512Mi''\<rparr>\<rparr>"

definition validSizes :: "(string \<times> ClusterInstallationSize) list" where
  "validSizes =
     [(''cloud10users'', cloudSize10), (''cloud100users'', cloudSize100), (''100users'', size100),
      (''1000users'', size1000), (''5000users'', size5000), (''10000users'', size10000),
      (''25000users'', size25000), (''miniSingleton'', sizeMiniSingleton), (''miniHA'', sizeMiniHA)]"

definition DefaultSize :: ClusterInstallationSize where
  "DefaultSize = size5000"

definition GetClusterSize :: "string \<Rightarrow> ClusterInstallationSize outcome" where
  "GetClusterSize key =
     (case map_of validSizes key of None \<Rightarrow> Err (New ''invalid cluster size'') | Some s \<Rightarrow> Ok s)"

text \<open>
  \<^verbatim>\<open>Requests.Cpu()\<close> and \<^verbatim>\<open>Requests.Memory()\<close> give the zero quantity when the key is missing.
\<close>

definition request_milli :: "(string \<Rightarrow> int) \<Rightarrow> string \<Rightarrow> ComponentSize \<Rightarrow> int" where
  "request_milli milli key c =
     (case map_of (rr_Requests (cs_Resources c)) key of None \<Rightarrow> 0 | Some q \<Rightarrow> milli q)"

definition component_milli :: "(string \<Rightarrow> int) \<Rightarrow> string \<Rightarrow> ComponentSize \<Rightarrow> int" where
  "component_milli milli key c = wrap64 (request_milli milli key c * cs_Replicas c)"

definition CalculateCPUMilliRequirement ::
  "(string \<Rightarrow> int) \<Rightarrow> ClusterInstallationSize \<Rightarrow> bool \<Rightarrow> bool \<Rightarrow> int" where
  "CalculateCPUMilliRequirement milli cis includeDatabase includeMinio =
     (let cpu = component_milli milli ''cpu'' (cis_App cis);
          cpu = (if includeDatabase then wrap64 (cpu + component_milli milli ''cpu'' (cis_Database cis))
                 else cpu)
      in if includeMinio then wrap64 (cpu + component_milli milli ''cpu'' (cis_Minio cis)) else cpu)"

definition CalculateMemoryMilliRequirement ::
  "(string \<Rightarrow> int) \<Rightarrow> ClusterInstallationSize \<Rightarrow> bool \<Rightarrow> bool \<Rightarrow> int" where
  "CalculateMemoryMilliRequirement milli cis includeDatabase includeMinio =
     (let mem = component_milli milli ''memory'' (cis_App cis);
          mem = (if includeDatabase then wrap64 (mem + component_milli milli ''memory'' (cis_Database cis))
                 else mem)
      in if includeMinio then wrap64 (mem + component_milli milli ''memory'' (cis_Minio cis)) else mem)"

definition CalculateResourceMilliRequirements ::
  "(string \<Rightarrow> int) \<Rightarrow> ClusterInstallationSize \<Rightarrow> bool \<Rightarrow> bool \<Rightarrow> int \<times> int" where
  "CalculateResourceMilliRequirements milli cis includeDatabase includeMinio =
     (CalculateCPUMilliRequirement milli cis includeDatabase includeMinio,
      CalculateMemoryMilliRequirement milli cis includeDatabase includeMinio)"

lemmas size_defs = size100_def cloudSize10_def cloudSize100_def size1000_def size5000_def
  size10000_def size25000_def sizeMiniSingleton_def sizeMiniHA_def

lemma rr_empty_reqs [simp]: "\<not> rr_empty (reqs c m)" "\<not> rr_empty (reqs_limits c m lc lm)"
  by (simp_all add: rr_empty_def reqs_def reqs_limits_def)

text \<open>What every entry of the table satisfies.\<close>

definition sane_size :: "ClusterInstallationSize \<Rightarrow> bool" where
  "sane_size s = (0 < cs_Replicas (cis_App s) \<and> 0 < cs_Replicas (cis_Minio s)
     \<and> 0 < cs_Replicas (cis_Database s) \<and> \<not> rr_empty (cs_Resources (cis_App s))
     \<and> \<not> rr_empty (cs_Resources (cis_Minio s)) \<and> \<not> rr_empty (cs_Resources (cis_Database s))
     \<and> (cs_Replicas (cis_Minio s) = 1 \<or> 4 \<le> cs_Replicas (cis_Minio s)))"

lemma sane_validSizes: "(k, s) \<in> set validSizes \<Longrightarrow> sane_size s"
  by (auto simp: validSizes_def sane_size_def size_defs)

lemma sane_DefaultSize: "sane_size DefaultSize"
  by (simp add: DefaultSize_def sane_size_def size_defs)

lemma GetClusterSize_sane: "GetClusterSize key = Ok s \<Longrightarrow> sane_size s"
  by (auto simp: GetClusterSize_def split: option.splits dest!: map_of_SomeD intro: sane_validSizes)

lemma wrap64_add_wrap64: "wrap64 (wrap64 a + wrap64 b) = wrap64 (a + b)"
  by (simp add: wrap64_def)

text \<open>The CPU total is exact when no partial sum leaves the 64-bit range.\<close>

definition exact_total :: "(string \<Rightarrow> int) \<Rightarrow> string \<Rightarrow> ClusterInstallationSize \<Rightarrow> bool \<Rightarrow> bool \<Rightarrow> int" where
  "exact_total milli key cis db minio =
     request_milli milli key (cis_App cis) * cs_Replicas (cis_App cis)
     + (if db then request_milli milli key (cis_Database cis) * cs_Replicas (cis_Database cis) else 0)
     + (if minio then request_milli milli key (cis_Minio cis) * cs_Replicas (cis_Minio cis) else 0)"

lemma CalculateCPU_wraps:
  "CalculateCPUMilliRequirement milli cis db minio = wrap64 (exact_total milli ''cpu'' cis db minio)"
  by (simp add: CalculateCPUMilliRequirement_def exact_total_def component_milli_def Let_def
      wrap64_add_wrap64 add.assoc)

lemma CalculateMemory_wraps:
  "CalculateMemoryMilliRequirement milli cis db minio = wrap64 (exact_total milli ''memory'' cis db minio)"
  by (simp add: CalculateMemoryMilliRequirement_def exact_total_def component_milli_def Let_def
      wrap64_add_wrap64 add.assoc)

section \<open>Properties\<close>

text \<open>
  The CPU and memory totals are the sums over the application and, as asked for, the database and
  the file store, of request times replicas, computed in 64-bit arithmetic: wrapping each step
  is wrapping the exact total once, so the totals are exact while they fit.
\<close>

theorem resource_totals_exact:
  "CalculateResourceMilliRequirements milli cis db minio =
     (wrap64 (exact_total milli ''cpu'' cis db minio), wrap64 (exact_total milli ''memory'' cis db minio))"
  by (simp add: CalculateResourceMilliRequirements_def CalculateCPU_wraps CalculateMemory_wraps)

end
