(* ===== verification/MattermostApi.thy ===== *)
theory MattermostApi
  imports MattermostTypes ClusterSize
begin

text \<open>
  The methods of the \<^verbatim>\<open>Mattermost\<close> resource: defaulting (\<^verbatim>\<open>mattermost_utils.go\<close>, \<^verbatim>\<open>db_util.go\<close>,
  \<^verbatim>\<open>file_store_util.go\<close>), sizing (\<^verbatim>\<open>mattermost_sizes.go\<close>), ingress and image accessors, and the
  label helpers, which write into the \<^verbatim>\<open>ResourceLabels\<close> map of the resource when it is set and
  return that same map object.
\<close>

definition DefaultMattermostImage :: string where
  "DefaultMattermostImage = ''mattermost/mattermost-enterprise-edition''"
definition DefaultMattermostVersion :: string where "DefaultMattermostVersion = ''10.8.1''"
definition DefaultMattermostDatabaseType :: string where "DefaultMattermostDatabaseType = ''mysql''"
definition DefaultFilestoreStorageSize :: string where "DefaultFilestoreStorageSize = ''50Gi''"
definition DefaultStorageSize :: string where "DefaultStorageSize = ''50Gi''"
definition DefaultPullPolicy :: string where "DefaultPullPolicy = ''IfNotPresent''"
definition DefaultLocalFilePath :: string where "DefaultLocalFilePath = ''/mattermost/data''"
definition DefaultDatabaseVersion :: string where "DefaultDatabaseVersion = ''8.0''"
definition ClusterLabel :: string where "ClusterLabel = ''installation.mattermost.com/installation''"
definition ClusterResourceLabel :: string where
  "ClusterResourceLabel = ''installation.mattermost.com/resource''"
definition MattermostAppContainerName :: string where "MattermostAppContainerName = ''mattermost''"
definition MattermostJobServerContainerName :: string where
  "MattermostJobServerContainerName = MattermostAppContainerName @ ''-jobserver''"

lemmas const_defs = DefaultMattermostImage_def DefaultMattermostVersion_def
  DefaultMattermostDatabaseType_def DefaultFilestoreStorageSize_def DefaultStorageSize_def
  DefaultPullPolicy_def DefaultLocalFilePath_def DefaultDatabaseVersion_def ClusterLabel_def
  ClusterResourceLabel_def MattermostAppContainerName_def MattermostJobServerContainerName_def

lemma label_keys_distinct [simp]:
  "ClusterLabel \<noteq> ClusterResourceLabel" "ClusterResourceLabel \<noteq> ClusterLabel"
  "ClusterLabel \<noteq> ''app''" "''app'' \<noteq> ClusterLabel"
  "ClusterResourceLabel \<noteq> ''app''" "''app'' \<noteq> ClusterResourceLabel"
  "MattermostAppContainerName \<noteq> MattermostJobServerContainerName"
  "MattermostJobServerContainerName \<noteq> MattermostAppContainerName"
  by (simp_all add: const_defs)

text \<open>\<^verbatim>\<open>if x == "" { x = d }\<close>, as the new value of the field.\<close>

definition or_default :: "string \<Rightarrow> string \<Rightarrow> string" where
  "or_default x d = (if x = [] then d else x)"

definition or_replicas :: "int option \<Rightarrow> int \<Rightarrow> int option" where
  "or_replicas x d = (if x = None then Some d else x)"

definition or_resources :: "ResourceRequirements \<Rightarrow> ResourceRequirements \<Rightarrow> ResourceRequirements" where
  "or_resources x d = (if rr_empty x then d else x)"

lemma or_default_simps [simp]:
  "or_default (or_default x d) d = or_default x d"
  "d \<noteq> [] \<Longrightarrow> or_default x d \<noteq> []"
  "x \<noteq> [] \<Longrightarrow> or_default x d = x"
  by (simp_all add: or_default_def)

lemma or_replicas_simps [simp]:
  "or_replicas x n \<noteq> None" "x \<noteq> None \<Longrightarrow> or_replicas x n = x"
  by (simp_all add: or_replicas_def)

lemma or_resources_simps [simp]:
  "\<not> rr_empty d \<Longrightarrow> \<not> rr_empty (or_resources x d)" "\<not> rr_empty x \<Longrightarrow> or_resources x d = x"
  by (simp_all add: or_resources_def)

section \<open>The database configuration\<close>

definition db_IsExternal :: "Database \<Rightarrow> bool" where
  "db_IsExternal db = (case db_External db of None \<Rightarrow> False | Some e \<Rightarrow> edb_Secret e \<noteq> [])"

definition omd_SetDefaults :: "OperatorManagedDatabase \<Rightarrow> OperatorManagedDatabase" where
  "omd_SetDefaults omd =
     omd\<lparr>omd_Type := or_default (omd_Type omd) DefaultMattermostDatabaseType,
         omd_StorageSize := or_default (omd_StorageSize omd) DefaultStorageSize,
         omd_Version := or_default (omd_Version omd) DefaultDatabaseVersion\<rparr>"

definition db_ensureDefault :: "Database \<Rightarrow> OperatorManagedDatabase" where
  "db_ensureDefault db = (case db_OperatorManaged db of None \<Rightarrow> zero_omd | Some o' \<Rightarrow> o')"

definition db_SetDefaults :: "Database \<Rightarrow> Database" where
  "db_SetDefaults db =
     (if db_IsExternal db then db
      else db\<lparr>db_OperatorManaged := Some (omd_SetDefaults (db_ensureDefault db))\<rparr>)"

definition omd_SetDefaultReplicasAndResources :: "OperatorManagedDatabase \<Rightarrow> OperatorManagedDatabase" where
  "omd_SetDefaultReplicasAndResources omd =
     omd\<lparr>omd_Replicas := or_replicas (omd_Replicas omd) (cs_Replicas (cis_Database DefaultSize)),
         omd_Resources := or_resources (omd_Resources omd) (cs_Resources (cis_Database DefaultSize))\<rparr>"

definition db_SetDefaultReplicasAndResources :: "Database \<Rightarrow> Database" where
  "db_SetDefaultReplicasAndResources db =
     (if db_IsExternal db then db
      else db\<lparr>db_OperatorManaged := Some (omd_SetDefaultReplicasAndResources (db_ensureDefault db))\<rparr>)"

definition omd_OverrideReplicasAndResourcesFromSize ::
  "ClusterInstallationSize \<Rightarrow> OperatorManagedDatabase \<Rightarrow> OperatorManagedDatabase" where
  "omd_OverrideReplicasAndResourcesFromSize sz omd =
     omd\<lparr>omd_Replicas := Some (cs_Replicas (cis_Database sz)),
         omd_Resources := cs_Resources (cis_Database sz)\<rparr>"

definition db_OverrideReplicasAndResourcesFromSize :: "ClusterInstallationSize \<Rightarrow> Database \<Rightarrow> Database" where
  "db_OverrideReplicasAndResourcesFromSize sz db =
     (if db_IsExternal db then db
      else db\<lparr>db_OperatorManaged :=
               Some (omd_OverrideReplicasAndResourcesFromSize sz (db_ensureDefault db))\<rparr>)"

definition MySQLLabels :: strmap where
  "MySQLLabels = [''app.kubernetes.io/component'' \<mapsto> ''database'',
     ''app.kubernetes.io/instance'' \<mapsto> ''db'',
     ''app.kubernetes.io/managed-by'' \<mapsto> ''mysql.presslabs.org'',
     ''app.kubernetes.io/name'' \<mapsto> ''mysql'']"

section \<open>The file store configuration\<close>

definition fs_IsExternal :: "FileStore \<Rightarrow> bool" where
  "fs_IsExternal fs = (case fs_External fs of None \<Rightarrow> False | Some e \<Rightarrow> efs_URL e \<noteq> [])"

definition fs_IsExternalVolume :: "FileStore \<Rightarrow> bool" where
  "fs_IsExternalVolume fs =
     (case fs_ExternalVolume fs of None \<Rightarrow> False | Some e \<Rightarrow> evs_VolumeClaimName e \<noteq> [])"

definition fs_IsLocal :: "FileStore \<Rightarrow> bool" where
  "fs_IsLocal fs = (case fs_Local fs of None \<Rightarrow> False | Some l \<Rightarrow> lfs_Enabled l)"

definition isAnyExceptOperatorManaged :: "FileStore \<Rightarrow> bool" where
  "isAnyExceptOperatorManaged fs = (fs_IsExternal fs \<or> fs_IsExternalVolume fs \<or> fs_IsLocal fs)"

definition fs_ensureDefault :: "FileStore \<Rightarrow> OperatorManagedMinio" where
  "fs_ensureDefault fs = (case fs_OperatorManaged fs of None \<Rightarrow> zero_omm | Some o' \<Rightarrow> o')"

definition omm_SetDefaults :: "OperatorManagedMinio \<Rightarrow> OperatorManagedMinio" where
  "omm_SetDefaults omm =
     omm\<lparr>omm_StorageSize := or_default (omm_StorageSize omm) DefaultFilestoreStorageSize\<rparr>"

definition fs_SetDefaults :: "FileStore \<Rightarrow> FileStore" where
  "fs_SetDefaults fs =
     (if isAnyExceptOperatorManaged fs then fs
      else fs\<lparr>fs_OperatorManaged := Some (omm_SetDefaults (fs_ensureDefault fs))\<rparr>)"

definition omm_SetDefaultReplicasAndResources :: "OperatorManagedMinio \<Rightarrow> OperatorManagedMinio" where
  "omm_SetDefaultReplicasAndResources omm =
     omm\<lparr>omm_Replicas := or_replicas (omm_Replicas omm) (cs_Replicas (cis_Minio DefaultSize)),
         omm_Resources := or_resources (omm_Resources omm) (cs_Resources (cis_Minio DefaultSize))\<rparr>"

definition fs_SetDefaultReplicasAndResources :: "FileStore \<Rightarrow> FileStore" where
  "fs_SetDefaultReplicasAndResources fs =
     (if isAnyExceptOperatorManaged fs then fs
      else fs\<lparr>fs_OperatorManaged := Some (omm_SetDefaultReplicasAndResources (fs_ensureDefault fs))\<rparr>)"

definition omm_OverrideReplicasAndResourcesFromSize ::
  "ClusterInstallationSize \<Rightarrow> OperatorManagedMinio \<Rightarrow> OperatorManagedMinio" where
  "omm_OverrideReplicasAndResourcesFromSize sz omm =
     omm\<lparr>omm_Replicas := Some (cs_Replicas (cis_Minio sz)),
         omm_Resources := cs_Resources (cis_Minio sz)\<rparr>"

definition fs_OverrideReplicasAndResourcesFromSize :: "ClusterInstallationSize \<Rightarrow> FileStore \<Rightarrow> FileStore" where
  "fs_OverrideReplicasAndResourcesFromSize sz fs =
     (if isAnyExceptOperatorManaged fs then fs
      else fs\<lparr>fs_OperatorManaged :=
               Some (omm_OverrideReplicasAndResourcesFromSize sz (fs_ensureDefault fs))\<rparr>)"

section \<open>Ingress accessors\<close>

definition IngressEnabled :: "Mattermost \<Rightarrow> bool" where
  "IngressEnabled mm = (case s_Ingress (mm_Spec mm) of None \<Rightarrow> True | Some i \<Rightarrow> ing_Enabled i)"

definition AWSLoadBalancerEnabled :: "Mattermost \<Rightarrow> bool" where
  "AWSLoadBalancerEnabled mm =
     (case s_AWSLoadBalancerController (mm_Spec mm) of None \<Rightarrow> False | Some a \<Rightarrow> aws_Enabled a)"

definition GetIngressHost :: "Mattermost \<Rightarrow> string" where
  "GetIngressHost mm =
     (case s_Ingress (mm_Spec mm) of None \<Rightarrow> s_IngressName (mm_Spec mm) | Some i \<Rightarrow> ing_Host i)"

text \<open>The loop over the additional hosts keeps the set of hosts seen and the list built so far.\<close>

fun add_hosts :: "string list \<Rightarrow> string set \<Rightarrow> string list \<Rightarrow> string list" where
  "add_hosts [] hostsSet hosts = hosts"
| "add_hosts (h # hs) hostsSet hosts =
     (if h \<in> hostsSet then add_hosts hs hostsSet hosts
      else add_hosts hs (insert h hostsSet) (hosts @ [h]))"

definition GetIngressHostNames :: "Mattermost \<Rightarrow> string list" where
  "GetIngressHostNames mm =
     (let initialHost = GetIngressHost mm
      in if initialHost = [] then []
         else case s_Ingress (mm_Spec mm) of
                None \<Rightarrow> [initialHost]
              | Some i \<Rightarrow> add_hosts (ing_Hosts i) {initialHost} [initialHost])"

definition GetAWSLoadBalancerHostNames :: "Mattermost \<Rightarrow> string list" where
  "GetAWSLoadBalancerHostNames mm =
     (case s_AWSLoadBalancerController (mm_Spec mm) of None \<Rightarrow> [] | Some a \<Rightarrow> aws_Hosts a)"

definition GetIngresAnnotations :: "Mattermost \<Rightarrow> strmap option" where
  "GetIngresAnnotations mm =
     (case s_Ingress (mm_Spec mm) of None \<Rightarrow> s_IngressAnnotations (mm_Spec mm)
      | Some i \<Rightarrow> ing_Annotations i)"

text \<open>This accessor dereferences the controller configuration without a nil check.\<close>

definition GetAWSLoadBalancerIngressAnnotations :: "Mattermost \<Rightarrow> strmap option outcome" where
  "GetAWSLoadBalancerIngressAnnotations mm =
     (case s_AWSLoadBalancerController (mm_Spec mm) of
        None \<Rightarrow> Panic ''nil AWSLoadBalancerController'' | Some a \<Rightarrow> Ok (aws_Annotations a))"

definition defaultTLSSecret :: "Mattermost \<Rightarrow> string" where
  "defaultTLSSecret mm = ReplaceChar (CHR ''.'') ''-'' (GetIngressHost mm) @ ''-tls-cert''"

definition GetIngressTLSSecret :: "Mattermost \<Rightarrow> string" where
  "GetIngressTLSSecret mm =
     (case s_Ingress (mm_Spec mm) of
        Some i \<Rightarrow> ing_TLSSecret i
      | None \<Rightarrow> if s_UseIngressTLS (mm_Spec mm) then defaultTLSSecret mm else [])"

definition GetIngressClass :: "Mattermost \<Rightarrow> string option" where
  "GetIngressClass mm =
     (case s_Ingress (mm_Spec mm) of None \<Rightarrow> None | Some i \<Rightarrow> ing_IngressClass i)"

section \<open>Containers, images and names\<close>

definition getContainerByName :: "Container list \<Rightarrow> string \<Rightarrow> Container option" where
  "getContainerByName cs n = find (\<lambda>c. c_Name c = n) cs"

definition getDeploymentContainerByName :: "Deployment \<Rightarrow> string \<Rightarrow> Container option" where
  "getDeploymentContainerByName d n = getContainerByName (ps_Containers (pt_Spec (d_Template d))) n"

definition GetMattermostAppContainerFromDeployment :: "Deployment \<Rightarrow> Container option" where
  "GetMattermostAppContainerFromDeployment d = getDeploymentContainerByName d MattermostAppContainerName"

definition GetMattermostAppContainer :: "Container list \<Rightarrow> Container option" where
  "GetMattermostAppContainer cs = getContainerByName cs MattermostAppContainerName"

definition GetImageName :: "Mattermost \<Rightarrow> string" where
  "GetImageName mm =
     (if HasPrefix (s_Version (mm_Spec mm)) ''sha256:''
      then s_Image (mm_Spec mm) @ ''@'' @ s_Version (mm_Spec mm)
      else s_Image (mm_Spec mm) @ '':'' @ s_Version (mm_Spec mm))"

definition mutableImageTags :: "string list" where
  "mutableImageTags = [''latest'', ''master'', ''main'', ''nightly'', ''edge'']"

text \<open>The warnings are the versions warned about, in the order of the messages.\<close>

definition ImageTagWarnings :: "Mattermost \<Rightarrow> string list" where
  "ImageTagWarnings mm =
     (let version = (if s_Version (mm_Spec mm) = [] then DefaultMattermostVersion
                     else s_Version (mm_Spec mm))
      in if ToLower version \<in> set mutableImageTags then [version] else [])"

definition GetProductionDeploymentName :: "Mattermost \<Rightarrow> string" where
  "GetProductionDeploymentName mm = mm_Name mm"

definition DedicatedJobServerName :: "Mattermost \<Rightarrow> string" where
  "DedicatedJobServerName mm = mm_Name mm @ ''-jobserver''"

section \<open>Defaulting\<close>

definition vol_isAllowed :: "VolumeSource \<Rightarrow> bool" where
  "vol_isAllowed src = (vs_ConfigMap src \<noteq> None \<or> vs_Secret src \<noteq> None \<or> vs_EmptyDir src \<noteq> None
     \<or> vs_PersistentVolumeClaim src \<noteq> None \<or> vs_Projected src \<noteq> None
     \<or> vs_DownwardAPI src \<noteq> None \<or> vs_CSI src \<noteq> None)"

fun validateVolumes :: "Volume list \<Rightarrow> unit outcome" where
  "validateVolumes [] = Ok ()"
| "validateVolumes (vol # vols) =
     (if \<not> vol_isAllowed (vol_Source vol)
      then Err (Errorf ''volume %q uses an unsupported volume source; allowed types: ConfigMap, Secret, EmptyDir, PersistentVolumeClaim, Projected, DownwardAPI, CSI'' [vol_Name vol])
      else validateVolumes vols)"

text \<open>
  \<^verbatim>\<open>SetDefaults\<close> returns the resource as the method leaves it together with its error: on the
  volume error the other defaults have already been written.
\<close>

definition SetDefaults :: "Mattermost \<Rightarrow> Mattermost \<times> unit outcome" where
  "SetDefaults mm =
     (if AWSLoadBalancerEnabled mm \<and> GetAWSLoadBalancerHostNames mm = []
      then (mm, Err (New ''awsLoadBalancerController.hosts is required, but not set''))
      else if \<not> AWSLoadBalancerEnabled mm \<and> IngressEnabled mm \<and> GetIngressHost mm = []
      then (mm, Err (New ''ingress.host required, but not set''))
      else
        let sp = mm_Spec mm;
            sp' = sp\<lparr>s_Image := or_default (s_Image sp) DefaultMattermostImage,
                     s_Version := or_default (s_Version sp) DefaultMattermostVersion,
                     s_ImagePullPolicy := or_default (s_ImagePullPolicy sp) DefaultPullPolicy,
                     s_FileStore := fs_SetDefaults (s_FileStore sp),
                     s_Database := db_SetDefaults (s_Database sp)\<rparr>
        in (mm\<lparr>mm_Spec := sp'\<rparr>, validateVolumes (s_Volumes sp')))"

definition setDefaultReplicasAndResources :: "Mattermost \<Rightarrow> Mattermost" where
  "setDefaultReplicasAndResources mm =
     (let sp = mm_Spec mm;
          sch = s_Scheduling sp;
          sch' = sch\<lparr>sch_Resources := or_resources (sch_Resources sch) (cs_Resources (cis_App DefaultSize))\<rparr>
      in mm\<lparr>mm_Spec := sp\<lparr>s_Size := [],
           s_Replicas := or_replicas (s_Replicas sp) (cs_Replicas (cis_App DefaultSize)),
           s_Scheduling := sch',
           s_FileStore := fs_SetDefaultReplicasAndResources (s_FileStore sp),
           s_Database := db_SetDefaultReplicasAndResources (s_Database sp)\<rparr>\<rparr>)"

definition overrideReplicasAndResourcesFromSize :: "ClusterInstallationSize \<Rightarrow> Mattermost \<Rightarrow> Mattermost" where
  "overrideReplicasAndResourcesFromSize sz mm =
     (let sp = mm_Spec mm
      in mm\<lparr>mm_Spec := sp\<lparr>s_Size := [],
           s_Replicas := Some (cs_Replicas (cis_App sz)),
           s_Scheduling := (s_Scheduling sp)\<lparr>sch_Resources := cs_Resources (cis_App sz)\<rparr>,
           s_FileStore := fs_OverrideReplicasAndResourcesFromSize sz (s_FileStore sp),
           s_Database := db_OverrideReplicasAndResourcesFromSize sz (s_Database sp)\<rparr>\<rparr>)"

definition SetReplicasAndResourcesFromSize :: "Mattermost \<Rightarrow> Mattermost \<times> unit outcome" where
  "SetReplicasAndResourcesFromSize mm =
     (if s_Size (mm_Spec mm) = [] then (setDefaultReplicasAndResources mm, Ok ())
      else case GetClusterSize (s_Size (mm_Spec mm)) of
             Ok sz \<Rightarrow> (overrideReplicasAndResourcesFromSize sz mm, Ok ())
           | Err e \<Rightarrow> (setDefaultReplicasAndResources mm, Err (Wrap e ''using default''))
           | Panic p \<Rightarrow> (mm, Panic p))"

section \<open>Labels\<close>

definition MattermostResourceLabels :: "string \<Rightarrow> strmap" where
  "MattermostResourceLabels name = [ClusterResourceLabel \<mapsto> name]"

definition MattermostSelectorLabels :: "string \<Rightarrow> strmap" where
  "MattermostSelectorLabels name =
     (MattermostResourceLabels name)(ClusterLabel \<mapsto> name, ''app'' \<mapsto> MattermostAppContainerName)"

text \<open>
  Each of the three methods starts from the \<^verbatim>\<open>ResourceLabels\<close> map object when there is one and
  writes into it: the result is a reference to that field and the resource holds the new
  contents.  Without \<^verbatim>\<open>ResourceLabels\<close> the result is a map of its own.
\<close>

definition write_labels :: "Mattermost \<Rightarrow> (strmap \<Rightarrow> strmap) \<Rightarrow> gomap \<times> Mattermost" where
  "write_labels mm f =
     (case s_ResourceLabels (mm_Spec mm) of
        None \<Rightarrow> (MapLit (f Map.empty), mm)
      | Some l \<Rightarrow> (MapAt ResourceLabelsLoc,
                   mm\<lparr>mm_Spec := (mm_Spec mm)\<lparr>s_ResourceLabels := Some (f l)\<rparr>\<rparr>))"

definition extra_labels :: "Mattermost \<Rightarrow> strmap" where
  "extra_labels mm =
     (case s_PodTemplate (mm_Spec mm) of None \<Rightarrow> Map.empty
      | Some t \<Rightarrow> (case ptm_ExtraLabels t of None \<Rightarrow> Map.empty | Some m \<Rightarrow> m))"

definition MattermostLabels :: "Mattermost \<Rightarrow> string \<Rightarrow> gomap \<times> Mattermost" where
  "MattermostLabels mm name =
     write_labels mm (\<lambda>l. (l ++ MattermostResourceLabels name)
                          (ClusterLabel \<mapsto> name, ''app'' \<mapsto> MattermostAppContainerName))"

definition MattermostPodLabels :: "Mattermost \<Rightarrow> string \<Rightarrow> gomap \<times> Mattermost" where
  "MattermostPodLabels mm name =
     write_labels mm (\<lambda>l. (l ++ extra_labels mm ++ MattermostResourceLabels name)
                          (ClusterLabel \<mapsto> name, ''app'' \<mapsto> MattermostAppContainerName))"

definition MattermostJobServerPodLabels :: "Mattermost \<Rightarrow> string \<Rightarrow> gomap \<times> Mattermost" where
  "MattermostJobServerPodLabels mm name =
     write_labels mm (\<lambda>l. (l ++ extra_labels mm ++ MattermostResourceLabels name)
                          (ClusterLabel \<mapsto> name, ''app'' \<mapsto> MattermostJobServerContainerName))"

section \<open>Facts about the accessors\<close>

lemma add_hosts_keep_first:
  "distinct acc \<Longrightarrow> add_hosts hs (set acc) acc = rev (remdups (rev (acc @ hs)))"
proof (induction hs arbitrary: acc)
  case Nil
  then show ?case by (simp add: distinct_remdups_id)
next
  case (Cons h hs)
  show ?case
  proof (cases "h \<in> set acc")
    case True
    have "remdups (rev hs @ [h] @ rev acc) = remdups (rev hs @ rev acc)"
      using True by (induction hs rule: rev_induct) auto
    with True Cons show ?thesis by simp
  next
    case False
    then have "add_hosts hs (set (acc @ [h])) (acc @ [h]) = rev (remdups (rev ((acc @ [h]) @ hs)))"
      using Cons by (intro Cons.IH) simp
    with False show ?thesis by simp
  qed
qed

lemma add_hosts_prefix: "prefix acc (add_hosts hs S acc)"
  by (induction hs S acc rule: add_hosts.induct) (auto dest: append_prefixD)

lemma GetIngressHostNames_nonempty: "GetIngressHost mm \<noteq> [] \<Longrightarrow> GetIngressHostNames mm \<noteq> []"
  by (auto simp: GetIngressHostNames_def Let_def split: option.splits)
     (metis add_hosts_prefix not_Cons_self2 prefix_bot.extremum_uniqueI list.discI)

lemma getContainerByName_Some:
  "getContainerByName cs n = Some c \<Longrightarrow> c \<in> set cs \<and> c_Name c = n"
  by (auto simp: getContainerByName_def dest: find_first_Some)

section \<open>Facts about defaulting\<close>

lemma validateVolumes_Ok: "validateVolumes vs = Ok () \<longleftrightarrow> (\<forall>v \<in> set vs. vol_isAllowed (vol_Source v))"
  by (induction vs) auto

lemma validateVolumes_Err:
  "validateVolumes vs = Err e \<Longrightarrow> \<exists>v \<in> set vs. \<not> vol_isAllowed (vol_Source v)"
  by (induction vs) (auto split: if_splits)

lemma validateVolumes_no_panic [simp]: "validateVolumes vs \<noteq> Panic p"
  by (induction vs) auto

lemma consts_nonempty [simp]:
  "DefaultMattermostImage \<noteq> []" "DefaultMattermostVersion \<noteq> []" "DefaultPullPolicy \<noteq> []"
  "DefaultMattermostDatabaseType \<noteq> []" "DefaultStorageSize \<noteq> []" "DefaultDatabaseVersion \<noteq> []"
  "DefaultFilestoreStorageSize \<noteq> []"
  by (simp_all add: const_defs)

lemma omd_SetDefaults_idem [simp]: "omd_SetDefaults (omd_SetDefaults d) = omd_SetDefaults d"
  by (simp add: omd_SetDefaults_def Let_def)

lemma db_SetDefaults_external [simp]: "db_IsExternal (db_SetDefaults db) = db_IsExternal db"
  by (simp add: db_SetDefaults_def db_IsExternal_def)

lemma db_SetDefaults_idem [simp]: "db_SetDefaults (db_SetDefaults db) = db_SetDefaults db"
  by (simp add: db_SetDefaults_def db_IsExternal_def db_ensureDefault_def)

lemma omm_SetDefaults_idem [simp]: "omm_SetDefaults (omm_SetDefaults d) = omm_SetDefaults d"
  by (simp add: omm_SetDefaults_def)

lemma fs_kind_SetDefaults [simp]:
  "isAnyExceptOperatorManaged (fs_SetDefaults fs) = isAnyExceptOperatorManaged fs"
  by (simp add: fs_SetDefaults_def isAnyExceptOperatorManaged_def fs_IsExternal_def
      fs_IsExternalVolume_def fs_IsLocal_def)

lemma fs_SetDefaults_idem [simp]: "fs_SetDefaults (fs_SetDefaults fs) = fs_SetDefaults fs"
  by (simp add: fs_SetDefaults_def isAnyExceptOperatorManaged_def fs_IsExternal_def
      fs_IsExternalVolume_def fs_IsLocal_def fs_ensureDefault_def)

text \<open>The part of the specification that decides about ingress, which defaulting never writes.\<close>

lemmas ingress_accessor_defs = AWSLoadBalancerEnabled_def IngressEnabled_def GetIngressHost_def
  GetAWSLoadBalancerHostNames_def GetIngressHostNames_def GetIngressClass_def
  GetIngresAnnotations_def

definition same_ingress :: "MattermostSpec \<Rightarrow> MattermostSpec \<Rightarrow> bool" where
  "same_ingress a b = (s_Ingress a = s_Ingress b \<and> s_IngressName a = s_IngressName b
     \<and> s_AWSLoadBalancerController a = s_AWSLoadBalancerController b)"

lemma same_ingress_accessors:
  assumes "same_ingress (mm_Spec a) (mm_Spec b)"
  shows "AWSLoadBalancerEnabled a = AWSLoadBalancerEnabled b"
    and "IngressEnabled a = IngressEnabled b"
    and "GetIngressHost a = GetIngressHost b"
    and "GetAWSLoadBalancerHostNames a = GetAWSLoadBalancerHostNames b"
    and "GetIngressHostNames a = GetIngressHostNames b"
  using assms by (auto simp: ingress_accessor_defs same_ingress_def Let_def split: option.splits)

lemma SetDefaults_frame:
  assumes "SetDefaults mm = (mm', r)"
  shows "same_ingress (mm_Spec mm') (mm_Spec mm) \<and> mm_Meta mm' = mm_Meta mm
         \<and> mm_Status mm' = mm_Status mm"
  using assms by (auto simp: SetDefaults_def Let_def same_ingress_def split: if_splits)

lemma SetDefaults_hosts:
  assumes "SetDefaults mm = (mm', Ok ())"
  shows "AWSLoadBalancerEnabled mm' \<Longrightarrow> GetAWSLoadBalancerHostNames mm' \<noteq> []"
    and "\<not> AWSLoadBalancerEnabled mm' \<Longrightarrow> IngressEnabled mm' \<Longrightarrow> GetIngressHost mm' \<noteq> []"
proof -
  have "same_ingress (mm_Spec mm') (mm_Spec mm)" using SetDefaults_frame [OF assms] by simp
  note acc = same_ingress_accessors [OF this]
  show "AWSLoadBalancerEnabled mm' \<Longrightarrow> GetAWSLoadBalancerHostNames mm' \<noteq> []"
    using assms by (auto simp: acc SetDefaults_def split: if_splits)
  show "\<not> AWSLoadBalancerEnabled mm' \<Longrightarrow> IngressEnabled mm' \<Longrightarrow> GetIngressHost mm' \<noteq> []"
    using assms by (auto simp: acc SetDefaults_def split: if_splits)
qed

lemma SetDefaults_spec:
  assumes "SetDefaults mm = (mm', Ok ())"
  shows "s_Image (mm_Spec mm') \<noteq> [] \<and> s_Version (mm_Spec mm') \<noteq> []
    \<and> s_ImagePullPolicy (mm_Spec mm') \<noteq> []
    \<and> s_FileStore (mm_Spec mm') = fs_SetDefaults (s_FileStore (mm_Spec mm))
    \<and> s_Database (mm_Spec mm') = db_SetDefaults (s_Database (mm_Spec mm))
    \<and> validateVolumes (s_Volumes (mm_Spec mm')) = Ok ()"
  using assms by (auto simp: SetDefaults_def Let_def split: if_splits)

lemma SetDefaults_fixpoint:
  assumes hosts: "AWSLoadBalancerEnabled mm \<Longrightarrow> GetAWSLoadBalancerHostNames mm \<noteq> []"
      "\<not> AWSLoadBalancerEnabled mm \<Longrightarrow> IngressEnabled mm \<Longrightarrow> GetIngressHost mm \<noteq> []"
    and "s_Image (mm_Spec mm) \<noteq> []" "s_Version (mm_Spec mm) \<noteq> []" "s_ImagePullPolicy (mm_Spec mm) \<noteq> []"
    and "fs_SetDefaults (s_FileStore (mm_Spec mm)) = s_FileStore (mm_Spec mm)"
    and "db_SetDefaults (s_Database (mm_Spec mm)) = s_Database (mm_Spec mm)"
    and "validateVolumes (s_Volumes (mm_Spec mm)) = Ok ()"
  shows "SetDefaults mm = (mm, Ok ())"
  using assms by (auto simp: SetDefaults_def Let_def)

lemma SetDefaults_idem:
  assumes "SetDefaults mm = (mm', Ok ())"
  shows "SetDefaults mm' = (mm', Ok ())"
  using SetDefaults_hosts [OF assms] SetDefaults_spec [OF assms]
  by (intro SetDefaults_fixpoint) auto

lemma rr_default_nonempty [simp]:
  "\<not> rr_empty (cs_Resources (cis_App DefaultSize))"
  "\<not> rr_empty (cs_Resources (cis_Minio DefaultSize))"
  "\<not> rr_empty (cs_Resources (cis_Database DefaultSize))"
  using sane_DefaultSize by (simp_all add: sane_size_def)

text \<open>
  The state of a resource whose replicas and resources are settled: this is what the code that
  dereferences the operator-managed configurations relies on.
\<close>

definition db_sized :: "Database \<Rightarrow> bool" where
  "db_sized db = (db_IsExternal db \<or>
     (case db_OperatorManaged db of None \<Rightarrow> False
      | Some d \<Rightarrow> omd_Replicas d \<noteq> None \<and> \<not> rr_empty (omd_Resources d)))"

definition fs_sized :: "FileStore \<Rightarrow> bool" where
  "fs_sized fs = (isAnyExceptOperatorManaged fs \<or>
     (case fs_OperatorManaged fs of None \<Rightarrow> False
      | Some m \<Rightarrow> omm_Replicas m \<noteq> None \<and> \<not> rr_empty (omm_Resources m)))"

definition sized :: "Mattermost \<Rightarrow> bool" where
  "sized mm = (s_Size (mm_Spec mm) = [] \<and> s_Replicas (mm_Spec mm) \<noteq> None
     \<and> \<not> rr_empty (sch_Resources (s_Scheduling (mm_Spec mm)))
     \<and> db_sized (s_Database (mm_Spec mm)) \<and> fs_sized (s_FileStore (mm_Spec mm)))"

lemmas fs_kind_defs = isAnyExceptOperatorManaged_def fs_IsExternal_def fs_IsExternalVolume_def
  fs_IsLocal_def

lemma db_sized_default [simp]: "db_sized (db_SetDefaultReplicasAndResources db)"
  by (simp add: db_sized_def db_SetDefaultReplicasAndResources_def db_IsExternal_def
      omd_SetDefaultReplicasAndResources_def)

lemma fs_sized_default [simp]: "fs_sized (fs_SetDefaultReplicasAndResources fs)"
  by (simp add: fs_sized_def fs_SetDefaultReplicasAndResources_def
      omm_SetDefaultReplicasAndResources_def)

lemma db_sized_override: "sane_size sz \<Longrightarrow> db_sized (db_OverrideReplicasAndResourcesFromSize sz db)"
  by (simp add: db_sized_def db_OverrideReplicasAndResourcesFromSize_def db_IsExternal_def
      omd_OverrideReplicasAndResourcesFromSize_def sane_size_def)

lemma fs_sized_override: "sane_size sz \<Longrightarrow> fs_sized (fs_OverrideReplicasAndResourcesFromSize sz fs)"
  by (simp add: fs_sized_def fs_OverrideReplicasAndResourcesFromSize_def
      omm_OverrideReplicasAndResourcesFromSize_def sane_size_def)

lemma db_sized_fixpoint: "db_sized db \<Longrightarrow> db_SetDefaultReplicasAndResources db = db"
  by (auto simp: db_sized_def db_SetDefaultReplicasAndResources_def db_ensureDefault_def
      omd_SetDefaultReplicasAndResources_def split: option.splits)

lemma fs_sized_fixpoint: "fs_sized fs \<Longrightarrow> fs_SetDefaultReplicasAndResources fs = fs"
  by (auto simp: fs_sized_def fs_SetDefaultReplicasAndResources_def fs_ensureDefault_def
      omm_SetDefaultReplicasAndResources_def split: option.splits)

lemma sized_setDefault: "sized (setDefaultReplicasAndResources mm)"
  by (simp add: sized_def setDefaultReplicasAndResources_def Let_def)

lemma sized_override: "sane_size sz \<Longrightarrow> sized (overrideReplicasAndResourcesFromSize sz mm)"
  by (simp add: sized_def overrideReplicasAndResourcesFromSize_def Let_def db_sized_override
      fs_sized_override sane_size_def)

lemma GetClusterSize_no_panic [simp]: "GetClusterSize k \<noteq> Panic p"
  by (simp add: GetClusterSize_def split: option.splits)

lemma sized_SetReplicas: "sized (fst (SetReplicasAndResourcesFromSize mm))"
  by (auto simp: SetReplicasAndResourcesFromSize_def sized_setDefault
      intro: sized_override GetClusterSize_sane split: outcome.splits)

lemma setDefault_fixpoint: "sized mm \<Longrightarrow> setDefaultReplicasAndResources mm = mm"
  by (simp add: sized_def setDefaultReplicasAndResources_def Let_def db_sized_fixpoint
      fs_sized_fixpoint)

lemma SetReplicas_idem: "sized mm \<Longrightarrow> SetReplicasAndResourcesFromSize mm = (mm, Ok ())"
  using setDefault_fixpoint by (auto simp: SetReplicasAndResourcesFromSize_def sized_def)

lemma SetReplicas_frame:
  "mm_Meta (fst (SetReplicasAndResourcesFromSize mm)) = mm_Meta mm"
  "mm_Status (fst (SetReplicasAndResourcesFromSize mm)) = mm_Status mm"
  "same_ingress (mm_Spec (fst (SetReplicasAndResourcesFromSize mm))) (mm_Spec mm)"
  by (auto simp: SetReplicasAndResourcesFromSize_def setDefaultReplicasAndResources_def
      overrideReplicasAndResourcesFromSize_def Let_def same_ingress_def split: outcome.splits)

text \<open>Defaulting and sizing write different fields, so each is stable under the other.\<close>

definition defaulted :: "MattermostSpec \<Rightarrow> bool" where
  "defaulted sp = (s_Image sp \<noteq> [] \<and> s_Version sp \<noteq> [] \<and> s_ImagePullPolicy sp \<noteq> []
     \<and> fs_SetDefaults (s_FileStore sp) = s_FileStore sp \<and> db_SetDefaults (s_Database sp) = s_Database sp
     \<and> validateVolumes (s_Volumes sp) = Ok ())"

lemma defaulted_SetDefaults: "SetDefaults mm = (mm', Ok ()) \<Longrightarrow> defaulted (mm_Spec mm')"
  using SetDefaults_spec [of mm mm'] by (simp add: defaulted_def)

lemma db_SetDefaults_fixpoint:
  "db_SetDefaults db = db \<longleftrightarrow>
     db_IsExternal db \<or> (\<exists>d. db_OperatorManaged db = Some d \<and> omd_SetDefaults d = d)"
proof (cases "db_IsExternal db")
  case True
  then show ?thesis by (simp add: db_SetDefaults_def)
next
  case False
  have "db_SetDefaults db = db \<longleftrightarrow> db_OperatorManaged db = Some (omd_SetDefaults (db_ensureDefault db))"
    using False by (cases db) (auto simp: db_SetDefaults_def)
  with False show ?thesis
    by (cases "db_OperatorManaged db") (auto simp: db_ensureDefault_def)
qed

lemma fs_SetDefaults_fixpoint:
  "fs_SetDefaults fs = fs \<longleftrightarrow>
     isAnyExceptOperatorManaged fs \<or> (\<exists>m. fs_OperatorManaged fs = Some m \<and> omm_SetDefaults m = m)"
proof (cases "isAnyExceptOperatorManaged fs")
  case True
  then show ?thesis by (simp add: fs_SetDefaults_def)
next
  case False
  have "fs_SetDefaults fs = fs \<longleftrightarrow> fs_OperatorManaged fs = Some (omm_SetDefaults (fs_ensureDefault fs))"
    using False by (cases fs) (auto simp: fs_SetDefaults_def)
  with False show ?thesis
    by (cases "fs_OperatorManaged fs") (auto simp: fs_ensureDefault_def)
qed

lemma omd_SetDefaults_resized [simp]:
  "omd_SetDefaults d = d \<Longrightarrow> omd_SetDefaults (d\<lparr>omd_Replicas := r, omd_Resources := q\<rparr>)
     = d\<lparr>omd_Replicas := r, omd_Resources := q\<rparr>"
  by (cases d) (simp add: omd_SetDefaults_def)

lemma omm_SetDefaults_resized [simp]:
  "omm_SetDefaults d = d \<Longrightarrow> omm_SetDefaults (d\<lparr>omm_Replicas := r, omm_Resources := q\<rparr>)
     = d\<lparr>omm_Replicas := r, omm_Resources := q\<rparr>"
  by (cases d) (simp add: omm_SetDefaults_def)

lemma db_defaults_stable:
  assumes "db_SetDefaults db = db"
  shows "db_SetDefaults (db_SetDefaultReplicasAndResources db) = db_SetDefaultReplicasAndResources db"
    and "db_SetDefaults (db_OverrideReplicasAndResourcesFromSize sz db)
         = db_OverrideReplicasAndResourcesFromSize sz db"
  using assms unfolding db_SetDefaults_fixpoint
  by (auto simp: db_SetDefaultReplicasAndResources_def db_OverrideReplicasAndResourcesFromSize_def
      db_IsExternal_def db_ensureDefault_def omd_SetDefaultReplicasAndResources_def
      omd_OverrideReplicasAndResourcesFromSize_def)

lemma fs_defaults_stable:
  assumes "fs_SetDefaults fs = fs"
  shows "fs_SetDefaults (fs_SetDefaultReplicasAndResources fs) = fs_SetDefaultReplicasAndResources fs"
    and "fs_SetDefaults (fs_OverrideReplicasAndResourcesFromSize sz fs)
         = fs_OverrideReplicasAndResourcesFromSize sz fs"
  using assms unfolding fs_SetDefaults_fixpoint
  by (auto simp: fs_SetDefaultReplicasAndResources_def fs_OverrideReplicasAndResourcesFromSize_def
      fs_kind_defs fs_ensureDefault_def omm_SetDefaultReplicasAndResources_def
      omm_OverrideReplicasAndResourcesFromSize_def)

lemma defaulted_SetReplicas:
  "defaulted (mm_Spec mm) \<Longrightarrow> defaulted (mm_Spec (fst (SetReplicasAndResourcesFromSize mm)))"
  by (auto simp: defaulted_def SetReplicasAndResourcesFromSize_def setDefaultReplicasAndResources_def
      overrideReplicasAndResourcesFromSize_def Let_def db_defaults_stable fs_defaults_stable
      split: outcome.splits)

text \<open>
  The resource \<^verbatim>\<open>Reconcile\<close> works with: both steps, in its order, when defaulting succeeds.
\<close>

definition default_mattermost :: "Mattermost \<Rightarrow> Mattermost outcome" where
  "default_mattermost mm =
     (case SetDefaults mm of
        (mm1, Ok _) \<Rightarrow> Ok (fst (SetReplicasAndResourcesFromSize mm1))
      | (_, Err e) \<Rightarrow> Err e
      | (_, Panic p) \<Rightarrow> Panic p)"

lemma default_mattermost_Ok:
  "default_mattermost mm = Ok mm' \<longleftrightarrow>
     (\<exists>mm1. SetDefaults mm = (mm1, Ok ()) \<and> mm' = fst (SetReplicasAndResourcesFromSize mm1))"
  by (auto simp: default_mattermost_def split: prod.splits outcome.splits)

lemma default_mattermost_hosts:
  assumes "default_mattermost mm = Ok mm'"
  shows "AWSLoadBalancerEnabled mm' \<Longrightarrow> GetAWSLoadBalancerHostNames mm' \<noteq> []"
    and "\<not> AWSLoadBalancerEnabled mm' \<Longrightarrow> IngressEnabled mm' \<Longrightarrow> GetIngressHost mm' \<noteq> []"
proof -
  from assms obtain mm1 where mm1: "SetDefaults mm = (mm1, Ok ())"
    and mm': "mm' = fst (SetReplicasAndResourcesFromSize mm1)"
    by (auto simp: default_mattermost_Ok)
  have "same_ingress (mm_Spec mm') (mm_Spec mm1)" using mm' SetReplicas_frame(3) by simp
  note acc = same_ingress_accessors [OF this]
  show "AWSLoadBalancerEnabled mm' \<Longrightarrow> GetAWSLoadBalancerHostNames mm' \<noteq> []"
    using SetDefaults_hosts(1) [OF mm1] by (simp add: acc)
  show "\<not> AWSLoadBalancerEnabled mm' \<Longrightarrow> IngressEnabled mm' \<Longrightarrow> GetIngressHost mm' \<noteq> []"
    using SetDefaults_hosts(2) [OF mm1] by (simp add: acc)
qed

lemma default_mattermost_settled:
  assumes "default_mattermost mm = Ok mm'"
  shows "sized mm' \<and> defaulted (mm_Spec mm')"
  using assms sized_SetReplicas defaulted_SetReplicas defaulted_SetDefaults
  by (auto simp: default_mattermost_Ok)

lemma default_mattermost_stable:
  assumes "default_mattermost mm = Ok mm'"
  shows "SetDefaults mm' = (mm', Ok ())" and "SetReplicasAndResourcesFromSize mm' = (mm', Ok ())"
proof -
  have s: "sized mm'" and d: "defaulted (mm_Spec mm')"
    using default_mattermost_settled [OF assms] by simp_all
  show "SetDefaults mm' = (mm', Ok ())"
    using default_mattermost_hosts [OF assms] d by (intro SetDefaults_fixpoint) (auto simp: defaulted_def)
  show "SetReplicasAndResourcesFromSize mm' = (mm', Ok ())"
    using s by (rule SetReplicas_idem)
qed

section \<open>Facts about labels\<close>

lemma write_labels_contents:
  "write_labels mm f = (g, mm') \<Longrightarrow> deref (mm_maps mm') g = f (mm_maps mm ResourceLabelsLoc)"
  by (auto simp: write_labels_def split: option.splits)

lemma write_labels_frame:
  assumes "write_labels mm f = (g, mm')"
  shows "mm_Meta mm' = mm_Meta mm \<and> mm_Status mm' = mm_Status mm
    \<and> (\<forall>v. (mm_Spec mm')\<lparr>s_ResourceLabels := v\<rparr> = (mm_Spec mm)\<lparr>s_ResourceLabels := v\<rparr>)"
  using assms by (auto simp: write_labels_def split: option.splits)

lemma write_labels_None:
  "s_ResourceLabels (mm_Spec mm) = None \<Longrightarrow> write_labels mm f = (MapLit (f Map.empty), mm)"
  by (simp add: write_labels_def)

lemma write_labels_Some:
  "s_ResourceLabels (mm_Spec mm) = Some l \<Longrightarrow>
     write_labels mm f = (MapAt ResourceLabelsLoc,
       mm\<lparr>mm_Spec := (mm_Spec mm)\<lparr>s_ResourceLabels := Some (f l)\<rparr>\<rparr>)"
  by (simp add: write_labels_def)

lemmas label_defs = MattermostLabels_def MattermostPodLabels_def MattermostJobServerPodLabels_def

lemma selector_labels_le:
  "MattermostSelectorLabels name \<subseteq>\<^sub>m
     (l ++ MattermostResourceLabels name)(ClusterLabel \<mapsto> name, ''app'' \<mapsto> MattermostAppContainerName)"
  by (auto simp: MattermostSelectorLabels_def MattermostResourceLabels_def map_le_def)

section \<open>Properties\<close>

definition demo_spec :: MattermostSpec where
  "demo_spec = zero_spec\<lparr>s_IngressName := ''mm.example.com'', s_Version := ''10.5.0''\<rparr>"
definition demo_mm :: Mattermost where "demo_mm = new_mattermost ''mm'' ''apps'' demo_spec"

lemma demo_defaults: "\<exists>mm'. default_mattermost demo_mm = Ok mm'"
  by (simp add: default_mattermost_def SetDefaults_def demo_mm_def demo_spec_def zero_spec_def
      AWSLoadBalancerEnabled_def IngressEnabled_def GetIngressHost_def Let_def)

text \<open>
  C21. The two defaulting steps settle the resource: afterwards replicas and resources are set for
  every part the operator manages, the size field is cleared, image, version, pull policy, database
  and file store are filled in, and running both steps again changes nothing, so a reconciled
  resource is not written back a second time.
\<close>

theorem default_mattermost_converges:
  assumes "default_mattermost mm = Ok mm'"
  shows "sized mm' \<and> defaulted (mm_Spec mm') \<and> default_mattermost mm' = Ok mm'"
  using default_mattermost_settled [OF assms] default_mattermost_stable [OF assms]
  by (simp add: default_mattermost_def)

theorem default_mattermost_converges_witness:
  "\<exists>mm'. default_mattermost demo_mm = Ok mm'
     \<and> sized mm' \<and> defaulted (mm_Spec mm') \<and> default_mattermost mm' = Ok mm'"
  using default_mattermost_converges demo_defaults by blast

lemma SetDefaults_writes:
  "mm_Spec (fst (SetDefaults mm)) = mm_Spec mm \<or>
   mm_Spec (fst (SetDefaults mm)) = (mm_Spec mm)
     \<lparr>s_Image := or_default (s_Image (mm_Spec mm)) DefaultMattermostImage,
      s_Version := or_default (s_Version (mm_Spec mm)) DefaultMattermostVersion,
      s_ImagePullPolicy := or_default (s_ImagePullPolicy (mm_Spec mm)) DefaultPullPolicy,
      s_FileStore := fs_SetDefaults (s_FileStore (mm_Spec mm)),
      s_Database := db_SetDefaults (s_Database (mm_Spec mm))\<rparr>"
  by (simp add: SetDefaults_def Let_def)

lemma db_SetDefaults_keeps:
  "db_IsExternal db \<Longrightarrow> db_SetDefaults db = db"
  "db_OperatorManaged db = Some d \<Longrightarrow> \<exists>d'. db_OperatorManaged (db_SetDefaults db) = Some d'
     \<and> (omd_Type d \<noteq> [] \<longrightarrow> omd_Type d' = omd_Type d)
     \<and> (omd_StorageSize d \<noteq> [] \<longrightarrow> omd_StorageSize d' = omd_StorageSize d)
     \<and> (omd_Version d \<noteq> [] \<longrightarrow> omd_Version d' = omd_Version d)
     \<and> omd_Replicas d' = omd_Replicas d \<and> omd_Resources d' = omd_Resources d"
  by (simp_all add: db_SetDefaults_def db_ensureDefault_def omd_SetDefaults_def)

lemma fs_SetDefaults_keeps:
  "isAnyExceptOperatorManaged fs \<Longrightarrow> fs_SetDefaults fs = fs"
  "fs_OperatorManaged fs = Some d \<Longrightarrow> \<exists>d'. fs_OperatorManaged (fs_SetDefaults fs) = Some d'
     \<and> (omm_StorageSize d \<noteq> [] \<longrightarrow> omm_StorageSize d' = omm_StorageSize d)"
  by (simp_all add: fs_SetDefaults_def fs_ensureDefault_def omm_SetDefaults_def)

text \<open>
  Defaulting leaves alone what the user set: a given image, version or pull policy, an external
  database, a file store the operator does not manage, the given type, size and version of a managed
  database, the given size of the managed file store, and every field of the specification
  besides these five.
\<close>

theorem SetDefaults_keeps_user_values:
  assumes "SetDefaults mm = (mm', r)"
  shows "(s_Image (mm_Spec mm) \<noteq> [] \<longrightarrow> s_Image (mm_Spec mm') = s_Image (mm_Spec mm))
    \<and> (s_Version (mm_Spec mm) \<noteq> [] \<longrightarrow> s_Version (mm_Spec mm') = s_Version (mm_Spec mm))
    \<and> (s_ImagePullPolicy (mm_Spec mm) \<noteq> [] \<longrightarrow> s_ImagePullPolicy (mm_Spec mm') = s_ImagePullPolicy (mm_Spec mm))
    \<and> (db_IsExternal (s_Database (mm_Spec mm)) \<longrightarrow> s_Database (mm_Spec mm') = s_Database (mm_Spec mm))
    \<and> (isAnyExceptOperatorManaged (s_FileStore (mm_Spec mm))
         \<longrightarrow> s_FileStore (mm_Spec mm') = s_FileStore (mm_Spec mm))
    \<and> (\<forall>d. db_OperatorManaged (s_Database (mm_Spec mm)) = Some d \<longrightarrow>
         (\<exists>d'. db_OperatorManaged (s_Database (mm_Spec mm')) = Some d'
             \<and> (omd_Type d \<noteq> [] \<longrightarrow> omd_Type d' = omd_Type d)
             \<and> (omd_StorageSize d \<noteq> [] \<longrightarrow> omd_StorageSize d' = omd_StorageSize d)
             \<and> (omd_Version d \<noteq> [] \<longrightarrow> omd_Version d' = omd_Version d)
             \<and> omd_Replicas d' = omd_Replicas d \<and> omd_Resources d' = omd_Resources d))
    \<and> (\<forall>d. fs_OperatorManaged (s_FileStore (mm_Spec mm)) = Some d \<longrightarrow>
         (\<exists>d'. fs_OperatorManaged (s_FileStore (mm_Spec mm')) = Some d'
             \<and> (omm_StorageSize d \<noteq> [] \<longrightarrow> omm_StorageSize d' = omm_StorageSize d)))
    \<and> (\<exists>img ver pol fs db. mm_Spec mm' = (mm_Spec mm)\<lparr>s_Image := img, s_Version := ver,
         s_ImagePullPolicy := pol, s_FileStore := fs, s_Database := db\<rparr>)"
proof -
  have mm': "mm' = fst (SetDefaults mm)" using assms by simp
  show ?thesis
    using SetDefaults_writes [of mm]
  proof
    assume same: "mm_Spec (fst (SetDefaults mm)) = mm_Spec mm"
    show ?thesis unfolding mm' same by (cases "mm_Spec mm") simp
  next
    assume w: "mm_Spec (fst (SetDefaults mm)) = (mm_Spec mm)
     \<lparr>s_Image := or_default (s_Image (mm_Spec mm)) DefaultMattermostImage,
      s_Version := or_default (s_Version (mm_Spec mm)) DefaultMattermostVersion,
      s_ImagePullPolicy := or_default (s_ImagePullPolicy (mm_Spec mm)) DefaultPullPolicy,
      s_FileStore := fs_SetDefaults (s_FileStore (mm_Spec mm)),
      s_Database := db_SetDefaults (s_Database (mm_Spec mm))\<rparr>"
    show ?thesis unfolding mm' w
      using db_SetDefaults_keeps [of "s_Database (mm_Spec mm)"] fs_SetDefaults_keeps [of "s_FileStore (mm_Spec mm)"]
      by (intro conjI) (simp_all, metis)
  qed
qed

theorem SetDefaults_keeps_user_values_witness:
  "s_Version (mm_Spec demo_mm) = ''10.5.0'' \<and> s_Version (mm_Spec (fst (SetDefaults demo_mm))) = ''10.5.0''"
  using SetDefaults_keeps_user_values [of demo_mm "fst (SetDefaults demo_mm)" "snd (SetDefaults demo_mm)"]
  by (simp add: demo_mm_def demo_spec_def)

text \<open>
  Sizing: without a size the user's replicas and resources are kept; with a size of the table
  the application, database and file store take the table's values and the size is consumed; with
  an unknown size the user's values are kept and the error is reported.
\<close>

theorem SetReplicas_applies_size:
  "(case SetReplicasAndResourcesFromSize mm of (mm', r) \<Rightarrow>
      s_Size (mm_Spec mm') = [] \<and>
      (case (if s_Size (mm_Spec mm) = [] then None else Some (GetClusterSize (s_Size (mm_Spec mm)))) of
         Some (Ok sz) \<Rightarrow> r = Ok () \<and> s_Replicas (mm_Spec mm') = Some (cs_Replicas (cis_App sz))
           \<and> sch_Resources (s_Scheduling (mm_Spec mm')) = cs_Resources (cis_App sz)
           \<and> s_Database (mm_Spec mm') = db_OverrideReplicasAndResourcesFromSize sz (s_Database (mm_Spec mm))
           \<and> s_FileStore (mm_Spec mm') = fs_OverrideReplicasAndResourcesFromSize sz (s_FileStore (mm_Spec mm))
       | other \<Rightarrow> (r = Ok () \<longleftrightarrow> other = None)
           \<and> (s_Replicas (mm_Spec mm) \<noteq> None \<longrightarrow> s_Replicas (mm_Spec mm') = s_Replicas (mm_Spec mm))
           \<and> (\<not> rr_empty (sch_Resources (s_Scheduling (mm_Spec mm))) \<longrightarrow>
                s_Scheduling (mm_Spec mm') = s_Scheduling (mm_Spec mm))
           \<and> (db_sized (s_Database (mm_Spec mm)) \<longrightarrow> s_Database (mm_Spec mm') = s_Database (mm_Spec mm))
           \<and> (fs_sized (s_FileStore (mm_Spec mm)) \<longrightarrow> s_FileStore (mm_Spec mm') = s_FileStore (mm_Spec mm)))) "
  by (auto simp: SetReplicasAndResourcesFromSize_def setDefaultReplicasAndResources_def
      overrideReplicasAndResourcesFromSize_def Let_def db_sized_fixpoint fs_sized_fixpoint
      split: outcome.splits)

theorem SetReplicas_applies_size_witness:
  "s_Replicas (mm_Spec (fst (SetReplicasAndResourcesFromSize
     (demo_mm\<lparr>mm_Spec := demo_spec\<lparr>s_Size := ''1000users'', s_Replicas := Some 7\<rparr>\<rparr>)))) = Some 2"
  using SetReplicas_applies_size [of "demo_mm\<lparr>mm_Spec := demo_spec\<lparr>s_Size := ''1000users'', s_Replicas := Some 7\<rparr>\<rparr>"]
  by (auto simp: GetClusterSize_def validSizes_def size1000_def split: prod.splits)

text \<open>
  The host list of the ingress: empty without a host, and otherwise the main host first,
  followed by the additional hosts in their order, each host once, at its first occurrence.
\<close>

theorem GetIngressHostNames_dedup:
  "GetIngressHostNames mm =
     (if GetIngressHost mm = [] then []
      else rev (remdups (rev (GetIngressHost mm #
             (case s_Ingress (mm_Spec mm) of None \<Rightarrow> [] | Some i \<Rightarrow> ing_Hosts i)))))"
  using add_hosts_keep_first [of "[GetIngressHost mm]"]
  by (auto simp: GetIngressHostNames_def Let_def split: option.splits)

text \<open>
  Defaulting succeeds only when every volume uses an allowed source, and an ingress that is to
  be created has a host; a volume with a source outside the allowlist only, such as a host path, is
  refused.
\<close>

theorem SetDefaults_accepts_iff:
  "snd (SetDefaults mm) = Ok () \<longleftrightarrow>
     (AWSLoadBalancerEnabled mm \<and> GetAWSLoadBalancerHostNames mm \<noteq> []
      \<or> \<not> AWSLoadBalancerEnabled mm \<and> \<not> (IngressEnabled mm \<and> GetIngressHost mm = []))
     \<and> list_all (\<lambda>v. vol_Source v \<noteq> no_source\<lparr>vs_Other := vs_Other (vol_Source v)\<rparr>) (s_Volumes (mm_Spec mm))"
proof -
  have "vol_isAllowed src \<longleftrightarrow> src \<noteq> no_source\<lparr>vs_Other := vs_Other src\<rparr>" for src
    by (cases src) (auto simp: vol_isAllowed_def no_source_def)
  then have "validateVolumes vs = Ok () \<longleftrightarrow>
      list_all (\<lambda>v. vol_Source v \<noteq> no_source\<lparr>vs_Other := vs_Other (vol_Source v)\<rparr>) vs" for vs
    by (simp add: validateVolumes_Ok list_all_iff)
  then show ?thesis
    by (auto simp: SetDefaults_def Let_def)
qed

end
