(* ===== verification/AppConfig.thy ===== *)
theory AppConfig
  imports MattermostApi
begin

text \<open>
  The helpers that assemble a container's configuration: \<^verbatim>\<open>pkg/mattermost/helpers.go\<close>,
  \<^verbatim>\<open>env_var.go\<close>, \<^verbatim>\<open>util.go\<close> and \<^verbatim>\<open>constants.go\<close>.
\<close>

definition sizeMB :: int where "sizeMB = 1048576"
definition sizeGB :: int where "sizeGB = 1048576000"
definition defaultMaxFileSize :: int where "defaultMaxFileSize = 1000"
definition defaultRevHistoryLimit :: int where "defaultRevHistoryLimit = 5"
definition defaultMaxUnavailable :: int where "defaultMaxUnavailable = 0"
definition defaultMaxSurge :: int where "defaultMaxSurge = 1"

section \<open>Merging\<close>

text \<open>A nil receiver is replaced by a new map; the entries of the origin overwrite.\<close>

definition mergeStringMaps :: "strmap option \<Rightarrow> strmap option \<Rightarrow> strmap" where
  "mergeStringMaps receiver origin =
     (let r = (case receiver of None \<Rightarrow> Map.empty | Some m \<Rightarrow> m)
      in case origin of None \<Rightarrow> r | Some ovr \<Rightarrow> r ++ ovr)"

text \<open>
  \<open>replace_env\<close> is the inner loop over the original variables: it overwrites every variable of
  the same name and reports whether there was one.
\<close>

fun replace_env :: "EnvVar \<Rightarrow> EnvVar list \<Rightarrow> EnvVar list \<times> bool" where
  "replace_env newv [] = ([], False)"
| "replace_env newv (orig # rest) =
     (let (rest', replaced) = replace_env newv rest
      in if ev_Name orig = ev_Name newv then (newv # rest', True) else (orig # rest', replaced))"

fun mergeEnvVars :: "EnvVar list \<Rightarrow> EnvVar list \<Rightarrow> EnvVar list" where
  "mergeEnvVars original [] = original"
| "mergeEnvVars original (newv # news) =
     (let (original', replaced) = replace_env newv original
      in mergeEnvVars (if replaced then original' else original' @ [newv]) news)"

section \<open>Upload size, probes and site URL\<close>

definition proxyBodySizeAnnotation :: string where
  "proxyBodySizeAnnotation = ''nginx.ingress.kubernetes.io/proxy-body-size''"

text \<open>The last byte is the unit.  Indexing an empty value panics; the parse error is dropped.\<close>

definition determineMaxBodySize :: "strmap \<Rightarrow> string \<Rightarrow> string outcome" where
  "determineMaxBodySize ingressAnnotations defaultSize =
     (case ingressAnnotations proxyBodySizeAnnotation of
        None \<Rightarrow> Ok defaultSize
      | Some sz \<Rightarrow>
          if sz = [] then Panic ''index out of range [-1]''
          else
            let sizeUnit = last sz;
                maxFileSize = fst (Atoi (butlast sz))
            in if sizeUnit = CHR ''M'' \<or> sizeUnit = CHR ''m''
               then Ok (Itoa (wrap64 (maxFileSize * sizeMB)))
               else if sizeUnit = CHR ''G'' \<or> sizeUnit = CHR ''g''
               then Ok (Itoa (wrap64 (maxFileSize * sizeGB)))
               else Ok defaultSize)"

definition override_probe :: "Probe \<Rightarrow> Probe \<Rightarrow> Probe" where
  "override_probe custom p =
     p\<lparr>pr_Handler := (if pr_Handler custom \<noteq> empty_handler then pr_Handler custom else pr_Handler p),
       pr_InitialDelaySeconds := (if pr_InitialDelaySeconds custom \<noteq> 0
         then pr_InitialDelaySeconds custom else pr_InitialDelaySeconds p),
       pr_PeriodSeconds := (if pr_PeriodSeconds custom \<noteq> 0
         then pr_PeriodSeconds custom else pr_PeriodSeconds p),
       pr_TimeoutSeconds := (if pr_TimeoutSeconds custom \<noteq> 0
         then pr_TimeoutSeconds custom else pr_TimeoutSeconds p),
       pr_FailureThreshold := (if pr_FailureThreshold custom \<noteq> 0
         then pr_FailureThreshold custom else pr_FailureThreshold p),
       pr_SuccessThreshold := (if pr_SuccessThreshold custom \<noteq> 0
         then pr_SuccessThreshold custom else pr_SuccessThreshold p)\<rparr>"

definition ping_handler :: ProbeHandler where
  "ping_handler = empty_handler\<lparr>ph_HTTPGet :=
     Some \<lparr>hg_Path = ''/api/v4/system/ping'', hg_Port = 8065, hg_Rest = Opaque []\<rparr>\<rparr>"

definition setProbes :: "Probe \<Rightarrow> Probe \<Rightarrow> Probe \<times> Probe" where
  "setProbes customLiveness customReadiness =
     (override_probe customLiveness
        (zero_probe\<lparr>pr_Handler := ping_handler, pr_InitialDelaySeconds := 10,
                    pr_PeriodSeconds := 10, pr_FailureThreshold := 3\<rparr>),
      override_probe customReadiness
        (zero_probe\<lparr>pr_Handler := ping_handler, pr_InitialDelaySeconds := 10,
                    pr_PeriodSeconds := 5, pr_FailureThreshold := 6\<rparr>))"

definition siteURLFromHost :: "string \<Rightarrow> string" where
  "siteURLFromHost ingressHost = (if ingressHost \<noteq> [] then ''https://'' @ ingressHost else [])"

section \<open>Environment variables\<close>

definition EnvSourceFromSecret :: "string \<Rightarrow> string \<Rightarrow> EnvVarSource" where
  "EnvSourceFromSecret secretName key = SecretKeyRef secretName key"

definition generalMattermostEnvVars :: "string \<Rightarrow> EnvVar list" where
  "generalMattermostEnvVars siteURL =
     [env_value ''MM_PLUGINSETTINGS_ENABLEUPLOADS'' ''true'',
      env_value ''MM_METRICSSETTINGS_ENABLE'' ''true'',
      env_value ''MM_METRICSSETTINGS_LISTENADDRESS'' '':8067'',
      env_value ''MM_CLUSTERSETTINGS_ENABLE'' ''true'',
      env_value ''MM_CLUSTERSETTINGS_CLUSTERNAME'' ''production'',
      env_value ''MM_INSTALL_TYPE'' ''kubernetes-operator'']
     @ (if siteURL \<noteq> [] then [env_value ''MM_SERVICESETTINGS_SITEURL'' siteURL] else [])"

definition localFileEnvVars :: "string \<Rightarrow> EnvVar list" where
  "localFileEnvVars filePath =
     [env_value ''MM_FILESETTINGS_DRIVERNAME'' ''local'',
      env_value ''MM_FILESETTINGS_DIRECTORY'' filePath]"

definition fileStoreSecretAccessKey :: string where "fileStoreSecretAccessKey = ''accesskey''"
definition fileStoreSecretSecretKey :: string where "fileStoreSecretSecretKey = ''secretkey''"

record FileStoreInfo =
  fsi_secretName :: string
  fsi_bucketName :: string
  fsi_url :: string
  fsi_useS3SSL :: bool

definition FormatBool :: "bool \<Rightarrow> string" where
  "FormatBool b = (if b then ''true'' else ''false'')"

definition s3EnvVars :: "FileStoreInfo \<Rightarrow> EnvVar list" where
  "s3EnvVars fileStore =
     [env_value ''MM_FILESETTINGS_DRIVERNAME'' ''amazons3'',
      env_value ''MM_FILESETTINGS_AMAZONS3BUCKET'' (fsi_bucketName fileStore),
      env_value ''MM_FILESETTINGS_AMAZONS3ENDPOINT'' (fsi_url fileStore),
      env_value ''MM_FILESETTINGS_AMAZONS3SSL'' (FormatBool (fsi_useS3SSL fileStore))]
     @ (if fsi_secretName fileStore \<noteq> []
        then [env_from ''MM_FILESETTINGS_AMAZONS3ACCESSKEYID''
                (EnvSourceFromSecret (fsi_secretName fileStore) fileStoreSecretAccessKey),
              env_from ''MM_FILESETTINGS_AMAZONS3SECRETACCESSKEY''
                (EnvSourceFromSecret (fsi_secretName fileStore) fileStoreSecretSecretKey)]
        else [])"

definition elasticSearchEnvVars :: "string \<Rightarrow> string \<Rightarrow> string \<Rightarrow> EnvVar list" where
  "elasticSearchEnvVars host user password =
     [env_value ''MM_ELASTICSEARCHSETTINGS_ENABLEINDEXING'' ''true'',
      env_value ''MM_ELASTICSEARCHSETTINGS_ENABLESEARCHING'' ''true'',
      env_value ''MM_ELASTICSEARCHSETTINGS_CONNECTIONURL'' host,
      env_value ''MM_ELASTICSEARCHSETTINGS_USERNAME'' user,
      env_value ''MM_ELASTICSEARCHSETTINGS_PASSWORD'' password]"

section \<open>Containers\<close>

definition FindContainer :: "string \<Rightarrow> Container list \<Rightarrow> nat option" where
  "FindContainer name containers = find_index (\<lambda>cont. c_Name cont = name) containers"

definition RemoveContainer :: "string \<Rightarrow> Container list \<Rightarrow> Container list" where
  "RemoveContainer name containers =
     (case FindContainer name containers of
        None \<Rightarrow> containers
      | Some position \<Rightarrow> take position containers @ drop (Suc position) containers)"

section \<open>Facts about merging\<close>

lemma replace_env_names [simp]: "map ev_Name (fst (replace_env v xs)) = map ev_Name xs"
  by (induction xs) (auto simp: Let_def split: prod.splits)

lemma replace_env_found [simp]: "snd (replace_env v xs) \<longleftrightarrow> ev_Name v \<in> ev_Name ` set xs"
  by (induction xs) (auto simp: Let_def split: prod.splits)

lemma replace_env_entries:
  "e \<in> set (fst (replace_env v xs)) \<longleftrightarrow>
     (e = v \<and> ev_Name v \<in> ev_Name ` set xs) \<or> (e \<in> set xs \<and> ev_Name e \<noteq> ev_Name v)"
  by (induction xs) (auto simp: Let_def split: prod.splits if_splits)

text \<open>One step of the outer loop.\<close>

definition merge_env1 :: "EnvVar list \<Rightarrow> EnvVar \<Rightarrow> EnvVar list" where
  "merge_env1 orig v =
     (let (o', r) = replace_env v orig in if r then o' else o' @ [v])"

lemma mergeEnvVars_foldl: "mergeEnvVars orig news = foldl merge_env1 orig news"
  by (induction orig news rule: mergeEnvVars.induct) (auto simp: merge_env1_def Let_def split: prod.splits)

lemma merge_env1_names:
  "map ev_Name (merge_env1 orig v)
   = map ev_Name orig @ (if ev_Name v \<in> ev_Name ` set orig then [] else [ev_Name v])"
proof -
  obtain o' r where re: "replace_env v orig = (o', r)" by (cases "replace_env v orig")
  with replace_env_names [of v orig] replace_env_found [of v orig] show ?thesis
    by (auto simp: merge_env1_def)
qed

lemma merge_env1_entries:
  "e \<in> set (merge_env1 orig v) \<longleftrightarrow> e = v \<or> (e \<in> set orig \<and> ev_Name e \<noteq> ev_Name v)"
proof -
  obtain o' r where re: "replace_env v orig = (o', r)" by (cases "replace_env v orig")
  with replace_env_entries [of e v orig] replace_env_found [of v orig] show ?thesis
    by (auto simp: merge_env1_def)
qed

text \<open>The value the last entry of a list gives to a name: what the container sees.\<close>

definition env_lookup :: "EnvVar list \<Rightarrow> string \<Rightarrow> EnvVar option" where
  "env_lookup vars n = find (\<lambda>e. ev_Name e = n) (rev vars)"

lemma find_append: "find P (xs @ ys) = (case find P xs of None \<Rightarrow> find P ys | Some x \<Rightarrow> Some x)"
  by (induction xs) auto

lemma env_lookup_snoc [simp]:
  "env_lookup (xs @ [v]) n = (if ev_Name v = n then Some v else env_lookup xs n)"
  by (simp add: env_lookup_def)

lemma env_lookup_Nil [simp]: "env_lookup [] n = None"
  by (simp add: env_lookup_def)

lemma env_lookup_None: "env_lookup xs n = None \<longleftrightarrow> n \<notin> ev_Name ` set xs"
  by (auto simp: env_lookup_def find_None_iff)

lemma env_lookup_append:
  "env_lookup (xs @ ys) n = (case env_lookup ys n of None \<Rightarrow> env_lookup xs n | Some e \<Rightarrow> Some e)"
  by (auto simp: env_lookup_def find_append split: option.splits)

lemma replace_env_map:
  "fst (replace_env v xs) = map (\<lambda>e. if ev_Name e = ev_Name v then v else e) xs"
  by (induction xs) (auto simp: Let_def split: prod.splits)

lemma env_lookup_replaced:
  "env_lookup (fst (replace_env v xs)) n
   = (if ev_Name v = n \<and> n \<in> ev_Name ` set xs then Some v else env_lookup xs n)"
  unfolding replace_env_map by (induction xs rule: rev_induct) auto

lemma env_lookup_merge1:
  "env_lookup (merge_env1 xs v) n = (if ev_Name v = n then Some v else env_lookup xs n)"
proof -
  obtain o' r where re: "replace_env v xs = (o', r)" by (cases "replace_env v xs")
  with env_lookup_replaced [of v xs n] replace_env_found [of v xs] show ?thesis
    by (auto simp: merge_env1_def)
qed

lemma mergeEnvVars_names_prefix:
  "prefix (map ev_Name orig) (map ev_Name (mergeEnvVars orig news))"
  unfolding mergeEnvVars_foldl
proof (induction news arbitrary: orig)
  case (Cons v news)
  have "prefix (map ev_Name orig) (map ev_Name (merge_env1 orig v))" by (simp add: merge_env1_names)
  with Cons.IH [of "merge_env1 orig v"] show ?case using prefix_order.trans by auto
qed simp

lemma mergeEnvVars_distinct:
  "distinct (map ev_Name orig) \<Longrightarrow> distinct (map ev_Name (mergeEnvVars orig news))"
  unfolding mergeEnvVars_foldl
  by (induction news arbitrary: orig) (auto simp: merge_env1_names)

lemma mergeEnvVars_entries:
  "e \<in> set (mergeEnvVars orig news) \<longleftrightarrow>
     (case env_lookup news (ev_Name e) of Some v \<Rightarrow> e = v | None \<Rightarrow> e \<in> set orig)"
  unfolding mergeEnvVars_foldl
proof (induction news rule: rev_induct)
  case (snoc v news)
  then show ?case by (auto simp: merge_env1_entries)
qed simp

lemma mergeEnvVars_lookup:
  "env_lookup (mergeEnvVars orig news) n =
     (case env_lookup news n of Some v \<Rightarrow> Some v | None \<Rightarrow> env_lookup orig n)"
  unfolding mergeEnvVars_foldl by (induction news rule: rev_induct) (auto simp: env_lookup_merge1)

lemma mergeStringMaps_simps [simp]:
  "mergeStringMaps None r = (case r of None \<Rightarrow> Map.empty | Some m \<Rightarrow> m)"
  "mergeStringMaps (Some m) (Some n) = m ++ n"
  "mergeStringMaps (Some m) None = m"
  by (auto simp: mergeStringMaps_def split: option.splits)

section \<open>Facts about containers\<close>

lemma RemoveContainer_absent: "name \<notin> c_Name ` set cs \<Longrightarrow> RemoveContainer name cs = cs"
proof -
  assume "name \<notin> c_Name ` set cs"
  then have "FindContainer name cs = None"
    unfolding FindContainer_def find_index_None by auto
  then show ?thesis by (simp add: RemoveContainer_def)
qed

lemma RemoveContainer_Cons:
  "RemoveContainer name (c # cs) = (if c_Name c = name then cs else c # RemoveContainer name cs)"
  by (auto simp: RemoveContainer_def FindContainer_def split: option.splits)

lemma RemoveContainer_Nil [simp]: "RemoveContainer name [] = []"
  by (simp add: RemoveContainer_def FindContainer_def)

text \<open>Every reference of a list of variables is to a key that a secret has.\<close>

definition refs_in_secret :: "string \<Rightarrow> strmap \<Rightarrow> EnvVar list \<Rightarrow> bool" where
  "refs_in_secret name dat vars = list_all (\<lambda>v. case ev_ValueFrom v of
     None \<Rightarrow> True | Some (SecretKeyRef n k) \<Rightarrow> n = name \<and> dat k \<noteq> None | Some _ \<Rightarrow> False) vars"

section \<open>Properties\<close>

text \<open>
  Merging the user's environment variables: the names of the original list keep their order and
  new names follow; each name has the value of its last entry in the user's list, and its original
  value when the user does not give it; and no name that was unique becomes a duplicate.
\<close>

theorem mergeEnvVars_user_wins:
  "prefix (map ev_Name orig) (map ev_Name (mergeEnvVars orig news))
   \<and> (\<forall>n. env_lookup (mergeEnvVars orig news) n =
          (case env_lookup news n of Some v \<Rightarrow> Some v | None \<Rightarrow> env_lookup orig n))
   \<and> (distinct (map ev_Name orig) \<longrightarrow> distinct (map ev_Name (mergeEnvVars orig news)))"
  using mergeEnvVars_names_prefix mergeEnvVars_lookup mergeEnvVars_distinct by blast

theorem mergeEnvVars_user_wins_witness:
  "distinct (map ev_Name (mergeEnvVars [env_value ''A'' ''1'', env_value ''B'' ''2''] [env_value ''B'' ''3'', env_value ''C'' ''4'']))
   \<and> mergeEnvVars [env_value ''A'' ''1'', env_value ''B'' ''2''] [env_value ''B'' ''3'', env_value ''C'' ''4'']
     = [env_value ''A'' ''1'', env_value ''B'' ''3'', env_value ''C'' ''4'']"
  using mergeEnvVars_user_wins [of "[env_value ''A'' ''1'', env_value ''B'' ''2'']" "[env_value ''B'' ''3'', env_value ''C'' ''4'']"]
  by (simp add: env_value_def)



end
