(* ===== verification/Names.thy ===== *)
theory Names
  imports Prelude
begin

unbundle bit_operations_syntax

text \<open>
  Names derived from the installation's name (\<^verbatim>\<open>pkg/components/utils/name.go\<close>): a prefix and the
  first six hexadecimal digits of the MD5 sum.  MD5 is part of Go's standard library and is
  written out on 32-bit words, so that the names can be computed.  The last section renders a
  \<^verbatim>\<open>time.Duration\<close>.
\<close>

section \<open>MD5\<close>

type_synonym md5_state = "32 word \<times> 32 word \<times> 32 word \<times> 32 word"

definition md5_K :: "32 word list" where
  "md5_K = [
      0xd76aa478, 0xe8c7b756, 0x242070db, 0xc1bdceee, 0xf57c0faf, 0x4787c62a,
      0xa8304613, 0xfd469501, 0x698098d8, 0x8b44f7af, 0xffff5bb1, 0x895cd7be,
      0x6b901122, 0xfd987193, 0xa679438e, 0x49b40821, 0xf61e2562, 0xc040b340,
      0x265e5a51, 0xe9b6c7aa, 0xd62f105d, 0x02441453, 0xd8a1e681, 0xe7d3fbc8,
      0x21e1cde6, 0xc33707d6, 0xf4d50d87, 0x455a14ed, 0xa9e3e905, 0xfcefa3f8,
      0x676f02d9, 0x8d2a4c8a, 0xfffa3942, 0x8771f681, 0x6d9d6122, 0xfde5380c,
      0xa4beea44, 0x4bdecfa9, 0xf6bb4b60, 0xbebfbc70, 0x289b7ec6, 0xeaa127fa,
      0xd4ef3085, 0x04881d05, 0xd9d4d039, 0xe6db99e5, 0x1fa27cf8, 0xc4ac5665,
      0xf4292244, 0x432aff97, 0xab9423a7, 0xfc93a039, 0x655b59c3, 0x8f0ccc92,
      0xffeff47d, 0x85845dd1, 0x6fa87e4f, 0xfe2ce6e0, 0xa3014314, 0x4e0811a1,
      0xf7537e82, 0xbd3af235, 0x2ad7d2bb, 0xeb86d391]"

definition md5_S :: "nat list" where
  "md5_S = [
      7, 12, 17, 22, 7, 12, 17, 22, 7, 12, 17, 22, 7, 12, 17, 22,
      5, 9, 14, 20, 5, 9, 14, 20, 5, 9, 14, 20, 5, 9, 14, 20,
      4, 11, 16, 23, 4, 11, 16, 23, 4, 11, 16, 23, 4, 11, 16, 23,
      6, 10, 15, 21, 6, 10, 15, 21, 6, 10, 15, 21, 6, 10, 15, 21]"

text \<open>The bytes of the message, a 1 bit, zeros, and the length in bits on 8 bytes.\<close>

definition char_byte :: "char \<Rightarrow> nat" where
  "char_byte c = of_char c"

fun le_bytes :: "nat \<Rightarrow> nat \<Rightarrow> nat list" where
  "le_bytes 0 n = []"
| "le_bytes (Suc k) n = n mod 256 # le_bytes k (n div 256)"

definition md5_pad :: "nat list \<Rightarrow> nat list" where
  "md5_pad bs = bs @ [128] @ replicate ((119 - length bs mod 64) mod 64) 0 @ le_bytes 8 (8 * length bs)"

fun md5_words :: "nat list \<Rightarrow> 32 word list" where
  "md5_words (a # b # c # d # rest) =
     word_of_nat (a + 256 * b + 65536 * c + 16777216 * d) # md5_words rest"
| "md5_words _ = []"

fun chunks16 :: "'a list \<Rightarrow> 'a list list" where
  "chunks16 [] = []"
| "chunks16 (x # xs) = (x # take 15 xs) # chunks16 (drop 15 xs)"

definition md5_step :: "32 word list \<Rightarrow> nat \<Rightarrow> md5_state \<Rightarrow> md5_state" where
  "md5_step M i = (\<lambda>(a, b, c, d).
     let (f, g) = (if i < 16 then ((b AND c) OR (NOT b AND d), i)
                   else if i < 32 then ((d AND b) OR (NOT d AND c), (5 * i + 1) mod 16)
                   else if i < 48 then (b XOR c XOR d, (3 * i + 5) mod 16)
                   else (c XOR (b OR NOT d), (7 * i) mod 16))
     in (d, b + word_rotl (md5_S ! i) (a + f + md5_K ! i + M ! g), b, c))"

definition md5_chunk :: "md5_state \<Rightarrow> 32 word list \<Rightarrow> md5_state" where
  "md5_chunk st M =
     (let (a, b, c, d) = st; (a', b', c', d') = fold (md5_step M) [0..<64] st
      in (a + a', b + b', c + c', d + d'))"

definition md5_Sum :: "string \<Rightarrow> nat list" where
  "md5_Sum s =
     (let (a, b, c, d) = foldl md5_chunk (0x67452301, 0xefcdab89, 0x98badcfe, 0x10325476)
                           (chunks16 (md5_words (md5_pad (map char_byte s))))
      in concat (map (\<lambda>w. le_bytes 4 (unat w)) [a, b, c, d]))"

section \<open>Resource names\<close>

definition hex_digit :: "nat \<Rightarrow> char" where
  "hex_digit n = (if n < 10 then char_of (48 + n) else char_of (87 + n))"

definition hex_byte :: "nat \<Rightarrow> string" where
  "hex_byte b = [hex_digit (b div 16), hex_digit (b mod 16)]"

definition HashedName :: "string \<Rightarrow> string" where
  "HashedName name =
     (let ss = concat (map hex_byte (md5_Sum name))
      in ToLower (if length ss > 6 then take 6 ss else ss))"

definition HashWithPrefix :: "string \<Rightarrow> string \<Rightarrow> string" where
  "HashWithPrefix pre name = pre @ ''-'' @ HashedName name"

lemma length_le_bytes [simp]: "length (le_bytes k n) = k"
  by (induction k arbitrary: n) auto

lemma le_bytes_range: "b \<in> set (le_bytes k n) \<Longrightarrow> b < 256"
  by (induction k arbitrary: n) auto

lemma length_md5_Sum: "length (md5_Sum s) = 16"
  by (simp add: md5_Sum_def split: prod.splits)

lemma length_hex_bytes: "length (concat (map hex_byte bs)) = 2 * length bs"
  by (induction bs) (auto simp: hex_byte_def)

lemma length_HashedName: "length (HashedName s) = 6"
  by (simp add: HashedName_def Let_def length_hex_bytes length_md5_Sum)

section \<open>Durations\<close>

text \<open>
  \<^verbatim>\<open>Duration.String\<close>: below a second the largest unit that gives a non-zero value, otherwise
  hours, minutes and seconds; fractions without trailing zeros.
\<close>

definition fmt_frac :: "nat \<Rightarrow> nat \<Rightarrow> string" where
  "fmt_frac v prec =
     (let ds = nat_digits (v mod 10 ^ prec);
          padded = replicate (prec - length ds) (CHR ''0'') @ ds;
          kept = rev (dropWhile (\<lambda>c. c = CHR ''0'') (rev padded))
      in if kept = [] then [] else CHR ''.'' # kept)"

definition Duration_String :: "int \<Rightarrow> string" where
  "Duration_String d =
     (let u = nat (abs d);
          body = (if u = 0 then ''0s''
                  else if u < 1000 then nat_digits u @ ''ns''
                  else if u < 1000000
                  then nat_digits (u div 1000) @ fmt_frac u 3 @ [CHR 0xC2, CHR 0xB5, CHR ''s'']
                  else if u < 1000000000 then nat_digits (u div 1000000) @ fmt_frac u 6 @ ''ms''
                  else let secs = u div 1000000000;
                           mins = secs div 60;
                           hours = mins div 60;
                           s = nat_digits (secs mod 60) @ fmt_frac u 9 @ ''s''
                       in if mins = 0 then s
                          else if hours = 0 then nat_digits (mins mod 60) @ ''m'' @ s
                          else nat_digits hours @ ''h'' @ nat_digits (mins mod 60) @ ''m'' @ s)
      in if d < 0 then CHR ''-'' # body else body)"

section \<open>Properties\<close>

text \<open>The characters 0-9 and a-f.\<close>

definition is_lower_hex :: "char \<Rightarrow> bool" where
  "is_lower_hex c = (let n = of_char c :: nat in 48 \<le> n \<and> n \<le> 57 \<or> 97 \<le> n \<and> n \<le> 102)"

lemma hex_digit_lower: "n < 16 \<Longrightarrow> is_lower_hex (lower_char (hex_digit n))"
  by (simp add: is_lower_hex_def lower_char_def hex_digit_def Let_def take_bit_nat_eq_self)

lemma hex_byte_lower: "b < 256 \<Longrightarrow> list_all is_lower_hex (map lower_char (hex_byte b))"
  using hex_digit_lower [of "b div 16"] hex_digit_lower [of "b mod 16"] by (simp add: hex_byte_def)

text \<open>
  A hashed name has a fixed shape, whatever the name is: the prefix, a dash and six lower-case
  hexadecimal digits of the MD5 sum, so the names of the database cluster and its pods stay within
  the length and the alphabet that Kubernetes allows.
\<close>

theorem HashWithPrefix_shape:
  "\<exists>h. HashWithPrefix pre name = pre @ ''-'' @ h \<and> length h = 6 \<and> list_all is_lower_hex h"
proof -
  have "list_all is_lower_hex (ToLower (concat (map hex_byte (md5_Sum name))))"
  proof -
    have "\<forall>b \<in> set (md5_Sum name). b < 256"
      by (auto simp: md5_Sum_def dest: le_bytes_range split: prod.splits)
    then show ?thesis using hex_byte_lower by (auto simp: list_all_iff ToLower_def)
  qed
  moreover have "list_all P xs \<Longrightarrow> list_all P (take n xs)" for P :: "char \<Rightarrow> bool" and n xs
    using list_all_append [of P "take n xs" "drop n xs"] by simp
  ultimately have "list_all is_lower_hex (HashedName name)"
    by (simp add: HashedName_def ToLower_def Let_def flip: take_map)
  then show ?thesis by (auto simp: HashWithPrefix_def length_HashedName)
qed

end
