(* ===== verification/FileStoreConfig.thy ===== *)
theory FileStoreConfig
  imports AppConfig
begin

text \<open>
  File stores (\<^verbatim>\<open>pkg/mattermost/file_store.go\<close>): the four implementations of the Go interface
  \<^verbatim>\<open>FileStoreConfig\<close> and their constructors.  An interface value is a record of its methods.
\<close>

record FileStoreConfig =
  fsc_EnvVars :: "Mattermost \<Rightarrow> EnvVar list"
  fsc_InitContainers :: "Mattermost \<Rightarrow> Container list"
  fsc_Volumes :: "Mattermost \<Rightarrow> Volume list \<times> VolumeMount list"

definition FileStoreDefaultVolumeName :: string where
  "FileStoreDefaultVolumeName = ''mattermost-data''"

section \<open>External object storage\<close>

definition ExternalFileStore :: "FileStoreInfo \<Rightarrow> FileStoreConfig" where
  "ExternalFileStore fsInfo =
     \<lparr>fsc_EnvVars = (\<lambda>mm. s3EnvVars fsInfo),
      fsc_InitContainers = (\<lambda>mm. []),
      fsc_Volumes = (\<lambda>mm. ([], []))\<rparr>"

section \<open>Volumes\<close>

definition pvc_source :: "string \<Rightarrow> VolumeSource" where
  "pvc_source claim = no_source\<lparr>vs_PersistentVolumeClaim := Some claim\<rparr>"

definition data_mount :: VolumeMount where
  "data_mount = \<lparr>vm_Name = FileStoreDefaultVolumeName, vm_MountPath = DefaultLocalFilePath,
     vm_ReadOnly = False, vm_Rest = Opaque []\<rparr>"

definition ExternalVolumeFileStore :: "string \<Rightarrow> FileStoreConfig" where
  "ExternalVolumeFileStore VolumeClaimName =
     \<lparr>fsc_EnvVars = (\<lambda>mm. localFileEnvVars DefaultLocalFilePath),
      fsc_InitContainers = (\<lambda>mm. []),
      fsc_Volumes = (\<lambda>mm. ([\<lparr>vol_Name = FileStoreDefaultVolumeName,
                               vol_Source = pvc_source VolumeClaimName\<rparr>], [data_mount]))\<rparr>"

definition LocalFileStore :: FileStoreConfig where
  "LocalFileStore =
     \<lparr>fsc_EnvVars = (\<lambda>mm. localFileEnvVars DefaultLocalFilePath),
      fsc_InitContainers = (\<lambda>mm. []),
      fsc_Volumes = (\<lambda>mm. ([\<lparr>vol_Name = FileStoreDefaultVolumeName,
                               vol_Source = pvc_source (mm_Name mm)\<rparr>], [data_mount]))\<rparr>"

section \<open>The operator's MinIO\<close>

record OperatorManagedMinioConfig =
  omc_fsInfo :: FileStoreInfo
  omc_secretName :: string
  omc_minioURL :: string

definition minio_init_containers :: "OperatorManagedMinioConfig \<Rightarrow> Mattermost \<Rightarrow> Container list" where
  "minio_init_containers e mm =
     [empty_container\<lparr>c_Name := ''create-minio-bucket'',
        c_Image := ''minio/mc:RELEASE.2025-04-16T18-13-26Z'',
        c_ImagePullPolicy := ''IfNotPresent'',
        c_Command := [''/bin/sh'', ''-c'',
          ''mc config host add localminio http://'' @ omc_minioURL e
          @ '' $(MINIO_ACCESS_KEY) $(MINIO_SECRET_KEY) && mc mb localminio/'' @ mm_Name mm @ '' -q -p''],
        c_Env := [env_from ''MINIO_ACCESS_KEY''
                    (EnvSourceFromSecret (omc_secretName e) fileStoreSecretAccessKey),
                  env_from ''MINIO_SECRET_KEY''
                    (EnvSourceFromSecret (omc_secretName e) fileStoreSecretSecretKey)]\<rparr>,
      empty_container\<lparr>c_Name := ''init-check-minio'',
        c_Image := ''appropriate/curl:latest'',
        c_ImagePullPolicy := ''IfNotPresent'',
        c_Command := [''sh'', ''-c'',
          ''until curl --max-time 5 http://'' @ omc_minioURL e
          @ ''/minio/health/ready; do echo waiting for minio; sleep 5; done;'']\<rparr>]"

definition MinioFileStore :: "OperatorManagedMinioConfig \<Rightarrow> FileStoreConfig" where
  "MinioFileStore e =
     \<lparr>fsc_EnvVars = (\<lambda>mm. s3EnvVars (omc_fsInfo e)),
      fsc_InitContainers = minio_init_containers e,
      fsc_Volumes = (\<lambda>mm. ([], []))\<rparr>"

section \<open>Constructors\<close>

text \<open>The secret is a pointer that is nil when the pod's service account gives access.\<close>

definition NewExternalFileStoreInfo :: "Mattermost \<Rightarrow> Secret option \<Rightarrow> FileStoreConfig outcome" where
  "NewExternalFileStoreInfo mm secret =
     (case fs_External (s_FileStore (mm_Spec mm)) of
        None \<Rightarrow> Err (New ''external file store configuration not provided'')
      | Some ext \<Rightarrow>
          if efs_Bucket ext = [] then Err (New ''external file store bucket is empty'')
          else if efs_URL ext = [] then Err (New ''external file store URL is empty'')
          else case secret of
            None \<Rightarrow> Ok (ExternalFileStore \<lparr>fsi_secretName = [], fsi_bucketName = efs_Bucket ext,
                                          fsi_url = efs_URL ext, fsi_useS3SSL = True\<rparr>)
          | Some sec \<Rightarrow>
              if sec_Data sec ''accesskey'' = None
              then Err (Errorf ''external filestore Secret %s does not have an 'accesskey' value''
                          [om_Name (sec_Meta sec)])
              else if sec_Data sec ''secretkey'' = None
              then Err (Errorf ''external filestore Secret %s does not have an 'secretkey' value''
                          [om_Name (sec_Meta sec)])
              else Ok (ExternalFileStore \<lparr>fsi_secretName = om_Name (sec_Meta sec),
                         fsi_bucketName = efs_Bucket ext, fsi_url = efs_URL ext, fsi_useS3SSL = True\<rparr>))"

definition NewExternalVolumeFileStoreInfo :: "Mattermost \<Rightarrow> FileStoreConfig outcome" where
  "NewExternalVolumeFileStoreInfo mm =
     (case fs_ExternalVolume (s_FileStore (mm_Spec mm)) of
        None \<Rightarrow> Err (New ''external volume file store configuration not provided'')
      | Some ev \<Rightarrow>
          if evs_VolumeClaimName ev = [] then Err (New ''external volume claim name is empty'')
          else Ok (ExternalVolumeFileStore (evs_VolumeClaimName ev)))"

definition NewOperatorManagedFileStoreInfo :: "Mattermost \<Rightarrow> string \<Rightarrow> string \<Rightarrow> FileStoreConfig" where
  "NewOperatorManagedFileStoreInfo mm secret minioURL =
     MinioFileStore \<lparr>omc_fsInfo = \<lparr>fsi_secretName = secret, fsi_bucketName = mm_Name mm,
                                   fsi_url = minioURL, fsi_useS3SSL = False\<rparr>,
                     omc_secretName = secret, omc_minioURL = minioURL\<rparr>"

definition NewLocalFileStoreInfo :: FileStoreConfig where
  "NewLocalFileStoreInfo = LocalFileStore"

section \<open>The interface\<close>

text \<open>
  What the deployment generator relies on: the driver is configured, the variables belong to the
  file store and are listed once, every mount has its volume, and the volumes are of a kind the
  volume validation allows.
\<close>

definition fs_env_names :: "string set" where
  "fs_env_names = {''MM_FILESETTINGS_DRIVERNAME'', ''MM_FILESETTINGS_DIRECTORY'',
     ''MM_FILESETTINGS_AMAZONS3BUCKET'', ''MM_FILESETTINGS_AMAZONS3ENDPOINT'',
     ''MM_FILESETTINGS_AMAZONS3SSL'', ''MM_FILESETTINGS_AMAZONS3ACCESSKEYID'',
     ''MM_FILESETTINGS_AMAZONS3SECRETACCESSKEY''}"

locale file_store_config =
  fixes fs :: FileStoreConfig
  assumes fs_driver: "''MM_FILESETTINGS_DRIVERNAME'' \<in> ev_Name ` set (fsc_EnvVars fs mm)"
    and fs_distinct: "distinct (map ev_Name (fsc_EnvVars fs mm))"
    and fs_names: "ev_Name ` set (fsc_EnvVars fs mm) \<subseteq> fs_env_names"
    and fs_mounts: "vm_Name ` set (snd (fsc_Volumes fs mm)) \<subseteq> vol_Name ` set (fst (fsc_Volumes fs mm))"
    and fs_allowed: "v \<in> set (fst (fsc_Volumes fs mm)) \<Longrightarrow> vol_isAllowed (vol_Source v)"
begin

lemma fs_env_member: "e \<in> set (fsc_EnvVars fs mm) \<Longrightarrow> ev_Name e \<in> fs_env_names"
  using fs_names by blast

lemma fs_mount_has_volume:
  "m \<in> set (snd (fsc_Volumes fs mm)) \<Longrightarrow> \<exists>v \<in> set (fst (fsc_Volumes fs mm)). vol_Name v = vm_Name m"
  using fs_mounts by force

end

lemmas file_store_defs = ExternalFileStore_def ExternalVolumeFileStore_def LocalFileStore_def
  MinioFileStore_def s3EnvVars_def localFileEnvVars_def fs_env_names_def data_mount_def
  pvc_source_def vol_isAllowed_def

lemma file_store_config_External: "file_store_config (ExternalFileStore i)"
  by unfold_locales (auto simp: file_store_defs)

lemma file_store_config_ExternalVolume: "file_store_config (ExternalVolumeFileStore c)"
  by unfold_locales (auto simp: file_store_defs)

lemma file_store_config_Local: "file_store_config LocalFileStore"
  by unfold_locales (auto simp: file_store_defs)

lemma file_store_config_Minio: "file_store_config (MinioFileStore e)"
  by unfold_locales (auto simp: file_store_defs)

interpretation external_fs: file_store_config "ExternalFileStore i" for i
  by (rule file_store_config_External)

interpretation external_volume_fs: file_store_config "ExternalVolumeFileStore c" for c
  by (rule file_store_config_ExternalVolume)

interpretation local_fs: file_store_config LocalFileStore
  by (rule file_store_config_Local)

interpretation minio_fs: file_store_config "MinioFileStore e" for e
  by (rule file_store_config_Minio)

lemma NewExternalFileStoreInfo_Ok:
  assumes "NewExternalFileStoreInfo mm secret = Ok c"
  shows "\<exists>ext. fs_External (s_FileStore (mm_Spec mm)) = Some ext \<and> efs_Bucket ext \<noteq> [] \<and> efs_URL ext \<noteq> []
     \<and> c = ExternalFileStore
             \<lparr>fsi_secretName = (case secret of None \<Rightarrow> [] | Some s \<Rightarrow> om_Name (sec_Meta s)),
              fsi_bucketName = efs_Bucket ext, fsi_url = efs_URL ext, fsi_useS3SSL = True\<rparr>
     \<and> (case secret of None \<Rightarrow> True
        | Some s \<Rightarrow> sec_Data s ''accesskey'' \<noteq> None \<and> sec_Data s ''secretkey'' \<noteq> None)"
  using assms by (auto simp: NewExternalFileStoreInfo_def split: option.splits if_splits)

section \<open>Properties\<close>

text \<open>
  The S3 configuration of an external file store needs a bucket and an endpoint; with a secret it
  needs both credentials and refers to that secret only; without a secret, when the service account
  gives access, it refers to none.  It never turns TLS off.
\<close>

theorem external_file_store_refs_exist:
  assumes "NewExternalFileStoreInfo mm secret = Ok c"
  shows "\<exists>ext. fs_External (s_FileStore (mm_Spec mm)) = Some ext \<and> efs_Bucket ext \<noteq> [] \<and> efs_URL ext \<noteq> []
     \<and> env_lookup (fsc_EnvVars c mm) ''MM_FILESETTINGS_AMAZONS3BUCKET''
         = Some (env_value ''MM_FILESETTINGS_AMAZONS3BUCKET'' (efs_Bucket ext))
     \<and> env_lookup (fsc_EnvVars c mm) ''MM_FILESETTINGS_AMAZONS3SSL''
         = Some (env_value ''MM_FILESETTINGS_AMAZONS3SSL'' ''true'')
     \<and> (case secret of
          None \<Rightarrow> list_all (\<lambda>v. ev_ValueFrom v = None) (fsc_EnvVars c mm)
        | Some s \<Rightarrow> refs_in_secret (om_Name (sec_Meta s)) (sec_Data s) (fsc_EnvVars c mm))"
proof -
  from NewExternalFileStoreInfo_Ok [OF assms] obtain ext where
    ext: "fs_External (s_FileStore (mm_Spec mm)) = Some ext" "efs_Bucket ext \<noteq> []" "efs_URL ext \<noteq> []"
    and c: "c = ExternalFileStore
             \<lparr>fsi_secretName = (case secret of None \<Rightarrow> [] | Some s \<Rightarrow> om_Name (sec_Meta s)),
              fsi_bucketName = efs_Bucket ext, fsi_url = efs_URL ext, fsi_useS3SSL = True\<rparr>"
    and s: "case secret of None \<Rightarrow> True
        | Some s \<Rightarrow> sec_Data s ''accesskey'' \<noteq> None \<and> sec_Data s ''secretkey'' \<noteq> None"
    by blast
  show ?thesis
    using ext s unfolding c
    by (auto simp: ExternalFileStore_def s3EnvVars_def env_lookup_def refs_in_secret_def env_value_def
        env_from_def EnvSourceFromSecret_def FormatBool_def fileStoreSecretAccessKey_def
        fileStoreSecretSecretKey_def split: option.splits)
qed

definition demo_s3_spec :: MattermostSpec where
  "demo_s3_spec = zero_spec\<lparr>s_FileStore := (s_FileStore zero_spec)\<lparr>fs_External :=
     Some \<lparr>efs_URL = ''s3.amazonaws.com'', efs_Bucket = ''mm-files'', efs_Secret = ''s3'',
           efs_UseServiceAccount = False\<rparr>\<rparr>\<rparr>"

theorem external_file_store_refs_exist_witness:
  "\<exists>c. NewExternalFileStoreInfo (new_mattermost ''mm'' ''apps'' demo_s3_spec) None = Ok c
     \<and> list_all (\<lambda>v. ev_ValueFrom v = None) (fsc_EnvVars c (new_mattermost ''mm'' ''apps'' demo_s3_spec))"
proof -
  obtain c where c: "NewExternalFileStoreInfo (new_mattermost ''mm'' ''apps'' demo_s3_spec) None = Ok c"
    by (simp add: NewExternalFileStoreInfo_def demo_s3_spec_def)
  from external_file_store_refs_exist [OF c] c show ?thesis by auto
qed

end
