(* ===== verification/Generators.thy ===== *)
theory Generators
  imports DatabaseConfig FileStoreConfig
begin

text \<open>
  The Kubernetes objects generated for a \<^verbatim>\<open>Mattermost\<close> resource: \<^verbatim>\<open>pkg/mattermost/mattermost_v1beta.go\<close>.
  The label helpers and the licence annotations write into maps of the resource, so a generator
  returns the object together with the resource as it leaves it.
\<close>

definition ingressClassAnnotation :: string where
  "ingressClassAnnotation = ''kubernetes.io/ingress.class''"
definition defaultIngressPathType :: string where
  "defaultIngressPathType = ''ImplementationSpecific''"
definition SetupJobName :: string where "SetupJobName = ''mattermost-db-setup''"

definition MattermostOwnerReference :: "Mattermost \<Rightarrow> OwnerReference list" where
  "MattermostOwnerReference mm =
     [\<lparr>or_Group = ''installation.mattermost.com'', or_Version = ''v1beta1'', or_Kind = ''Mattermost'',
       or_Name = mm_Name mm, or_UID = om_UID (mm_Meta mm), or_Controller = True\<rparr>]"

section \<open>Services\<close>

definition newServiceV1Beta :: "Mattermost \<Rightarrow> strmap \<Rightarrow> Service \<times> Mattermost" where
  "newServiceV1Beta mm annotations =
     (let (labels, mm1) = MattermostLabels mm (mm_Name mm)
      in (zero_service\<lparr>
            svc_Meta := empty_meta\<lparr>om_Labels := labels, om_Name := mm_Name mm,
              om_Namespace := mm_Namespace mm, om_OwnerReferences := MattermostOwnerReference mm,
              om_Annotations := MapLit annotations\<rparr>,
            svc_Selector := MapLit (MattermostSelectorLabels (mm_Name mm)),
            svc_PublishNotReadyAddresses := True\<rparr>, mm1))"

definition configureMattermostServicePorts :: "Service \<Rightarrow> Service" where
  "configureMattermostServicePorts service =
     service\<lparr>svc_Ports :=
       [\<lparr>sp_Name = ''app'', sp_Port = 8065, sp_AppProtocol = Some ''http'', sp_TargetPort = ''app''\<rparr>,
        \<lparr>sp_Name = ''metrics'', sp_Port = 8067, sp_AppProtocol = Some ''http'',
          sp_TargetPort = ''metrics''\<rparr>]\<rparr>"

definition configureMattermostLoadBalancerService :: "Service \<Rightarrow> Service" where
  "configureMattermostLoadBalancerService service =
     service\<lparr>svc_Ports :=
       [\<lparr>sp_Name = ''http'', sp_Port = 80, sp_AppProtocol = Some ''http'', sp_TargetPort = ''app''\<rparr>,
        \<lparr>sp_Name = ''https'', sp_Port = 443, sp_AppProtocol = Some ''https'', sp_TargetPort = ''app''\<rparr>],
       svc_Type := ''LoadBalancer''\<rparr>"

definition configureMattermostService :: "Service \<Rightarrow> Service" where
  "configureMattermostService service =
     (configureMattermostServicePorts service)\<lparr>svc_ClusterIP := ''None'', svc_Type := ''ClusterIP''\<rparr>"

definition configureMattermostServiceNodePort :: "Service \<Rightarrow> Service" where
  "configureMattermostServiceNodePort service =
     (configureMattermostServicePorts service)\<lparr>svc_Type := ''NodePort''\<rparr>"

definition GenerateServiceV1Beta :: "Mattermost \<Rightarrow> Service \<times> Mattermost" where
  "GenerateServiceV1Beta mm =
     (let annotations = mergeStringMaps None (s_ServiceAnnotations (mm_Spec mm));
          (service, mm1) = newServiceV1Beta mm annotations
      in if AWSLoadBalancerEnabled mm then (configureMattermostServiceNodePort service, mm1)
         else if s_UseServiceLoadBalancer (mm_Spec mm)
         then (configureMattermostLoadBalancerService service, mm1)
         else (configureMattermostService service, mm1))"

section \<open>Ingresses\<close>

definition safe_annotation :: "string \<Rightarrow> string \<Rightarrow> bool" where
  "safe_annotation k v =
     (\<not> Contains (ToLower k) ''snippet'' \<and> \<not> ContainsAny v [CHR 0x0D, CHR 0x0A])"

definition sanitizeIngressAnnotations :: "strmap option \<Rightarrow> strmap option" where
  "sanitizeIngressAnnotations annotations =
     (case annotations of None \<Rightarrow> None | Some m \<Rightarrow> Some (keeps safe_annotation m))"

text \<open>\<^verbatim>\<open>for k, v := range src { dst[k] = v }\<close>, for a map that can be nil.\<close>

definition write_all :: "strmap \<Rightarrow> strmap option \<Rightarrow> strmap" where
  "write_all dst src = (case src of None \<Rightarrow> dst | Some m \<Rightarrow> dst ++ m)"

definition makeIngressRules :: "string list \<Rightarrow> Mattermost \<Rightarrow> IngressRule list" where
  "makeIngressRules hosts mm =
     map (\<lambda>host. \<lparr>ir_Host = host,
                  ir_Paths = [\<lparr>ip_Path = ''/'', ip_ServiceName = mm_Name mm, ip_ServicePort = 8065,
                               ip_PathType = defaultIngressPathType\<rparr>]\<rparr>) hosts"

definition ingress_meta :: "Mattermost \<Rightarrow> gomap \<Rightarrow> gomap \<Rightarrow> ObjectMeta" where
  "ingress_meta mm labels annotations =
     empty_meta\<lparr>om_Name := mm_Name mm, om_Namespace := mm_Namespace mm, om_Labels := labels,
       om_OwnerReferences := MattermostOwnerReference mm, om_Annotations := annotations\<rparr>"

definition nginx_annotations :: "Mattermost \<Rightarrow> strmap" where
  "nginx_annotations mm =
     (let base = [proxyBodySizeAnnotation \<mapsto> ''1000M''];
          base' = (if GetIngressClass mm = None then base(ingressClassAnnotation \<mapsto> ''nginx'') else base)
      in write_all base' (sanitizeIngressAnnotations (GetIngresAnnotations mm)))"

definition GenerateIngressV1Beta :: "Mattermost \<Rightarrow> IngressObj \<times> Mattermost" where
  "GenerateIngressV1Beta mm =
     (let ingressAnnotations = nginx_annotations mm;
          hosts = GetIngressHostNames mm;
          (labels, mm1) = MattermostLabels mm (mm_Name mm)
      in (\<lparr>i_Meta = ingress_meta mm labels (MapLit ingressAnnotations),
           i_IngressClassName = GetIngressClass mm,
           i_Rules = makeIngressRules hosts mm,
           i_TLS = (if GetIngressTLSSecret mm \<noteq> []
                    then [\<lparr>it_Hosts = hosts, it_SecretName = GetIngressTLSSecret mm\<rparr>] else [])\<rparr>, mm1))"

definition GenerateALBIngressClassV1Beta :: "Mattermost \<Rightarrow> IngressClass \<times> Mattermost" where
  "GenerateALBIngressClassV1Beta mm =
     (let (labels, mm1) = MattermostLabels mm (mm_Name mm)
      in (\<lparr>ic_Meta = empty_meta\<lparr>om_Name := mm_Name mm, om_Namespace := mm_Namespace mm,
             om_Labels := labels, om_OwnerReferences := MattermostOwnerReference mm\<rparr>,
           ic_Controller = ''ingress.k8s.aws/alb''\<rparr>, mm1))"

definition listen_ports_tls :: string where
  "listen_ports_tls = ''[{'' @ shell_quoted ''HTTP'' @ '': 80}, {'' @ shell_quoted ''HTTPS'' @ '':443}]''"

definition listen_ports_plain :: string where
  "listen_ports_plain = ''[{'' @ shell_quoted ''HTTP'' @ '': 8065}]''"

definition alb_annotations :: "AWSLoadBalancerController \<Rightarrow> strmap" where
  "alb_annotations aws =
     (let scheme = [''alb.ingress.kubernetes.io/scheme'' \<mapsto>
                      (if aws_InternetFacing aws then ''internet-facing'' else ''internal'')]
      in if aws_CertificateARN aws \<noteq> []
         then scheme(''alb.ingress.kubernetes.io/certificate-arn'' \<mapsto> aws_CertificateARN aws,
                     ''alb.ingress.kubernetes.io/ssl-redirect'' \<mapsto> ''443'',
                     ''alb.ingress.kubernetes.io/listen-ports'' \<mapsto> listen_ports_tls)
         else scheme(''alb.ingress.kubernetes.io/listen-ports'' \<mapsto> listen_ports_plain))"

definition GenerateALBIngressV1Beta :: "Mattermost \<Rightarrow> (IngressObj \<times> Mattermost) outcome" where
  "GenerateALBIngressV1Beta mm =
     (case s_AWSLoadBalancerController (mm_Spec mm) of
        None \<Rightarrow> Panic ''nil AWSLoadBalancerController''
      | Some aws \<Rightarrow>
          bindO (GetAWSLoadBalancerIngressAnnotations mm) (\<lambda>userAnnotations.
          let ingressAnnotations = write_all (alb_annotations aws) (sanitizeIngressAnnotations userAnnotations);
              hosts = GetAWSLoadBalancerHostNames mm;
              (labels, mm1) = MattermostLabels mm (mm_Name mm)
          in Ok (\<lparr>i_Meta = ingress_meta mm labels (MapLit ingressAnnotations),
                  i_IngressClassName = Some (if aws_IngressClassName aws \<noteq> [] then aws_IngressClassName aws
                                             else mm_Name mm),
                  i_Rules = makeIngressRules hosts mm,
                  i_TLS = []\<rparr>, mm1)))"

section \<open>Deployments\<close>

definition mattermostLicenceConfig :: "string \<Rightarrow> EnvVar \<times> VolumeMount \<times> Volume \<times> strmap" where
  "mattermostLicenceConfig secret =
     (env_value ''MM_SERVICESETTINGS_LICENSEFILELOCATION'' ''/mattermost-license/license'',
      \<lparr>vm_Name = ''mattermost-license'', vm_MountPath = ''/mattermost-license'', vm_ReadOnly = True,
       vm_Rest = Opaque []\<rparr>,
      \<lparr>vol_Name = ''mattermost-license'', vol_Source = no_source\<lparr>vs_Secret := Some secret\<rparr>\<rparr>,
      [''prometheus.io/scrape'' \<mapsto> ''true'', ''prometheus.io/path'' \<mapsto> ''/metrics'',
       ''prometheus.io/port'' \<mapsto> ''8067''])"

definition has_licence :: "Mattermost \<Rightarrow> bool" where
  "has_licence mm = (s_LicenseSecret (mm_Spec mm) \<noteq> [])"

definition deployment_ports :: "Mattermost \<Rightarrow> ContainerPort list" where
  "deployment_ports mm =
     [\<lparr>cp_Name = ''app'', cp_ContainerPort = 8065, cp_Rest = Opaque []\<rparr>,
      \<lparr>cp_Name = ''metrics'', cp_ContainerPort = 8067, cp_Rest = Opaque []\<rparr>]
     @ pe_ContainerPorts (s_PodExtensions (mm_Spec mm))"

text \<open>The settings of the application itself, in the order they are appended.\<close>

definition deployment_body_size :: "Mattermost \<Rightarrow> string outcome" where
  "deployment_body_size mm =
     (let bodySize = Itoa (defaultMaxFileSize * sizeMB)
      in if s_UseServiceLoadBalancer (mm_Spec mm) then Ok bodySize
         else determineMaxBodySize
                (case GetIngresAnnotations mm of None \<Rightarrow> Map.empty | Some m \<Rightarrow> m) bodySize)"

definition deployment_general_env :: "Mattermost \<Rightarrow> string \<Rightarrow> EnvVar list outcome" where
  "deployment_general_env mm ingressHost =
     bindO (deployment_body_size mm) (\<lambda>bodySize. Ok (
       generalMattermostEnvVars (siteURLFromHost ingressHost)
       @ [env_value ''MM_FILESETTINGS_MAXFILESIZE'' bodySize]
       @ (case s_JobServer (mm_Spec mm) of
            None \<Rightarrow> []
          | Some js \<Rightarrow> if js_DedicatedJobServer js then [env_value ''MM_JOBSETTINGS_RUNJOBS'' ''false''] else [])
       @ (if has_licence mm then [fst (mattermostLicenceConfig (s_LicenseSecret (mm_Spec mm)))] else [])))"

definition deployment_es_env :: "Mattermost \<Rightarrow> EnvVar list" where
  "deployment_es_env mm =
     (let es = s_ElasticSearch (mm_Spec mm)
      in if es_Host es \<noteq> [] then elasticSearchEnvVars (es_Host es) (es_UserName es) (es_Password es) else [])"

definition deployment_env ::
  "Mattermost \<Rightarrow> DatabaseConfig \<Rightarrow> FileStoreConfig \<Rightarrow> string \<Rightarrow> EnvVar list outcome" where
  "deployment_env mm db fileStore ingressHost =
     bindO (deployment_general_env mm ingressHost) (\<lambda>envVarGeneral. Ok (
       mergeEnvVars (dbc_EnvVars db mm @ fsc_EnvVars fileStore mm @ deployment_es_env mm @ envVarGeneral)
         (s_MattermostEnv (mm_Spec mm))))"

text \<open>
  The pod annotations are the map object of the pod template when it is set, and the licence's
  Prometheus annotations are written into that object.
\<close>

definition deployment_annotations :: "Mattermost \<Rightarrow> gomap \<times> Mattermost" where
  "deployment_annotations mm =
     (let licence = (if has_licence mm
                     then snd (snd (snd (mattermostLicenceConfig (s_LicenseSecret (mm_Spec mm)))))
                     else Map.empty)
      in case s_PodTemplate (mm_Spec mm) of
           None \<Rightarrow> (MapLit licence, mm)
         | Some t \<Rightarrow>
             (case ptm_ExtraAnnotations t of
                None \<Rightarrow> (MapLit licence, mm)
              | Some m \<Rightarrow> (MapAt PodExtraAnnotationsLoc,
                   mm\<lparr>mm_Spec := (mm_Spec mm)\<lparr>s_PodTemplate :=
                        Some (t\<lparr>ptm_ExtraAnnotations := Some (m ++ licence)\<rparr>)\<rparr>\<rparr>)))"

definition deployment_volumes :: "Mattermost \<Rightarrow> FileStoreConfig \<Rightarrow> Volume list" where
  "deployment_volumes mm fileStore =
     s_Volumes (mm_Spec mm) @ fst (fsc_Volumes fileStore mm)
     @ (if has_licence mm then [fst (snd (snd (mattermostLicenceConfig (s_LicenseSecret (mm_Spec mm)))))] else [])"

definition deployment_mounts :: "Mattermost \<Rightarrow> FileStoreConfig \<Rightarrow> VolumeMount list" where
  "deployment_mounts mm fileStore =
     s_VolumeMounts (mm_Spec mm) @ snd (fsc_Volumes fileStore mm)
     @ (if has_licence mm then [fst (snd (mattermostLicenceConfig (s_LicenseSecret (mm_Spec mm))))] else [])"

definition deployment_revision_limit :: "Mattermost \<Rightarrow> int option" where
  "deployment_revision_limit mm =
     (case s_DeploymentTemplate (mm_Spec mm) of
        None \<Rightarrow> Some defaultRevHistoryLimit
      | Some t \<Rightarrow> (case dt_RevisionHistoryLimit t of None \<Rightarrow> Some defaultRevHistoryLimit | Some n \<Rightarrow> Some n))"

definition deployment_strategy :: "Mattermost \<Rightarrow> DeploymentStrategy" where
  "deployment_strategy mm =
     (let rolling = \<lparr>st_Type = ''RollingUpdate'',
                     st_RollingUpdate = Some (defaultMaxUnavailable, defaultMaxSurge)\<rparr>
      in case s_DeploymentTemplate (mm_Spec mm) of
           None \<Rightarrow> rolling
         | Some t \<Rightarrow> if dt_DeploymentStrategyType t = ''Recreate''
                     then \<lparr>st_Type = ''Recreate'', st_RollingUpdate = None\<rparr> else rolling)"

definition deployment_command :: "Mattermost \<Rightarrow> string list" where
  "deployment_command mm =
     (case s_PodTemplate (mm_Spec mm) of
        None \<Rightarrow> [''mattermost'']
      | Some t \<Rightarrow> (case ptm_Command t of None \<Rightarrow> [''mattermost''] | Some c \<Rightarrow> c))"

definition deployment_containers ::
  "Mattermost \<Rightarrow> FileStoreConfig \<Rightarrow> EnvVar list \<Rightarrow> string \<Rightarrow> Container list" where
  "deployment_containers mm fileStore envVars containerImage =
     (let (liveness, readiness) = setProbes (prb_LivenessProbe (s_Probes (mm_Spec mm)))
                                            (prb_ReadinessProbe (s_Probes (mm_Spec mm)))
      in [\<lparr>c_Name = MattermostAppContainerName,
           c_Image = containerImage,
           c_ImagePullPolicy = s_ImagePullPolicy (mm_Spec mm),
           c_TerminationMessagePolicy = ''FallbackToLogsOnError'',
           c_Command = deployment_command mm,
           c_Args = [],
           c_Env = envVars,
           c_Ports = deployment_ports mm,
           c_ReadinessProbe = Some readiness,
           c_LivenessProbe = Some liveness,
           c_VolumeMounts = deployment_mounts mm fileStore,
           c_Resources = sch_Resources (s_Scheduling (mm_Spec mm)),
           c_SecurityContext = Option.bind (s_PodTemplate (mm_Spec mm)) ptm_ContainerSecurityContext,
           c_Rest = Opaque []\<rparr>]
         @ pe_SidecarContainers (s_PodExtensions (mm_Spec mm)))"

definition GenerateDeploymentV1Beta ::
  "Mattermost \<Rightarrow> DatabaseConfig \<Rightarrow> FileStoreConfig \<Rightarrow> string \<Rightarrow> string \<Rightarrow> string \<Rightarrow> string
     \<Rightarrow> (Deployment \<times> Mattermost) outcome" where
  "GenerateDeploymentV1Beta mm db fileStore deploymentName ingressHost serviceAccountName containerImage =
     bindO (deployment_env mm db fileStore ingressHost) (\<lambda>envVars.
     let initContainers = dbc_InitContainers db mm @ fsc_InitContainers fileStore mm
                          @ pe_InitContainers (s_PodExtensions (mm_Spec mm));
         sch = s_Scheduling (mm_Spec mm);
         (podAnnotations, mm1) = deployment_annotations mm;
         (labels, mm2) = MattermostLabels mm1 deploymentName;
         (podLabels, mm3) = MattermostPodLabels mm2 deploymentName
     in Ok (zero_deployment\<lparr>
              d_Meta := empty_meta\<lparr>om_Name := deploymentName, om_Namespace := mm_Namespace mm,
                om_Labels := labels, om_OwnerReferences := MattermostOwnerReference mm\<rparr>,
              d_Strategy := deployment_strategy mm,
              d_RevisionHistoryLimit := deployment_revision_limit mm,
              d_Replicas := s_Replicas (mm_Spec mm),
              d_Selector := MapLit (MattermostSelectorLabels deploymentName),
              d_Template := \<lparr>pt_Labels = podLabels, pt_Annotations = podAnnotations,
                pt_Spec = zero_pod_spec\<lparr>ps_ServiceAccountName := serviceAccountName,
                  ps_InitContainers := initContainers,
                  ps_Containers := deployment_containers mm fileStore envVars containerImage,
                  ps_ImagePullSecrets := s_ImagePullSecrets (mm_Spec mm),
                  ps_Volumes := deployment_volumes mm fileStore,
                  ps_DNSConfig := s_DNSConfig (mm_Spec mm),
                  ps_DNSPolicy := s_DNSPolicy (mm_Spec mm),
                  ps_Affinity := sch_Affinity sch,
                  ps_NodeSelector := sch_NodeSelector sch,
                  ps_Tolerations := sch_Tolerations sch,
                  ps_SecurityContext := Option.bind (s_PodTemplate (mm_Spec mm)) ptm_SecurityContext\<rparr>\<rparr>\<rparr>,
            mm3))"

definition job_server_container :: "Container \<Rightarrow> Container" where
  "job_server_container c =
     c\<lparr>c_Name := MattermostJobServerContainerName,
       c_Command := [''mattermost'', ''jobserver''],
       c_Ports := [], c_LivenessProbe := None, c_ReadinessProbe := None\<rparr>"

definition GenerateJobServerDeploymentV1Beta ::
  "Mattermost \<Rightarrow> DatabaseConfig \<Rightarrow> FileStoreConfig \<Rightarrow> string \<Rightarrow> string \<Rightarrow> string \<Rightarrow> string
     \<Rightarrow> (Deployment \<times> Mattermost) outcome" where
  "GenerateJobServerDeploymentV1Beta mm db fileStore deploymentName ingressHost serviceAccountName containerImage =
     bindO (GenerateDeploymentV1Beta mm db fileStore (mm_Name mm) (GetIngressHost mm) (mm_Name mm)
              (GetImageName mm)) (\<lambda>(deployment, mm1).
     let (podLabels, mm2) = MattermostJobServerPodLabels mm1 deploymentName;
         (selector, mm3) = MattermostJobServerPodLabels mm2 deploymentName;
         tmpl = d_Template deployment
     in case ps_Containers (pt_Spec tmpl) of
          [] \<Rightarrow> Panic ''index out of range [0]''
        | mattermostContainer # _ \<Rightarrow>
            Ok (deployment\<lparr>
                  d_Meta := (d_Meta deployment)\<lparr>om_Name := deploymentName @ ''-jobserver''\<rparr>,
                  d_Replicas := Some 1,
                  d_Selector := selector,
                  d_Template := tmpl\<lparr>pt_Labels := podLabels,
                    pt_Spec := (pt_Spec tmpl)\<lparr>ps_Containers := [job_server_container mattermostContainer]\<rparr>\<rparr>\<rparr>,
                mm3))"

section \<open>Secrets and access control\<close>

definition GenerateSecretV1Beta :: "Mattermost \<Rightarrow> string \<Rightarrow> strmap \<Rightarrow> strmap \<Rightarrow> Secret" where
  "GenerateSecretV1Beta mm secretName labels vals =
     \<lparr>sec_Meta = empty_meta\<lparr>om_Labels := MapLit labels, om_Name := secretName,
        om_Namespace := mm_Namespace mm, om_OwnerReferences := MattermostOwnerReference mm\<rparr>,
      sec_Data = vals, sec_StringData = Map.empty\<rparr>"

definition GenerateServiceAccountV1Beta :: "Mattermost \<Rightarrow> string \<Rightarrow> ServiceAccount" where
  "GenerateServiceAccountV1Beta mm saName =
     \<lparr>sa_Meta = empty_meta\<lparr>om_Name := saName, om_Namespace := mm_Namespace mm,
        om_OwnerReferences := MattermostOwnerReference mm\<rparr>\<rparr>"

definition mattermostRolePermissions :: "PolicyRule list" where
  "mattermostRolePermissions =
     [\<lparr>rule_Verbs = [''get'', ''list'', ''watch''], rule_APIGroups = [''batch''],
       rule_Resources = [''jobs''], rule_ResourceNames = [SetupJobName]\<rparr>]"

definition GenerateRoleV1Beta :: "Mattermost \<Rightarrow> string \<Rightarrow> Role" where
  "GenerateRoleV1Beta mm roleName =
     \<lparr>role_Meta = empty_meta\<lparr>om_Name := roleName, om_Namespace := mm_Namespace mm,
        om_OwnerReferences := MattermostOwnerReference mm\<rparr>,
      role_Rules = mattermostRolePermissions\<rparr>"

definition GenerateRoleBindingV1Beta :: "Mattermost \<Rightarrow> string \<Rightarrow> string \<Rightarrow> RoleBinding" where
  "GenerateRoleBindingV1Beta mm roleName saName =
     \<lparr>rb_Meta = empty_meta\<lparr>om_Name := roleName, om_Namespace := mm_Namespace mm,
        om_OwnerReferences := MattermostOwnerReference mm\<rparr>,
      rb_Subjects = [\<lparr>sub_Kind = ''ServiceAccount'', sub_Name = saName, sub_Namespace = mm_Namespace mm\<rparr>],
      rb_RoleRef_Kind = ''Role'', rb_RoleRef_Name = roleName\<rparr>"

section \<open>Facts about services and ingresses\<close>

lemma write_all_Some: "write_all d s k = Some v \<longleftrightarrow>
    (\<exists>m. s = Some m \<and> m k = Some v) \<or> (d k = Some v \<and> (\<forall>m. s = Some m \<longrightarrow> m k = None))"
  by (auto simp: write_all_def map_add_Some_iff split: option.splits)

lemma sanitize_Some: "sanitizeIngressAnnotations a = Some m \<longleftrightarrow> (\<exists>u. a = Some u \<and> m = keeps safe_annotation u)"
  by (auto simp: sanitizeIngressAnnotations_def split: option.splits)

lemma safe_fixed_annotations:
  "safe_annotation proxyBodySizeAnnotation ''1000M''"
  "safe_annotation ingressClassAnnotation ''nginx''"
  "safe_annotation ''alb.ingress.kubernetes.io/scheme'' ''internet-facing''"
  "safe_annotation ''alb.ingress.kubernetes.io/scheme'' ''internal''"
  "safe_annotation ''alb.ingress.kubernetes.io/ssl-redirect'' ''443''"
  "safe_annotation ''alb.ingress.kubernetes.io/listen-ports'' listen_ports_tls"
  "safe_annotation ''alb.ingress.kubernetes.io/listen-ports'' listen_ports_plain"
  by code_simp+

lemma nginx_annotations_safe:
  "nginx_annotations mm k = Some v \<Longrightarrow> safe_annotation k v"
  using safe_fixed_annotations
  by (auto simp: nginx_annotations_def Let_def write_all_Some sanitize_Some split: if_splits)

lemma alb_annotations_safe:
  "write_all (alb_annotations aws) (sanitizeIngressAnnotations u) k = Some v \<Longrightarrow>
     safe_annotation k v \<or> (k = ''alb.ingress.kubernetes.io/certificate-arn'' \<and> v = aws_CertificateARN aws)"
  using safe_fixed_annotations
  by (auto simp: alb_annotations_def Let_def write_all_Some sanitize_Some split: if_splits)

lemma nginx_annotations_user:
  assumes "GetIngresAnnotations mm = Some u" and "u k = Some v" and "safe_annotation k v"
  shows "nginx_annotations mm k = Some v"
  using assms by (auto simp: nginx_annotations_def Let_def write_all_Some sanitize_Some split: if_splits)

lemma MattermostLabels_frame:
  assumes "MattermostLabels mm n = (g, mm')"
  shows "mm_Meta mm' = mm_Meta mm \<and> mm_Status mm' = mm_Status mm"
  using write_labels_frame assms unfolding label_defs by blast

section \<open>Facts about deployments\<close>

definition general_env_names :: "string set" where
  "general_env_names = {''MM_PLUGINSETTINGS_ENABLEUPLOADS'', ''MM_METRICSSETTINGS_ENABLE'',
     ''MM_METRICSSETTINGS_LISTENADDRESS'', ''MM_CLUSTERSETTINGS_ENABLE'',
     ''MM_CLUSTERSETTINGS_CLUSTERNAME'', ''MM_INSTALL_TYPE'', ''MM_SERVICESETTINGS_SITEURL'',
     ''MM_FILESETTINGS_MAXFILESIZE'', ''MM_JOBSETTINGS_RUNJOBS'',
     ''MM_SERVICESETTINGS_LICENSEFILELOCATION''}"

definition es_env_names :: "string set" where
  "es_env_names = {''MM_ELASTICSEARCHSETTINGS_ENABLEINDEXING'',
     ''MM_ELASTICSEARCHSETTINGS_ENABLESEARCHING'', ''MM_ELASTICSEARCHSETTINGS_CONNECTIONURL'',
     ''MM_ELASTICSEARCHSETTINGS_USERNAME'', ''MM_ELASTICSEARCHSETTINGS_PASSWORD''}"

lemma env_names_disjoint:
  "db_env_names \<inter> fs_env_names = {}" "db_env_names \<inter> es_env_names = {}"
  "db_env_names \<inter> general_env_names = {}" "fs_env_names \<inter> es_env_names = {}"
  "fs_env_names \<inter> general_env_names = {}" "es_env_names \<inter> general_env_names = {}"
  by (simp_all add: db_env_names_def fs_env_names_def es_env_names_def general_env_names_def)

lemma general_env_ok:
  assumes "deployment_general_env mm h = Ok env"
  shows "distinct (map ev_Name env) \<and> ev_Name ` set env \<subseteq> general_env_names"
  using assms
  by (auto simp: deployment_general_env_def bindO_eq_Ok generalMattermostEnvVars_def
      general_env_names_def mattermostLicenceConfig_def split: option.splits if_splits)

lemma es_env_ok:
  "distinct (map ev_Name (deployment_es_env mm)) \<and> ev_Name ` set (deployment_es_env mm) \<subseteq> es_env_names"
  by (auto simp: deployment_es_env_def elasticSearchEnvVars_def es_env_names_def Let_def)

lemma distinct_names_append:
  assumes "distinct (map ev_Name xs)" "distinct (map ev_Name ys)"
    and "ev_Name ` set xs \<subseteq> A" "ev_Name ` set ys \<subseteq> B" "A \<inter> B = {}"
  shows "distinct (map ev_Name (xs @ ys)) \<and> ev_Name ` set (xs @ ys) \<subseteq> A \<union> B"
  using assms by auto

locale deployment_inputs = database_config db + file_store_config fs
  for db :: DatabaseConfig and fs :: FileStoreConfig
begin

lemma base_env_distinct:
  assumes "deployment_general_env mm h = Ok gen"
  shows "distinct (map ev_Name (dbc_EnvVars db mm @ fsc_EnvVars fs mm @ deployment_es_env mm @ gen))"
proof -
  note g = general_env_ok [OF assms] and e = es_env_ok [of mm]
  have 1: "distinct (map ev_Name (deployment_es_env mm @ gen))
      \<and> ev_Name ` set (deployment_es_env mm @ gen) \<subseteq> es_env_names \<union> general_env_names"
    using g e env_names_disjoint by (intro distinct_names_append) auto
  have 2: "distinct (map ev_Name (fsc_EnvVars fs mm @ deployment_es_env mm @ gen))
      \<and> ev_Name ` set (fsc_EnvVars fs mm @ deployment_es_env mm @ gen)
        \<subseteq> fs_env_names \<union> (es_env_names \<union> general_env_names)"
    using 1 fs_distinct fs_names env_names_disjoint by (intro distinct_names_append) auto
  show ?thesis
    using distinct_names_append [OF db_distinct conjunct1 [OF 2] db_names conjunct2 [OF 2]]
      env_names_disjoint by (simp add: Int_Un_distrib)
qed

lemma env_distinct:
  "deployment_env mm db fs h = Ok env \<Longrightarrow> distinct (map ev_Name env)"
  using base_env_distinct by (auto simp: deployment_env_def bindO_eq_Ok simp del: map_append intro!: mergeEnvVars_distinct)

lemma env_has_connection:
  "deployment_env mm db fs h = Ok env \<Longrightarrow> ''MM_CONFIG'' \<in> ev_Name ` set env
     \<and> ''MM_FILESETTINGS_DRIVERNAME'' \<in> ev_Name ` set env"
proof -
  assume "deployment_env mm db fs h = Ok env"
  then obtain gen where env: "env = mergeEnvVars (dbc_EnvVars db mm @ fsc_EnvVars fs mm
      @ deployment_es_env mm @ gen) (s_MattermostEnv (mm_Spec mm))"
    by (auto simp: deployment_env_def bindO_eq_Ok)
  have "set (map ev_Name (dbc_EnvVars db mm @ fsc_EnvVars fs mm @ deployment_es_env mm @ gen))
        \<subseteq> set (map ev_Name env)"
    unfolding env by (rule set_mono_prefix [OF mergeEnvVars_names_prefix])
  then show ?thesis using db_connection [of mm] fs_driver [of mm] by auto
qed

lemma mounts_have_volumes:
  assumes "\<forall>m \<in> set (s_VolumeMounts (mm_Spec mm)). \<exists>v \<in> set (s_Volumes (mm_Spec mm)). vol_Name v = vm_Name m"
  shows "\<forall>m \<in> set (deployment_mounts mm fs). \<exists>v \<in> set (deployment_volumes mm fs). vol_Name v = vm_Name m"
proof
  fix m assume "m \<in> set (deployment_mounts mm fs)"
  then consider "m \<in> set (s_VolumeMounts (mm_Spec mm))" | "m \<in> set (snd (fsc_Volumes fs mm))"
    | "has_licence mm" "m = fst (snd (mattermostLicenceConfig (s_LicenseSecret (mm_Spec mm))))"
    by (auto simp: deployment_mounts_def split: if_splits)
  then show "\<exists>v \<in> set (deployment_volumes mm fs). vol_Name v = vm_Name m"
  proof cases
    case 1
    with assms show ?thesis by (auto simp: deployment_volumes_def)
  next
    case 2
    with fs_mount_has_volume [OF 2] show ?thesis by (auto simp: deployment_volumes_def)
  next
    case 3
    then show ?thesis by (auto simp: deployment_volumes_def mattermostLicenceConfig_def)
  qed
qed

lemma volumes_allowed:
  assumes "validateVolumes (s_Volumes (mm_Spec mm)) = Ok ()"
  shows "\<forall>v \<in> set (deployment_volumes mm fs). vol_isAllowed (vol_Source v)"
proof -
  have "validateVolumes vs = Ok () \<Longrightarrow> v \<in> set vs \<Longrightarrow> vol_isAllowed (vol_Source v)" for vs v
    by (induction vs) (auto split: if_splits)
  moreover have "vol_isAllowed (vol_Source (fst (snd (snd (mattermostLicenceConfig s)))))" for s
    by (simp add: mattermostLicenceConfig_def vol_isAllowed_def)
  ultimately show ?thesis
    using assms fs_allowed by (auto simp: deployment_volumes_def)
qed

end

text \<open>Every combination the controller can build.\<close>

definition db_provider :: "DatabaseConfig \<Rightarrow> bool" where
  "db_provider db = (db \<in> range MySQL_config \<union> range External_config)"

definition fs_provider :: "FileStoreConfig \<Rightarrow> bool" where
  "fs_provider fs = (fs \<in> range ExternalFileStore \<union> range ExternalVolumeFileStore
     \<union> {LocalFileStore} \<union> range MinioFileStore)"

lemma provider_inputs: "db_provider db \<Longrightarrow> fs_provider fs \<Longrightarrow> deployment_inputs db fs"
  by (auto simp: db_provider_def fs_provider_def intro!: deployment_inputs.intro
      database_config_MySQL database_config_External file_store_config_External
      file_store_config_ExternalVolume file_store_config_Local file_store_config_Minio)

interpretation mysql_minio: deployment_inputs "MySQL_config m" "MinioFileStore e" for m e
  by (rule provider_inputs) (auto simp: db_provider_def fs_provider_def)

interpretation external_s3: deployment_inputs "External_config d" "ExternalFileStore i" for d i
  by (rule provider_inputs) (auto simp: db_provider_def fs_provider_def)

lemma deployment_annotations_frame:
  assumes "deployment_annotations mm = (g, mm')"
  shows "mm_Meta mm' = mm_Meta mm \<and> mm_Status mm' = mm_Status mm \<and> extra_labels mm' = extra_labels mm
    \<and> s_ResourceLabels (mm_Spec mm') = s_ResourceLabels (mm_Spec mm)"
  using assms by (auto simp: deployment_annotations_def Let_def extra_labels_def split: option.splits)

text \<open>What a generated deployment is, field by field, as far as the controller relies on it.\<close>

lemma GenerateDeployment_Ok:
  assumes "GenerateDeploymentV1Beta mm db fs name h sa img = Ok (d, mm')"
  obtains env g1 mm1 g2 mm2 g3 where
    "deployment_env mm db fs h = Ok env"
    "deployment_annotations mm = (g1, mm1)"
    "MattermostLabels mm1 name = (g2, mm2)"
    "MattermostPodLabels mm2 name = (g3, mm')"
    "om_Name (d_Meta d) = name" "om_Namespace (d_Meta d) = mm_Namespace mm"
    "om_Labels (d_Meta d) = g2"
    "d_Selector d = MapLit (MattermostSelectorLabels name)"
    "pt_Labels (d_Template d) = g3" "pt_Annotations (d_Template d) = g1"
    "ps_Containers (pt_Spec (d_Template d)) = deployment_containers mm fs env img"
    "ps_Volumes (pt_Spec (d_Template d)) = deployment_volumes mm fs"
    "ps_InitContainers (pt_Spec (d_Template d)) = dbc_InitContainers db mm @ fsc_InitContainers fs mm
       @ pe_InitContainers (s_PodExtensions (mm_Spec mm))"
    "d_Replicas d = s_Replicas (mm_Spec mm)"
    "om_OwnerReferences (d_Meta d) = MattermostOwnerReference mm"
proof -
  obtain g1 mm1 where 1: "deployment_annotations mm = (g1, mm1)" by (cases "deployment_annotations mm")
  obtain g2 mm2 where 2: "MattermostLabels mm1 name = (g2, mm2)" by (cases "MattermostLabels mm1 name")
  obtain g3 mm3 where 3: "MattermostPodLabels mm2 name = (g3, mm3)" by (cases "MattermostPodLabels mm2 name")
  from assms obtain env where "deployment_env mm db fs h = Ok env"
    unfolding GenerateDeploymentV1Beta_def bindO_eq_Ok by blast
  with that [OF _ 1 2] assms 3 show ?thesis
    by (auto simp: GenerateDeploymentV1Beta_def 1 2 Let_def)
qed

lemma deployment_containers_hd:
  "\<exists>c cs. deployment_containers mm fs env img = c # cs \<and> c_Name c = MattermostAppContainerName
     \<and> c_Image c = img \<and> c_Env c = env \<and> c_VolumeMounts c = deployment_mounts mm fs
     \<and> cs = pe_SidecarContainers (s_PodExtensions (mm_Spec mm))"
  by (auto simp: deployment_containers_def split: prod.splits)

lemma pod_labels_contents:
  assumes "MattermostPodLabels mm name = (g, mm')"
  shows "deref (mm_maps mm') g = (mm_maps mm ResourceLabelsLoc ++ extra_labels mm ++ MattermostResourceLabels name)
           (ClusterLabel \<mapsto> name, ''app'' \<mapsto> MattermostAppContainerName)"
  using write_labels_contents assms unfolding MattermostPodLabels_def by blast

lemma job_labels_contents:
  assumes "MattermostJobServerPodLabels mm name = (g, mm')"
  shows "deref (mm_maps mm') g = (mm_maps mm ResourceLabelsLoc ++ extra_labels mm ++ MattermostResourceLabels name)
           (ClusterLabel \<mapsto> name, ''app'' \<mapsto> MattermostJobServerContainerName)"
  using write_labels_contents assms unfolding MattermostJobServerPodLabels_def by blast

lemma deployment_selects_own_pods:
  assumes "GenerateDeploymentV1Beta mm db fs name h sa img = Ok (d, mm')"
  shows "matches_labels (deref (mm_maps mm') (d_Selector d)) (deref (mm_maps mm') (pt_Labels (d_Template d)))"
proof -
  from assms obtain mm2 g3 where g3: "MattermostPodLabels mm2 name = (g3, mm')"
    and d: "d_Selector d = MapLit (MattermostSelectorLabels name)" "pt_Labels (d_Template d) = g3"
    by (elim GenerateDeployment_Ok)
  show ?thesis
    unfolding d pod_labels_contents [OF g3] matches_labels_def
    using selector_labels_le by simp
qed

text \<open>Two label writes in a row, as the job server generator does for its template and selector.\<close>

lemma job_labels_twice:
  assumes "MattermostJobServerPodLabels mm name = (g, mm1)"
    and "MattermostJobServerPodLabels mm1 name = (g', mm2)"
  shows "deref (mm_maps mm2) g' = deref (mm_maps mm2) g"
    and "deref (mm_maps mm2) g ''app'' = Some MattermostJobServerContainerName"
  using assms
  by (auto simp: MattermostJobServerPodLabels_def write_labels_def extra_labels_def split: option.splits)

lemma GenerateJobServer_Ok:
  assumes "GenerateJobServerDeploymentV1Beta mm db fs name h sa img = Ok (d, mm')"
  obtains d0 mm1 g mm2 g' c cs where
    "GenerateDeploymentV1Beta mm db fs (mm_Name mm) (GetIngressHost mm) (mm_Name mm) (GetImageName mm) = Ok (d0, mm1)"
    "MattermostJobServerPodLabels mm1 name = (g, mm2)" "MattermostJobServerPodLabels mm2 name = (g', mm')"
    "ps_Containers (pt_Spec (d_Template d0)) = c # cs"
    "om_Name (d_Meta d) = name @ ''-jobserver''" "om_Namespace (d_Meta d) = om_Namespace (d_Meta d0)"
    "d_Replicas d = Some 1" "d_Selector d = g'" "pt_Labels (d_Template d) = g"
    "ps_Containers (pt_Spec (d_Template d)) = [job_server_container c]"
    "ps_InitContainers (pt_Spec (d_Template d)) = ps_InitContainers (pt_Spec (d_Template d0))"
proof -
  from assms obtain d0 mm1 where
    0: "GenerateDeploymentV1Beta mm db fs (mm_Name mm) (GetIngressHost mm) (mm_Name mm) (GetImageName mm) = Ok (d0, mm1)"
    unfolding GenerateJobServerDeploymentV1Beta_def bindO_eq_Ok by auto
  obtain g mm2 where 1: "MattermostJobServerPodLabels mm1 name = (g, mm2)"
    by (cases "MattermostJobServerPodLabels mm1 name")
  obtain g' mm3 where 2: "MattermostJobServerPodLabels mm2 name = (g', mm3)"
    by (cases "MattermostJobServerPodLabels mm2 name")
  show ?thesis
  proof (cases "ps_Containers (pt_Spec (d_Template d0))")
    case Nil
    with assms 0 1 2 show ?thesis by (simp add: GenerateJobServerDeploymentV1Beta_def)
  next
    case (Cons c cs)
    with that [OF 0 1 _ Cons] assms 0 1 2 show ?thesis
      by (auto simp: GenerateJobServerDeploymentV1Beta_def Let_def)
  qed
qed

lemma job_server_selector:
  assumes "GenerateJobServerDeploymentV1Beta mm db fs name h sa img = Ok (d, mm')"
  shows "matches_labels (deref (mm_maps mm') (d_Selector d)) (deref (mm_maps mm') (pt_Labels (d_Template d)))"
    and "deref (mm_maps mm') (pt_Labels (d_Template d)) ''app'' = Some MattermostJobServerContainerName"
    and "\<not> matches_labels (MattermostSelectorLabels n) (deref (mm_maps mm') (pt_Labels (d_Template d)))"
proof -
  from assms obtain g mm1 mm2 g' where g: "MattermostJobServerPodLabels mm1 name = (g, mm2)"
    "MattermostJobServerPodLabels mm2 name = (g', mm')" "d_Selector d = g'" "pt_Labels (d_Template d) = g"
    by (elim GenerateJobServer_Ok)
  note tw = job_labels_twice [OF g(1,2)]
  show "matches_labels (deref (mm_maps mm') (d_Selector d)) (deref (mm_maps mm') (pt_Labels (d_Template d)))"
    using tw g by simp
  show app: "deref (mm_maps mm') (pt_Labels (d_Template d)) ''app'' = Some MattermostJobServerContainerName"
    using tw g by simp
  have "MattermostSelectorLabels n ''app'' = Some MattermostAppContainerName"
    by (simp add: MattermostSelectorLabels_def)
  with app show "\<not> matches_labels (MattermostSelectorLabels n) (deref (mm_maps mm') (pt_Labels (d_Template d)))"
    unfolding matches_labels_iff by (intro notI) (fastforce dest: spec [of _ "''app''"])
qed

section \<open>Properties\<close>

definition demo_minio :: OperatorManagedMinioConfig where
  "demo_minio = \<lparr>omc_fsInfo = \<lparr>fsi_secretName = ''mm-minio'', fsi_bucketName = ''mm'', fsi_url = ''minio:9000'',
     fsi_useS3SSL = False\<rparr>, omc_secretName = ''mm-minio'', omc_minioURL = ''minio:9000''\<rparr>"

definition demo_mysql :: MySQLDBConfig where
  "demo_mysql = \<lparr>my_secretName = ''mm-mysql'', my_rootPassword = ''r'', my_userName = ''mmuser'',
     my_userPassword = ''p'', my_databaseName = ''mattermost''\<rparr>"

definition demo_deployment :: "(Deployment \<times> Mattermost) outcome" where
  "demo_deployment = GenerateDeploymentV1Beta demo_mm (MySQL_config demo_mysql) (MinioFileStore demo_minio)
     ''mm'' ''mm.example.com'' ''mm'' ''mattermost/mm:10.5.0''"

lemma GenerateDeployment_total:
  "deployment_env mm db fs h = Ok env \<Longrightarrow> \<exists>d mm'. GenerateDeploymentV1Beta mm db fs name h sa img = Ok (d, mm')"
  by (auto simp: GenerateDeploymentV1Beta_def Let_def split: prod.splits)

lemma deployment_env_total:
  assumes "\<forall>m. GetIngresAnnotations mm = Some m \<longrightarrow> m proxyBodySizeAnnotation \<noteq> Some []"
  shows "\<exists>env. deployment_env mm db fs h = Ok env"
  using assms
  by (auto simp: deployment_env_def deployment_general_env_def deployment_body_size_def determineMaxBodySize_def
      Let_def split: option.splits)

lemma demo_deployment_Ok: "\<exists>d mm'. demo_deployment = Ok (d, mm')"
proof -
  have "\<exists>env. deployment_env demo_mm (MySQL_config demo_mysql) (MinioFileStore demo_minio) ''mm.example.com'' = Ok env"
    by (rule deployment_env_total) (simp add: GetIngresAnnotations_def demo_mm_def demo_spec_def zero_spec_def)
  then show ?thesis unfolding demo_deployment_def using GenerateDeployment_total by blast
qed

lemma demo_providers: "db_provider (MySQL_config m)" "fs_provider (MinioFileStore e)"
  by (auto simp: db_provider_def fs_provider_def)

text \<open>
  C22. The application container of a generated deployment, for each database and each file store:
  it is the first container, has the given image, lists no variable twice, has the connection and the
  file driver configured, and gives every variable the user sets the user's value.
\<close>

theorem deployment_environment:
  assumes "GenerateDeploymentV1Beta mm db fs name h sa img = Ok (d, mm')"
    and "db_provider db" "fs_provider fs"
  shows "\<exists>c. ps_Containers (pt_Spec (d_Template d)) = c # pe_SidecarContainers (s_PodExtensions (mm_Spec mm))
     \<and> c_Name c = ''mattermost'' \<and> c_Image c = img
     \<and> distinct (map ev_Name (c_Env c))
     \<and> ''MM_CONFIG'' \<in> ev_Name ` set (c_Env c) \<and> ''MM_FILESETTINGS_DRIVERNAME'' \<in> ev_Name ` set (c_Env c)
     \<and> (\<forall>n v. env_lookup (s_MattermostEnv (mm_Spec mm)) n = Some v \<longrightarrow> env_lookup (c_Env c) n = Some v)"
proof -
  note inputs = provider_inputs [OF assms(2,3)]
  from assms(1) obtain env where env: "deployment_env mm db fs h = Ok env"
    and cs: "ps_Containers (pt_Spec (d_Template d)) = deployment_containers mm fs env img"
    by (elim GenerateDeployment_Ok)
  from env have "\<forall>n v. env_lookup (s_MattermostEnv (mm_Spec mm)) n = Some v \<longrightarrow> env_lookup env n = Some v"
    by (auto simp: deployment_env_def bindO_eq_Ok mergeEnvVars_lookup)
  with deployment_inputs.env_distinct [OF inputs env] deployment_inputs.env_has_connection [OF inputs env]
    deployment_containers_hd [of mm fs env img]
  show ?thesis unfolding cs by (auto simp: MattermostAppContainerName_def)
qed

theorem deployment_environment_witness:
  "\<exists>d mm' c. demo_deployment = Ok (d, mm') \<and> ps_Containers (pt_Spec (d_Template d)) = [c]
     \<and> c_Image c = ''mattermost/mm:10.5.0'' \<and> distinct (map ev_Name (c_Env c))"
proof -
  obtain d mm' where d: "demo_deployment = Ok (d, mm')" using demo_deployment_Ok by blast
  have "pe_SidecarContainers (s_PodExtensions (mm_Spec demo_mm)) = []"
    by (simp add: demo_mm_def demo_spec_def zero_spec_def)
  with deployment_environment [OF d [unfolded demo_deployment_def] demo_providers] d show ?thesis by auto
qed

text \<open>
  In a generated deployment every volume mount of the application container has a volume of
  that name, when the user's own mounts have, and when the user's volumes pass the validation every
  volume of the pod does.
\<close>

theorem deployment_volumes_complete:
  assumes "GenerateDeploymentV1Beta mm db fs name h sa img = Ok (d, mm')"
    and "db_provider db" "fs_provider fs"
    and "vm_Name ` set (s_VolumeMounts (mm_Spec mm)) \<subseteq> vol_Name ` set (s_Volumes (mm_Spec mm))"
    and "validateVolumes (s_Volumes (mm_Spec mm)) = Ok ()"
  shows "vm_Name ` set (c_VolumeMounts (hd (ps_Containers (pt_Spec (d_Template d)))))
           \<subseteq> vol_Name ` set (ps_Volumes (pt_Spec (d_Template d)))
     \<and> validateVolumes (ps_Volumes (pt_Spec (d_Template d))) = Ok ()"
proof -
  note inputs = provider_inputs [OF assms(2,3)]
  from assms(1) obtain env where cs: "ps_Containers (pt_Spec (d_Template d)) = deployment_containers mm fs env img"
    and vs: "ps_Volumes (pt_Spec (d_Template d)) = deployment_volumes mm fs"
    by (elim GenerateDeployment_Ok)
  have hd: "c_VolumeMounts (hd (deployment_containers mm fs env img)) = deployment_mounts mm fs"
    using deployment_containers_hd [of mm fs env img] by auto
  have "\<forall>m \<in> set (s_VolumeMounts (mm_Spec mm)). \<exists>v \<in> set (s_Volumes (mm_Spec mm)). vol_Name v = vm_Name m"
    using assms(4) by force
  from deployment_inputs.mounts_have_volumes [OF inputs this] deployment_inputs.volumes_allowed [OF inputs assms(5)]
  show ?thesis unfolding cs vs hd by (force simp: validateVolumes_Ok)
qed

theorem deployment_volumes_complete_witness:
  "\<exists>d mm'. demo_deployment = Ok (d, mm') \<and> validateVolumes (ps_Volumes (pt_Spec (d_Template d))) = Ok ()"
proof -
  obtain d mm' where d: "demo_deployment = Ok (d, mm')" using demo_deployment_Ok by blast
  have "s_Volumes (mm_Spec demo_mm) = []" "s_VolumeMounts (mm_Spec demo_mm) = []"
    by (simp_all add: demo_mm_def demo_spec_def zero_spec_def)
  with deployment_volumes_complete [OF d [unfolded demo_deployment_def] demo_providers] d show ?thesis by auto
qed

text \<open>
  C25. Whatever labels the user adds, the selector of the deployment and the selector of the service
  match the pods of the deployment's template.
\<close>

theorem selectors_match_own_pods:
  assumes "GenerateDeploymentV1Beta mm db fs (mm_Name mm) h sa img = Ok (d, mm')"
  shows "matches_labels (deref (mm_maps mm') (d_Selector d)) (deref (mm_maps mm') (pt_Labels (d_Template d)))
     \<and> (let svc = fst (GenerateServiceV1Beta mm)
        in matches_labels (deref (mm_maps mm') (svc_Selector svc)) (deref (mm_maps mm') (pt_Labels (d_Template d))))"
proof -
  from assms have sel: "d_Selector d = MapLit (MattermostSelectorLabels (mm_Name mm))" by (elim GenerateDeployment_Ok)
  have "svc_Selector (fst (GenerateServiceV1Beta mm)) = MapLit (MattermostSelectorLabels (mm_Name mm))"
    by (simp add: GenerateServiceV1Beta_def newServiceV1Beta_def configureMattermostService_def
        configureMattermostServicePorts_def configureMattermostLoadBalancerService_def
        configureMattermostServiceNodePort_def Let_def split: prod.splits)
  with deployment_selects_own_pods [OF assms] sel show ?thesis by (simp add: Let_def)
qed

theorem selectors_match_own_pods_witness:
  "\<exists>d mm'. demo_deployment = Ok (d, mm') \<and>
     matches_labels (deref (mm_maps mm') (d_Selector d)) (deref (mm_maps mm') (pt_Labels (d_Template d)))"
proof -
  obtain d mm' where d: "demo_deployment = Ok (d, mm')" using demo_deployment_Ok by blast
  have "mm_Name demo_mm = ''mm''" by (simp add: demo_mm_def)
  with selectors_match_own_pods [of demo_mm] d show ?thesis by (auto simp: demo_deployment_def)
qed

text \<open>
  The dedicated job server's deployment selects its own pods, runs one replica of one container
  that is the application's without ports and probes, and its pods are never selected by the
  application's service or deployment, of whatever installation.
\<close>

theorem job_server_is_separate:
  assumes "GenerateJobServerDeploymentV1Beta mm db fs name h sa img = Ok (d, mm')"
  shows "matches_labels (deref (mm_maps mm') (d_Selector d)) (deref (mm_maps mm') (pt_Labels (d_Template d)))
     \<and> \<not> matches_labels (MattermostSelectorLabels n) (deref (mm_maps mm') (pt_Labels (d_Template d)))
     \<and> d_Replicas d = Some 1
     \<and> (\<exists>c. ps_Containers (pt_Spec (d_Template d)) = [c] \<and> c_Name c = ''mattermost-jobserver''
            \<and> c_Image c = GetImageName mm \<and> c_Command c = [''mattermost'', ''jobserver'']
            \<and> c_Ports c = [] \<and> c_LivenessProbe c = None \<and> c_ReadinessProbe c = None)"
proof -
  from assms obtain d0 mm1 c cs where
    0: "GenerateDeploymentV1Beta mm db fs (mm_Name mm) (GetIngressHost mm) (mm_Name mm) (GetImageName mm) = Ok (d0, mm1)"
    and cs: "ps_Containers (pt_Spec (d_Template d0)) = c # cs"
    and d: "d_Replicas d = Some 1" "ps_Containers (pt_Spec (d_Template d)) = [job_server_container c]"
    by (elim GenerateJobServer_Ok)
  from 0 obtain env where "ps_Containers (pt_Spec (d_Template d0)) = deployment_containers mm fs env (GetImageName mm)"
    by (elim GenerateDeployment_Ok)
  with deployment_containers_hd [of mm fs env "GetImageName mm"] cs have "c_Image c = GetImageName mm" by auto
  then show ?thesis
    using job_server_selector [OF assms] d
    by (simp add: job_server_container_def MattermostJobServerContainerName_def MattermostAppContainerName_def)
qed

lemma demo_job_server_Ok:
  "\<exists>d mm'. GenerateJobServerDeploymentV1Beta demo_mm (MySQL_config demo_mysql) (MinioFileStore demo_minio)
     ''mm'' ''mm.example.com'' ''mm'' ''x'' = Ok (d, mm')"
proof -
  have "\<exists>env. deployment_env demo_mm (MySQL_config demo_mysql) (MinioFileStore demo_minio) (GetIngressHost demo_mm) = Ok env"
    by (rule deployment_env_total) (simp add: GetIngresAnnotations_def demo_mm_def demo_spec_def zero_spec_def)
  then obtain d0 mm1 where 0: "GenerateDeploymentV1Beta demo_mm (MySQL_config demo_mysql) (MinioFileStore demo_minio)
      (mm_Name demo_mm) (GetIngressHost demo_mm) (mm_Name demo_mm) (GetImageName demo_mm) = Ok (d0, mm1)"
    using GenerateDeployment_total by blast
  then obtain env where "ps_Containers (pt_Spec (d_Template d0))
      = deployment_containers demo_mm (MinioFileStore demo_minio) env (GetImageName demo_mm)"
    by (elim GenerateDeployment_Ok)
  with deployment_containers_hd [of demo_mm "MinioFileStore demo_minio" env "GetImageName demo_mm"] 0
  show ?thesis by (auto simp: GenerateJobServerDeploymentV1Beta_def Let_def split: prod.splits)
qed

theorem job_server_is_separate_witness:
  "\<exists>d mm'. GenerateJobServerDeploymentV1Beta demo_mm (MySQL_config demo_mysql) (MinioFileStore demo_minio)
     ''mm'' ''mm.example.com'' ''mm'' ''x'' = Ok (d, mm')
   \<and> \<not> matches_labels (MattermostSelectorLabels ''mm'') (deref (mm_maps mm') (pt_Labels (d_Template d)))"
  using demo_job_server_Ok job_server_is_separate by blast

text \<open>
  C34. The annotations of the NGINX ingress carry no snippet and no value with a line break, whatever
  the user writes, and every annotation of the user without those two traits is kept; the rules
  send each host of the list, and nothing else, to the installation's service.
\<close>

theorem nginx_ingress_safe:
  "\<exists>ann. om_Annotations (i_Meta (fst (GenerateIngressV1Beta mm))) = MapLit ann
     \<and> (\<forall>k v. ann k = Some v \<longrightarrow> \<not> Contains (ToLower k) ''snippet'' \<and> \<not> ContainsAny v [CHR 0x0D, CHR 0x0A])
     \<and> (\<forall>u k v. GetIngresAnnotations mm = Some u \<longrightarrow> u k = Some v \<longrightarrow> \<not> Contains (ToLower k) ''snippet''
          \<longrightarrow> \<not> ContainsAny v [CHR 0x0D, CHR 0x0A] \<longrightarrow> ann k = Some v)
     \<and> map ir_Host (i_Rules (fst (GenerateIngressV1Beta mm))) = GetIngressHostNames mm
     \<and> list_all (\<lambda>r. map ip_ServiceName (ir_Paths r) = [mm_Name mm]) (i_Rules (fst (GenerateIngressV1Beta mm)))"
proof (intro exI [of _ "nginx_annotations mm"] conjI allI impI)
  show "om_Annotations (i_Meta (fst (GenerateIngressV1Beta mm))) = MapLit (nginx_annotations mm)"
    by (simp add: GenerateIngressV1Beta_def ingress_meta_def Let_def split: prod.splits)
  have rules: "i_Rules (fst (GenerateIngressV1Beta mm)) = makeIngressRules (GetIngressHostNames mm) mm"
    by (simp add: GenerateIngressV1Beta_def Let_def split: prod.splits)
  show "map ir_Host (i_Rules (fst (GenerateIngressV1Beta mm))) = GetIngressHostNames mm"
    and "list_all (\<lambda>r. map ip_ServiceName (ir_Paths r) = [mm_Name mm]) (i_Rules (fst (GenerateIngressV1Beta mm)))"
    unfolding rules by (simp_all add: makeIngressRules_def comp_def list_all_iff)
  fix k v assume "nginx_annotations mm k = Some v"
  then have "safe_annotation k v" by (rule nginx_annotations_safe)
  then show "\<not> Contains (ToLower k) ''snippet''" "\<not> ContainsAny v [CHR 0x0D, CHR 0x0A]"
    by (simp_all add: safe_annotation_def)
next
  fix u k v assume "GetIngresAnnotations mm = Some u" "u k = Some v"
    "\<not> Contains (ToLower k) ''snippet''" "\<not> ContainsAny v [CHR 0x0D, CHR 0x0A]"
  then show "nginx_annotations mm k = Some v"
    by (intro nginx_annotations_user [of mm u]) (simp_all only: safe_annotation_def simp_thms)
qed

definition demo_snippet_mm :: Mattermost where
  "demo_snippet_mm = demo_mm\<lparr>mm_Spec := demo_spec\<lparr>s_IngressAnnotations :=
     Some [''nginx.ingress.kubernetes.io/Server-Snippet'' \<mapsto> ''x'']\<rparr>\<rparr>"

theorem nginx_ingress_safe_witness:
  "\<exists>ann. om_Annotations (i_Meta (fst (GenerateIngressV1Beta demo_snippet_mm))) = MapLit ann
     \<and> ann ''nginx.ingress.kubernetes.io/Server-Snippet'' = None"
proof -
  obtain ann where ann: "om_Annotations (i_Meta (fst (GenerateIngressV1Beta demo_snippet_mm))) = MapLit ann"
    and safe: "\<And>k v. ann k = Some v \<Longrightarrow> \<not> Contains (ToLower k) ''snippet''"
    using nginx_ingress_safe [of demo_snippet_mm] by blast
  have "Contains (ToLower ''nginx.ingress.kubernetes.io/Server-Snippet'') ''snippet''" by code_simp
  then have "ann ''nginx.ingress.kubernetes.io/Server-Snippet'' = None"
    using safe [of "''nginx.ingress.kubernetes.io/Server-Snippet''"]
    by (cases "ann ''nginx.ingress.kubernetes.io/Server-Snippet''") blast+
  with ann show ?thesis by blast
qed
text \<open>
  The label helpers write into the user's map.  With \<^verbatim>\<open>resourceLabels\<close> set, generating the pod
  labels puts the pod template's extra labels into that map, and the next object's labels contain
  them; without it they stay on the pods.
\<close>

theorem pod_labels_leak:
  assumes "extra_labels mm k = Some v" and "k \<notin> {ClusterLabel, ClusterResourceLabel, ''app''}"
    and "mm_maps mm ResourceLabelsLoc k = None"
    and "MattermostPodLabels mm name = (pod, mm1)" and "MattermostLabels mm1 name = (obj, mm2)"
  shows "deref (mm_maps mm2) obj k = (if s_ResourceLabels (mm_Spec mm) = None then None else Some v)"
  using assms
  by (auto simp: label_defs write_labels_def MattermostResourceLabels_def map_add_def split: option.splits)

definition demo_labels_mm :: Mattermost where
  "demo_labels_mm = demo_mm\<lparr>mm_Spec := demo_spec\<lparr>s_ResourceLabels := Some [''team'' \<mapsto> ''chat''],
     s_PodTemplate := Some \<lparr>ptm_Command = None, ptm_SecurityContext = None, ptm_ContainerSecurityContext = None, ptm_ExtraAnnotations = None,
       ptm_ExtraLabels = Some [''tier'' \<mapsto> ''web'']\<rparr>\<rparr>\<rparr>"

theorem pod_labels_leak_witness:
  "\<exists>pod mm1 obj mm2. MattermostPodLabels demo_labels_mm ''mm'' = (pod, mm1)
     \<and> MattermostLabels mm1 ''mm'' = (obj, mm2) \<and> deref (mm_maps mm2) obj ''tier'' = Some ''web''"
proof -
  obtain pod mm1 where 1: "MattermostPodLabels demo_labels_mm ''mm'' = (pod, mm1)" by (cases "MattermostPodLabels demo_labels_mm ''mm''")
  obtain obj mm2 where 2: "MattermostLabels mm1 ''mm'' = (obj, mm2)" by (cases "MattermostLabels mm1 ''mm''")
  have "deref (mm_maps mm2) obj ''tier'' = Some ''web''"
    using pod_labels_leak [OF _ _ _ 1 2, of "''tier''" "''web''"]
    by (simp add: extra_labels_def demo_labels_mm_def ClusterLabel_def ClusterResourceLabel_def)
  with 1 2 show ?thesis by blast
qed

text \<open>
  The health check looks for the service and the ingress with the pods' labels.  When the pod
  template has an extra label that the resource labels do not have, the service the operator
  created does not carry it, so it is not found.
\<close>

theorem health_check_selector_misses_service:
  assumes "extra_labels mm k = Some v" and "k \<notin> {ClusterLabel, ClusterResourceLabel, ''app''}"
    and "mm_maps mm ResourceLabelsLoc k = None"
    and "GenerateServiceV1Beta mm = (svc, mm1)" and "MattermostPodLabels mm (mm_Name mm) = (sel, mm2)"
  shows "\<not> matches_labels (deref (mm_maps mm2) sel) (deref (mm_maps mm1) (om_Labels (svc_Meta svc)))"
proof -
  obtain g mm0 where g: "MattermostLabels mm (mm_Name mm) = (g, mm0)" by (cases "MattermostLabels mm (mm_Name mm)")
  have svc: "om_Labels (svc_Meta svc) = g" "mm1 = mm0"
    using assms(4) g by (auto simp: GenerateServiceV1Beta_def newServiceV1Beta_def configureMattermostService_def
        configureMattermostServicePorts_def configureMattermostLoadBalancerService_def
        configureMattermostServiceNodePort_def Let_def split: if_splits)
  have "deref (mm_maps mm0) g = (mm_maps mm ResourceLabelsLoc ++ MattermostResourceLabels (mm_Name mm))
           (ClusterLabel \<mapsto> mm_Name mm, ''app'' \<mapsto> MattermostAppContainerName)"
    using write_labels_contents g unfolding MattermostLabels_def by blast
  then have "deref (mm_maps mm1) (om_Labels (svc_Meta svc)) k = None"
    using assms(2,3) svc by (simp add: MattermostResourceLabels_def map_add_def)
  moreover have "deref (mm_maps mm2) sel k = Some v"
    using assms(1,2) pod_labels_contents [OF assms(5)] by (simp add: MattermostResourceLabels_def map_add_def)
  ultimately show ?thesis unfolding matches_labels_iff by (metis option.distinct(1))
qed

theorem health_check_selector_misses_service_witness:
  "\<exists>svc mm1 sel mm2. GenerateServiceV1Beta demo_labels_mm = (svc, mm1)
     \<and> MattermostPodLabels demo_labels_mm ''mm'' = (sel, mm2)
     \<and> \<not> matches_labels (deref (mm_maps mm2) sel) (deref (mm_maps mm1) (om_Labels (svc_Meta svc)))"
proof -
  obtain svc mm1 where 1: "GenerateServiceV1Beta demo_labels_mm = (svc, mm1)" by (cases "GenerateServiceV1Beta demo_labels_mm")
  obtain sel mm2 where 2: "MattermostPodLabels demo_labels_mm ''mm'' = (sel, mm2)"
    by (cases "MattermostPodLabels demo_labels_mm ''mm''")
  have n: "mm_Name demo_labels_mm = ''mm''" by (simp add: demo_labels_mm_def demo_mm_def)
  from health_check_selector_misses_service [OF _ _ _ 1 2 [folded n], of "''tier''" "''web''"] 1 2
  show ?thesis by (auto simp: extra_labels_def demo_labels_mm_def ClusterLabel_def ClusterResourceLabel_def)
qed

end
