(* ===== verification/ClusterInstallationTypes.thy ===== *)
theory ClusterInstallationTypes
  imports K8sTypes
begin

text \<open>
  The older API version: the \<^verbatim>\<open>ClusterInstallation\<close> and \<^verbatim>\<open>MattermostRestoreDB\<close> custom resources of
  \<^verbatim>\<open>apis/mattermost/v1alpha1\<close>, struct by struct.  Types whose names exist in the newer version have
  the prefix \<open>ci_\<close>.  The controller builds fresh label and annotation maps from these resources, so
  their maps are values; nil is \<open>None\<close>.  The one write into a map they hold, through the new resource that
  a migration makes share it, is written out in \<^verbatim>\<open>Migration\<close>.
\<close>

section \<open>ClusterInstallation\<close>

record AppDeployment =
  ad_Name :: string
  ad_IngressName :: string
  ad_Image :: string
  ad_Version :: string
  ad_ResourceLabels :: "strmap option"

record Canary =
  can_Enable :: bool
  can_Deployment :: AppDeployment

record BlueGreen =
  bg_ProductionDeployment :: string
  bg_Enable :: bool
  bg_Blue :: AppDeployment
  bg_Green :: AppDeployment

record ci_Minio =
  cim_StorageSize :: string
  cim_Replicas :: int
  cim_Resources :: ResourceRequirements
  cim_ExternalURL :: string
  cim_ExternalBucket :: string
  cim_Secret :: string

record ci_Database =
  cid_Type :: string
  cid_Secret :: string
  cid_StorageSize :: string
  cid_Replicas :: int
  cid_Resources :: ResourceRequirements
  cid_InitBucketURL :: string
  cid_BackupSchedule :: string
  cid_BackupURL :: string
  cid_BackupRemoteDeletePolicy :: string
  cid_BackupSecretName :: string
  cid_BackupRestoreSecretName :: string
  cid_Version :: string

record ci_ElasticSearch =
  cie_Host :: string
  cie_UserName :: string
  cie_Password :: string

record ClusterInstallationSpec =
  csp_Image :: string
  csp_Version :: string
  csp_Size :: string
  csp_Replicas :: int
  csp_Resources :: ResourceRequirements
  csp_IngressName :: string
  csp_MattermostLicenseSecret :: string
  csp_NodeSelector :: strmap
  csp_Affinity :: "opaque option"
  csp_Minio :: ci_Minio
  csp_Database :: ci_Database
  csp_BlueGreen :: BlueGreen
  csp_Canary :: Canary
  csp_ElasticSearch :: ci_ElasticSearch
  csp_UseServiceLoadBalancer :: bool
  csp_ServiceAnnotations :: "strmap option"
  csp_UseIngressTLS :: bool
  csp_ResourceLabels :: "strmap option"
  csp_IngressAnnotations :: "strmap option"
  csp_MattermostEnv :: "EnvVar list"
  csp_LivenessProbe :: Probe
  csp_ReadinessProbe :: Probe
  csp_ImagePullPolicy :: string
  csp_Migrate :: bool

record MigrationStatus =
  mig_Status :: string
  mig_Error :: string

text \<open>A running state is a string; besides the constants there is the empty initial one.\<close>

definition ci_Reconciling :: string where "ci_Reconciling = ''reconciling''"
definition ci_Stable :: string where "ci_Stable = ''stable''"

record ClusterInstallationStatus =
  cst_State :: string
  cst_Version :: string
  cst_Image :: string
  cst_Endpoint :: string
  cst_Replicas :: int
  cst_UpdatedReplicas :: int
  cst_BlueName :: string
  cst_GreenName :: string
  cst_Migration :: "MigrationStatus option"

record ClusterInstallation =
  ci_Meta :: ObjectMeta
  ci_Spec :: ClusterInstallationSpec
  ci_Status :: ClusterInstallationStatus

abbreviation ci_Name :: "ClusterInstallation \<Rightarrow> string" where
  "ci_Name ci \<equiv> om_Name (ci_Meta ci)"

abbreviation ci_Namespace :: "ClusterInstallation \<Rightarrow> string" where
  "ci_Namespace ci \<equiv> om_Namespace (ci_Meta ci)"

section \<open>MattermostRestoreDB\<close>

record MattermostRestoreDBSpec =
  rsp_MattermostClusterName :: string
  rsp_RestoreSecret :: string
  rsp_InitBucketURL :: string
  rsp_MattermostDBUser :: string
  rsp_MattermostDBPassword :: string
  rsp_MattermostDBName :: string

definition Restoring :: string where "Restoring = ''restoring''"
definition Finished :: string where "Finished = ''finished''"
definition Failed :: string where "Failed = ''failed''"

record MattermostRestoreDBStatus =
  rst_State :: string
  rst_OriginalDBReplicas :: int

record MattermostRestoreDB =
  rdb_Meta :: ObjectMeta
  rdb_Spec :: MattermostRestoreDBSpec
  rdb_Status :: MattermostRestoreDBStatus

lemma ci_states_distinct [simp]:
  "ci_Reconciling \<noteq> ci_Stable" "ci_Stable \<noteq> ci_Reconciling" "ci_Reconciling \<noteq> []" "ci_Stable \<noteq> []"
  by (simp_all add: ci_Reconciling_def ci_Stable_def)

lemma restore_states_distinct [simp]:
  "Restoring \<noteq> Finished" "Finished \<noteq> Restoring" "Restoring \<noteq> Failed" "Failed \<noteq> Restoring"
  "Finished \<noteq> Failed" "Failed \<noteq> Finished" "Restoring \<noteq> []" "Finished \<noteq> []" "Failed \<noteq> []"
  "[] \<noteq> Restoring" "[] \<noteq> Finished" "[] \<noteq> Failed"
  by (simp_all add: Restoring_def Finished_def Failed_def)

section \<open>Zero values\<close>

definition zero_app_deployment :: AppDeployment where
  "zero_app_deployment = \<lparr>ad_Name = [], ad_IngressName = [], ad_Image = [], ad_Version = [],
     ad_ResourceLabels = None\<rparr>"

definition zero_ci_minio :: ci_Minio where
  "zero_ci_minio = \<lparr>cim_StorageSize = [], cim_Replicas = 0, cim_Resources = no_resources,
     cim_ExternalURL = [], cim_ExternalBucket = [], cim_Secret = []\<rparr>"

definition zero_ci_database :: ci_Database where
  "zero_ci_database = \<lparr>cid_Type = [], cid_Secret = [], cid_StorageSize = [], cid_Replicas = 0,
     cid_Resources = no_resources, cid_InitBucketURL = [], cid_BackupSchedule = [], cid_BackupURL = [],
     cid_BackupRemoteDeletePolicy = [], cid_BackupSecretName = [], cid_BackupRestoreSecretName = [],
     cid_Version = []\<rparr>"

definition zero_handler_probe :: Probe where
  "zero_handler_probe = \<lparr>pr_Handler = empty_handler, pr_InitialDelaySeconds = 0, pr_TimeoutSeconds = 0,
     pr_PeriodSeconds = 0, pr_SuccessThreshold = 0, pr_FailureThreshold = 0,
     pr_TerminationGracePeriodSeconds = None\<rparr>"

definition zero_ci_spec :: ClusterInstallationSpec where
  "zero_ci_spec = \<lparr>csp_Image = [], csp_Version = [], csp_Size = [], csp_Replicas = 0,
     csp_Resources = no_resources, csp_IngressName = [], csp_MattermostLicenseSecret = [],
     csp_NodeSelector = Map.empty, csp_Affinity = None, csp_Minio = zero_ci_minio,
     csp_Database = zero_ci_database,
     csp_BlueGreen = \<lparr>bg_ProductionDeployment = [], bg_Enable = False, bg_Blue = zero_app_deployment,
       bg_Green = zero_app_deployment\<rparr>,
     csp_Canary = \<lparr>can_Enable = False, can_Deployment = zero_app_deployment\<rparr>,
     csp_ElasticSearch = \<lparr>cie_Host = [], cie_UserName = [], cie_Password = []\<rparr>,
     csp_UseServiceLoadBalancer = False, csp_ServiceAnnotations = None, csp_UseIngressTLS = False,
     csp_ResourceLabels = None, csp_IngressAnnotations = None, csp_MattermostEnv = [],
     csp_LivenessProbe = zero_handler_probe, csp_ReadinessProbe = zero_handler_probe,
     csp_ImagePullPolicy = [], csp_Migrate = False\<rparr>"

definition zero_ci_status :: ClusterInstallationStatus where
  "zero_ci_status = \<lparr>cst_State = [], cst_Version = [], cst_Image = [], cst_Endpoint = [],
     cst_Replicas = 0, cst_UpdatedReplicas = 0, cst_BlueName = [], cst_GreenName = [],
     cst_Migration = None\<rparr>"

definition new_cluster_installation :: "string \<Rightarrow> string \<Rightarrow> ClusterInstallationSpec \<Rightarrow> ClusterInstallation" where
  "new_cluster_installation name ns spec =
     \<lparr>ci_Meta = empty_meta\<lparr>om_Name := name, om_Namespace := ns\<rparr>, ci_Spec = spec,
      ci_Status = zero_ci_status\<rparr>"

lemma new_cluster_installation_sel [simp]:
  "ci_Spec (new_cluster_installation n ns s) = s"
  "ci_Status (new_cluster_installation n ns s) = zero_ci_status"
  "om_Name (ci_Meta (new_cluster_installation n ns s)) = n"
  "om_Namespace (ci_Meta (new_cluster_installation n ns s)) = ns"
  by (simp_all add: new_cluster_installation_def)

end
