(* ===== verification/ClusterInstallationApi.thy ===== *)
theory ClusterInstallationApi
  imports MattermostApi ClusterInstallationTypes
begin

text \<open>
  The methods of the \<^verbatim>\<open>ClusterInstallation\<close> resource: defaulting, images, production deployment and
  labels (\<^verbatim>\<open>apis/mattermost/v1alpha1/clusterinstallation_utils.go\<close>) and sizing (the methods at the end of
  \<^verbatim>\<open>clusterinstallation_sizes.go\<close>).  Names that the newer version also has carry the prefix \<open>ci_\<close>.
\<close>

definition ci_DefaultMattermostImage :: string where
  "ci_DefaultMattermostImage = ''mattermost/mattermost-enterprise-edition''"
definition ci_DefaultMattermostVersion :: string where "ci_DefaultMattermostVersion = ''10.8.1''"
definition ci_DefaultMattermostDatabaseType :: string where "ci_DefaultMattermostDatabaseType = ''mysql''"
definition DefaultMinioStorageSize :: string where "DefaultMinioStorageSize = ''50Gi''"
definition ci_DefaultStorageSize :: string where "ci_DefaultStorageSize = ''50Gi''"
definition ci_DefaultPullPolicy :: string where "ci_DefaultPullPolicy = ''IfNotPresent''"
definition DefaultMysqlDatabaseVersion :: string where "DefaultMysqlDatabaseVersion = ''8.0''"
definition ci_ClusterLabel :: string where "ci_ClusterLabel = ''v1alpha1.mattermost.com/installation''"
definition ci_ClusterResourceLabel :: string where
  "ci_ClusterResourceLabel = ''v1alpha1.mattermost.com/resource''"
definition BlueName :: string where "BlueName = ''blue''"
definition GreenName :: string where "GreenName = ''green''"
definition ci_MattermostAppContainerName :: string where "ci_MattermostAppContainerName = ''mattermost''"

lemmas ci_const_defs = ci_DefaultMattermostImage_def ci_DefaultMattermostVersion_def
  ci_DefaultMattermostDatabaseType_def DefaultMinioStorageSize_def ci_DefaultStorageSize_def
  ci_DefaultPullPolicy_def DefaultMysqlDatabaseVersion_def ci_ClusterLabel_def ci_ClusterResourceLabel_def
  ci_MattermostAppContainerName_def

lemma ci_label_keys_distinct [simp]:
  "ci_ClusterLabel \<noteq> ci_ClusterResourceLabel" "ci_ClusterResourceLabel \<noteq> ci_ClusterLabel"
  "ci_ClusterLabel \<noteq> ''app''" "''app'' \<noteq> ci_ClusterLabel"
  "ci_ClusterResourceLabel \<noteq> ''app''" "''app'' \<noteq> ci_ClusterResourceLabel"
  by (simp_all add: ci_const_defs)

lemma blue_green_distinct [simp]: "BlueName \<noteq> GreenName" "GreenName \<noteq> BlueName"
  by (simp_all add: BlueName_def GreenName_def)

section \<open>Defaulting\<close>

definition cim_SetDefaults :: "ci_Minio \<Rightarrow> ci_Minio" where
  "cim_SetDefaults mi = mi\<lparr>cim_StorageSize := or_default (cim_StorageSize mi) DefaultMinioStorageSize\<rparr>"

definition cim_IsExternal :: "ci_Minio \<Rightarrow> bool" where
  "cim_IsExternal mi = (cim_ExternalURL mi \<noteq> [])"

definition cid_SetDefaults :: "ci_Database \<Rightarrow> ci_Database" where
  "cid_SetDefaults db =
     (let db1 = db\<lparr>cid_Type := or_default (cid_Type db) ci_DefaultMattermostDatabaseType,
                   cid_StorageSize := or_default (cid_StorageSize db) ci_DefaultStorageSize\<rparr>
      in if cid_Type db1 = ci_DefaultMattermostDatabaseType \<and> cid_Version db1 = []
         then db1\<lparr>cid_Version := DefaultMysqlDatabaseVersion\<rparr> else db1)"

definition can_SetDefaults :: "ClusterInstallation \<Rightarrow> Canary \<Rightarrow> Canary \<times> unit outcome" where
  "can_SetDefaults ci canary =
     (let d = can_Deployment canary
      in if \<not> can_Enable canary then (canary, Ok ())
         else if ad_Version d = [] then (canary, Err (New ''Canary version required, but not set''))
         else if ad_Image d = [] then (canary, Err (New ''Canary deployment image required, but not set''))
         else (canary\<lparr>can_Deployment := d\<lparr>ad_Name := or_default (ad_Name d) (ci_Name ci @ ''-canary'')\<rparr>\<rparr>, Ok ()))"

text \<open>The production deployment is in lower case afterwards, also when an error is returned.\<close>

definition bg_SetDefaults :: "ClusterInstallation \<Rightarrow> BlueGreen \<Rightarrow> BlueGreen \<times> unit outcome" where
  "bg_SetDefaults ci bg0 =
     (if \<not> bg_Enable bg0 then (bg0, Ok ())
      else
        let bg = bg0\<lparr>bg_ProductionDeployment := ToLower (bg_ProductionDeployment bg0)\<rparr>;
            blue = bg_Blue bg; green = bg_Green bg
        in if bg_ProductionDeployment bg \<noteq> BlueName \<and> bg_ProductionDeployment bg \<noteq> GreenName
           then (bg, Err (Errorf (''%s is not a valid ProductionDeployment value, must be 'blue' or 'green'' @ [CHR 0x27])
                            [bg_ProductionDeployment bg]))
           else if ad_Version green = [] \<or> ad_Version blue = []
           then (bg, Err (New ''Both Blue and Green deployment versions required, but not set''))
           else if ad_Image blue = [] \<or> ad_Image green = []
           then (bg, Err (New ''Both Blue and Green deployment images required, but not set''))
           else (bg\<lparr>bg_Green := green\<lparr>ad_Name := or_default (ad_Name green) (ci_Name ci @ ''-green''),
                       ad_IngressName := or_default (ad_IngressName green)
                         (''green.'' @ csp_IngressName (ci_Spec ci))\<rparr>,
                     bg_Blue := blue\<lparr>ad_Name := or_default (ad_Name blue) (ci_Name ci @ ''-blue''),
                       ad_IngressName := or_default (ad_IngressName blue)
                         (''blue.'' @ csp_IngressName (ci_Spec ci))\<rparr>\<rparr>, Ok ()))"

text \<open>The resource as the method leaves it, together with its error.\<close>

definition ci_SetDefaults :: "ClusterInstallation \<Rightarrow> ClusterInstallation \<times> unit outcome" where
  "ci_SetDefaults ci =
     (let sp = ci_Spec ci
      in if csp_IngressName sp = [] then (ci, Err (New ''IngressName required, but not set''))
         else
           let sp1 = sp\<lparr>csp_Image := or_default (csp_Image sp) ci_DefaultMattermostImage,
                        csp_Version := or_default (csp_Version sp) ci_DefaultMattermostVersion,
                        csp_ImagePullPolicy := or_default (csp_ImagePullPolicy sp) ci_DefaultPullPolicy,
                        csp_Minio := cim_SetDefaults (csp_Minio sp),
                        csp_Database := cid_SetDefaults (csp_Database sp)\<rparr>;
               (bg, r) = bg_SetDefaults ci (csp_BlueGreen sp1);
               sp2 = sp1\<lparr>csp_BlueGreen := bg\<rparr>
           in case r of
                Ok _ \<Rightarrow> (let (can, r') = can_SetDefaults ci (csp_Canary sp2)
                         in (ci\<lparr>ci_Spec := sp2\<lparr>csp_Canary := can\<rparr>\<rparr>, r'))
              | _ \<Rightarrow> (ci\<lparr>ci_Spec := sp2\<rparr>, r))"

section \<open>Sizing\<close>

definition int_default :: "int \<Rightarrow> int \<Rightarrow> int" where
  "int_default x d = (if x = 0 then d else x)"

definition ci_setDefaultReplicasAndResources :: "ClusterInstallation \<Rightarrow> ClusterInstallation" where
  "ci_setDefaultReplicasAndResources ci =
     (let sp = ci_Spec ci; mi = csp_Minio sp; db = csp_Database sp
      in ci\<lparr>ci_Spec := sp\<lparr>csp_Size := [],
           csp_Replicas := int_default (csp_Replicas sp) (cs_Replicas (cis_App DefaultSize)),
           csp_Resources := or_resources (csp_Resources sp) (cs_Resources (cis_App DefaultSize)),
           csp_Minio := mi\<lparr>cim_Replicas := int_default (cim_Replicas mi) (cs_Replicas (cis_Minio DefaultSize)),
             cim_Resources := or_resources (cim_Resources mi) (cs_Resources (cis_Minio DefaultSize))\<rparr>,
           csp_Database := db\<lparr>
             cid_Replicas := (if cid_Replicas db = 0 \<and> cid_InitBucketURL db = []
                              then cs_Replicas (cis_Database DefaultSize) else cid_Replicas db),
             cid_Resources := or_resources (cid_Resources db) (cs_Resources (cis_Database DefaultSize))\<rparr>\<rparr>\<rparr>)"

definition ci_overrideReplicasAndResourcesFromSize ::
  "ClusterInstallationSize \<Rightarrow> ClusterInstallation \<Rightarrow> ClusterInstallation" where
  "ci_overrideReplicasAndResourcesFromSize sz ci =
     (let sp = ci_Spec ci
      in ci\<lparr>ci_Spec := sp\<lparr>csp_Size := [],
           csp_Replicas := cs_Replicas (cis_App sz),
           csp_Resources := cs_Resources (cis_App sz),
           csp_Minio := (csp_Minio sp)\<lparr>cim_Replicas := cs_Replicas (cis_Minio sz),
             cim_Resources := cs_Resources (cis_Minio sz)\<rparr>,
           csp_Database := (csp_Database sp)\<lparr>cid_Replicas := cs_Replicas (cis_Database sz),
             cid_Resources := cs_Resources (cis_Database sz)\<rparr>\<rparr>\<rparr>)"

definition ci_SetReplicasAndResourcesFromSize :: "ClusterInstallation \<Rightarrow> ClusterInstallation \<times> unit outcome" where
  "ci_SetReplicasAndResourcesFromSize ci =
     (if csp_Size (ci_Spec ci) = [] then (ci_setDefaultReplicasAndResources ci, Ok ())
      else case GetClusterSize (csp_Size (ci_Spec ci)) of
             Ok sz \<Rightarrow> (ci_overrideReplicasAndResourcesFromSize sz ci, Ok ())
           | Err e \<Rightarrow> (ci_setDefaultReplicasAndResources ci, Err (Wrap e ''using default''))
           | Panic p \<Rightarrow> (ci, Panic p))"

text \<open>The installation as its own controller works with it.\<close>

definition defaulted_installation :: "ClusterInstallation \<Rightarrow> ClusterInstallation" where
  "defaulted_installation ci = fst (ci_SetReplicasAndResourcesFromSize (fst (ci_SetDefaults ci)))"

section \<open>Containers, images and names\<close>

definition ci_getContainerByName :: "Container list \<Rightarrow> string \<Rightarrow> Container option" where
  "ci_getContainerByName containers containerName = find (\<lambda>c. c_Name c = containerName) containers"

definition ci_getDeploymentContainerByName :: "Deployment \<Rightarrow> string \<Rightarrow> Container option" where
  "ci_getDeploymentContainerByName d containerName =
     ci_getContainerByName (ps_Containers (pt_Spec (d_Template d))) containerName"

text \<open>The container of older deployments has the name of the deployment.\<close>

definition ci_GetMattermostAppContainerFromDeployment :: "Deployment \<Rightarrow> Container option" where
  "ci_GetMattermostAppContainerFromDeployment d =
     (case ci_getDeploymentContainerByName d ci_MattermostAppContainerName of
        Some c \<Rightarrow> Some c
      | None \<Rightarrow> ci_getDeploymentContainerByName d (om_Name (d_Meta d)))"

definition ci_GetMattermostAppContainer :: "ClusterInstallation \<Rightarrow> Container list \<Rightarrow> Container option" where
  "ci_GetMattermostAppContainer ci containers =
     (case ci_getContainerByName containers ci_MattermostAppContainerName of
        Some c \<Rightarrow> Some c
      | None \<Rightarrow> ci_getContainerByName containers (ci_Name ci))"

definition ci_GetImageName :: "ClusterInstallation \<Rightarrow> string" where
  "ci_GetImageName ci =
     (if HasPrefix (csp_Version (ci_Spec ci)) ''sha256:''
      then csp_Image (ci_Spec ci) @ ''@'' @ csp_Version (ci_Spec ci)
      else csp_Image (ci_Spec ci) @ '':'' @ csp_Version (ci_Spec ci))"

definition ci_GetProductionDeploymentName :: "ClusterInstallation \<Rightarrow> string" where
  "ci_GetProductionDeploymentName ci =
     (let bg = csp_BlueGreen (ci_Spec ci)
      in if bg_Enable bg \<and> bg_ProductionDeployment bg = BlueName then ad_Name (bg_Blue bg)
         else if bg_Enable bg \<and> bg_ProductionDeployment bg = GreenName then ad_Name (bg_Green bg)
         else ci_Name ci)"

definition GetDeploymentImageName :: "AppDeployment \<Rightarrow> string" where
  "GetDeploymentImageName d =
     (if Contains (ad_Version d) ''sha256:'' then ad_Image d @ ''@'' @ ad_Version d
      else ad_Image d @ '':'' @ ad_Version d)"

section \<open>Labels\<close>

definition ClusterInstallationResourceLabels :: "string \<Rightarrow> strmap" where
  "ClusterInstallationResourceLabels name = [ci_ClusterResourceLabel \<mapsto> name]"

definition ClusterInstallationSelectorLabels :: "string \<Rightarrow> strmap" where
  "ClusterInstallationSelectorLabels name =
     (ClusterInstallationResourceLabels name)(ci_ClusterLabel \<mapsto> name, ''app'' \<mapsto> ci_MattermostAppContainerName)"

text \<open>The labels the user gave, for the production deployment when there are two; nil reads as empty.\<close>

definition ci_user_labels :: "ClusterInstallation \<Rightarrow> strmap" where
  "ci_user_labels ci =
     (let bg = csp_BlueGreen (ci_Spec ci);
          labels = (if bg_Enable bg
                    then if bg_ProductionDeployment bg = GreenName then ad_ResourceLabels (bg_Green bg)
                         else if bg_ProductionDeployment bg = BlueName then ad_ResourceLabels (bg_Blue bg)
                         else Some Map.empty
                    else csp_ResourceLabels (ci_Spec ci))
      in case labels of None \<Rightarrow> Map.empty | Some m \<Rightarrow> m)"

definition ClusterInstallationLabels :: "ClusterInstallation \<Rightarrow> string \<Rightarrow> strmap" where
  "ClusterInstallationLabels ci name =
     (ClusterInstallationResourceLabels name)(ci_ClusterLabel \<mapsto> name, ''app'' \<mapsto> ci_MattermostAppContainerName)
     ++ ci_user_labels ci"

definition ci_MySQLLabels :: strmap where
  "ci_MySQLLabels = [''app.kubernetes.io/component'' \<mapsto> ''database'',
     ''app.kubernetes.io/instance'' \<mapsto> ''db'',
     ''app.kubernetes.io/managed-by'' \<mapsto> ''mysql.presslabs.org'',
     ''app.kubernetes.io/name'' \<mapsto> ''mysql'']"

section \<open>Facts\<close>

lemma bg_SetDefaults_disabled [simp]: "\<not> bg_Enable bg \<Longrightarrow> bg_SetDefaults ci bg = (bg, Ok ())"
  by (simp add: bg_SetDefaults_def)

lemma can_SetDefaults_disabled [simp]: "\<not> can_Enable c \<Longrightarrow> can_SetDefaults ci c = (c, Ok ())"
  by (simp add: can_SetDefaults_def)

lemma ci_SetDefaults_meta [simp]: "ci_Meta (fst (ci_SetDefaults ci)) = ci_Meta ci"
  by (auto simp: ci_SetDefaults_def Let_def split: prod.splits outcome.splits)

lemma ci_SetReplicas_meta [simp]: "ci_Meta (fst (ci_SetReplicasAndResourcesFromSize ci)) = ci_Meta ci"
  by (auto simp: ci_SetReplicasAndResourcesFromSize_def ci_setDefaultReplicasAndResources_def
      ci_overrideReplicasAndResourcesFromSize_def Let_def split: outcome.splits)

lemma bg_SetDefaults_Ok:
  assumes "bg_SetDefaults ci bg = (bg', Ok ())" and "bg_Enable bg"
  shows "bg_Enable bg'" and "bg_ProductionDeployment bg' \<in> {BlueName, GreenName}"
    and "ad_Name (bg_Blue bg') = or_default (ad_Name (bg_Blue bg)) (ci_Name ci @ ''-blue'')"
    and "ad_Name (bg_Green bg') = or_default (ad_Name (bg_Green bg)) (ci_Name ci @ ''-green'')"
  using assms by (auto simp: bg_SetDefaults_def Let_def split: if_splits)

end
