(* ===== verification/Components.thy ===== *)
theory Components
  imports Generators ClusterInstallationApi
begin

text \<open>
  The components the operator runs itself: the MinIO instance and its secret
  (\<^verbatim>\<open>pkg/components/minio/minio.go\<close>) and the MySQL cluster (\<^verbatim>\<open>pkg/components/mysql/mysql.go\<close>).
  Random identifiers are parameters.  \<^verbatim>\<open>resource.MustParse\<close> panics on text that is not a
  quantity; which texts are is the library's predicate, a parameter.
\<close>

record MysqlCluster =
  myc_Meta :: ObjectMeta
  myc_MysqlVersion :: string
  myc_Replicas :: "int option"
  myc_SecretName :: string
  myc_AccessModes :: "string list"
  myc_Storage :: string
  myc_BackupSchedule :: string
  myc_BackupURL :: string
  myc_BackupSecretName :: string
  myc_BackupRemoteDeletePolicy :: string
  myc_InitBucketURL :: string
  myc_InitBucketSecretName :: string

definition MustParse :: "(string \<Rightarrow> bool) \<Rightarrow> string \<Rightarrow> string outcome" where
  "MustParse quantity q = (if quantity q then Ok q else Panic ''cannot parse quantity'')"

lemma MustParse_Ok [simp]: "MustParse quantity q = Ok r \<longleftrightarrow> quantity q \<and> r = q"
  by (auto simp: MustParse_def)

section \<open>MinIO\<close>

definition DefaultMinioSecretName :: "string \<Rightarrow> string" where
  "DefaultMinioSecretName installationName = installationName @ ''-minio''"

definition newMinioInstance ::
  "(string \<Rightarrow> bool) \<Rightarrow> string \<Rightarrow> string \<Rightarrow> strmap \<Rightarrow> OwnerReference list \<Rightarrow> int \<Rightarrow> string
     \<Rightarrow> MinIOInstance outcome" where
  "newMinioInstance quantity name ns labels ownerRefs replicas storageSize =
     bindO (MustParse quantity storageSize) (\<lambda>storage. Ok
       \<lparr>mi_Meta = empty_meta\<lparr>om_Name := name, om_Namespace := ns, om_Labels := MapLit labels,
          om_OwnerReferences := ownerRefs\<rparr>,
        mi_Replicas = replicas,
        mi_Mountpath = ''/export'',
        mi_CredsSecret = name,
        mi_ClaimName = name,
        mi_AccessModes = [''ReadWriteOnce''],
        mi_Storage = storage\<rparr>)"

definition InstanceV1Beta :: "(string \<Rightarrow> bool) \<Rightarrow> Mattermost \<Rightarrow> MinIOInstance outcome" where
  "InstanceV1Beta quantity mm =
     (let minioName = mm_Name mm @ ''-minio''
      in case fs_OperatorManaged (s_FileStore (mm_Spec mm)) of
           None \<Rightarrow> Panic ''nil OperatorManaged''
         | Some omm \<Rightarrow>
             (case omm_Replicas omm of
                None \<Rightarrow> Panic ''nil Replicas''
              | Some n \<Rightarrow> newMinioInstance quantity minioName (mm_Namespace mm)
                            (MattermostResourceLabels (mm_Name mm)) (MattermostOwnerReference mm)
                            n (omm_StorageSize omm)))"

definition minioSecretData :: "string \<Rightarrow> string \<Rightarrow> strmap" where
  "minioSecretData id16 id28 = [''accesskey'' \<mapsto> id16, ''secretkey'' \<mapsto> id28]"

definition SecretV1Beta :: "string \<Rightarrow> string \<Rightarrow> Mattermost \<Rightarrow> Secret" where
  "SecretV1Beta id16 id28 mm =
     GenerateSecretV1Beta mm (DefaultMinioSecretName (mm_Name mm))
       (ClusterInstallationResourceLabels (mm_Name mm)) (minioSecretData id16 id28)"

section \<open>MySQL\<close>

definition DefaultDatabaseSecretName :: "string \<Rightarrow> string" where
  "DefaultDatabaseSecretName installationName = installationName @ ''-mysql-root-password''"

definition ClusterV1Beta :: "(string \<Rightarrow> bool) \<Rightarrow> Mattermost \<Rightarrow> MysqlCluster outcome" where
  "ClusterV1Beta quantity mm =
     (case db_OperatorManaged (s_Database (mm_Spec mm)) of
        None \<Rightarrow> Panic ''nil OperatorManaged''
      | Some omd \<Rightarrow>
          bindO (MustParse quantity (omd_StorageSize omd)) (\<lambda>storage.
          let restore = omd_InitBucketURL omd \<noteq> [] \<and> omd_BackupRestoreSecretName omd \<noteq> []
          in Ok \<lparr>myc_Meta = empty_meta\<lparr>om_Name := HashWithPrefix ''db'' (mm_Name mm),
                   om_Namespace := mm_Namespace mm,
                   om_Labels := MapLit (MattermostResourceLabels (mm_Name mm)),
                   om_OwnerReferences := MattermostOwnerReference mm\<rparr>,
                 myc_MysqlVersion = omd_Version omd,
                 myc_Replicas = omd_Replicas omd,
                 myc_SecretName = DefaultDatabaseSecretName (mm_Name mm),
                 myc_AccessModes = [''ReadWriteOnce''],
                 myc_Storage = storage,
                 myc_BackupSchedule = omd_BackupSchedule omd,
                 myc_BackupURL = omd_BackupURL omd,
                 myc_BackupSecretName = omd_BackupRestoreSecretName omd,
                 myc_BackupRemoteDeletePolicy = omd_BackupRemoteDeletePolicy omd,
                 myc_InitBucketURL = (if restore then omd_InitBucketURL omd else []),
                 myc_InitBucketSecretName = (if restore then omd_BackupRestoreSecretName omd else [])\<rparr>))"

section \<open>Facts\<close>

text \<open>
  On a settled resource neither generator dereferences a nil pointer: what is left is a storage
  size that is not a quantity.
\<close>

lemma InstanceV1Beta_settled:
  assumes "sized mm" and "\<not> isAnyExceptOperatorManaged (s_FileStore (mm_Spec mm))"
  obtains omm n where "fs_OperatorManaged (s_FileStore (mm_Spec mm)) = Some omm"
    "omm_Replicas omm = Some n"
    "InstanceV1Beta quantity mm = newMinioInstance quantity (mm_Name mm @ ''-minio'') (mm_Namespace mm)
       (MattermostResourceLabels (mm_Name mm)) (MattermostOwnerReference mm) n (omm_StorageSize omm)"
  using assms
  by (auto simp: sized_def fs_sized_def InstanceV1Beta_def Let_def split: option.splits)

lemma InstanceV1Beta_no_panic:
  assumes "sized mm" and "\<not> isAnyExceptOperatorManaged (s_FileStore (mm_Spec mm))"
    and "\<And>omm. fs_OperatorManaged (s_FileStore (mm_Spec mm)) = Some omm \<Longrightarrow> quantity (omm_StorageSize omm)"
  shows "\<exists>mi. InstanceV1Beta quantity mm = Ok mi \<and> om_Name (mi_Meta mi) = mm_Name mm @ ''-minio''
     \<and> om_Namespace (mi_Meta mi) = mm_Namespace mm"
proof -
  from InstanceV1Beta_settled [OF assms(1,2), of quantity] obtain omm n where
    "fs_OperatorManaged (s_FileStore (mm_Spec mm)) = Some omm"
    "InstanceV1Beta quantity mm = newMinioInstance quantity (mm_Name mm @ ''-minio'') (mm_Namespace mm)
       (MattermostResourceLabels (mm_Name mm)) (MattermostOwnerReference mm) n (omm_StorageSize omm)"
    by blast
  with assms(3) show ?thesis by (simp add: newMinioInstance_def MustParse_def)
qed

lemma ClusterV1Beta_no_panic:
  assumes "sized mm" and "\<not> db_IsExternal (s_Database (mm_Spec mm))"
    and "\<And>omd. db_OperatorManaged (s_Database (mm_Spec mm)) = Some omd \<Longrightarrow> quantity (omd_StorageSize omd)"
  shows "\<exists>c. ClusterV1Beta quantity mm = Ok c \<and> myc_Replicas c \<noteq> None
     \<and> om_Name (myc_Meta c) = HashWithPrefix ''db'' (mm_Name mm) \<and> om_Namespace (myc_Meta c) = mm_Namespace mm"
  using assms
  by (auto simp: sized_def db_sized_def ClusterV1Beta_def MustParse_def Let_def split: option.splits)

section \<open>Properties\<close>

lemma default_mattermost_meta: "default_mattermost mm = Ok mm' \<Longrightarrow> mm_Meta mm' = mm_Meta mm"
  using SetDefaults_frame SetReplicas_frame(1) by (fastforce simp: default_mattermost_Ok)

text \<open>
  After defaulting, the generators of the managed MySQL cluster and MinIO instance never meet a
  nil pointer: each returns an object of the installation's namespace with its replica count, and
  the only failure left is the panic on a storage size that is not a quantity, which the user
  controls.
\<close>

theorem managed_components_generated:
  assumes "default_mattermost mm = Ok mm'"
  shows "(if db_IsExternal (s_Database (mm_Spec mm')) then True else
      \<exists>omd. db_OperatorManaged (s_Database (mm_Spec mm')) = Some omd \<and>
        (case ClusterV1Beta quantity mm' of
           Ok c \<Rightarrow> quantity (omd_StorageSize omd) \<and> myc_Replicas c \<noteq> None \<and> om_Namespace (myc_Meta c) = mm_Namespace mm
             \<and> om_Name (myc_Meta c) = HashWithPrefix ''db'' (mm_Name mm)
         | Panic _ \<Rightarrow> \<not> quantity (omd_StorageSize omd) | Err _ \<Rightarrow> False))
    \<and> (if isAnyExceptOperatorManaged (s_FileStore (mm_Spec mm')) then True else
      \<exists>omm n. fs_OperatorManaged (s_FileStore (mm_Spec mm')) = Some omm \<and> omm_Replicas omm = Some n \<and>
        (case InstanceV1Beta quantity mm' of
           Ok mi \<Rightarrow> quantity (omm_StorageSize omm) \<and> mi_Replicas mi = n \<and> om_Namespace (mi_Meta mi) = mm_Namespace mm
             \<and> om_Name (mi_Meta mi) = mm_Name mm @ ''-minio''
         | Panic _ \<Rightarrow> \<not> quantity (omm_StorageSize omm) | Err _ \<Rightarrow> False))"
proof -
  have s: "sized mm'" and meta: "mm_Meta mm' = mm_Meta mm"
    using default_mattermost_settled [OF assms] default_mattermost_meta [OF assms] by simp_all
  have db: "db_sized (s_Database (mm_Spec mm'))" and fs: "fs_sized (s_FileStore (mm_Spec mm'))"
    using s by (simp_all add: sized_def)
  show ?thesis
    using db fs
    by (auto simp: db_sized_def fs_sized_def ClusterV1Beta_def InstanceV1Beta_def newMinioInstance_def MustParse_def
        meta Let_def split: option.splits)
qed

theorem managed_components_generated_witness:
  "\<exists>mm' c mi. default_mattermost demo_mm = Ok mm' \<and> ClusterV1Beta (\<lambda>q. q = ''50Gi'') mm' = Ok c
     \<and> InstanceV1Beta (\<lambda>q. q = ''50Gi'') mm' = Ok mi \<and> om_Name (mi_Meta mi) = ''mm-minio''"
proof -
  obtain mm' where d: "default_mattermost demo_mm = Ok mm'" using demo_defaults by blast
  have "\<not> db_IsExternal (s_Database (mm_Spec mm'))" "\<not> isAnyExceptOperatorManaged (s_FileStore (mm_Spec mm'))"
    "\<And>omd. db_OperatorManaged (s_Database (mm_Spec mm')) = Some omd \<Longrightarrow> omd_StorageSize omd = ''50Gi''"
    "\<And>omm. fs_OperatorManaged (s_FileStore (mm_Spec mm')) = Some omm \<Longrightarrow> omm_StorageSize omm = ''50Gi''"
    using d by (auto simp: default_mattermost_def SetDefaults_def demo_mm_def demo_spec_def zero_spec_def
        AWSLoadBalancerEnabled_def IngressEnabled_def GetIngressHost_def Let_def
        SetReplicasAndResourcesFromSize_def setDefaultReplicasAndResources_def db_SetDefaults_def fs_SetDefaults_def
        db_IsExternal_def fs_kind_defs db_SetDefaultReplicasAndResources_def fs_SetDefaultReplicasAndResources_def
        db_ensureDefault_def fs_ensureDefault_def omd_SetDefaults_def omm_SetDefaults_def
        omd_SetDefaultReplicasAndResources_def omm_SetDefaultReplicasAndResources_def zero_omd_def zero_omm_def
        DefaultStorageSize_def DefaultFilestoreStorageSize_def or_default_def)
  with managed_components_generated [OF d, of "\<lambda>q. q = ''50Gi''"] d show ?thesis
    by (cases "ClusterV1Beta (\<lambda>q. q = ''50Gi'') mm'"; cases "InstanceV1Beta (\<lambda>q. q = ''50Gi'') mm'")
       (auto simp: demo_mm_def)
qed

end
