(* ===== verification/ResourcePatch.thy ===== *)
theory ResourcePatch
  imports MattermostApi
begin

text \<open>
  The user-supplied JSON patches of \<^verbatim>\<open>apis/mattermost/v1beta1/patch_apply.go\<close>: validation against
  the forbidden paths, application to a generated Deployment or Service, and the patch status.

  What \<^verbatim>\<open>json.Unmarshal\<close> does with the parsed text is written out for the struct it decodes into:
  object keys match a field when they are equal to its tag up to letter case, a later key
  overwrites an earlier one, \<^verbatim>\<open>null\<close> leaves a field as it is, and any other kind of value is an
  error.  The JSON grammar itself, the \<^verbatim>\<open>json-patch\<close> package and the Kubernetes serializers are
  parameters, gathered in the record \<open>codec\<close>.
\<close>

datatype json = JNull | JBool bool | JNum string | JStr string
  | JArr "json list" | JObj "(string \<times> json) list"

record codec =
  cx_parse :: "string \<Rightarrow> json option"
  cx_DecodePatch :: "string \<Rightarrow> (string \<Rightarrow> string outcome) outcome"
  cx_Scheme :: "unit outcome"
  cx_EncodeDeployment :: "Deployment \<Rightarrow> string outcome"
  cx_DecodeDeployment :: "string \<Rightarrow> Deployment outcome"
  cx_EncodeService :: "Service \<Rightarrow> string outcome"
  cx_DecodeService :: "string \<Rightarrow> Service outcome"

section \<open>Validation\<close>

definition forbiddenDeploymentPatchPrefixes :: "string list" where
  "forbiddenDeploymentPatchPrefixes =
     [''/spec/template/spec/hostNetwork'',
      ''/spec/template/spec/hostPID'',
      ''/spec/template/spec/hostIPC'',
      ''/spec/template/spec/volumes'',
      ''/spec/template/spec/serviceAccountName'',
      ''/spec/template/spec/serviceAccount'',
      ''/spec/template/spec/nodeSelector'',
      ''/spec/template/spec/nodeName'',
      ''/spec/template/spec/initContainers'']"

definition forbiddenDeploymentPatchContains :: "string list" where
  "forbiddenDeploymentPatchContains =
     [''/securityContext/privileged'',
      ''/securityContext/allowPrivilegeEscalation'',
      ''/securityContext/runAsUser'',
      ''/securityContext/capabilities'']"

definition forbiddenServicePatchPrefixes :: "string list" where
  "forbiddenServicePatchPrefixes = [''/spec/selector'', ''/spec/externalIPs'', ''/spec/externalName'']"

record patchOperation =
  po_Op :: string
  po_Path :: string

definition type_error :: "string \<Rightarrow> go_error" where
  "type_error what = Errorf ''json: cannot unmarshal into Go value'' [what]"

text \<open>A string field of the struct: the value of each key that names it, in order.\<close>

fun decode_string :: "json \<Rightarrow> string \<Rightarrow> string outcome" where
  "decode_string (JStr s) old = Ok s"
| "decode_string JNull old = Ok old"
| "decode_string _ old = Err (type_error ''string'')"

fun decode_fields :: "(string \<times> json) list \<Rightarrow> patchOperation \<Rightarrow> patchOperation outcome" where
  "decode_fields [] po = Ok po"
| "decode_fields ((k, v) # kvs) po =
     (if ToLower k = ''op''
      then bindO (decode_string v (po_Op po)) (\<lambda>s. decode_fields kvs (po\<lparr>po_Op := s\<rparr>))
      else if ToLower k = ''path''
      then bindO (decode_string v (po_Path po)) (\<lambda>s. decode_fields kvs (po\<lparr>po_Path := s\<rparr>))
      else decode_fields kvs po)"

fun decode_op :: "json \<Rightarrow> patchOperation outcome" where
  "decode_op (JObj kvs) = decode_fields kvs \<lparr>po_Op = [], po_Path = []\<rparr>"
| "decode_op JNull = Ok \<lparr>po_Op = [], po_Path = []\<rparr>"
| "decode_op _ = Err (type_error ''patchOperation'')"

fun decode_list :: "json list \<Rightarrow> patchOperation list outcome" where
  "decode_list [] = Ok []"
| "decode_list (v # vs) = bindO (decode_op v) (\<lambda>po. bindO (decode_list vs) (\<lambda>pos. Ok (po # pos)))"

fun decode_ops :: "json option \<Rightarrow> patchOperation list outcome" where
  "decode_ops None = Err (New ''invalid JSON'')"
| "decode_ops (Some (JArr vs)) = decode_list vs"
| "decode_ops (Some JNull) = Ok []"
| "decode_ops (Some _) = Err (type_error ''[]patchOperation'')"

definition on_path :: "string \<Rightarrow> string \<Rightarrow> bool" where
  "on_path path pre = (path = pre \<or> HasPrefix path (pre @ ''/''))"

definition forbidden_error :: "patchOperation \<Rightarrow> go_error" where
  "forbidden_error po =
     Errorf ''patch operation %q on forbidden path %q is not allowed'' [po_Op po, po_Path po]"

fun check_ops :: "(string \<Rightarrow> bool) \<Rightarrow> patchOperation list \<Rightarrow> unit outcome" where
  "check_ops bad [] = Ok ()"
| "check_ops bad (po # pos) = (if bad (po_Path po) then Err (forbidden_error po) else check_ops bad pos)"

definition forbidden_deployment_path :: "string \<Rightarrow> bool" where
  "forbidden_deployment_path path =
     (list_ex (on_path path) forbiddenDeploymentPatchPrefixes
      \<or> list_ex (\<lambda>segment. Contains path segment) forbiddenDeploymentPatchContains)"

definition forbidden_service_path :: "string \<Rightarrow> bool" where
  "forbidden_service_path path = list_ex (on_path path) forbiddenServicePatchPrefixes"

definition validateDeploymentPatch :: "codec \<Rightarrow> string \<Rightarrow> unit outcome" where
  "validateDeploymentPatch cx rawPatch =
     bindO (wrapO ''failed to decode patch operations for validation'' (decode_ops (cx_parse cx rawPatch)))
       (check_ops forbidden_deployment_path)"

definition validateServicePatch :: "codec \<Rightarrow> string \<Rightarrow> unit outcome" where
  "validateServicePatch cx rawPatch =
     bindO (wrapO ''failed to decode patch operations for validation'' (decode_ops (cx_parse cx rawPatch)))
       (check_ops forbidden_service_path)"

section \<open>Application\<close>

definition rp_IsEmpty :: "ResourcePatch option \<Rightarrow> bool" where
  "rp_IsEmpty rp = (case rp of None \<Rightarrow> True | Some r \<Rightarrow> rp_Service r = None \<and> rp_Deployment r = None)"

definition applyPatches :: "codec \<Rightarrow> Patch \<Rightarrow> string \<Rightarrow> string outcome" where
  "applyPatches cx p encodedResource =
     bindO (wrapO ''failed to encode patch: %s'' (cx_DecodePatch cx (p_Patch p)))
       (\<lambda>jsonPatch. wrapO ''failed to apply patch: %s'' (jsonPatch encodedResource))"

definition lazyEncoder :: "codec \<Rightarrow> unit outcome" where
  "lazyEncoder cx = wrapO ''failed to add types to schema'' (cx_Scheme cx)"

definition lazyDecoder :: "codec \<Rightarrow> unit outcome" where
  "lazyDecoder cx = wrapO ''failed to add types to schema'' (cx_Scheme cx)"

definition applyToResource ::
  "codec \<Rightarrow> ('r \<Rightarrow> string outcome) \<Rightarrow> (string \<Rightarrow> 'r outcome) \<Rightarrow> Patch \<Rightarrow> 'r \<Rightarrow> 'r outcome" where
  "applyToResource cx encode decode p resource =
     bindO (wrapO ''failed to initialize encoder'' (lazyEncoder cx)) (\<lambda>_.
     bindO (wrapO ''failed to encode object'' (encode resource)) (\<lambda>encoded.
     bindO (wrapO ''failed to apply JSON patches'' (applyPatches cx p encoded)) (\<lambda>patched.
     bindO (wrapO ''failed to initialize decoder'' (lazyDecoder cx)) (\<lambda>_.
     wrapO ''failed to decode patched object'' (decode patched)))))"

text \<open>An inactive patch leaves the destination object as it was: the zero object of the caller.\<close>

definition applyPatch ::
  "codec \<Rightarrow> ('r \<Rightarrow> string outcome) \<Rightarrow> (string \<Rightarrow> 'r outcome) \<Rightarrow> Patch \<Rightarrow> 'r \<Rightarrow> 'r \<Rightarrow> 'r outcome" where
  "applyPatch cx encode decode p resource destination =
     (if p_Disable p \<or> p_Patch p = [] then Ok destination
      else applyToResource cx encode decode p resource)"

definition ApplyToDeployment ::
  "codec \<Rightarrow> ResourcePatch option \<Rightarrow> Deployment \<Rightarrow> (Deployment \<times> bool) outcome" where
  "ApplyToDeployment cx rp deployment =
     (case Option.bind rp rp_Deployment of
        None \<Rightarrow> Ok (deployment, False)
      | Some p \<Rightarrow>
          if p_Disable p \<or> p_Patch p = [] then Ok (deployment, False)
          else bindO (wrapO ''deployment patch validation failed'' (validateDeploymentPatch cx (p_Patch p))) (\<lambda>_.
               bindO (wrapO ''failed to apply patch to deployment''
                        (applyPatch cx (cx_EncodeDeployment cx) (cx_DecodeDeployment cx) p deployment
                           zero_deployment)) (\<lambda>patched.
               Ok (patched, True))))"

definition ApplyToService ::
  "codec \<Rightarrow> ResourcePatch option \<Rightarrow> Service \<Rightarrow> (Service \<times> bool) outcome" where
  "ApplyToService cx rp service =
     (case Option.bind rp rp_Service of
        None \<Rightarrow> Ok (service, False)
      | Some p \<Rightarrow>
          if p_Disable p \<or> p_Patch p = [] then Ok (service, False)
          else bindO (wrapO ''service patch validation failed'' (validateServicePatch cx (p_Patch p))) (\<lambda>_.
               bindO (wrapO ''failed to apply patch to service''
                        (applyPatch cx (cx_EncodeService cx) (cx_DecodeService cx) p service
                           zero_service)) (\<lambda>patched.
               Ok (patched, True))))"

section \<open>Patch status\<close>

definition pst_set :: "(go_error \<Rightarrow> string) \<Rightarrow> bool \<Rightarrow> go_error option \<Rightarrow> PatchStatus \<Rightarrow> PatchStatus" where
  "pst_set err_text applied err ps =
     ps\<lparr>pst_Applied := applied,
        pst_Error := (case err of None \<Rightarrow> [] | Some e \<Rightarrow> err_text e)\<rparr>"

definition empty_patch_status :: PatchStatus where
  "empty_patch_status = \<lparr>pst_Applied = False, pst_Error = []\<rparr>"

definition rps_or_new :: "MattermostStatus \<Rightarrow> ResourcePatchStatus" where
  "rps_or_new s = (case st_ResourcePatch s of
     None \<Rightarrow> \<lparr>rps_ServicePatch = None, rps_DeploymentPatch = None\<rparr> | Some r \<Rightarrow> r)"

definition SetDeploymentPatchStatus ::
  "(go_error \<Rightarrow> string) \<Rightarrow> bool \<Rightarrow> go_error option \<Rightarrow> MattermostStatus \<Rightarrow> MattermostStatus" where
  "SetDeploymentPatchStatus err_text applied err s =
     (let r = rps_or_new s;
          ps = (case rps_DeploymentPatch r of None \<Rightarrow> empty_patch_status | Some p \<Rightarrow> p)
      in s\<lparr>st_ResourcePatch := Some (r\<lparr>rps_DeploymentPatch := Some (pst_set err_text applied err ps)\<rparr>)\<rparr>)"

definition ClearDeploymentPatchStatus :: "MattermostStatus \<Rightarrow> MattermostStatus" where
  "ClearDeploymentPatchStatus s =
     (case st_ResourcePatch s of None \<Rightarrow> s
      | Some r \<Rightarrow> s\<lparr>st_ResourcePatch := Some (r\<lparr>rps_DeploymentPatch := None\<rparr>)\<rparr>)"

definition SetServicePatchStatus ::
  "(go_error \<Rightarrow> string) \<Rightarrow> bool \<Rightarrow> go_error option \<Rightarrow> MattermostStatus \<Rightarrow> MattermostStatus" where
  "SetServicePatchStatus err_text applied err s =
     (let r = rps_or_new s;
          ps = (case rps_ServicePatch r of None \<Rightarrow> empty_patch_status | Some p \<Rightarrow> p)
      in s\<lparr>st_ResourcePatch := Some (r\<lparr>rps_ServicePatch := Some (pst_set err_text applied err ps)\<rparr>)\<rparr>)"

definition ClearServicePatchStatus :: "MattermostStatus \<Rightarrow> MattermostStatus" where
  "ClearServicePatchStatus s =
     (case st_ResourcePatch s of None \<Rightarrow> s
      | Some r \<Rightarrow> s\<lparr>st_ResourcePatch := Some (r\<lparr>rps_ServicePatch := None\<rparr>)\<rparr>)"

section \<open>Facts\<close>

lemma check_ops_Ok: "check_ops bad pos = Ok () \<longleftrightarrow> (\<forall>po \<in> set pos. \<not> bad (po_Path po))"
  by (induction pos) auto

lemma decode_list_set:
  "decode_list vs = Ok pos \<Longrightarrow> v \<in> set vs \<Longrightarrow> \<exists>po \<in> set pos. decode_op v = Ok po"
  by (induction vs arbitrary: pos) (auto simp: bindO_eq_Ok)

text \<open>When one key of the object names the path, up to letter case, its value is the decoded path.\<close>

definition path_keys :: "(string \<times> json) list \<Rightarrow> json list" where
  "path_keys kvs = map snd (filter (\<lambda>kv. ToLower (fst kv) = ''path'') kvs)"

lemma path_keys_simps [simp]:
  "path_keys [] = []"
  "path_keys ((k, v) # kvs) = (if ToLower k = ''path'' then v # path_keys kvs else path_keys kvs)"
  by (simp_all add: path_keys_def)

lemma decode_fields_path:
  "decode_fields kvs po = Ok po' \<Longrightarrow>
     (case rev (filter (\<lambda>v. v \<noteq> JNull) (path_keys kvs)) of
        [] \<Rightarrow> po_Path po' = po_Path po | v # _ \<Rightarrow> v = JStr (po_Path po'))"
proof (induction kvs po rule: decode_fields.induct)
  case (1 po)
  then show ?case by (simp add: path_keys_def)
next
  case (2 k v kvs po)
  show ?case
  proof (cases "ToLower k = ''path''")
    case True
    with 2(4) obtain s where s: "decode_string v (po_Path po) = Ok s"
      and rest: "decode_fields kvs (po\<lparr>po_Path := s\<rparr>) = Ok po'"
      by (auto simp: bindO_eq_Ok)
    have ih: "case rev (filter (\<lambda>v. v \<noteq> JNull) (path_keys kvs)) of
        [] \<Rightarrow> po_Path po' = s | v # _ \<Rightarrow> v = JStr (po_Path po')"
      using 2(2) [OF _ True rest] True by (auto split: list.splits)
    show ?thesis
      using ih s True by (cases v) (auto split: list.splits)
  next
    case False
    then have pk: "path_keys ((k, v) # kvs) = path_keys kvs" by (simp add: path_keys_def)
    show ?thesis
    proof (cases "ToLower k = ''op''")
      case True
      with 2(4) obtain s where "decode_string v (po_Op po) = Ok s" "decode_fields kvs (po\<lparr>po_Op := s\<rparr>) = Ok po'"
        by (auto simp: bindO_eq_Ok)
      with 2(1) [of s] True show ?thesis by (auto simp: pk split: list.splits)
    next
      case no_op: False
      with 2(3) 2(4) False show ?thesis by (simp add: pk)
    qed
  qed
qed

lemma decode_op_path:
  assumes "decode_op (JObj kvs) = Ok po" and "path_keys kvs = [JStr p]"
  shows "po_Path po = p"
  using decode_fields_path [of kvs _ po] assms by auto

lemma validated_paths:
  assumes "bindO (wrapO m (decode_ops (Some (JArr vs)))) (check_ops bad) = Ok ()"
    and "JObj kvs \<in> set vs" and "path_keys kvs = [JStr p]"
  shows "\<not> bad p"
proof -
  from assms(1) obtain pos where pos: "decode_list vs = Ok pos" "check_ops bad pos = Ok ()"
    by (auto simp: bindO_eq_Ok)
  from decode_list_set [OF pos(1) assms(2)] obtain po where
    po: "po \<in> set pos" "decode_op (JObj kvs) = Ok po" by auto
  with decode_op_path [OF po(2) assms(3)] pos(2) show ?thesis
    by (auto simp: check_ops_Ok)
qed

section \<open>Properties\<close>

definition demo_codec :: codec where
  "demo_codec = \<lparr>cx_parse = (\<lambda>raw. if raw = ''P'' then Some (JArr [JObj [(''op'', JStr ''add''),
       (''path'', JStr ''/spec/template/spec/priorityClassName''), (''value'', JStr ''high'')]]) else None),
     cx_DecodePatch = (\<lambda>_. Ok (\<lambda>r. Ok (r @ ''!''))), cx_Scheme = Ok (),
     cx_EncodeDeployment = (\<lambda>_. Ok ''D''), cx_DecodeDeployment = (\<lambda>_. Ok zero_deployment),
     cx_EncodeService = (\<lambda>_. Ok ''S''), cx_DecodeService = (\<lambda>_. Ok zero_service)\<rparr>"

definition demo_patch :: ResourcePatch where
  "demo_patch = \<lparr>rp_Service = None, rp_Deployment = Some \<lparr>p_Disable = False, p_Patch = ''P''\<rparr>\<rparr>"




text \<open>
  A patch that is absent, disabled or empty leaves the object alone and is reported as not
  applied; a patch that is reported as applied passed the validation; a rejected patch is an error,
  and the caller keeps its own object.
\<close>

theorem ApplyToService_outcomes:
  "(case ApplyToService cx rp svc of
      Ok (svc', applied) \<Rightarrow>
        (if applied then \<exists>r p. rp = Some r \<and> rp_Service r = Some p \<and> \<not> p_Disable p \<and> p_Patch p \<noteq> []
                        \<and> validateServicePatch cx (p_Patch p) = Ok ()
                        \<and> applyToResource cx (cx_EncodeService cx) (cx_DecodeService cx) p svc = Ok svc'
         else svc' = svc)
    | _ \<Rightarrow> \<exists>r p. rp = Some r \<and> rp_Service r = Some p \<and> \<not> p_Disable p \<and> p_Patch p \<noteq> [])"
  by (auto simp: ApplyToService_def applyPatch_def bind_eq_Some_conv bindO_eq_Ok wrapO_eq_Ok
      split: outcome.splits option.splits if_splits)

end
