(* ===== verification/Cluster.thy ===== *)
theory Cluster
  imports Components ResourcePatch
begin

text \<open>
  The world the controllers act in.  A controller is a program that calls the Kubernetes API
  through \<^verbatim>\<open>controller-runtime\<close>'s client; what the API answers is a parameter.  Every call is
  recorded, and an answer can depend on the calls made before: the environment may change in any
  way between two calls.  A program maps a state, which holds the calls made so far, to its
  outcome and the next state.

  Go's client decodes the server's answer to Create and Update into the object passed in; here
  the call returns that object.
\<close>

section \<open>Objects and calls\<close>

datatype kind = ServiceAccountKind | RoleKind | RoleBindingKind | ServiceKind | IngressKind | IngressClassKind | DeploymentKind | PVCKind | SecretKind | MysqlKind | MinioKind | JobKind | ReplicaSetKind | PodKind | StatefulSetKind | MattermostKind | ClusterInstallationKind | RestoreDBKind

datatype kobj =
    KServiceAccount ServiceAccount
  | KRole Role
  | KRoleBinding RoleBinding
  | KService Service
  | KIngress IngressObj
  | KIngressClass IngressClass
  | KDeployment Deployment
  | KPVC PVC
  | KSecret Secret
  | KMysql MysqlCluster
  | KMinio MinIOInstance
  | KJob Job
  | KReplicaSet ReplicaSet
  | KPod Pod
  | KStatefulSet StatefulSet
  | KMattermost Mattermost
  | KClusterInstallation ClusterInstallation
  | KRestoreDB MattermostRestoreDB

fun kobj_kind :: "kobj \<Rightarrow> kind" where
  "kobj_kind (KServiceAccount _) = ServiceAccountKind"
| "kobj_kind (KRole _) = RoleKind"
| "kobj_kind (KRoleBinding _) = RoleBindingKind"
| "kobj_kind (KService _) = ServiceKind"
| "kobj_kind (KIngress _) = IngressKind"
| "kobj_kind (KIngressClass _) = IngressClassKind"
| "kobj_kind (KDeployment _) = DeploymentKind"
| "kobj_kind (KPVC _) = PVCKind"
| "kobj_kind (KSecret _) = SecretKind"
| "kobj_kind (KMysql _) = MysqlKind"
| "kobj_kind (KMinio _) = MinioKind"
| "kobj_kind (KJob _) = JobKind"
| "kobj_kind (KReplicaSet _) = ReplicaSetKind"
| "kobj_kind (KPod _) = PodKind"
| "kobj_kind (KStatefulSet _) = StatefulSetKind"
| "kobj_kind (KMattermost _) = MattermostKind"
| "kobj_kind (KClusterInstallation _) = ClusterInstallationKind"
| "kobj_kind (KRestoreDB _) = RestoreDBKind"

fun kobj_meta :: "kobj \<Rightarrow> ObjectMeta" where
  "kobj_meta (KServiceAccount x) = sa_Meta x"
| "kobj_meta (KRole x) = role_Meta x"
| "kobj_meta (KRoleBinding x) = rb_Meta x"
| "kobj_meta (KService x) = svc_Meta x"
| "kobj_meta (KIngress x) = i_Meta x"
| "kobj_meta (KIngressClass x) = ic_Meta x"
| "kobj_meta (KDeployment x) = d_Meta x"
| "kobj_meta (KPVC x) = pvc_Meta x"
| "kobj_meta (KSecret x) = sec_Meta x"
| "kobj_meta (KMysql x) = myc_Meta x"
| "kobj_meta (KMinio x) = mi_Meta x"
| "kobj_meta (KJob x) = j_Meta x"
| "kobj_meta (KReplicaSet x) = rs_Meta x"
| "kobj_meta (KPod x) = pod_Meta x"
| "kobj_meta (KStatefulSet x) = ss_Meta x"
| "kobj_meta (KMattermost x) = mm_Meta x"
| "kobj_meta (KClusterInstallation x) = ci_Meta x"
| "kobj_meta (KRestoreDB x) = rdb_Meta x"

text \<open>A namespaced name, as name and namespace.\<close>

type_synonym key = "string \<times> string"

definition kobj_key :: "kobj \<Rightarrow> key" where
  "kobj_key k = (om_Name (kobj_meta k), om_Namespace (kobj_meta k))"

text \<open>
  Reads through the cache and past it are different calls.  A list names a selector.  A deletion can
  carry an option: leave the dependent objects in place, or the grace period.
\<close>

datatype delete_option = PropagationOrphan | GracePeriodSeconds int

datatype call =
    CGet kind key
  | CDirectGet kind key
  | CList kind "string option" strmap
  | CDirectList kind string strmap
  | CCreate kobj
  | CUpdate kobj
  | CDelete kobj
  | CDeleteWith delete_option kobj
  | CStatusUpdate kobj

fun is_write :: "call \<Rightarrow> bool" where
  "is_write (CCreate _) = True"
| "is_write (CUpdate _) = True"
| "is_write (CDelete _) = True"
| "is_write (CDeleteWith _ _) = True"
| "is_write (CStatusUpdate _) = True"
| "is_write _ = False"

section \<open>The environment\<close>

text \<open>
  What the API server answers for one kind of object, and what the libraries do with an object of
  that kind: the object matcher's comparison (whether the patch is empty), the annotation map with
  the last applied configuration, and the owner references with the controller reference.
\<close>

record 'o api =
  api_get :: "call list \<Rightarrow> key \<Rightarrow> go_error + 'o"
  api_direct_get :: "call list \<Rightarrow> key \<Rightarrow> go_error + 'o"
  api_list :: "call list \<Rightarrow> string option \<Rightarrow> strmap \<Rightarrow> go_error + 'o list"
  api_direct_list :: "call list \<Rightarrow> string \<Rightarrow> strmap \<Rightarrow> go_error + 'o list"
  api_create :: "call list \<Rightarrow> 'o \<Rightarrow> go_error + 'o"
  api_update :: "call list \<Rightarrow> 'o \<Rightarrow> go_error + 'o"
  api_delete :: "call list \<Rightarrow> 'o \<Rightarrow> go_error + unit"
  api_status_update :: "call list \<Rightarrow> 'o \<Rightarrow> go_error + 'o"
  api_Calculate :: "'o \<Rightarrow> 'o \<Rightarrow> go_error + bool"
  api_LastApplied :: "'o \<Rightarrow> go_error + gomap"
  api_ControllerRef :: "ObjectMeta \<Rightarrow> 'o \<Rightarrow> go_error + OwnerReference list"

record env =
  e_ServiceAccount :: "ServiceAccount api"
  e_Role :: "Role api"
  e_RoleBinding :: "RoleBinding api"
  e_Service :: "Service api"
  e_Ingress :: "IngressObj api"
  e_IngressClass :: "IngressClass api"
  e_Deployment :: "Deployment api"
  e_PVC :: "PVC api"
  e_Secret :: "Secret api"
  e_Mysql :: "MysqlCluster api"
  e_Minio :: "MinIOInstance api"
  e_Job :: "Job api"
  e_ReplicaSet :: "ReplicaSet api"
  e_Pod :: "Pod api"
  e_StatefulSet :: "StatefulSet api"
  e_Mattermost :: "Mattermost api"
  e_ClusterInstallation :: "ClusterInstallation api"
  e_RestoreDB :: "MattermostRestoreDB api"
  e_New16ID :: "call list \<Rightarrow> nat \<Rightarrow> string"
  e_New28ID :: "call list \<Rightarrow> string"
  e_err_text :: "go_error \<Rightarrow> string"
  e_quantity :: "string \<Rightarrow> bool"
  e_url_Parse :: url_parser
  e_codec :: codec
  e_latency :: "call list \<Rightarrow> nat"

text \<open>\<open>e_latency\<close> is how long the last of the calls took, in nanoseconds.\<close>

text \<open>The Go interface \<^verbatim>\<open>Object\<close>, and which part of the environment serves it.\<close>

record 'o kind_ops =
  k_kind :: kind
  k_obj :: "'o \<Rightarrow> kobj"
  k_meta :: "'o \<Rightarrow> ObjectMeta"
  k_set_meta :: "ObjectMeta \<Rightarrow> 'o \<Rightarrow> 'o"
  k_api :: "env \<Rightarrow> 'o api"

definition ServiceAccountK :: "ServiceAccount kind_ops" where
  "ServiceAccountK = \<lparr>k_kind = ServiceAccountKind, k_obj = KServiceAccount, k_meta = sa_Meta,
     k_set_meta = (\<lambda>m x. x\<lparr>sa_Meta := m\<rparr>), k_api = e_ServiceAccount\<rparr>"

definition RoleK :: "Role kind_ops" where
  "RoleK = \<lparr>k_kind = RoleKind, k_obj = KRole, k_meta = role_Meta,
     k_set_meta = (\<lambda>m x. x\<lparr>role_Meta := m\<rparr>), k_api = e_Role\<rparr>"

definition RoleBindingK :: "RoleBinding kind_ops" where
  "RoleBindingK = \<lparr>k_kind = RoleBindingKind, k_obj = KRoleBinding, k_meta = rb_Meta,
     k_set_meta = (\<lambda>m x. x\<lparr>rb_Meta := m\<rparr>), k_api = e_RoleBinding\<rparr>"

definition ServiceK :: "Service kind_ops" where
  "ServiceK = \<lparr>k_kind = ServiceKind, k_obj = KService, k_meta = svc_Meta,
     k_set_meta = (\<lambda>m x. x\<lparr>svc_Meta := m\<rparr>), k_api = e_Service\<rparr>"

definition IngressK :: "IngressObj kind_ops" where
  "IngressK = \<lparr>k_kind = IngressKind, k_obj = KIngress, k_meta = i_Meta,
     k_set_meta = (\<lambda>m x. x\<lparr>i_Meta := m\<rparr>), k_api = e_Ingress\<rparr>"

definition IngressClassK :: "IngressClass kind_ops" where
  "IngressClassK = \<lparr>k_kind = IngressClassKind, k_obj = KIngressClass, k_meta = ic_Meta,
     k_set_meta = (\<lambda>m x. x\<lparr>ic_Meta := m\<rparr>), k_api = e_IngressClass\<rparr>"

definition DeploymentK :: "Deployment kind_ops" where
  "DeploymentK = \<lparr>k_kind = DeploymentKind, k_obj = KDeployment, k_meta = d_Meta,
     k_set_meta = (\<lambda>m x. x\<lparr>d_Meta := m\<rparr>), k_api = e_Deployment\<rparr>"

definition PVCK :: "PVC kind_ops" where
  "PVCK = \<lparr>k_kind = PVCKind, k_obj = KPVC, k_meta = pvc_Meta,
     k_set_meta = (\<lambda>m x. x\<lparr>pvc_Meta := m\<rparr>), k_api = e_PVC\<rparr>"

definition SecretK :: "Secret kind_ops" where
  "SecretK = \<lparr>k_kind = SecretKind, k_obj = KSecret, k_meta = sec_Meta,
     k_set_meta = (\<lambda>m x. x\<lparr>sec_Meta := m\<rparr>), k_api = e_Secret\<rparr>"

definition MysqlK :: "MysqlCluster kind_ops" where
  "MysqlK = \<lparr>k_kind = MysqlKind, k_obj = KMysql, k_meta = myc_Meta,
     k_set_meta = (\<lambda>m x. x\<lparr>myc_Meta := m\<rparr>), k_api = e_Mysql\<rparr>"

definition MinioK :: "MinIOInstance kind_ops" where
  "MinioK = \<lparr>k_kind = MinioKind, k_obj = KMinio, k_meta = mi_Meta,
     k_set_meta = (\<lambda>m x. x\<lparr>mi_Meta := m\<rparr>), k_api = e_Minio\<rparr>"

definition JobK :: "Job kind_ops" where
  "JobK = \<lparr>k_kind = JobKind, k_obj = KJob, k_meta = j_Meta,
     k_set_meta = (\<lambda>m x. x\<lparr>j_Meta := m\<rparr>), k_api = e_Job\<rparr>"

definition ReplicaSetK :: "ReplicaSet kind_ops" where
  "ReplicaSetK = \<lparr>k_kind = ReplicaSetKind, k_obj = KReplicaSet, k_meta = rs_Meta,
     k_set_meta = (\<lambda>m x. x\<lparr>rs_Meta := m\<rparr>), k_api = e_ReplicaSet\<rparr>"

definition PodK :: "Pod kind_ops" where
  "PodK = \<lparr>k_kind = PodKind, k_obj = KPod, k_meta = pod_Meta,
     k_set_meta = (\<lambda>m x. x\<lparr>pod_Meta := m\<rparr>), k_api = e_Pod\<rparr>"

definition StatefulSetK :: "StatefulSet kind_ops" where
  "StatefulSetK = \<lparr>k_kind = StatefulSetKind, k_obj = KStatefulSet, k_meta = ss_Meta,
     k_set_meta = (\<lambda>m x. x\<lparr>ss_Meta := m\<rparr>), k_api = e_StatefulSet\<rparr>"

definition MattermostK :: "Mattermost kind_ops" where
  "MattermostK = \<lparr>k_kind = MattermostKind, k_obj = KMattermost, k_meta = mm_Meta,
     k_set_meta = (\<lambda>m x. x\<lparr>mm_Meta := m\<rparr>), k_api = e_Mattermost\<rparr>"

definition ClusterInstallationK :: "ClusterInstallation kind_ops" where
  "ClusterInstallationK = \<lparr>k_kind = ClusterInstallationKind, k_obj = KClusterInstallation, k_meta = ci_Meta,
     k_set_meta = (\<lambda>m x. x\<lparr>ci_Meta := m\<rparr>), k_api = e_ClusterInstallation\<rparr>"

definition RestoreDBK :: "MattermostRestoreDB kind_ops" where
  "RestoreDBK = \<lparr>k_kind = RestoreDBKind, k_obj = KRestoreDB, k_meta = rdb_Meta,
     k_set_meta = (\<lambda>m x. x\<lparr>rdb_Meta := m\<rparr>), k_api = e_RestoreDB\<rparr>"

lemmas kind_defs = ServiceAccountK_def RoleK_def RoleBindingK_def ServiceK_def IngressK_def IngressClassK_def DeploymentK_def PVCK_def SecretK_def MysqlK_def MinioK_def JobK_def ReplicaSetK_def PodK_def StatefulSetK_def MattermostK_def
  ClusterInstallationK_def RestoreDBK_def

locale object_kind =
  fixes K :: "'o kind_ops"
  assumes meta_set [simp]: "k_meta K (k_set_meta K m x) = m"
    and obj_kind [simp]: "kobj_kind (k_obj K x) = k_kind K"
    and obj_meta [simp]: "kobj_meta (k_obj K x) = k_meta K x"
begin

lemma obj_key: "kobj_key (k_obj K x) = (om_Name (k_meta K x), om_Namespace (k_meta K x))"
  by (simp add: kobj_key_def)

end

interpretation ServiceAccount_kind: object_kind ServiceAccountK
  by unfold_locales (simp_all add: ServiceAccountK_def)

interpretation Role_kind: object_kind RoleK
  by unfold_locales (simp_all add: RoleK_def)

interpretation RoleBinding_kind: object_kind RoleBindingK
  by unfold_locales (simp_all add: RoleBindingK_def)

interpretation Service_kind: object_kind ServiceK
  by unfold_locales (simp_all add: ServiceK_def)

interpretation Ingress_kind: object_kind IngressK
  by unfold_locales (simp_all add: IngressK_def)

interpretation IngressClass_kind: object_kind IngressClassK
  by unfold_locales (simp_all add: IngressClassK_def)

interpretation Deployment_kind: object_kind DeploymentK
  by unfold_locales (simp_all add: DeploymentK_def)

interpretation PVC_kind: object_kind PVCK
  by unfold_locales (simp_all add: PVCK_def)

interpretation Secret_kind: object_kind SecretK
  by unfold_locales (simp_all add: SecretK_def)

interpretation Mysql_kind: object_kind MysqlK
  by unfold_locales (simp_all add: MysqlK_def)

interpretation Minio_kind: object_kind MinioK
  by unfold_locales (simp_all add: MinioK_def)

interpretation Job_kind: object_kind JobK
  by unfold_locales (simp_all add: JobK_def)

interpretation ReplicaSet_kind: object_kind ReplicaSetK
  by unfold_locales (simp_all add: ReplicaSetK_def)

interpretation Pod_kind: object_kind PodK
  by unfold_locales (simp_all add: PodK_def)

interpretation StatefulSet_kind: object_kind StatefulSetK
  by unfold_locales (simp_all add: StatefulSetK_def)

interpretation Mattermost_kind: object_kind MattermostK
  by unfold_locales (simp_all add: MattermostK_def)

interpretation ClusterInstallation_kind: object_kind ClusterInstallationK
  by unfold_locales (simp_all add: ClusterInstallationK_def)

interpretation RestoreDB_kind: object_kind RestoreDBK
  by unfold_locales (simp_all add: RestoreDBK_def)

section \<open>Programs\<close>

record cluster =
  calls :: "call list"

type_synonym ('s, 'a) io = "'s \<Rightarrow> 'a outcome \<times> 's"

definition ret :: "'a \<Rightarrow> ('s, 'a) io" where
  "ret x = (\<lambda>s. (Ok x, s))"

definition lift :: "'a outcome \<Rightarrow> ('s, 'a) io" where
  "lift r = (\<lambda>s. (r, s))"

definition fail :: "go_error \<Rightarrow> ('s, 'a) io" where
  "fail e = (\<lambda>s. (Err e, s))"

definition bindM :: "('s, 'a) io \<Rightarrow> ('a \<Rightarrow> ('s, 'b) io) \<Rightarrow> ('s, 'b) io" where
  "bindM m f = (\<lambda>s. case m s of
     (Ok x, s') \<Rightarrow> f x s' | (Err e, s') \<Rightarrow> (Err e, s') | (Panic p, s') \<Rightarrow> (Panic p, s'))"

text \<open>\<^verbatim>\<open>err := f()\<close>: the error as a value.  A panic is not caught.\<close>

definition tryM :: "('s, 'a) io \<Rightarrow> ('s, go_error + 'a) io" where
  "tryM m = (\<lambda>s. case m s of
     (Ok x, s') \<Rightarrow> (Ok (Inr x), s') | (Err e, s') \<Rightarrow> (Ok (Inl e), s') | (Panic p, s') \<Rightarrow> (Panic p, s'))"

definition wrapM :: "string \<Rightarrow> ('s, 'a) io \<Rightarrow> ('s, 'a) io" where
  "wrapM msg m = (\<lambda>s. case m s of (r, s') \<Rightarrow> (wrapO msg r, s'))"

text \<open>\<^verbatim>\<open>defer\<close>: the deferred program runs whatever the outcome; its own result is dropped.\<close>

definition deferM :: "('s, 'a) io \<Rightarrow> ('s, unit) io \<Rightarrow> ('s, 'a) io" where
  "deferM m d = (\<lambda>s. case m s of (r, s') \<Rightarrow>
     (case d s' of (Panic p, s'') \<Rightarrow> (Panic p, s'') | (_, s'') \<Rightarrow> (r, s'')))"

definition get_state :: "('s, 's) io" where
  "get_state = (\<lambda>s. (Ok s, s))"

definition mod_state :: "('s \<Rightarrow> 's) \<Rightarrow> ('s, unit) io" where
  "mod_state f = (\<lambda>s. (Ok (), f s))"

text \<open>\<^verbatim>\<open>for _, x := range xs { f(x) }\<close>, left by an error that is returned.\<close>

primrec for_each :: "('a \<Rightarrow> ('s, unit) io) \<Rightarrow> 'a list \<Rightarrow> ('s, unit) io" where
  "for_each f [] = ret ()"
| "for_each f (x # xs) = bindM (f x) (\<lambda>_. for_each f xs)"

definition of_sum :: "go_error + 'a \<Rightarrow> 'a outcome" where
  "of_sum r = (case r of Inl e \<Rightarrow> Err e | Inr x \<Rightarrow> Ok x)"

definition call_api :: "call \<Rightarrow> (call list \<Rightarrow> go_error + 'a) \<Rightarrow> ('z cluster_scheme, 'a) io" where
  "call_api c f = (\<lambda>s. (of_sum (f (calls s)), s\<lparr>calls := calls s @ [c]\<rparr>))"

lemmas io_defs = ret_def lift_def fail_def bindM_def tryM_def wrapM_def deferM_def get_state_def
  mod_state_def call_api_def

lemma bindM_run:
  "bindM m f s = (r, s') \<longleftrightarrow> (\<exists>x s1. m s = (Ok x, s1) \<and> f x s1 = (r, s'))
     \<or> (\<exists>e. m s = (Err e, s') \<and> r = Err e) \<or> (\<exists>p. m s = (Panic p, s') \<and> r = Panic p)"
  by (auto simp: bindM_def split: prod.splits outcome.splits)

lemma bindM_Ok: "bindM m f s = (Ok y, s') \<longleftrightarrow> (\<exists>x s1. m s = (Ok x, s1) \<and> f x s1 = (Ok y, s'))"
  by (auto simp: bindM_run)

lemma tryM_run:
  "tryM m s = (r, s') \<longleftrightarrow> (\<exists>x. m s = (Ok x, s') \<and> r = Ok (Inr x))
     \<or> (\<exists>e. m s = (Err e, s') \<and> r = Ok (Inl e)) \<or> (\<exists>p. m s = (Panic p, s') \<and> r = Panic p)"
  by (auto simp: tryM_def split: prod.splits outcome.splits)

lemma wrapM_run: "wrapM msg m s = (r, s') \<longleftrightarrow> (\<exists>r0. m s = (r0, s') \<and> r = wrapO msg r0)"
  by (auto simp: wrapM_def split: prod.splits)

lemma basic_run [simp]:
  "ret x s = (r, s') \<longleftrightarrow> r = Ok x \<and> s' = s"
  "lift r0 s = (r, s') \<longleftrightarrow> r = r0 \<and> s' = s"
  "fail e s = (r, s') \<longleftrightarrow> r = Err e \<and> s' = s"
  "get_state s = (rs, s') \<longleftrightarrow> rs = Ok s \<and> s' = s"
  "mod_state f s = (ru, s') \<longleftrightarrow> ru = Ok () \<and> s' = f s"
  by (auto simp: ret_def lift_def fail_def get_state_def mod_state_def)

lemma wrapM_Ok [simp]: "wrapM msg m s = (Ok x, s') \<longleftrightarrow> m s = (Ok x, s')"
  by (auto simp: wrapM_def split: prod.splits elim: wrapO.elims)

lemma bindM_assoc: "bindM (bindM m f) g = bindM m (\<lambda>x. bindM (f x) g)"
proof (rule ext)
  fix s show "bindM (bindM m f) g s = bindM m (\<lambda>x. bindM (f x) g) s"
    by (cases "m s"; cases "fst (m s)") (auto simp: bindM_def)
qed

lemma of_sum_simps [simp]:
  "of_sum u = Ok v \<longleftrightarrow> u = Inr v" "of_sum u = Err e \<longleftrightarrow> u = Inl e" "of_sum u \<noteq> Panic p"
  by (auto simp: of_sum_def split: sum.splits)

lemma call_api_run: "call_api c f s = (r, s') \<longleftrightarrow> of_sum (f (calls s)) = r \<and> s' = s\<lparr>calls := calls s @ [c]\<rparr>"
  by (auto simp: call_api_def)

section \<open>The client\<close>

definition client_Get :: "env \<Rightarrow> 'o kind_ops \<Rightarrow> key \<Rightarrow> ('z cluster_scheme, 'o) io" where
  "client_Get env K key = call_api (CGet (k_kind K) key) (\<lambda>h. api_get (k_api K env) h key)"

definition reader_Get :: "env \<Rightarrow> 'o kind_ops \<Rightarrow> key \<Rightarrow> ('z cluster_scheme, 'o) io" where
  "reader_Get env K key = call_api (CDirectGet (k_kind K) key) (\<lambda>h. api_direct_get (k_api K env) h key)"

definition client_List ::
  "env \<Rightarrow> 'o kind_ops \<Rightarrow> string option \<Rightarrow> strmap \<Rightarrow> ('z cluster_scheme, 'o list) io" where
  "client_List env K ns sel = call_api (CList (k_kind K) ns sel) (\<lambda>h. api_list (k_api K env) h ns sel)"

definition reader_List ::
  "env \<Rightarrow> 'o kind_ops \<Rightarrow> string \<Rightarrow> strmap \<Rightarrow> ('z cluster_scheme, 'o list) io" where
  "reader_List env K ns sel =
     call_api (CDirectList (k_kind K) ns sel) (\<lambda>h. api_direct_list (k_api K env) h ns sel)"

definition client_Create :: "env \<Rightarrow> 'o kind_ops \<Rightarrow> 'o \<Rightarrow> ('z cluster_scheme, 'o) io" where
  "client_Create env K x = call_api (CCreate (k_obj K x)) (\<lambda>h. api_create (k_api K env) h x)"

definition client_Update :: "env \<Rightarrow> 'o kind_ops \<Rightarrow> 'o \<Rightarrow> ('z cluster_scheme, 'o) io" where
  "client_Update env K x = call_api (CUpdate (k_obj K x)) (\<lambda>h. api_update (k_api K env) h x)"

definition client_Delete :: "env \<Rightarrow> 'o kind_ops \<Rightarrow> 'o \<Rightarrow> ('z cluster_scheme, unit) io" where
  "client_Delete env K x = call_api (CDelete (k_obj K x)) (\<lambda>h. api_delete (k_api K env) h x)"

definition client_DeleteWith ::
  "env \<Rightarrow> 'o kind_ops \<Rightarrow> delete_option \<Rightarrow> 'o \<Rightarrow> ('z cluster_scheme, unit) io" where
  "client_DeleteWith env K opt x = call_api (CDeleteWith opt (k_obj K x)) (\<lambda>h. api_delete (k_api K env) h x)"

definition client_StatusUpdate :: "env \<Rightarrow> 'o kind_ops \<Rightarrow> 'o \<Rightarrow> ('z cluster_scheme, 'o) io" where
  "client_StatusUpdate env K x =
     call_api (CStatusUpdate (k_obj K x)) (\<lambda>h. api_status_update (k_api K env) h x)"

lemmas client_defs = client_Get_def reader_Get_def client_List_def reader_List_def client_Create_def
  client_Update_def client_Delete_def client_DeleteWith_def client_StatusUpdate_def

section \<open>Reasoning about programs\<close>

text \<open>
  \<open>ok_trace P h cs\<close>: each call of \<open>cs\<close>, made after the history \<open>h\<close>, satisfies \<open>P\<close> with the
  history at its time.  \<open>runs I P m Q\<close>: from a state with the invariant \<open>I\<close>, the program keeps the
  invariant, its calls satisfy \<open>P\<close>, and its result, if it is a value, satisfies \<open>Q\<close>.
\<close>

fun ok_trace :: "(call list \<Rightarrow> call \<Rightarrow> bool) \<Rightarrow> call list \<Rightarrow> call list \<Rightarrow> bool" where
  "ok_trace P h [] = True"
| "ok_trace P h (c # cs) = (P h c \<and> ok_trace P (h @ [c]) cs)"

lemma ok_trace_append [simp]: "ok_trace P h (xs @ ys) \<longleftrightarrow> ok_trace P h xs \<and> ok_trace P (h @ xs) ys"
  by (induction xs arbitrary: h) auto

lemma ok_trace_mono: "(\<And>h c. P h c \<Longrightarrow> P' h c) \<Longrightarrow> ok_trace P h cs \<Longrightarrow> ok_trace P' h cs"
  by (induction cs arbitrary: h) auto

lemma ok_trace_history:
  assumes "ok_trace P h cs" and "\<And>h' c. prefix h h' \<Longrightarrow> P h' c \<Longrightarrow> P' h' c"
  shows "ok_trace P' h cs"
  using assms
proof (induction cs arbitrary: h)
  case (Cons c cs)
  have "P' h c" using Cons.prems by simp
  moreover have "ok_trace P' (h @ [c]) cs"
    using Cons.prems(1) by (intro Cons.IH) (auto intro: Cons.prems(2) dest: append_prefixD)
  ultimately show ?case by simp
qed simp

lemma ok_trace_all: "ok_trace (\<lambda>_. P) h cs \<longleftrightarrow> (\<forall>c \<in> set cs. P c)"
  by (induction cs arbitrary: h) auto

definition runs :: "('z cluster_scheme \<Rightarrow> bool) \<Rightarrow> (call list \<Rightarrow> call \<Rightarrow> bool)
    \<Rightarrow> ('z cluster_scheme, 'a) io \<Rightarrow> ('a \<Rightarrow> bool) \<Rightarrow> bool" where
  "runs I P m Q = (\<forall>s r s'. I s \<longrightarrow> m s = (r, s') \<longrightarrow>
     I s' \<and> (\<exists>new. calls s' = calls s @ new \<and> ok_trace P (calls s) new) \<and> (\<forall>x. r = Ok x \<longrightarrow> Q x))"

lemma runsI:
  assumes "\<And>s r s'. I s \<Longrightarrow> m s = (r, s') \<Longrightarrow>
     I s' \<and> (\<exists>new. calls s' = calls s @ new \<and> ok_trace P (calls s) new) \<and> (\<forall>x. r = Ok x \<longrightarrow> Q x)"
  shows "runs I P m Q"
  using assms unfolding runs_def by blast

lemma runsD:
  assumes "runs I P m Q" "I s" "m s = (r, s')"
  obtains new where "I s'" "calls s' = calls s @ new" "ok_trace P (calls s) new" "\<forall>x. r = Ok x \<longrightarrow> Q x"
proof -
  have "I s' \<and> (\<exists>new. calls s' = calls s @ new \<and> ok_trace P (calls s) new) \<and> (\<forall>x. r = Ok x \<longrightarrow> Q x)"
    using assms unfolding runs_def by simp
  with that show ?thesis by blast
qed

lemma runs_weaken: "runs I P m Q \<Longrightarrow> (\<And>x. Q x \<Longrightarrow> Q' x) \<Longrightarrow> runs I P m Q'"
  unfolding runs_def by blast

lemma runs_weaken_calls: "runs I P m Q \<Longrightarrow> (\<And>h c. P h c \<Longrightarrow> P' h c) \<Longrightarrow> runs I P' m Q"
  unfolding runs_def using ok_trace_mono by blast

lemma runs_conj: "runs I P m Q \<Longrightarrow> runs I P m Q' \<Longrightarrow> runs I P m (\<lambda>x. Q x \<and> Q' x)"
  unfolding runs_def by blast

lemma runs_ret [emits_intros]: "Q x \<Longrightarrow> runs I P (ret x) Q"
  by (auto simp: runs_def ret_def)

lemma runs_lift [emits_intros]: "(\<And>x. r = Ok x \<Longrightarrow> Q x) \<Longrightarrow> runs I P (lift r) Q"
  by (auto simp: runs_def lift_def)

lemma runs_fail [emits_intros]: "runs I P (fail e) Q"
  by (auto simp: runs_def fail_def)

lemma runs_bind:
  assumes "runs I P m Q" and "\<And>x. Q x \<Longrightarrow> runs I P (f x) R"
  shows "runs I P (bindM m f) R"
proof (rule runsI)
  fix s r s' assume I: "I s" and run: "bindM m f s = (r, s')"
  obtain r1 s1 where m: "m s = (r1, s1)" by (cases "m s")
  from assms(1) I m obtain new where 1: "I s1" "calls s1 = calls s @ new" "ok_trace P (calls s) new"
    "\<forall>x. r1 = Ok x \<longrightarrow> Q x" by (rule runsD)
  show "I s' \<and> (\<exists>new. calls s' = calls s @ new \<and> ok_trace P (calls s) new) \<and> (\<forall>x. r = Ok x \<longrightarrow> R x)"
  proof (cases r1)
    case (Ok x)
    with run m have fx: "f x s1 = (r, s')" by (simp add: bindM_def)
    have "runs I P (f x) R" using assms(2) 1(4) Ok by simp
    from this 1(1) fx obtain new' where
      "I s'" "calls s' = calls s1 @ new'" "ok_trace P (calls s1) new'" "\<forall>x. r = Ok x \<longrightarrow> R x"
      by (rule runsD)
    with 1 show ?thesis by (intro conjI exI [of _ "new @ new'"]) auto
  qed (use run m 1 in \<open>auto simp: bindM_def\<close>)
qed

text \<open>The last part of a program need not keep the invariant of the first.\<close>

lemma runs_last:
  assumes "runs I P m Q" and "\<And>x. Q x \<Longrightarrow> runs (\<lambda>_. True) P (f x) R" and "I s" and "bindM m f s = (r, s')"
  shows "\<exists>new. calls s' = calls s @ new \<and> ok_trace P (calls s) new"
proof -
  obtain r1 s1 where m: "m s = (r1, s1)" by (cases "m s")
  from assms(1,3) m obtain new where 1: "calls s1 = calls s @ new" "ok_trace P (calls s) new"
    "\<forall>x. r1 = Ok x \<longrightarrow> Q x" by (rule runsD)
  show ?thesis
  proof (cases r1)
    case (Ok x)
    with assms(4) m have fx: "f x s1 = (r, s')" by (simp add: bindM_def)
    from assms(2) [of x] 1(3) Ok fx obtain new' where "calls s' = calls s1 @ new'" "ok_trace P (calls s1) new'"
      by (auto elim: runsD)
    with 1 show ?thesis by (intro exI [of _ "new @ new'"]) simp
  qed (use assms(4) m 1 in \<open>auto simp: bindM_def\<close>)
qed

text \<open>For a bind whose first part says nothing about its result.\<close>

lemma runs_bind_any [emits_intros]:
  assumes "runs I P m (\<lambda>_. True)" and "\<And>x. runs I P (f x) R"
  shows "runs I P (bindM m f) R"
  using runs_bind [OF assms(1)] assms(2) by blast

lemma runs_try [emits_intros]:
  assumes "runs I P m (\<lambda>x. Q (Inr x))" and "\<And>e. Q (Inl e)"
  shows "runs I P (tryM m) Q"
  using assms unfolding runs_def tryM_def by (fastforce split: prod.splits outcome.splits)

lemma runs_wrap [emits_intros]: "runs I P m Q \<Longrightarrow> runs I P (wrapM msg m) Q"
  unfolding runs_def wrapM_def by (fastforce split: prod.splits)

lemma runs_defer [emits_intros]:
  assumes "runs I P m Q" and "runs I P d (\<lambda>_. True)"
  shows "runs I P (deferM m d) Q"
proof (rule runsI)
  fix s r s' assume I: "I s" and run: "deferM m d s = (r, s')"
  obtain r1 s1 where m: "m s = (r1, s1)" by (cases "m s")
  obtain r2 s2 where d: "d s1 = (r2, s2)" by (cases "d s1")
  from assms(1) I m obtain new where 1: "I s1" "calls s1 = calls s @ new" "ok_trace P (calls s) new"
    "\<forall>x. r1 = Ok x \<longrightarrow> Q x" by (rule runsD)
  from assms(2) 1(1) d obtain new' where 2: "I s2" "calls s2 = calls s1 @ new'" "ok_trace P (calls s1) new'"
    by (rule runsD)
  have "s' = s2 \<and> (r = r1 \<or> (\<exists>p. r = Panic p))"
    using run m d by (cases r2) (auto simp: deferM_def)
  with 1 2 show "I s' \<and> (\<exists>new. calls s' = calls s @ new \<and> ok_trace P (calls s) new) \<and> (\<forall>x. r = Ok x \<longrightarrow> Q x)"
    by (intro conjI exI [of _ "new @ new'"]) auto
qed

lemma runs_get [emits_intros]: "(\<And>s. I s \<Longrightarrow> Q s) \<Longrightarrow> runs I P get_state Q"
  by (auto simp: runs_def get_state_def)

lemma runs_mod [emits_intros]:
  "(\<And>s. I s \<Longrightarrow> I (f s)) \<Longrightarrow> (\<And>s. calls (f s) = calls s) \<Longrightarrow> Q () \<Longrightarrow> runs I P (mod_state f) Q"
  by (auto simp: runs_def mod_state_def)

lemma runs_for_each [emits_intros]:
  "(\<And>x. x \<in> set xs \<Longrightarrow> runs I P (f x) (\<lambda>_. True)) \<Longrightarrow> runs I P (for_each f xs) (\<lambda>_. True)"
  by (induction xs) (auto intro!: runs_ret runs_bind_any)

text \<open>An invariant that does not look at the calls.\<close>

definition call_free :: "('z cluster_scheme \<Rightarrow> bool) \<Rightarrow> bool" where
  "call_free I = (\<forall>s cs. I s \<longrightarrow> I (s\<lparr>calls := cs\<rparr>))"

lemma runs_call:
  assumes "call_free I" and "\<And>h. P h c" and "\<And>h x. f h = Inr x \<Longrightarrow> Q x"
  shows "runs I P (call_api c f) Q"
  using assms by (auto simp: runs_def call_api_def call_free_def of_sum_def split: sum.splits)

lemma call_free_True [simp]: "call_free (\<lambda>_. True)"
  by (simp add: call_free_def)

lemma runs_Get:
  "call_free I \<Longrightarrow> (\<And>h. P h (CGet (k_kind K) key)) \<Longrightarrow>
     (\<And>h x. api_get (k_api K env) h key = Inr x \<Longrightarrow> Q x) \<Longrightarrow> runs I P (client_Get env K key) Q"
  unfolding client_defs by (rule runs_call)

lemma runs_reader_Get:
  "call_free I \<Longrightarrow> (\<And>h. P h (CDirectGet (k_kind K) key)) \<Longrightarrow>
     (\<And>h x. api_direct_get (k_api K env) h key = Inr x \<Longrightarrow> Q x) \<Longrightarrow> runs I P (reader_Get env K key) Q"
  unfolding client_defs by (rule runs_call)

lemma runs_List:
  "call_free I \<Longrightarrow> (\<And>h. P h (CList (k_kind K) ns sel)) \<Longrightarrow>
     (\<And>h x. api_list (k_api K env) h ns sel = Inr x \<Longrightarrow> Q x) \<Longrightarrow> runs I P (client_List env K ns sel) Q"
  unfolding client_defs by (rule runs_call)

lemma runs_reader_List:
  "call_free I \<Longrightarrow> (\<And>h. P h (CDirectList (k_kind K) ns sel)) \<Longrightarrow>
     (\<And>h x. api_direct_list (k_api K env) h ns sel = Inr x \<Longrightarrow> Q x) \<Longrightarrow>
     runs I P (reader_List env K ns sel) Q"
  unfolding client_defs by (rule runs_call)

lemma runs_client_Create:
  "call_free I \<Longrightarrow> (\<And>h. P h (CCreate (k_obj K y))) \<Longrightarrow>
     (\<And>h x. api_create (k_api K env) h y = Inr x \<Longrightarrow> Q x) \<Longrightarrow> runs I P (client_Create env K y) Q"
  unfolding client_defs by (rule runs_call)

lemma runs_client_Update:
  "call_free I \<Longrightarrow> (\<And>h. P h (CUpdate (k_obj K y))) \<Longrightarrow>
     (\<And>h x. api_update (k_api K env) h y = Inr x \<Longrightarrow> Q x) \<Longrightarrow> runs I P (client_Update env K y) Q"
  unfolding client_defs by (rule runs_call)

lemma runs_client_Delete:
  "call_free I \<Longrightarrow> (\<And>h. P h (CDelete (k_obj K y))) \<Longrightarrow> (\<And>u. Q u) \<Longrightarrow> runs I P (client_Delete env K y) Q"
  unfolding client_defs by (rule runs_call)

lemma runs_client_DeleteWith:
  "call_free I \<Longrightarrow> (\<And>h. P h (CDeleteWith opt (k_obj K y))) \<Longrightarrow> (\<And>u. Q u) \<Longrightarrow>
     runs I P (client_DeleteWith env K opt y) Q"
  unfolding client_defs by (rule runs_call)

lemma runs_StatusUpdate:
  "call_free I \<Longrightarrow> (\<And>h. P h (CStatusUpdate (k_obj K y))) \<Longrightarrow>
     (\<And>h x. api_status_update (k_api K env) h y = Inr x \<Longrightarrow> Q x) \<Longrightarrow>
     runs I P (client_StatusUpdate env K y) Q"
  unfolding client_defs by (rule runs_call)

lemmas runs_client = runs_Get runs_reader_Get runs_List runs_reader_List runs_client_Create
  runs_client_Update runs_client_Delete runs_client_DeleteWith runs_StatusUpdate

section \<open>An example server\<close>

text \<open>A server with no objects that accepts every write, for examples.\<close>

definition empty_api :: "'o api" where
  "empty_api =
     \<lparr>api_get = (\<lambda>_ _. Inl (ApiError NotFound)), api_direct_get = (\<lambda>_ _. Inl (ApiError NotFound)),
      api_list = (\<lambda>_ _ _. Inr []), api_direct_list = (\<lambda>_ _ _. Inr []),
      api_create = (\<lambda>_ x. Inr x), api_update = (\<lambda>_ x. Inr x), api_delete = (\<lambda>_ _. Inr ()),
      api_status_update = (\<lambda>_ x. Inr x), api_Calculate = (\<lambda>_ _. Inr False),
      api_LastApplied = (\<lambda>_. Inr (MapLit Map.empty)), api_ControllerRef = (\<lambda>_ _. Inr [])\<rparr>"

definition demo_env :: env where
  "demo_env =
     \<lparr>e_ServiceAccount = empty_api, e_Role = empty_api, e_RoleBinding = empty_api, e_Service = empty_api,
      e_Ingress = empty_api, e_IngressClass = empty_api, e_Deployment = empty_api, e_PVC = empty_api,
      e_Secret = empty_api, e_Mysql = empty_api, e_Minio = empty_api, e_Job = empty_api,
      e_ReplicaSet = empty_api, e_Pod = empty_api, e_StatefulSet = empty_api, e_Mattermost = empty_api,
      e_ClusterInstallation = empty_api, e_RestoreDB = empty_api,
      e_New16ID = (\<lambda>_ _. ''abcdefghijklmnop''), e_New28ID = (\<lambda>_. ''abcdefghijklmnopqrstuvwxyz12''),
      e_err_text = (\<lambda>_. ''error''), e_quantity = (\<lambda>q. q = ''50Gi''),
      e_url_Parse = (\<lambda>_. Err (New ''parse'')), e_codec = demo_codec,
      e_latency = (\<lambda>_. 0)\<rparr>"

end
