(* ===== verification/ResourceHelper.thy ===== *)
theory ResourceHelper
  imports Cluster
begin

text \<open>
  The resource helper of \<^verbatim>\<open>pkg/resources\<close>: creating, updating and deleting owned objects
  (\<^verbatim>\<open>create_resources.go\<close>), the MinIO and MySQL helpers (\<^verbatim>\<open>minio.go\<close>, \<^verbatim>\<open>mysql.go\<close>), the update job
  (\<^verbatim>\<open>update_job.go\<close>) and the copying of fields Kubernetes assigns (\<^verbatim>\<open>util.go\<close>).
\<close>

definition k_key :: "'o kind_ops \<Rightarrow> 'o \<Rightarrow> key" where
  "k_key K x = (om_Name (k_meta K x), om_Namespace (k_meta K x))"

section \<open>Creating, updating and deleting\<close>

definition set_annotations :: "'o kind_ops \<Rightarrow> gomap \<Rightarrow> 'o \<Rightarrow> 'o" where
  "set_annotations K a x = k_set_meta K ((k_meta K x)\<lparr>om_Annotations := a\<rparr>) x"

definition set_owner :: "'o kind_ops \<Rightarrow> OwnerReference list \<Rightarrow> 'o \<Rightarrow> 'o" where
  "set_owner K refs x = k_set_meta K ((k_meta K x)\<lparr>om_OwnerReferences := refs\<rparr>) x"

definition set_version :: "'o kind_ops \<Rightarrow> string \<Rightarrow> 'o \<Rightarrow> 'o" where
  "set_version K v x = k_set_meta K ((k_meta K x)\<lparr>om_ResourceVersion := v\<rparr>) x"

definition SetLastApplied :: "env \<Rightarrow> 'o kind_ops \<Rightarrow> 'o \<Rightarrow> ('z cluster_scheme, 'o) io" where
  "SetLastApplied env K x =
     wrapM ''failed to apply annotation to the resource''
       (bindM (lift (of_sum (api_LastApplied (k_api K env) x))) (\<lambda>a. ret (set_annotations K a x)))"

definition SetControllerReference ::
  "env \<Rightarrow> 'o kind_ops \<Rightarrow> ObjectMeta \<Rightarrow> 'o \<Rightarrow> ('z cluster_scheme, 'o) io" where
  "SetControllerReference env K owner x =
     wrapM ''failed to set owner reference''
       (bindM (lift (of_sum (api_ControllerRef (k_api K env) owner x))) (\<lambda>refs. ret (set_owner K refs x)))"

definition Create :: "env \<Rightarrow> 'o kind_ops \<Rightarrow> ObjectMeta \<Rightarrow> 'o \<Rightarrow> ('z cluster_scheme, 'o) io" where
  "Create env K owner desired =
     bindM (SetLastApplied env K desired) (\<lambda>d1.
     bindM (SetControllerReference env K owner d1) (\<lambda>d2.
     client_Create env K d2))"

definition Update :: "env \<Rightarrow> 'o kind_ops \<Rightarrow> 'o \<Rightarrow> 'o \<Rightarrow> ('z cluster_scheme, 'o) io" where
  "Update env K current desired =
     bindM (wrapM ''failed to determine if resources differ''
              (lift (of_sum (api_Calculate (k_api K env) current desired)))) (\<lambda>is_empty.
     if is_empty then ret desired
     else bindM (SetLastApplied env K desired) (\<lambda>d1.
          client_Update env K (set_version K (om_ResourceVersion (k_meta K current)) d1)))"

text \<open>The pattern of the \<^verbatim>\<open>Create...IfNotExists\<close> methods; the result is the object as it is left.\<close>

definition CreateIfNotExists ::
  "env \<Rightarrow> 'o kind_ops \<Rightarrow> (go_error \<Rightarrow> go_error) \<Rightarrow> ObjectMeta \<Rightarrow> 'o \<Rightarrow> ('z cluster_scheme, 'o) io" where
  "CreateIfNotExists env K err owner x =
     bindM (tryM (client_Get env K (k_key K x))) (\<lambda>found. case found of
       Inl e \<Rightarrow> if IsNotFound e then Create env K owner x else fail (err e)
     | Inr _ \<Rightarrow> ret x)"

definition CreateServiceAccountIfNotExists ::
  "env \<Rightarrow> ObjectMeta \<Rightarrow> ServiceAccount \<Rightarrow> ('z cluster_scheme, ServiceAccount) io" where
  "CreateServiceAccountIfNotExists env =
     CreateIfNotExists env ServiceAccountK (\<lambda>e. Wrap e ''failed to check if service account exists'')"

definition CreateRoleBindingIfNotExists ::
  "env \<Rightarrow> ObjectMeta \<Rightarrow> RoleBinding \<Rightarrow> ('z cluster_scheme, RoleBinding) io" where
  "CreateRoleBindingIfNotExists env =
     CreateIfNotExists env RoleBindingK (\<lambda>e. Wrap e ''failed to check if role binding exists'')"

definition CreateServiceIfNotExists :: "env \<Rightarrow> ObjectMeta \<Rightarrow> Service \<Rightarrow> ('z cluster_scheme, Service) io" where
  "CreateServiceIfNotExists env =
     CreateIfNotExists env ServiceK (\<lambda>e. Wrap e ''failed to check if service exists'')"

definition CreateIngressIfNotExists ::
  "env \<Rightarrow> ObjectMeta \<Rightarrow> IngressObj \<Rightarrow> ('z cluster_scheme, IngressObj) io" where
  "CreateIngressIfNotExists env =
     CreateIfNotExists env IngressK (\<lambda>e. Wrap e ''failed to check if ingress exists'')"

definition CreateIngressClassIfNotExists ::
  "env \<Rightarrow> ObjectMeta \<Rightarrow> IngressClass \<Rightarrow> ('z cluster_scheme, IngressClass) io" where
  "CreateIngressClassIfNotExists env =
     CreateIfNotExists env IngressClassK (\<lambda>e. Wrap e ''failed to check if ingressClass exists'')"

definition CreateDeploymentIfNotExists ::
  "env \<Rightarrow> ObjectMeta \<Rightarrow> Deployment \<Rightarrow> ('z cluster_scheme, Deployment) io" where
  "CreateDeploymentIfNotExists env =
     CreateIfNotExists env DeploymentK (\<lambda>e. Wrap e ''failed to check if deployment exists'')"

definition CreateRoleIfNotExists :: "env \<Rightarrow> ObjectMeta \<Rightarrow> Role \<Rightarrow> ('z cluster_scheme, Role) io" where
  "CreateRoleIfNotExists env =
     CreateIfNotExists env RoleK (\<lambda>e. Wrap e ''failed to check if role exists'')"

definition CreatePvcIfNotExists :: "env \<Rightarrow> ObjectMeta \<Rightarrow> PVC \<Rightarrow> ('z cluster_scheme, PVC) io" where
  "CreatePvcIfNotExists env =
     CreateIfNotExists env PVCK (\<lambda>e. Wrap e ''failed to check if pvc exists'')"

text \<open>The pattern of the \<^verbatim>\<open>Delete...\<close> methods.\<close>

definition DeleteIfExists ::
  "env \<Rightarrow> 'o kind_ops \<Rightarrow> string \<Rightarrow> string \<Rightarrow> key \<Rightarrow> ('z cluster_scheme, unit) io" where
  "DeleteIfExists env K checkMsg deleteMsg key =
     bindM (tryM (client_Get env K key)) (\<lambda>found. case found of
       Inl e \<Rightarrow> if IsNotFound e then ret () else fail (Wrap e checkMsg)
     | Inr x \<Rightarrow> wrapM deleteMsg (client_Delete env K x))"

definition DeleteDeployment :: "env \<Rightarrow> key \<Rightarrow> ('z cluster_scheme, unit) io" where
  "DeleteDeployment env =
     DeleteIfExists env DeploymentK ''failed to check if deployment exists'' ''failed to delete deployment''"

definition DeleteIngressClass :: "env \<Rightarrow> key \<Rightarrow> ('z cluster_scheme, unit) io" where
  "DeleteIngressClass env =
     DeleteIfExists env IngressClassK ''failed to check if ingressClass exists''
       ''failed to delete ingressClass''"

definition DeleteIngress :: "env \<Rightarrow> key \<Rightarrow> ('z cluster_scheme, unit) io" where
  "DeleteIngress env =
     DeleteIfExists env IngressK ''failed to check if ingress exists'' ''failed to delete ingress''"

definition DeleteService :: "env \<Rightarrow> key \<Rightarrow> ('z cluster_scheme, unit) io" where
  "DeleteService env =
     DeleteIfExists env ServiceK ''failed to check if service exists'' ''failed to delete service''"

definition CopyServiceEmptyAutoAssignedFields :: "Service \<Rightarrow> Service \<Rightarrow> Service" where
  "CopyServiceEmptyAutoAssignedFields desired actual =
     (let d1 = (if svc_ClusterIP desired = [] then desired\<lparr>svc_ClusterIP := svc_ClusterIP actual\<rparr> else desired);
          d2 = (if svc_ClusterIPs d1 = [] then d1\<lparr>svc_ClusterIPs := svc_ClusterIPs actual\<rparr> else d1)
      in if svc_Type d2 = ''LoadBalancer'' \<and> svc_Type actual = ''LoadBalancer'' \<and> svc_LoadBalancerIP d2 = []
         then d2\<lparr>svc_LoadBalancerIP := svc_LoadBalancerIP actual\<rparr> else d2)"

section \<open>MinIO\<close>

definition CreateMinioInstanceIfNotExists ::
  "env \<Rightarrow> ObjectMeta \<Rightarrow> MinIOInstance \<Rightarrow> ('z cluster_scheme, MinIOInstance) io" where
  "CreateMinioInstanceIfNotExists env = CreateIfNotExists env MinioK (\<lambda>e. e)"

definition createMinioSecret :: "env \<Rightarrow> ObjectMeta \<Rightarrow> Secret \<Rightarrow> ('z cluster_scheme, Secret) io" where
  "createMinioSecret env owner desired =
     wrapM ''failed to create Minio secret'' (Create env SecretK owner desired)"

definition CreateOrUpdateMinioSecret :: "env \<Rightarrow> ObjectMeta \<Rightarrow> Secret \<Rightarrow> ('z cluster_scheme, Secret) io" where
  "CreateOrUpdateMinioSecret env owner desired =
     bindM (tryM (client_Get env SecretK (k_key SecretK desired))) (\<lambda>found. case found of
       Inl e \<Rightarrow> if IsNotFound e then createMinioSecret env owner desired
                else fail (Wrap e ''failed to check Minio Secret'')
     | Inr current \<Rightarrow>
         if sec_Data current ''accesskey'' = None then Update env SecretK current desired
         else if sec_Data current ''secretkey'' = None then Update env SecretK current desired
         else Update env SecretK current (desired\<lparr>sec_Data := sec_Data current\<rparr>))"

definition GetMinioService :: "env \<Rightarrow> string \<Rightarrow> string \<Rightarrow> ('z cluster_scheme, string) io" where
  "GetMinioService env mmName mmNamespace =
     bindM (client_Get env ServiceK (mmName @ ''-minio-hl-svc'', mmNamespace)) (\<lambda>svc.
     case svc_Ports svc of
       [] \<Rightarrow> lift (Panic ''index out of range [0]'')
     | p # _ \<Rightarrow> ret (om_Name (svc_Meta svc) @ ''.'' @ mmNamespace @ ''.svc.cluster.local:''
                     @ Itoa (sp_Port p)))"

section \<open>MySQL\<close>

definition CreateMySQLClusterIfNotExists ::
  "env \<Rightarrow> ObjectMeta \<Rightarrow> MysqlCluster \<Rightarrow> ('z cluster_scheme, MysqlCluster) io" where
  "CreateMySQLClusterIfNotExists env = CreateIfNotExists env MysqlK (\<lambda>e. e)"

definition new_mysql_secret :: "string \<Rightarrow> string \<Rightarrow> string \<Rightarrow> string \<Rightarrow> Secret" where
  "new_mysql_secret secretName ns rootPassword userPassword =
     \<lparr>sec_Meta = empty_meta\<lparr>om_Name := secretName, om_Namespace := ns\<rparr>,
      sec_Data = [''ROOT_PASSWORD'' \<mapsto> rootPassword, ''USER'' \<mapsto> ''mmuser'',
                  ''PASSWORD'' \<mapsto> userPassword, ''DATABASE'' \<mapsto> ''mattermost''],
      sec_StringData = Map.empty\<rparr>"

definition createMySQLSecret :: "env \<Rightarrow> ObjectMeta \<Rightarrow> string \<Rightarrow> ('z cluster_scheme, Secret) io" where
  "createMySQLSecret env owner secretName =
     bindM get_state (\<lambda>s.
     let dbSecret = new_mysql_secret secretName (om_Namespace owner)
                      (e_New16ID env (calls s) 0) (e_New16ID env (calls s) 1)
     in wrapM ''failed to create mysql secret'' (Create env SecretK owner dbSecret))"

definition GetOrCreateMySQLSecrets :: "env \<Rightarrow> ObjectMeta \<Rightarrow> string \<Rightarrow> ('z cluster_scheme, Secret) io" where
  "GetOrCreateMySQLSecrets env owner name =
     bindM (tryM (client_Get env SecretK (name, om_Namespace owner))) (\<lambda>found. case found of
       Inl e \<Rightarrow> if IsNotFound e then createMySQLSecret env owner name else fail e
     | Inr dbSecret \<Rightarrow> ret dbSecret)"

section \<open>The update job\<close>

definition UpdateJobName :: string where "UpdateJobName = ''mattermost-update-check''"
definition WaitForDBSetupContainerName :: string where
  "WaitForDBSetupContainerName = ''init-wait-for-db-setup''"

definition job_container :: "Container \<Rightarrow> Container" where
  "job_container c =
     (if c_Name c \<noteq> MattermostAppContainerName then c
      else c\<lparr>c_LivenessProbe := None, c_ReadinessProbe := None, c_Args := [''db'', ''migrate'']\<rparr>)"

text \<open>
  The pod labels are the map object of \<^verbatim>\<open>ExtraLabels\<close> when it is set, and the job's name is written
  into that object: the second result is the update job specification afterwards.
\<close>

definition PrepareMattermostJobTemplate ::
  "string \<Rightarrow> string \<Rightarrow> Deployment \<Rightarrow> UpdateJob option \<Rightarrow> Job \<times> UpdateJob option" where
  "PrepareMattermostJobTemplate name ns baseDeployment updateJobSpec =
     (let podAnnotations = (case Option.bind updateJobSpec uj_ExtraAnnotations of
                              None \<Rightarrow> MapLit Map.empty | Some _ \<Rightarrow> MapAt JobExtraAnnotationsLoc);
          podLabels = (case Option.bind updateJobSpec uj_ExtraLabels of
                         None \<Rightarrow> MapLit [''app'' \<mapsto> name] | Some _ \<Rightarrow> MapAt JobExtraLabelsLoc);
          spec' = map_option (\<lambda>u. u\<lparr>uj_ExtraLabels :=
                     map_option (\<lambda>l. l(''app'' \<mapsto> name)) (uj_ExtraLabels u)\<rparr>) updateJobSpec;
          podSpec = pt_Spec (d_Template baseDeployment)
      in (zero_job\<lparr>
            j_Meta := empty_meta\<lparr>om_Name := name, om_Namespace := ns\<rparr>,
            j_Template := \<lparr>pt_Labels = podLabels, pt_Annotations = podAnnotations,
              pt_Spec = podSpec\<lparr>
                ps_InitContainers := RemoveContainer WaitForDBSetupContainerName (ps_InitContainers podSpec),
                ps_Containers := map job_container (ps_Containers podSpec),
                ps_RestartPolicy := ''Never''\<rparr>\<rparr>,
            j_BackoffLimit := Some 10\<rparr>, spec'))"

text \<open>What the map references of a job read as, given the update job specification.\<close>

definition job_maps :: "UpdateJob option \<Rightarrow> maploc \<Rightarrow> strmap" where
  "job_maps u l =
     (case l of
        JobExtraLabelsLoc \<Rightarrow> (case Option.bind u uj_ExtraLabels of None \<Rightarrow> Map.empty | Some m \<Rightarrow> m)
      | JobExtraAnnotationsLoc \<Rightarrow>
          (case Option.bind u uj_ExtraAnnotations of None \<Rightarrow> Map.empty | Some m \<Rightarrow> m)
      | _ \<Rightarrow> Map.empty)"

definition freeze_job :: "UpdateJob option \<Rightarrow> Job \<Rightarrow> Job" where
  "freeze_job u j = j\<lparr>j_Template := freeze_template (job_maps u) (j_Template j)\<rparr>"

text \<open>\<open>store\<close> writes the specification back through the pointer the caller passed.\<close>

definition create_update_job ::
  "env \<Rightarrow> (UpdateJob option \<Rightarrow> ('z cluster_scheme, unit) io) \<Rightarrow> ObjectMeta \<Rightarrow> string \<Rightarrow> Deployment
     \<Rightarrow> UpdateJob option \<Rightarrow> ('z cluster_scheme, Job) io" where
  "create_update_job env store owner ns deployment updateJobSpec =
     (let (job, spec') = PrepareMattermostJobTemplate UpdateJobName ns deployment updateJobSpec
      in bindM (store spec') (\<lambda>_. Create env JobK owner (freeze_job spec' job)))"

definition LaunchMattermostUpdateJob ::
  "env \<Rightarrow> (UpdateJob option \<Rightarrow> ('z cluster_scheme, unit) io) \<Rightarrow> ObjectMeta \<Rightarrow> string \<Rightarrow> Deployment
     \<Rightarrow> UpdateJob option \<Rightarrow> ('z cluster_scheme, unit) io" where
  "LaunchMattermostUpdateJob env store owner jobNamespace baseDeployment updateJobSpec =
     bindM (tryM (create_update_job env store owner jobNamespace baseDeployment updateJobSpec)) (\<lambda>r. case r of
       Inl e \<Rightarrow> if IsAlreadyExists e then ret () else fail e
     | Inr _ \<Rightarrow> ret ())"

definition RestartMattermostUpdateJob ::
  "env \<Rightarrow> (UpdateJob option \<Rightarrow> ('z cluster_scheme, unit) io) \<Rightarrow> ObjectMeta \<Rightarrow> Job \<Rightarrow> Deployment
     \<Rightarrow> UpdateJob option \<Rightarrow> ('z cluster_scheme, unit) io" where
  "RestartMattermostUpdateJob env store owner currentJob deployment updateJobSpec =
     bindM (tryM (client_Delete env JobK currentJob)) (\<lambda>d.
     bindM (case d of
              Inl e \<Rightarrow> if IsNotFound e then ret ()
                       else fail (Wrap e ''failed to delete outdated update job'')
            | Inr _ \<Rightarrow> ret ()) (\<lambda>_.
     bindM (create_update_job env store owner (om_Namespace (j_Meta currentJob)) deployment updateJobSpec)
       (\<lambda>_. ret ())))"

definition FetchMattermostUpdateJob :: "env \<Rightarrow> string \<Rightarrow> ('z cluster_scheme, Job) io" where
  "FetchMattermostUpdateJob env ns = client_Get env JobK (UpdateJobName, ns)"

section \<open>Footprints\<close>

text \<open>
  What a call changes: an action on the object of a kind and key.  \<open>within W\<close> holds of the calls
  that change nothing outside \<open>W\<close>.
\<close>

datatype action = ToCreate | ToUpdate | ToDelete | ToStatus

type_synonym footprint = "(action \<times> kind \<times> key) set"

fun write_of :: "call \<Rightarrow> (action \<times> kind \<times> key) option" where
  "write_of (CCreate x) = Some (ToCreate, kobj_kind x, kobj_key x)"
| "write_of (CUpdate x) = Some (ToUpdate, kobj_kind x, kobj_key x)"
| "write_of (CDelete x) = Some (ToDelete, kobj_kind x, kobj_key x)"
| "write_of (CDeleteWith opt x) = Some (ToDelete, kobj_kind x, kobj_key x)"
| "write_of (CStatusUpdate x) = Some (ToStatus, kobj_kind x, kobj_key x)"
| "write_of _ = None"

definition within :: "footprint \<Rightarrow> call \<Rightarrow> bool" where
  "within W c = (case write_of c of None \<Rightarrow> True | Some w \<Rightarrow> w \<in> W)"

lemma within_read [simp]:
  "within W (CGet k key)" "within W (CDirectGet k key)" "within W (CList k ns' sel)"
  "within W (CDirectList k ns sel)"
  by (simp_all add: within_def)

lemma within_mono: "within W c \<Longrightarrow> W \<subseteq> W' \<Longrightarrow> within W' c"
  by (auto simp: within_def split: option.splits)

abbreviation does :: "('z cluster_scheme \<Rightarrow> bool) \<Rightarrow> footprint \<Rightarrow> ('z cluster_scheme, 'a) io
    \<Rightarrow> ('a \<Rightarrow> bool) \<Rightarrow> bool" where
  "does I W m Q \<equiv> runs I (\<lambda>_. within W) m Q"

lemma does_mono: "does I W m Q \<Longrightarrow> W \<subseteq> W' \<Longrightarrow> does I W' m Q"
  by (erule runs_weaken_calls) (rule within_mono)

text \<open>
  The API server names the objects it returns as they were asked for or sent: this is what the
  code relies on when it uses the name of a returned object.
\<close>

definition keeps_names :: "'o kind_ops \<Rightarrow> env \<Rightarrow> bool" where
  "keeps_names K env =
     ((\<forall>h key x. api_get (k_api K env) h key = Inr x \<longrightarrow> k_key K x = key)
      \<and> (\<forall>h x y. api_create (k_api K env) h x = Inr y \<longrightarrow> k_key K y = k_key K x)
      \<and> (\<forall>h x y. api_update (k_api K env) h x = Inr y \<longrightarrow> k_key K y = k_key K x)
      \<and> (\<forall>h x y. api_status_update (k_api K env) h x = Inr y \<longrightarrow> k_key K y = k_key K x))"

lemma keeps_namesD:
  assumes "keeps_names K env"
  shows "api_get (k_api K env) h key = Inr x \<Longrightarrow> k_key K x = key"
    and "api_create (k_api K env) h y = Inr x \<Longrightarrow> k_key K x = k_key K y"
    and "api_update (k_api K env) h y = Inr x \<Longrightarrow> k_key K x = k_key K y"
    and "api_status_update (k_api K env) h y = Inr x \<Longrightarrow> k_key K x = k_key K y"
  using assms unfolding keeps_names_def by (simp_all only:)

context object_kind
begin

lemma key_set_meta [simp]:
  "k_key K (set_annotations K a x) = k_key K x"
  "k_key K (set_owner K refs x) = k_key K x"
  "k_key K (set_version K v x) = k_key K x"
  by (simp_all add: k_key_def set_annotations_def set_owner_def set_version_def)

lemma within_write [simp]:
  "within W (CCreate (k_obj K x)) \<longleftrightarrow> (ToCreate, k_kind K, k_key K x) \<in> W"
  "within W (CUpdate (k_obj K x)) \<longleftrightarrow> (ToUpdate, k_kind K, k_key K x) \<in> W"
  "within W (CDelete (k_obj K x)) \<longleftrightarrow> (ToDelete, k_kind K, k_key K x) \<in> W"
  "within W (CDeleteWith opt (k_obj K x)) \<longleftrightarrow> (ToDelete, k_kind K, k_key K x) \<in> W"
  "within W (CStatusUpdate (k_obj K x)) \<longleftrightarrow> (ToStatus, k_kind K, k_key K x) \<in> W"
  by (simp_all add: within_def kobj_key_def k_key_def)

lemma does_Get:
  assumes "call_free I" and "keeps_names K env"
  shows "does I W (client_Get env K key) (\<lambda>x. k_key K x = key)"
  using assms(1) by (rule runs_Get) (simp_all add: keeps_namesD [OF assms(2)])

lemma does_SetLastApplied: "does I W (SetLastApplied env K x) (\<lambda>y. k_key K y = k_key K x)"
  unfolding SetLastApplied_def by (intro emits_intros) auto

lemma does_SetControllerReference:
  "does I W (SetControllerReference env K owner x) (\<lambda>y. k_key K y = k_key K x)"
  unfolding SetControllerReference_def by (intro emits_intros) auto

lemma does_Create:
  assumes "call_free I" "keeps_names K env" "(ToCreate, k_kind K, k_key K x) \<in> W"
  shows "does I W (Create env K owner x) (\<lambda>y. k_key K y = k_key K x)"
  unfolding Create_def
proof (rule runs_bind [OF does_SetLastApplied], rule runs_bind [OF does_SetControllerReference])
  fix d1 d2 assume "k_key K d1 = k_key K x" "k_key K d2 = k_key K d1"
  then show "does I W (client_Create env K d2) (\<lambda>y. k_key K y = k_key K x)"
    using assms keeps_namesD(2) [OF assms(2)] by (intro runs_client_Create) auto
qed

lemma does_Update:
  assumes "call_free I" "keeps_names K env" "(ToUpdate, k_kind K, k_key K desired) \<in> W"
  shows "does I W (Update env K current desired) (\<lambda>y. k_key K y = k_key K desired)"
  unfolding Update_def
proof (rule runs_bind_any)
  show "does I W (wrapM m (lift r)) (\<lambda>_. True)" for m and r :: "'x outcome" by (intro emits_intros) simp
  fix e show "does I W (if e then ret desired
      else bindM (SetLastApplied env K desired)
             (\<lambda>d1. client_Update env K (set_version K (om_ResourceVersion (k_meta K current)) d1)))
      (\<lambda>y. k_key K y = k_key K desired)"
  proof (cases e)
    case True
    then show ?thesis by (simp add: runs_ret)
  next
    case False
    then show ?thesis
      using assms keeps_namesD(3) [OF assms(2)]
      by (auto intro!: runs_bind [OF does_SetLastApplied] runs_client_Update)
  qed
qed

lemma does_CreateIfNotExists:
  assumes "call_free I" "keeps_names K env" "(ToCreate, k_kind K, k_key K x) \<in> W"
  shows "does I W (CreateIfNotExists env K err owner x) (\<lambda>y. k_key K y = k_key K x)"
  unfolding CreateIfNotExists_def
  using assms by (auto intro!: runs_bind_any runs_try runs_Get runs_fail runs_ret does_Create split: sum.splits)

lemma does_DeleteIfExists:
  assumes "call_free I" "keeps_names K env" "(ToDelete, k_kind K, key) \<in> W"
  shows "does I W (DeleteIfExists env K m1 m2 key) (\<lambda>_. True)"
  unfolding DeleteIfExists_def
proof (rule runs_bind [where Q = "\<lambda>r. case r of Inl _ \<Rightarrow> True | Inr x \<Rightarrow> k_key K x = key"])
  show "does I W (tryM (client_Get env K key)) (\<lambda>r. case r of Inl _ \<Rightarrow> True | Inr x \<Rightarrow> k_key K x = key)"
    by (rule runs_try) (simp_all add: does_Get [OF assms(1,2)])
  fix r :: "go_error + 'o" assume "case r of Inl _ \<Rightarrow> True | Inr x \<Rightarrow> k_key K x = key"
  then show "does I W (case r of Inl e \<Rightarrow> if IsNotFound e then ret () else fail (Wrap e m1)
       | Inr x \<Rightarrow> wrapM m2 (client_Delete env K x)) (\<lambda>_. True)"
    using assms by (auto intro!: runs_wrap runs_client_Delete runs_ret runs_fail split: sum.splits)
qed

text \<open>The common shape: make sure the object exists, read it, and bring it up to date.\<close>

lemma does_ensure:
  assumes "call_free I" "keeps_names K env"
    and "(ToCreate, k_kind K, k_key K x) \<in> W" "(ToUpdate, k_kind K, k_key K x) \<in> W"
    and "\<And>d c. k_key K (f d c) = k_key K d"
  shows "does I W (bindM (CreateIfNotExists env K err owner x) (\<lambda>desired.
           bindM (client_Get env K (k_key K desired)) (\<lambda>current.
           bindM (Update env K current (f desired current)) (\<lambda>_. ret ())))) (\<lambda>_. True)"
proof (rule runs_bind [OF does_CreateIfNotExists [OF assms(1-3)]], rule runs_bind [OF does_Get [OF assms(1,2)]])
  fix d c assume d: "k_key K d = k_key K x"
  show "does I W (bindM (Update env K c (f d c)) (\<lambda>_. ret ())) (\<lambda>_. True)"
    using does_Update [OF assms(1,2), of "f d c" W c] assms(4,5) d
    by (auto intro: runs_bind runs_ret)
qed

end

section \<open>Footprints of the component helpers\<close>

lemma does_CreateOrUpdateMinioSecret:
  assumes I: "call_free I" and n: "keeps_names SecretK env"
    and W: "(ToCreate, SecretKind, k_key SecretK d) \<in> W" "(ToUpdate, SecretKind, k_key SecretK d) \<in> W"
  shows "does I W (CreateOrUpdateMinioSecret env owner d) (\<lambda>y. k_key SecretK y = k_key SecretK d)"
proof -
  have key: "k_key SecretK (d\<lparr>sec_Data := m\<rparr>) = k_key SecretK d" for m by (simp add: k_key_def SecretK_def)
  have kind: "k_kind SecretK = SecretKind" by (simp add: SecretK_def)
  have up: "does I W (Update env SecretK c x) (\<lambda>y. k_key SecretK y = k_key SecretK d)"
    if "k_key SecretK x = k_key SecretK d" for c x
    using Secret_kind.does_Update [OF I n, of x W c] W that by (simp add: kind)
  have cr: "does I W (createMinioSecret env owner d) (\<lambda>y. k_key SecretK y = k_key SecretK d)"
    unfolding createMinioSecret_def
    using Secret_kind.does_Create [OF I n, of d W owner] W by (auto intro: runs_wrap simp: kind)
  show ?thesis
    unfolding CreateOrUpdateMinioSecret_def
    by (rule runs_bind_any) (auto intro!: runs_try runs_Get I runs_fail cr up key split: sum.splits)
qed

lemma does_GetMinioService:
  "call_free I \<Longrightarrow> does I W (GetMinioService env n ns) (\<lambda>_. True)"
  unfolding GetMinioService_def
  by (auto intro!: runs_bind_any runs_Get runs_lift runs_ret split: list.splits)

lemma does_GetOrCreateMySQLSecrets:
  assumes I: "call_free I" and n: "keeps_names SecretK env"
    and W: "(ToCreate, SecretKind, (name, om_Namespace owner)) \<in> W"
  shows "does I W (GetOrCreateMySQLSecrets env owner name) (\<lambda>_. True)"
proof -
  have "k_kind SecretK = SecretKind"
    and "k_key SecretK (new_mysql_secret name (om_Namespace owner) a b) = (name, om_Namespace owner)" for a b
    by (simp_all add: k_key_def SecretK_def new_mysql_secret_def)
  then have "does I W (Create env SecretK owner (new_mysql_secret name (om_Namespace owner) a b)) (\<lambda>_. True)" for a b
    by (intro runs_weaken [OF Secret_kind.does_Create [OF I n]]) (simp_all add: W)
  then have "does I W (createMySQLSecret env owner name) (\<lambda>_. True)"
    unfolding createMySQLSecret_def Let_def by (auto intro!: runs_bind_any runs_get runs_wrap)
  then show ?thesis
    unfolding GetOrCreateMySQLSecrets_def
    by (auto intro!: runs_bind_any runs_try runs_Get I runs_fail runs_ret split: sum.splits)
qed

lemma PrepareJob_key:
  "k_key JobK (freeze_job u (fst (PrepareMattermostJobTemplate n ns d u'))) = (n, ns)"
  by (simp add: PrepareMattermostJobTemplate_def Let_def k_key_def JobK_def freeze_job_def)

lemma does_create_update_job:
  assumes I: "call_free I" and n: "keeps_names JobK env"
    and st: "\<And>u. does I W (store u) (\<lambda>_. True)"
    and W: "(ToCreate, JobKind, (UpdateJobName, ns)) \<in> W"
  shows "does I W (create_update_job env store owner ns d u) (\<lambda>_. True)"
proof -
  obtain job u' where p: "PrepareMattermostJobTemplate UpdateJobName ns d u = (job, u')"
    by (cases "PrepareMattermostJobTemplate UpdateJobName ns d u")
  have key: "k_key JobK (freeze_job u' job) = (UpdateJobName, ns)"
    using PrepareJob_key [of u' UpdateJobName ns d u] p by simp
  have "k_kind JobK = JobKind" by (simp add: JobK_def)
  then have "does I W (Create env JobK owner (freeze_job u' job)) (\<lambda>_. True)"
    using Job_kind.does_Create [OF I n, of "freeze_job u' job" W owner] W key
    by (auto intro: runs_weaken)
  then show ?thesis
    unfolding create_update_job_def p by (auto intro!: runs_bind_any st)
qed

lemma does_LaunchMattermostUpdateJob:
  assumes "call_free I" "keeps_names JobK env" "\<And>u. does I W (store u) (\<lambda>_. True)"
    and "(ToCreate, JobKind, (UpdateJobName, ns)) \<in> W"
  shows "does I W (LaunchMattermostUpdateJob env store owner ns d u) (\<lambda>_. True)"
  unfolding LaunchMattermostUpdateJob_def
  using does_create_update_job [OF assms]
  by (auto intro!: runs_bind_any runs_try runs_fail runs_ret split: sum.splits)

lemma does_RestartMattermostUpdateJob:
  assumes "call_free I" "keeps_names JobK env" "\<And>u. does I W (store u) (\<lambda>_. True)"
    and "k_key JobK job = (UpdateJobName, ns)"
    and "(ToCreate, JobKind, (UpdateJobName, ns)) \<in> W" "(ToDelete, JobKind, (UpdateJobName, ns)) \<in> W"
  shows "does I W (RestartMattermostUpdateJob env store owner job d u) (\<lambda>_. True)"
proof -
  have "k_kind JobK = JobKind" and "om_Namespace (j_Meta job) = ns"
    using assms(4) by (simp_all add: JobK_def k_key_def)
  then show ?thesis
    unfolding RestartMattermostUpdateJob_def
    using does_create_update_job [OF assms(1-3,5)] assms
    by (auto intro!: runs_bind_any runs_try runs_client_Delete runs_fail runs_ret split: sum.splits)
qed

section \<open>Properties\<close>

lemma Update_new_calls:
  "\<exists>new. calls (snd (Update env K current desired s)) = calls s @ new \<and>
     list_all (\<lambda>c. \<exists>v a. c = CUpdate (k_obj K (set_version K v (set_annotations K a desired)))) new"
  by (auto simp: Update_def SetLastApplied_def io_defs client_Update_def of_sum_def
      split: sum.splits bool.splits)

text \<open>
  Updating an object makes at most one call: none when the comparison finds no difference or any
  step fails, and otherwise one update of the desired object, with the last applied annotation and
  the current object's resource version, so a concurrent change is refused by the server
  instead of being overwritten.
\<close>

theorem Update_calls:
  "calls (snd (Update env K current desired s)) = calls s @
     (case (api_Calculate (k_api K env) current desired, api_LastApplied (k_api K env) desired) of
        (Inr False, Inr annotations) \<Rightarrow>
          [CUpdate (k_obj K (set_version K (om_ResourceVersion (k_meta K current)) (set_annotations K annotations desired)))]
      | _ \<Rightarrow> [])
   \<and> (if api_Calculate (k_api K env) current desired = Inr True then Update env K current desired s = (Ok desired, s)
      else True)"
  by (auto simp: Update_def SetLastApplied_def io_defs client_Update_def of_sum_def
      split: sum.splits bool.splits)

lemma CopyService_eq:
  "CopyServiceEmptyAutoAssignedFields d a = d
     \<lparr>svc_ClusterIP := (if svc_ClusterIP d = [] then svc_ClusterIP a else svc_ClusterIP d),
      svc_ClusterIPs := (if svc_ClusterIPs d = [] then svc_ClusterIPs a else svc_ClusterIPs d),
      svc_LoadBalancerIP := (if svc_Type d = ''LoadBalancer'' \<and> svc_Type a = ''LoadBalancer'' \<and> svc_LoadBalancerIP d = []
                             then svc_LoadBalancerIP a else svc_LoadBalancerIP d)\<rparr>"
  by (cases d) (simp add: CopyServiceEmptyAutoAssignedFields_def Let_def)

text \<open>
  Copying the fields Kubernetes assigns: an empty cluster IP, list of cluster IPs and, between two
  load balancer services, load balancer IP take the actual service's values; given values are kept,
  nothing else changes, and copying twice is copying once.
\<close>

theorem CopyService_fields:
  "let r = CopyServiceEmptyAutoAssignedFields desired actual in
     svc_ClusterIP r = (if svc_ClusterIP desired = [] then svc_ClusterIP actual else svc_ClusterIP desired)
     \<and> svc_ClusterIPs r = (if svc_ClusterIPs desired = [] then svc_ClusterIPs actual else svc_ClusterIPs desired)
     \<and> svc_LoadBalancerIP r =
         (if svc_Type desired = ''LoadBalancer'' \<and> svc_Type actual = ''LoadBalancer'' \<and> svc_LoadBalancerIP desired = []
          then svc_LoadBalancerIP actual else svc_LoadBalancerIP desired)
     \<and> r\<lparr>svc_ClusterIP := a, svc_ClusterIPs := b, svc_LoadBalancerIP := c\<rparr>
         = desired\<lparr>svc_ClusterIP := a, svc_ClusterIPs := b, svc_LoadBalancerIP := c\<rparr>
     \<and> CopyServiceEmptyAutoAssignedFields r actual = r"
  unfolding CopyService_eq Let_def by (intro conjI) simp_all


definition demo_minio_secret :: Secret where
  "demo_minio_secret = \<lparr>sec_Meta = empty_meta\<lparr>om_Name := ''mm-minio'', om_Namespace := ''apps''\<rparr>,
     sec_Data = [''accesskey'' \<mapsto> ''old'', ''secretkey'' \<mapsto> ''older''], sec_StringData = Map.empty\<rparr>"


end
