(* ===== verification/HealthCheck.thy ===== *)
theory HealthCheck
  imports ResourceHelper
begin

text \<open>
  The health checker of \<^verbatim>\<open>pkg/mattermost/healthcheck/health_check.go\<close>.  It reads past the cache;
  the list options are a namespace and the labels to match.
\<close>

record PodRolloutStatus =
  prs_Replicas :: int
  prs_UpdatedReplicas :: int

record list_options =
  lo_Namespace :: string
  lo_Labels :: strmap

fun first_condition :: "string \<Rightarrow> (string \<times> string) list \<Rightarrow> string option" where
  "first_condition t [] = None"
| "first_condition t ((t', status) # cs) = (if t' = t then Some status else first_condition t cs)"

definition isPodReady :: "Pod \<Rightarrow> bool" where
  "isPodReady pod = (first_condition ''Ready'' (pod_Conditions pod) = Some ''True'')"

definition getRevision :: "gomap \<Rightarrow> string" where
  "getRevision annotations =
     (case annotations of
        NilMap \<Rightarrow> []
      | _ \<Rightarrow> data_get (deref (\<lambda>_. Map.empty) annotations) ''deployment.kubernetes.io/revision'')"

definition pod_updated :: "string \<Rightarrow> Pod \<Rightarrow> bool" where
  "pod_updated desiredImage pod =
     (if pod_Phase pod \<noteq> ''Running'' \<or> om_Deleting (pod_Meta pod) then False
      else if ps_Containers (pod_Spec pod) = [] then False
      else case GetMattermostAppContainer (ps_Containers (pod_Spec pod)) of
             None \<Rightarrow> False
           | Some c \<Rightarrow> if c_Image c \<noteq> desiredImage then False else isPodReady pod)"

definition CheckPodsRollOut :: "env \<Rightarrow> list_options \<Rightarrow> string \<Rightarrow> ('z cluster_scheme, PodRolloutStatus) io" where
  "CheckPodsRollOut env opts desiredImage =
     bindM (wrapM ''unable to get pod list'' (reader_List env PodK (lo_Namespace opts) (lo_Labels opts))) (\<lambda>pods.
     ret \<lparr>prs_Replicas = int (length pods),
          prs_UpdatedReplicas = int (length (filter (pod_updated desiredImage) pods))\<rparr>)"

text \<open>The first replica set of the deployment's revision that its controller has observed.\<close>

definition current_replica_set :: "Deployment \<Rightarrow> ReplicaSet list \<Rightarrow> ReplicaSet option" where
  "current_replica_set d reps =
     find (\<lambda>rep. getRevision (om_Annotations (rs_Meta rep)) = getRevision (om_Annotations (d_Meta d))
                 \<and> rs_Status_ObservedGeneration rep > 0) reps"

definition CheckReplicaSetRollout ::
  "env \<Rightarrow> list_options \<Rightarrow> string \<Rightarrow> string \<Rightarrow> ('z cluster_scheme, PodRolloutStatus) io" where
  "CheckReplicaSetRollout env opts name ns =
     bindM (wrapM ''failed to get deployment'' (reader_Get env DeploymentK (name, ns))) (\<lambda>d.
     if om_Generation (d_Meta d) \<noteq> d_Status_ObservedGeneration d
     then fail (New ''mattermost deployment not yet picked up by the Deployment controller'')
     else bindM (wrapM ''failed to list replicaSets''
                   (reader_List env ReplicaSetK (lo_Namespace opts) (lo_Labels opts))) (\<lambda>reps.
          case current_replica_set d reps of
            None \<Rightarrow> fail (New ''replicaSet did not start rolling pods'')
          | Some rep \<Rightarrow> ret \<lparr>prs_Replicas = d_Status_Replicas d,
                             prs_UpdatedReplicas = rs_Status_AvailableReplicas rep\<rparr>))"

definition CheckServiceLoadBalancer :: "env \<Rightarrow> list_options \<Rightarrow> ('z cluster_scheme, string) io" where
  "CheckServiceLoadBalancer env opts =
     bindM (wrapM ''unable to get service list''
              (reader_List env ServiceK (lo_Namespace opts) (lo_Labels opts))) (\<lambda>svcs.
     if length svcs \<noteq> 1
     then fail (Errorf ''expected one service, but found %d'' [Itoa (int (length svcs))])
     else case svc_Status_LoadBalancer (hd svcs) of
            None \<Rightarrow> fail (New ''waiting for the Load Balancer to be active'')
          | Some [] \<Rightarrow> lift (Panic ''index out of range [0]'')
          | Some (lb # _) \<Rightarrow> ret (if lb_Hostname lb \<noteq> [] then lb_Hostname lb else lb_IP lb))"

definition CheckIngressLoadBalancer :: "env \<Rightarrow> list_options \<Rightarrow> ('z cluster_scheme, string) io" where
  "CheckIngressLoadBalancer env opts =
     bindM (wrapM ''unable to get ingress list''
              (reader_List env IngressK (lo_Namespace opts) (lo_Labels opts))) (\<lambda>ings.
     if length ings \<noteq> 1
     then fail (Errorf ''expected one ingress, but found %d'' [Itoa (int (length ings))])
     else case i_Rules (hd ings) of
            [] \<Rightarrow> lift (Panic ''index out of range [0]'')
          | rule # _ \<Rightarrow> ret (ir_Host rule))"

end
