(* ===== verification/RateLimiter.thy ===== *)
theory RateLimiter
  imports ResourceHelper
begin

text \<open>
  The limit on the number of installations being reconciled at the same time
  (\<^verbatim>\<open>controllers/mattermost/mattermost/controller.go\<close>): the count over the listed installations,
  and the counter, under a mutex, of those being processed but not yet marked.
\<close>

definition unstable_state :: "RunningState \<Rightarrow> bool" where
  "unstable_state st = (st = Reconciling \<or> st = Ready)"

fun countReconcilingOrReady :: "Mattermost list \<Rightarrow> int" where
  "countReconcilingOrReady [] = 0"
| "countReconcilingOrReady (mm # mms) =
     (if st_State (mm_Status mm) = Reconciling \<or> st_State (mm_Status mm) = Ready
      then 1 + countReconcilingOrReady mms else countReconcilingOrReady mms)"

text \<open>The critical section: whether processing may start, and the counter afterwards.\<close>

definition admit :: "int \<Rightarrow> Mattermost list \<Rightarrow> int \<Rightarrow> bool \<times> int" where
  "admit MaxReconciling mms processing =
     (let rCount = countReconcilingOrReady mms
      in if rCount + processing \<ge> MaxReconciling then (False, processing) else (True, processing + 1))"

definition decrement :: "int \<Rightarrow> int" where
  "decrement processing = processing - 1"

section \<open>Interleaved workers\<close>

text \<open>
  Several workers reconcile different installations; the work queue never gives one installation to
  two workers.  A worker on an installation that its cache shows as not reconciling passes the
  limiter (\<open>Admitted\<close>), one on an unstable installation is not counted (\<open>Unmetered\<close>).  A worker
  writes the state of its installation and ends; the counter is decremented when an admitted one
  ends.  The cache follows the API server with a delay.

  An unmetered worker read an unstable state, and the API server refuses a write based on an
  outdated read: its write succeeds only while the state is still unstable.
\<close>

datatype phase = Idle | Admitted | Unmetered

record limiter =
  l_api :: "string \<Rightarrow> RunningState"
  l_cache :: "string \<Rightarrow> RunningState"
  l_phase :: "string \<Rightarrow> phase"
  l_counter :: int

definition installations :: "string list \<Rightarrow> (string \<Rightarrow> RunningState) \<Rightarrow> Mattermost list" where
  "installations ids st =
     map (\<lambda>i. (new_mattermost i [] zero_spec)\<lparr>mm_Status := zero_status\<lparr>st_State := st i\<rparr>\<rparr>) ids"

text \<open>With \<open>fresh\<close> the list the limiter counts is what the API server holds, otherwise the cache.\<close>

inductive worker_step :: "bool \<Rightarrow> int \<Rightarrow> string list \<Rightarrow> limiter \<Rightarrow> limiter \<Rightarrow> bool"
  for fresh :: bool and M :: int and ids :: "string list" where
  admitted: "i \<in> set ids \<Longrightarrow> l_phase s i = Idle \<Longrightarrow> \<not> unstable_state (l_cache s i) \<Longrightarrow>
     admit M (installations ids (if fresh then l_api s else l_cache s)) (l_counter s) = (True, c) \<Longrightarrow>
     worker_step fresh M ids s (s\<lparr>l_phase := (l_phase s)(i := Admitted), l_counter := c\<rparr>)"
| unmetered: "i \<in> set ids \<Longrightarrow> l_phase s i = Idle \<Longrightarrow> unstable_state (l_cache s i) \<Longrightarrow>
     worker_step fresh M ids s (s\<lparr>l_phase := (l_phase s)(i := Unmetered)\<rparr>)"
| write_admitted: "i \<in> set ids \<Longrightarrow> l_phase s i = Admitted \<Longrightarrow>
     worker_step fresh M ids s (s\<lparr>l_api := (l_api s)(i := st)\<rparr>)"
| write_unmetered: "i \<in> set ids \<Longrightarrow> l_phase s i = Unmetered \<Longrightarrow> unstable_state (l_api s i) \<Longrightarrow>
     worker_step fresh M ids s (s\<lparr>l_api := (l_api s)(i := st)\<rparr>)"
| end_admitted: "i \<in> set ids \<Longrightarrow> l_phase s i = Admitted \<Longrightarrow>
     worker_step fresh M ids s (s\<lparr>l_phase := (l_phase s)(i := Idle), l_counter := decrement (l_counter s)\<rparr>)"
| end_unmetered: "i \<in> set ids \<Longrightarrow> l_phase s i = Unmetered \<Longrightarrow>
     worker_step fresh M ids s (s\<lparr>l_phase := (l_phase s)(i := Idle)\<rparr>)"
| sync: "worker_step fresh M ids s (s\<lparr>l_cache := (l_cache s)(i := l_api s i)\<rparr>)"

inductive workers_reach :: "bool \<Rightarrow> int \<Rightarrow> string list \<Rightarrow> limiter \<Rightarrow> limiter \<Rightarrow> bool"
  for fresh :: bool and M :: int and ids :: "string list" and s0 :: limiter where
  start: "workers_reach fresh M ids s0 s0"
| next_step: "workers_reach fresh M ids s0 s \<Longrightarrow> worker_step fresh M ids s s' \<Longrightarrow> workers_reach fresh M ids s0 s'"

inductive_cases worker_stepE: "worker_step fresh M ids s s'"

definition admitted_set :: "string list \<Rightarrow> limiter \<Rightarrow> string set" where
  "admitted_set ids s = {i \<in> set ids. l_phase s i = Admitted}"

text \<open>The installations that are unstable or about to become so.\<close>

definition busy_set :: "string list \<Rightarrow> limiter \<Rightarrow> string set" where
  "busy_set ids s = {i \<in> set ids. unstable_state (l_api s i) \<or> l_phase s i = Admitted}"

lemma finite_sets [simp]: "finite (admitted_set ids s)" "finite (busy_set ids s)"
  by (simp_all add: admitted_set_def busy_set_def)

lemma count_installations:
  "distinct ids \<Longrightarrow> countReconcilingOrReady (installations ids st) = int (card {i \<in> set ids. unstable_state (st i)})"
proof (induction ids)
  case Nil
  then show ?case by (simp add: installations_def)
next
  case (Cons i ids)
  have "{j \<in> set (i # ids). unstable_state (st j)}
        = (if unstable_state (st i) then insert i {j \<in> set ids. unstable_state (st j)}
           else {j \<in> set ids. unstable_state (st j)})" by auto
  with Cons show ?case by (auto simp: installations_def unstable_state_def)
qed

lemma busy_le: "card (busy_set ids s) \<le> card {i \<in> set ids. unstable_state (l_api s i)} + card (admitted_set ids s)"
proof -
  have "busy_set ids s = {i \<in> set ids. unstable_state (l_api s i)} \<union> admitted_set ids s"
    by (auto simp: busy_set_def admitted_set_def)
  then show ?thesis by (simp add: card_Un_le)
qed

definition limiter_inv :: "int \<Rightarrow> string list \<Rightarrow> limiter \<Rightarrow> bool" where
  "limiter_inv B ids s = (l_counter s = int (card (admitted_set ids s)) \<and> int (card (busy_set ids s)) \<le> B)"

lemma admitted_set_phase:
  "i \<in> set ids \<Longrightarrow> admitted_set ids (s\<lparr>l_phase := (l_phase s)(i := p)\<rparr>)
     = (if p = Admitted then insert i (admitted_set ids s) else admitted_set ids s - {i})"
  by (auto simp: admitted_set_def)

lemma limiter_inv_quiet:
  assumes "limiter_inv B ids s" "l_counter s' = l_counter s" "admitted_set ids s' = admitted_set ids s"
    and "busy_set ids s' \<subseteq> busy_set ids s"
  shows "limiter_inv B ids s'"
proof -
  have "card (busy_set ids s') \<le> card (busy_set ids s)" using assms(4) by (simp add: card_mono)
  then show ?thesis using assms(1,2,3) by (simp add: limiter_inv_def)
qed

lemma limiter_step_inv:
  assumes "worker_step True M ids s s'" "distinct ids" "M \<le> B" "limiter_inv B ids s"
  shows "limiter_inv B ids s'"
  using assms(1)
proof (cases rule: worker_step.cases)
  case (admitted i c)
  let ?s = "s\<lparr>l_phase := (l_phase s)(i := Admitted)\<rparr>"
  from admitted assms(2) have lt: "int (card {j \<in> set ids. unstable_state (l_api s j)}) + l_counter s < M"
    and c: "c = l_counter s + 1"
    by (auto simp: admit_def count_installations Let_def split: if_splits)
  have "i \<notin> admitted_set ids s" using admitted by (simp add: admitted_set_def)
  moreover have "admitted_set ids s' = insert i (admitted_set ids s)"
    using admitted by (auto simp: admitted_set_def)
  ultimately have adm: "l_counter s' = int (card (admitted_set ids s'))"
    using assms(4) admitted c by (simp add: limiter_inv_def)
  have "busy_set ids s' \<subseteq> insert i (busy_set ids s)" using admitted by (auto simp: busy_set_def)
  then have "card (busy_set ids s') \<le> card (insert i (busy_set ids s))" by (simp add: card_mono)
  also have "\<dots> \<le> Suc (card (busy_set ids s))" by (simp add: card_insert_if)
  finally have "int (card (busy_set ids s')) \<le> M"
    using busy_le [of ids s] lt assms(4) by (simp add: limiter_inv_def)
  with adm assms(3) show ?thesis by (simp add: limiter_inv_def)
next
  case (end_admitted i)
  have "i \<in> admitted_set ids s" using end_admitted by (simp add: admitted_set_def)
  moreover have "admitted_set ids s' = admitted_set ids s - {i}" using end_admitted by (auto simp: admitted_set_def)
  moreover have "0 < card (admitted_set ids s)"
    using \<open>i \<in> admitted_set ids s\<close> by (auto simp: card_gt_0_iff)
  ultimately have "l_counter s' = int (card (admitted_set ids s'))"
    using assms(4) end_admitted by (simp add: limiter_inv_def decrement_def)
  moreover have "busy_set ids s' \<subseteq> busy_set ids s" using end_admitted by (auto simp: busy_set_def)
  then have "card (busy_set ids s') \<le> card (busy_set ids s)" by (simp add: card_mono)
  ultimately show ?thesis using assms(4) by (simp add: limiter_inv_def)
qed (use assms(4) in \<open>auto elim!: limiter_inv_quiet simp: admitted_set_def busy_set_def split: if_splits\<close>)

lemma limiter_reach_inv:
  assumes "workers_reach True M ids s0 s" "distinct ids" "M \<le> B" "limiter_inv B ids s0"
  shows "limiter_inv B ids s"
  using assms by (induction rule: workers_reach.induct) (auto intro: limiter_step_inv)

section \<open>Properties\<close>

definition unstable_count :: "string list \<Rightarrow> (string \<Rightarrow> RunningState) \<Rightarrow> nat" where
  "unstable_count ids st = card {i \<in> set ids. unstable_state (st i)}"


definition idle_limiter :: limiter where
  "idle_limiter = \<lparr>l_api = (\<lambda>_. Stable), l_cache = (\<lambda>_. Stable), l_phase = (\<lambda>_. Idle), l_counter = 0\<rparr>"


text \<open>
  With a list read from the cache the limit does not hold: one worker marks its installation and
  ends before the cache shows the mark, and a second one is admitted, so with a limit of one, two
  installations reconcile at the same time.
\<close>

theorem stale_cache_exceeds_limit:
  "\<exists>s. workers_reach False 1 [''a'', ''b''] idle_limiter s \<and> unstable_count [''a'', ''b''] (l_api s) = 2"
proof -
  let ?ids = "[''a'', ''b'']"
  define s1 where "s1 = idle_limiter\<lparr>l_phase := (l_phase idle_limiter)(''a'' := Admitted), l_counter := 1\<rparr>"
  define s2 where "s2 = s1\<lparr>l_api := (l_api s1)(''a'' := Reconciling)\<rparr>"
  define s3 where "s3 = s2\<lparr>l_phase := (l_phase s2)(''a'' := Idle), l_counter := decrement (l_counter s2)\<rparr>"
  define s4 where "s4 = s3\<lparr>l_phase := (l_phase s3)(''b'' := Admitted), l_counter := 1\<rparr>"
  define s5 where "s5 = s4\<lparr>l_api := (l_api s4)(''b'' := Reconciling)\<rparr>"
  note defs = s1_def s2_def s3_def s4_def s5_def idle_limiter_def
  have admit: "admit 1 (installations ?ids (\<lambda>_. Stable)) 0 = (True, 1)"
    by (simp add: admit_def installations_def)
  have "worker_step False 1 ?ids idle_limiter s1"
    unfolding s1_def by (rule worker_step.admitted) (use admit in \<open>simp_all add: idle_limiter_def unstable_state_def\<close>)
  moreover have "worker_step False 1 ?ids s1 s2"
    unfolding s2_def by (rule worker_step.write_admitted) (simp_all add: s1_def)
  moreover have "worker_step False 1 ?ids s2 s3"
    unfolding s3_def by (rule worker_step.end_admitted) (simp_all add: s1_def s2_def)
  moreover have "worker_step False 1 ?ids s3 s4"
    unfolding s4_def
    by (rule worker_step.admitted)
       (use admit in \<open>simp_all add: s1_def s2_def s3_def idle_limiter_def unstable_state_def decrement_def\<close>)
  moreover have "worker_step False 1 ?ids s4 s5"
    unfolding s5_def by (rule worker_step.write_admitted) (simp_all add: s4_def)
  ultimately have "workers_reach False 1 ?ids idle_limiter s5"
    by (meson workers_reach.intros)
  moreover have "{i \<in> set ?ids. unstable_state (l_api s5 i)} = {''a'', ''b''}"
    by (auto simp: defs unstable_state_def)
  ultimately show ?thesis by (intro exI [of _ s5]) (simp add: unstable_count_def)
qed

end
