(* ===== verification/MattermostController.thy ===== *)
theory MattermostController
  imports HealthCheck RateLimiter
begin

text \<open>
  The controller of the \<^verbatim>\<open>Mattermost\<close> resource, \<^verbatim>\<open>controllers/mattermost/mattermost\<close>: \<^verbatim>\<open>utils.go\<close>,
  \<^verbatim>\<open>database.go\<close>, \<^verbatim>\<open>file_store.go\<close>, \<^verbatim>\<open>mattermost.go\<close>, \<^verbatim>\<open>health_check.go\<close> and \<^verbatim>\<open>controller.go\<close>.
  Logging has no effect on the state and is left out.

  The state of a run holds the resource (\<open>r_mm\<close>), the deep copy made before defaulting
  (\<open>r_orig\<close>), the local status variable (\<open>r_status\<close>), the rate limiter's counter, and whether
  the \<^verbatim>\<open>ResourcePatch\<close> pointers of the local status and of the resource's status are the same
  object: the status is copied by assignment, so a write through one is then seen in the other.
\<close>

record rec_state = cluster +
  r_mm :: Mattermost
  r_orig :: Mattermost
  r_status :: MattermostStatus
  r_shared :: bool
  r_processing :: int

type_synonym 'a rio = "(rec_state, 'a) io"

datatype mmref = Current | Original

fun mm_at :: "mmref \<Rightarrow> rec_state \<Rightarrow> Mattermost" where
  "mm_at Current s = r_mm s"
| "mm_at Original s = r_orig s"

fun put_mm :: "mmref \<Rightarrow> Mattermost \<Rightarrow> rec_state \<Rightarrow> rec_state" where
  "put_mm Current mm s = s\<lparr>r_mm := mm\<rparr>"
| "put_mm Original mm s = s\<lparr>r_orig := mm\<rparr>"

definition get_mm :: "Mattermost rio" where
  "get_mm = bindM get_state (\<lambda>s. ret (r_mm s))"

text \<open>Running a generator: it may write into the maps of the resource.\<close>

definition gen :: "(Mattermost \<Rightarrow> 'a \<times> Mattermost) \<Rightarrow> 'a rio" where
  "gen g = (\<lambda>s. let (x, mm') = g (r_mm s) in (Ok x, s\<lparr>r_mm := mm'\<rparr>))"

definition genO :: "(Mattermost \<Rightarrow> ('a \<times> Mattermost) outcome) \<Rightarrow> 'a rio" where
  "genO g = (\<lambda>s. case g (r_mm s) of
     Ok (x, mm') \<Rightarrow> (Ok x, s\<lparr>r_mm := mm'\<rparr>) | Err e \<Rightarrow> (Err e, s) | Panic p \<Rightarrow> (Panic p, s))"

text \<open>
  The map references of a generated object, read: nothing writes into the resource's maps
  between generating an object and sending it.
\<close>

definition read_maps :: "((maploc \<Rightarrow> strmap) \<Rightarrow> 'o \<Rightarrow> 'o) \<Rightarrow> 'o \<Rightarrow> 'o rio" where
  "read_maps freeze x = bindM get_mm (\<lambda>mm. ret (freeze (mm_maps mm) x))"

definition freeze_service :: "(maploc \<Rightarrow> strmap) \<Rightarrow> Service \<Rightarrow> Service" where
  "freeze_service h x = x\<lparr>svc_Meta := freeze_meta h (svc_Meta x), svc_Selector := freeze_map h (svc_Selector x)\<rparr>"

definition freeze_ingress :: "(maploc \<Rightarrow> strmap) \<Rightarrow> IngressObj \<Rightarrow> IngressObj" where
  "freeze_ingress h x = x\<lparr>i_Meta := freeze_meta h (i_Meta x)\<rparr>"

definition freeze_ingress_class :: "(maploc \<Rightarrow> strmap) \<Rightarrow> IngressClass \<Rightarrow> IngressClass" where
  "freeze_ingress_class h x = x\<lparr>ic_Meta := freeze_meta h (ic_Meta x)\<rparr>"

definition freeze_deployment :: "(maploc \<Rightarrow> strmap) \<Rightarrow> Deployment \<Rightarrow> Deployment" where
  "freeze_deployment h x = x\<lparr>d_Meta := freeze_meta h (d_Meta x), d_Selector := freeze_map h (d_Selector x),
     d_Template := freeze_template h (d_Template x)\<rparr>"

section \<open>Status updates (\<^verbatim>\<open>utils.go\<close>)\<close>

definition assertSecretContains :: "env \<Rightarrow> string \<Rightarrow> string \<Rightarrow> string \<Rightarrow> unit rio" where
  "assertSecretContains env secretName keyName ns =
     bindM (wrapM ''error getting secret'' (client_Get env SecretK (secretName, ns))) (\<lambda>found.
     if keyName \<in> dom (sec_Data found) then ret ()
     else fail (Errorf ''secret %s is missing data key: %s'' [secretName, keyName]))"

definition updateStatus :: "env \<Rightarrow> mmref \<Rightarrow> MattermostStatus \<Rightarrow> unit rio" where
  "updateStatus env ref status =
     bindM get_state (\<lambda>s.
     if mm_Status (mm_at ref s) = status then ret ()
     else let mm' = (mm_at ref s)\<lparr>mm_Status := status\<rparr> in
          bindM (mod_state (\<lambda>s. (put_mm ref mm' s)\<lparr>r_shared := (ref = Current \<or> r_shared s)\<rparr>)) (\<lambda>_.
          bindM (wrapM ''failed to update the Mattermost status'' (client_StatusUpdate env MattermostK mm'))
            (\<lambda>resp. mod_state (put_mm ref resp))))"

definition updateStatusReconciling :: "env \<Rightarrow> mmref \<Rightarrow> MattermostStatus \<Rightarrow> unit rio" where
  "updateStatusReconciling env ref status = updateStatus env ref (status\<lparr>st_State := Reconciling\<rparr>)"

definition updateStatusReconcilingAndLogError ::
  "env \<Rightarrow> mmref \<Rightarrow> MattermostStatus \<Rightarrow> go_error option \<Rightarrow> unit rio" where
  "updateStatusReconcilingAndLogError env ref status statusErr =
     (let status' = (case statusErr of None \<Rightarrow> status | Some e \<Rightarrow> status\<lparr>st_Error := e_err_text env e\<rparr>)
      in bindM (tryM (updateStatusReconciling env ref status')) (\<lambda>_. ret ()))"

text \<open>Writes to the local status' patch fields, seen in the resource's status when shared.\<close>

definition write_patch_status :: "(MattermostStatus \<Rightarrow> MattermostStatus) \<Rightarrow> unit rio" where
  "write_patch_status f = mod_state (\<lambda>s.
     let st = r_status s; st' = f st in
     case st_ResourcePatch st of
       None \<Rightarrow> s\<lparr>r_status := st', r_shared := (r_shared s \<and> st_ResourcePatch st' = None)\<rparr>
     | Some _ \<Rightarrow>
         if r_shared s
         then s\<lparr>r_status := st',
                r_mm := (r_mm s)\<lparr>mm_Status := (mm_Status (r_mm s))\<lparr>st_ResourcePatch := st_ResourcePatch st'\<rparr>\<rparr>\<rparr>
         else s\<lparr>r_status := st'\<rparr>)"

section \<open>The database (\<^verbatim>\<open>database.go\<close>)\<close>

definition readExternalDBSecret :: "env \<Rightarrow> DatabaseConfig rio" where
  "readExternalDBSecret env =
     bindM get_mm (\<lambda>mm. case db_External (s_Database (mm_Spec mm)) of
       None \<Rightarrow> lift (Panic ''nil External'')
     | Some ext \<Rightarrow>
         bindM (wrapM ''failed to get external db Secret''
                  (client_Get env SecretK (edb_Secret ext, mm_Namespace mm))) (\<lambda>secret.
         bindM (lift (NewExternalDBConfig (e_url_Parse env) mm secret)) (\<lambda>c. ret (External_config c))))"

definition checkMySQLCluster :: "env \<Rightarrow> unit rio" where
  "checkMySQLCluster env =
     bindM get_mm (\<lambda>mm.
     bindM (lift (ClusterV1Beta (e_quantity env) mm)) (\<lambda>desired0.
     bindM (CreateMySQLClusterIfNotExists env (mm_Meta mm) desired0) (\<lambda>desired.
     bindM (client_Get env MysqlK (k_key MysqlK desired)) (\<lambda>current.
     bindM (Update env MysqlK current desired) (\<lambda>_. ret ())))))"

definition checkOperatorManagedMySQL :: "env \<Rightarrow> DatabaseConfig rio" where
  "checkOperatorManagedMySQL env =
     bindM (wrapM ''error while checking MySQL cluster'' (checkMySQLCluster env)) (\<lambda>_.
     bindM get_mm (\<lambda>mm.
     bindM (wrapM ''failed to get or create MySQL database secret''
              (GetOrCreateMySQLSecrets env (mm_Meta mm) (DefaultDatabaseSecretName (mm_Name mm)))) (\<lambda>dbSecret.
     bindM (lift (NewMySQLDBConfig dbSecret)) (\<lambda>c. ret (MySQL_config c)))))"

definition checkOperatorManagedDB :: "env \<Rightarrow> DatabaseConfig rio" where
  "checkOperatorManagedDB env =
     bindM get_mm (\<lambda>mm. case db_OperatorManaged (s_Database (mm_Spec mm)) of
       None \<Rightarrow> fail (Errorf ''configuration for Operator managed database not provided'' [])
     | Some omd \<Rightarrow>
         if omd_Type omd = ''mysql'' then checkOperatorManagedMySQL env
         else if omd_Type omd = ''postgres'' then fail (New ''database type 'postgres' not yet implemented'')
         else fail (Errorf ''database of type '%s' is not supported'' [omd_Type omd]))"

definition checkDatabase :: "env \<Rightarrow> DatabaseConfig rio" where
  "checkDatabase env =
     bindM get_mm (\<lambda>mm. if db_IsExternal (s_Database (mm_Spec mm)) then readExternalDBSecret env
                         else checkOperatorManagedDB env)"

section \<open>The file store (\<^verbatim>\<open>file_store.go\<close>)\<close>

definition checkExternalFileStore :: "env \<Rightarrow> FileStoreConfig rio" where
  "checkExternalFileStore env =
     bindM get_mm (\<lambda>mm. case fs_External (s_FileStore (mm_Spec mm)) of
       None \<Rightarrow> lift (Panic ''nil External'')
     | Some ext \<Rightarrow>
         if efs_UseServiceAccount ext
         then bindM (tryM (client_Get env ServiceAccountK (mm_Name mm, mm_Namespace mm))) (\<lambda>found. case found of
                Inl e \<Rightarrow> if IsNotFound e
                         then fail (Wrap e ''service account needs to be created manually if fileStore.external.useServiceAccount is true'')
                         else fail (Wrap e ''failed to check if service account exists'')
              | Inr current \<Rightarrow>
                  if deref (\<lambda>_. Map.empty) (om_Annotations (sa_Meta current)) ''eks.amazonaws.com/role-arn'' = None
                  then fail (Errorf (''service account does not have '' @ shell_quoted ''eks.amazonaws.com/role-arn''
                                @ '' annotation, which is required if fileStore.external.useServiceAccount is true'') [])
                  else lift (NewExternalFileStoreInfo mm None))
         else bindM (client_Get env SecretK (efs_Secret ext, mm_Namespace mm)) (\<lambda>secret.
              lift (NewExternalFileStoreInfo mm (Some secret))))"

definition checkExternalVolumeFileStore :: "env \<Rightarrow> FileStoreConfig rio" where
  "checkExternalVolumeFileStore env =
     bindM get_mm (\<lambda>mm.
     bindM (wrapM ''failed to create external volume FileStoreConfig''
              (lift (NewExternalVolumeFileStoreInfo mm))) (\<lambda>fsc.
     case fs_ExternalVolume (s_FileStore (mm_Spec mm)) of
       None \<Rightarrow> lift (Panic ''nil ExternalVolume'')
     | Some ev \<Rightarrow>
         bindM (client_Get env PVCK (evs_VolumeClaimName ev, mm_Namespace mm)) (\<lambda>pvc.
         if pvc_Status_Phase pvc \<noteq> ''Bound'' \<and> pvc_Status_Phase pvc \<noteq> ''Pending''
         then fail (Errorf ''specified PVC for external volume storage is not %s or %s (%s)''
                      [''Bound'', ''Pending'', pvc_Status_Phase pvc])
         else ret fsc)))"

definition determineAccessModes :: "LocalFileStoreSpec \<Rightarrow> string list \<Rightarrow> bool \<Rightarrow> string list" where
  "determineAccessModes l currentModes pvcExists =
     (if lfs_AccessModes l \<noteq> [] then lfs_AccessModes l
      else if pvcExists then currentModes
      else [''ReadWriteMany''])"

definition accessModesEqual :: "string list \<Rightarrow> string list \<Rightarrow> bool" where
  "accessModesEqual a b = (if length a \<noteq> length b then False else list_all (\<lambda>mode. mode \<in> set b) a)"

definition local_pvc :: "Mattermost \<Rightarrow> gomap \<Rightarrow> string list \<Rightarrow> string \<Rightarrow> PVC" where
  "local_pvc mm labels modes storage =
     \<lparr>pvc_Meta = empty_meta\<lparr>om_Name := mm_Name mm, om_Namespace := mm_Namespace mm, om_Labels := labels\<rparr>,
      pvc_AccessModes = modes, pvc_Storage = storage, pvc_Status_Phase = []\<rparr>"

definition freeze_pvc :: "(maploc \<Rightarrow> strmap) \<Rightarrow> PVC \<Rightarrow> PVC" where
  "freeze_pvc h x = x\<lparr>pvc_Meta := freeze_meta h (pvc_Meta x)\<rparr>"

text \<open>The claim is created when the first read failed, and otherwise brought up to date.\<close>

definition write_local_pvc ::
  "env \<Rightarrow> Mattermost \<Rightarrow> LocalFileStoreSpec \<Rightarrow> string list \<Rightarrow> go_error + PVC \<Rightarrow> PVC \<Rightarrow> unit rio" where
  "write_local_pvc env mm l accessModes found pvc =
     (case found of
        Inl _ \<Rightarrow>
          bindM (CreatePvcIfNotExists env (mm_Meta mm) pvc) (\<lambda>pvc'.
          bindM (client_Get env PVCK (k_key PVCK pvc')) (\<lambda>_. ret ()))
      | Inr current \<Rightarrow>
          if lfs_AccessModes l \<noteq> [] \<and> \<not> accessModesEqual (pvc_AccessModes current) accessModes
          then fail (Errorf ''cannot change PVC access modes from %v to %v as this requires PVC recreation which may cause data loss. Please manually migrate data and recreate the PVC with a different name if you need to change access modes''
                       [concat (pvc_AccessModes current), concat accessModes])
          else bindM (Update env PVCK current pvc) (\<lambda>_. ret ()))"

definition checkLocalFileStore :: "env \<Rightarrow> FileStoreConfig rio" where
  "checkLocalFileStore env =
     bindM get_mm (\<lambda>mm. case fs_Local (s_FileStore (mm_Spec mm)) of
       None \<Rightarrow> lift (Panic ''nil Local'')
     | Some l \<Rightarrow>
         let storageSize = (if lfs_StorageSize l \<noteq> [] then lfs_StorageSize l else DefaultFilestoreStorageSize) in
         bindM (tryM (client_Get env PVCK (mm_Name mm, mm_Namespace mm))) (\<lambda>found.
         let pvcExists = (case found of Inl _ \<Rightarrow> False | Inr _ \<Rightarrow> True);
             currentModes = (case found of Inl _ \<Rightarrow> [] | Inr c \<Rightarrow> pvc_AccessModes c);
             accessModes = determineAccessModes l currentModes pvcExists
         in bindM (gen (\<lambda>m. MattermostLabels m (mm_Name mm))) (\<lambda>labels.
            bindM (lift (MustParse (e_quantity env) storageSize)) (\<lambda>storage.
            bindM (read_maps freeze_pvc (local_pvc mm labels accessModes storage)) (\<lambda>pvc.
            bindM (write_local_pvc env mm l accessModes found pvc) (\<lambda>_.
            ret NewLocalFileStoreInfo))))))"

definition checkMattermostMinioSecret :: "env \<Rightarrow> Secret rio" where
  "checkMattermostMinioSecret env =
     bindM get_state (\<lambda>s.
     let desired = SecretV1Beta (e_New16ID env (calls s) 0) (e_New28ID env (calls s)) (r_mm s)
     in wrapM ''failed to create or update Minio Secret''
          (CreateOrUpdateMinioSecret env (mm_Meta (r_mm s)) desired))"

definition checkMinioInstance :: "env \<Rightarrow> unit rio" where
  "checkMinioInstance env =
     bindM get_mm (\<lambda>mm.
     bindM (lift (InstanceV1Beta (e_quantity env) mm)) (\<lambda>desired0.
     bindM (CreateMinioInstanceIfNotExists env (mm_Meta mm) desired0) (\<lambda>desired.
     bindM (client_Get env MinioK (k_key MinioK desired)) (\<lambda>current.
     bindM (Update env MinioK current desired) (\<lambda>_. ret ())))))"

definition checkOperatorManagedMinio :: "env \<Rightarrow> FileStoreConfig rio" where
  "checkOperatorManagedMinio env =
     bindM (wrapM ''failed to check Minio secret'' (checkMattermostMinioSecret env)) (\<lambda>secret.
     bindM (wrapM ''failed to check Minio instance'' (checkMinioInstance env)) (\<lambda>_.
     bindM get_mm (\<lambda>mm.
     bindM (wrapM ''failed to get Minio URL'' (GetMinioService env (mm_Name mm) (mm_Namespace mm))) (\<lambda>url.
     ret (NewOperatorManagedFileStoreInfo mm (om_Name (sec_Meta secret)) url)))))"

definition checkFileStore :: "env \<Rightarrow> FileStoreConfig rio" where
  "checkFileStore env =
     bindM get_mm (\<lambda>mm.
     let fs = s_FileStore (mm_Spec mm) in
     if fs_IsExternal fs then checkExternalFileStore env
     else if fs_IsExternalVolume fs then checkExternalVolumeFileStore env
     else if fs_IsLocal fs then checkLocalFileStore env
     else checkOperatorManagedMinio env)"

section \<open>Properties\<close>

lemma accessModesEqual_set:
  assumes "accessModesEqual a b" and "distinct a"
  shows "set a = set b"
proof -
  have sub: "set a \<subseteq> set b" and len: "length a = length b"
    using assms(1) by (auto simp: accessModesEqual_def list_all_iff split: if_splits)
  have "card (set b) \<le> card (set a)"
    using len distinct_card [OF assms(2)] card_length [of b] by simp
  with sub show ?thesis by (intro card_seteq) simp_all
qed

text \<open>With an existing claim: the read, and then at most an update to the access modes it was checked for.\<close>

lemma checkLocalFileStore_existing:
  assumes "fs_Local (s_FileStore (mm_Spec (r_mm s))) = Some l"
    and "api_get (e_PVC env) (calls s) (mm_Name (r_mm s), mm_Namespace (r_mm s)) = Inr current"
    and "checkLocalFileStore env s = (r, s')"
  defines "modes \<equiv> determineAccessModes l (pvc_AccessModes current) True"
  obtains pvc s1 where "calls s1 = calls s @ [CGet PVCKind (mm_Name (r_mm s), mm_Namespace (r_mm s))]"
    and "pvc_AccessModes pvc = modes"
    and "s' = s1 \<or> s' = snd (Update env PVCK current pvc s1) \<and> (lfs_AccessModes l = [] \<or> accessModesEqual (pvc_AccessModes current) modes)"
proof -
  let ?mm = "r_mm s"
  let ?q = "if lfs_StorageSize l \<noteq> [] then lfs_StorageSize l else DefaultFilestoreStorageSize"
  obtain g mm1 where lab: "MattermostLabels ?mm (mm_Name ?mm) = (g, mm1)" by (cases "MattermostLabels ?mm (mm_Name ?mm)")
  let ?s = "s\<lparr>calls := calls s @ [CGet PVCKind (mm_Name ?mm, mm_Namespace ?mm)], r_mm := mm1\<rparr>"
  let ?pvc = "freeze_pvc (mm_maps mm1) (local_pvc ?mm g modes ?q)"
  have "checkLocalFileStore env s =
     (if e_quantity env ?q
      then bindM (write_local_pvc env ?mm l modes (Inr current) ?pvc) (\<lambda>_. ret NewLocalFileStoreInfo) ?s
      else (Panic ''cannot parse quantity'', ?s))"
    using assms(1,2) lab
    by (simp add: checkLocalFileStore_def get_mm_def io_defs client_Get_def gen_def read_maps_def of_sum_def PVCK_def
        MustParse_def modes_def Let_def)
  then have s': "s' = ?s \<or> (\<exists>r0. write_local_pvc env ?mm l modes (Inr current) ?pvc ?s = (r0, s'))"
    using assms(3) by (auto simp: io_defs split: if_splits outcome.splits prod.splits)
  show thesis
  proof (rule that [of ?s ?pvc])
    show "s' = ?s \<or> s' = snd (Update env PVCK current ?pvc ?s) \<and> (lfs_AccessModes l = [] \<or> accessModesEqual (pvc_AccessModes current) modes)"
      using s' by (auto simp: write_local_pvc_def io_defs split: outcome.splits prod.splits if_splits)
  qed (simp_all add: freeze_pvc_def local_pvc_def)
qed


definition demo_local_spec :: MattermostSpec where
  "demo_local_spec = demo_spec\<lparr>s_FileStore := (s_FileStore zero_spec)\<lparr>fs_Local :=
     Some \<lparr>lfs_Enabled = True, lfs_StorageSize = ''50Gi'', lfs_AccessModes = []\<rparr>\<rparr>\<rparr>"

definition demo_claim :: PVC where
  "demo_claim = \<lparr>pvc_Meta = empty_meta\<lparr>om_Name := ''mm'', om_Namespace := ''apps''\<rparr>,
     pvc_AccessModes = [''ReadWriteOnce''], pvc_Storage = ''10Gi'', pvc_Status_Phase = ''Bound''\<rparr>"

definition demo_state :: "Mattermost \<Rightarrow> rec_state" where
  "demo_state mm = \<lparr>calls = [], r_mm = mm, r_orig = mm, r_status = zero_status, r_shared = True, r_processing = 0\<rparr>"


end
