(* ===== verification/MattermostReconcile.thy ===== *)
theory MattermostReconcile
  imports MattermostController
begin

text \<open>
  The application's own objects and the reconcile loop: \<^verbatim>\<open>mattermost.go\<close>, \<^verbatim>\<open>health_check.go\<close> and
  \<^verbatim>\<open>controller.go\<close> of \<^verbatim>\<open>controllers/mattermost/mattermost\<close>.
\<close>

section \<open>Service, access control and ingress (\<^verbatim>\<open>mattermost.go\<close>)\<close>

definition checkLicence :: "env \<Rightarrow> unit rio" where
  "checkLicence env =
     bindM get_mm (\<lambda>mm.
     if s_LicenseSecret (mm_Spec mm) = [] then ret ()
     else assertSecretContains env (s_LicenseSecret (mm_Spec mm)) ''license'' (mm_Namespace mm))"

text \<open>What the service handler does with the outcome of the user's patch.\<close>

definition patch_service :: "env \<Rightarrow> Service \<Rightarrow> Service rio" where
  "patch_service env desired =
     bindM get_mm (\<lambda>mm. case ApplyToService (e_codec env) (s_ResourcePatch (mm_Spec mm)) desired of
       Err e \<Rightarrow> bindM (write_patch_status (SetServicePatchStatus (e_err_text env) False
                   (Some (Wrap e ''failed to apply patch to Service'')))) (\<lambda>_. ret desired)
     | Panic p \<Rightarrow> lift (Panic p)
     | Ok (patchedObj, applied) \<Rightarrow>
         if applied
         then bindM (write_patch_status (SetServicePatchStatus (e_err_text env) True None)) (\<lambda>_. ret patchedObj)
         else bindM (write_patch_status ClearServicePatchStatus) (\<lambda>_. ret desired))"

definition checkMattermostService :: "env \<Rightarrow> unit rio" where
  "checkMattermostService env =
     bindM (gen GenerateServiceV1Beta) (\<lambda>generated.
     bindM (read_maps freeze_service generated) (\<lambda>desired0.
     bindM (patch_service env desired0) (\<lambda>desired1.
     bindM get_mm (\<lambda>mm.
     bindM (CreateServiceIfNotExists env (mm_Meta mm) desired1) (\<lambda>desired.
     bindM (client_Get env ServiceK (k_key ServiceK desired)) (\<lambda>current.
     if svc_Type current \<noteq> svc_Type desired \<and> svc_Type current \<noteq> []
     then bindM (wrapM ''failed to delete service'' (DeleteService env (k_key ServiceK current))) (\<lambda>_.
          bindM (Create env ServiceK (mm_Meta mm) desired) (\<lambda>_. ret ()))
     else bindM (Update env ServiceK current (CopyServiceEmptyAutoAssignedFields desired current))
            (\<lambda>_. ret ())))))))"

definition checkMattermostSA :: "env \<Rightarrow> unit rio" where
  "checkMattermostSA env =
     bindM get_mm (\<lambda>mm.
     if (case fs_External (s_FileStore (mm_Spec mm)) of None \<Rightarrow> False | Some ext \<Rightarrow> efs_UseServiceAccount ext)
     then ret ()
     else
       bindM (CreateServiceAccountIfNotExists env (mm_Meta mm) (GenerateServiceAccountV1Beta mm (mm_Name mm))) (\<lambda>desired.
       bindM (client_Get env ServiceAccountK (k_key ServiceAccountK desired)) (\<lambda>current.
       bindM (Update env ServiceAccountK current desired) (\<lambda>_. ret ()))))"

definition checkMattermostRole :: "env \<Rightarrow> unit rio" where
  "checkMattermostRole env =
     bindM get_mm (\<lambda>mm.
     bindM (CreateRoleIfNotExists env (mm_Meta mm) (GenerateRoleV1Beta mm (mm_Name mm))) (\<lambda>desired.
     bindM (client_Get env RoleK (k_key RoleK desired)) (\<lambda>current.
     bindM (Update env RoleK current desired) (\<lambda>_. ret ()))))"

definition checkMattermostRoleBinding :: "env \<Rightarrow> unit rio" where
  "checkMattermostRoleBinding env =
     bindM get_mm (\<lambda>mm.
     bindM (CreateRoleBindingIfNotExists env (mm_Meta mm)
              (GenerateRoleBindingV1Beta mm (mm_Name mm) (mm_Name mm))) (\<lambda>desired.
     bindM (client_Get env RoleBindingK (k_key RoleBindingK desired)) (\<lambda>current.
     bindM (Update env RoleBindingK current desired) (\<lambda>_. ret ()))))"

definition checkMattermostRBAC :: "env \<Rightarrow> unit rio" where
  "checkMattermostRBAC env =
     bindM (wrapM ''failed to check mattermost ServiceAccount'' (checkMattermostSA env)) (\<lambda>_.
     bindM (wrapM ''failed to check mattermost Role'' (checkMattermostRole env)) (\<lambda>_.
     wrapM ''failed to check mattermost RoleBinding'' (checkMattermostRoleBinding env)))"

definition checkMattermostIngress :: "env \<Rightarrow> unit rio" where
  "checkMattermostIngress env =
     bindM (gen GenerateIngressV1Beta) (\<lambda>nginx.
     bindM get_mm (\<lambda>mm.
     bindM (if AWSLoadBalancerEnabled mm then genO GenerateALBIngressV1Beta else ret nginx) (\<lambda>generated.
     bindM (read_maps freeze_ingress generated) (\<lambda>desired0.
     if \<not> IngressEnabled mm \<and> \<not> AWSLoadBalancerEnabled mm
     then wrapM ''failed to delete disabled ingress'' (DeleteIngress env (k_key IngressK desired0))
     else
       bindM (CreateIngressIfNotExists env (mm_Meta mm) desired0) (\<lambda>desired.
       bindM (client_Get env IngressK (k_key IngressK desired)) (\<lambda>current.
       bindM (Update env IngressK current desired) (\<lambda>_. ret ())))))))"

definition checkMattermostIngressClass :: "env \<Rightarrow> unit rio" where
  "checkMattermostIngressClass env =
     bindM (gen GenerateALBIngressClassV1Beta) (\<lambda>generated.
     bindM get_mm (\<lambda>mm.
     bindM (read_maps freeze_ingress_class generated) (\<lambda>desired0.
     if \<not> AWSLoadBalancerEnabled mm
        \<or> (case s_AWSLoadBalancerController (mm_Spec mm) of None \<Rightarrow> False | Some a \<Rightarrow> aws_IngressClassName a \<noteq> [])
     then wrapM ''failed to delete disabled ingressClass'' (DeleteIngressClass env (k_key IngressClassK desired0))
     else
       bindM (CreateIngressClassIfNotExists env (mm_Meta mm) desired0) (\<lambda>desired.
       bindM (client_Get env IngressClassK (k_key IngressClassK desired)) (\<lambda>current.
       bindM (Update env IngressClassK current desired) (\<lambda>_. ret ()))))))"

section \<open>The update job\<close>

definition isMainContainerImageSame :: "Container list \<Rightarrow> Container list \<Rightarrow> bool outcome" where
  "isMainContainerImageSame a b =
     (case GetMattermostAppContainer a of
        None \<Rightarrow> Err (Errorf ''failed to find main container in a list while comparing images'' [])
      | Some containerA \<Rightarrow>
          (case GetMattermostAppContainer b of
             None \<Rightarrow> Err (Errorf ''failed to find main container in a list while comparing images'' [])
           | Some containerB \<Rightarrow> Ok (c_Image containerA = c_Image containerB)))"

text \<open>Neither deployment is a nil pointer where the controller calls this function.\<close>

definition isMainDeploymentContainerImageSame :: "Deployment \<Rightarrow> Deployment \<Rightarrow> bool outcome" where
  "isMainDeploymentContainerImageSame a b =
     wrapO ''failed to compare deployment images, deployments: %s/%s, %s/%s''
       (isMainContainerImageSame (ps_Containers (pt_Spec (d_Template a))) (ps_Containers (pt_Spec (d_Template b))))"

definition cleanupUpdateJob :: "env \<Rightarrow> Job \<Rightarrow> unit rio" where
  "cleanupUpdateJob env job = bindM (tryM (client_Delete env JobK job)) (\<lambda>_. ret ())"

definition store_update_job :: "UpdateJob option \<Rightarrow> unit rio" where
  "store_update_job u = mod_state (\<lambda>s. s\<lparr>r_mm := (r_mm s)\<lparr>mm_Spec := (mm_Spec (r_mm s))\<lparr>s_UpdateJob := u\<rparr>\<rparr>\<rparr>)"

text \<open>
  The result of the update job's check: the job to clean up, whether the resources are ready,
  and the error.
\<close>

type_synonym job_check = "Job option \<times> bool \<times> go_error option"

definition checkUpdateJob :: "env \<Rightarrow> string \<Rightarrow> Deployment \<Rightarrow> job_check rio" where
  "checkUpdateJob env jobNamespace baseDeployment =
     (case GetMattermostAppContainerFromDeployment baseDeployment of
        None \<Rightarrow> lift (Panic ''nil container'')
      | Some _ \<Rightarrow>
     bindM get_mm (\<lambda>mm.
     bindM (tryM (FetchMattermostUpdateJob env jobNamespace)) (\<lambda>fetched. case fetched of
       Inl e \<Rightarrow>
         if IsNotFound e
         then bindM (tryM (LaunchMattermostUpdateJob env store_update_job (mm_Meta mm) jobNamespace baseDeployment
                              (s_UpdateJob (mm_Spec mm)))) (\<lambda>launched. case launched of
                Inl e' \<Rightarrow> ret (None, False, Some (Wrap e' ''Launching update image job failed''))
              | Inr _ \<Rightarrow> ret (None, False, None))
         else ret (None, False, Some (Wrap e ''failed to determine if an update image job is already running''))
     | Inr job \<Rightarrow>
         (case isMainContainerImageSame (ps_Containers (pt_Spec (d_Template baseDeployment)))
                 (ps_Containers (pt_Spec (j_Template job))) of
            Err e \<Rightarrow> ret (None, False, Some (Wrap e ''failed to compare image of update job and desired deployment''))
          | Panic p \<Rightarrow> lift (Panic p)
          | Ok isSameImage \<Rightarrow>
              if \<not> isSameImage
              then bindM (tryM (RestartMattermostUpdateJob env store_update_job (mm_Meta mm) job baseDeployment
                                  (s_UpdateJob (mm_Spec mm)))) (\<lambda>restarted. case restarted of
                     Inl e \<Rightarrow> ret (None, False, Some (Wrap e ''failed to restart update job''))
                   | Inr _ \<Rightarrow> ret (None, False, None))
              else if j_Status_CompletionTime job = None then ret (None, False, None)
              else if j_Status_Failed job > 0
              then ret (Some job, False, Some (New ''update image job failed''))
              else ret (Some job, True, None)))))"

definition update_deployment :: "env \<Rightarrow> Deployment \<Rightarrow> Deployment \<Rightarrow> bool rio" where
  "update_deployment env current desired = bindM (Update env DeploymentK current desired) (\<lambda>_. ret True)"

text \<open>The deferred cleanup runs after the deployment's update, whatever its outcome.\<close>

definition after_update_job :: "env \<Rightarrow> Deployment \<Rightarrow> Deployment \<Rightarrow> job_check \<Rightarrow> bool rio" where
  "after_update_job env current desired check =
     (let (job, ready, err) = check;
          rest = (case err of
                    Some e \<Rightarrow> fail e
                  | None \<Rightarrow> if ready then update_deployment env current desired else ret False)
      in case job of None \<Rightarrow> rest | Some j \<Rightarrow> deferM rest (cleanupUpdateJob env j))"

definition updateMattermostDeployment :: "env \<Rightarrow> Deployment \<Rightarrow> Deployment \<Rightarrow> bool rio" where
  "updateMattermostDeployment env current desired =
     bindM (lift (isMainDeploymentContainerImageSame current desired)) (\<lambda>sameImage.
     if sameImage then update_deployment env current desired
     else bindM get_mm (\<lambda>mm.
       if (case s_UpdateJob (mm_Spec mm) of None \<Rightarrow> False | Some u \<Rightarrow> uj_Disabled u)
       then update_deployment env current desired
       else bindM (checkUpdateJob env (mm_Namespace mm) desired) (after_update_job env current desired)))"

section \<open>Deployments\<close>

definition patch_deployment :: "env \<Rightarrow> Deployment \<Rightarrow> Deployment rio" where
  "patch_deployment env desired =
     bindM get_mm (\<lambda>mm. case ApplyToDeployment (e_codec env) (s_ResourcePatch (mm_Spec mm)) desired of
       Err e \<Rightarrow> bindM (write_patch_status (SetDeploymentPatchStatus (e_err_text env) False
                   (Some (Wrap e ''failed to apply patch to Deployment'')))) (\<lambda>_. ret desired)
     | Panic p \<Rightarrow> lift (Panic p)
     | Ok (patchedObj, applied) \<Rightarrow>
         if applied
         then bindM (write_patch_status (SetDeploymentPatchStatus (e_err_text env) True None)) (\<lambda>_. ret patchedObj)
         else bindM (write_patch_status ClearDeploymentPatchStatus) (\<lambda>_. ret desired))"

definition checkMattermostDeployment :: "env \<Rightarrow> DatabaseConfig \<Rightarrow> FileStoreConfig \<Rightarrow> bool rio" where
  "checkMattermostDeployment env dbConfig fsConfig =
     bindM (genO (\<lambda>mm. GenerateDeploymentV1Beta mm dbConfig fsConfig (mm_Name mm) (GetIngressHost mm)
                         (mm_Name mm) (GetImageName mm))) (\<lambda>generated.
     bindM (read_maps freeze_deployment generated) (\<lambda>desired0.
     bindM (patch_deployment env desired0) (\<lambda>desired1.
     bindM get_mm (\<lambda>mm.
     bindM (wrapM ''failed to create mattermost deployment''
              (CreateDeploymentIfNotExists env (mm_Meta mm) desired1)) (\<lambda>desired.
     bindM (wrapM ''failed to get mattermost deployment''
              (client_Get env DeploymentK (k_key DeploymentK desired))) (\<lambda>current.
     wrapM ''failed to update mattermost deployment'' (updateMattermostDeployment env current desired)))))))"

definition checkMattermostJobServerDeployment :: "env \<Rightarrow> DatabaseConfig \<Rightarrow> FileStoreConfig \<Rightarrow> unit rio" where
  "checkMattermostJobServerDeployment env dbConfig fsConfig =
     bindM (genO (\<lambda>mm. GenerateJobServerDeploymentV1Beta mm dbConfig fsConfig (mm_Name mm) (GetIngressHost mm)
                         (mm_Name mm) (GetImageName mm))) (\<lambda>generated.
     bindM (read_maps freeze_deployment generated) (\<lambda>desired0.
     bindM get_mm (\<lambda>mm.
     if (case s_JobServer (mm_Spec mm) of None \<Rightarrow> True | Some js \<Rightarrow> \<not> js_DedicatedJobServer js)
     then wrapM ''failed to delete job server deployment''
            (DeleteDeployment env (k_key DeploymentK desired0))
     else
       bindM (patch_deployment env desired0) (\<lambda>desired1.
       bindM (wrapM ''failed to create mattermost job server deployment''
                (CreateDeploymentIfNotExists env (mm_Meta mm) desired1)) (\<lambda>desired.
       bindM (wrapM ''failed to get mattermost job server deployment''
                (client_Get env DeploymentK (k_key DeploymentK desired))) (\<lambda>current.
       bindM (Update env DeploymentK current desired) (\<lambda>_. ret ())))))))"

definition checkMattermostJobServer :: "env \<Rightarrow> DatabaseConfig \<Rightarrow> FileStoreConfig \<Rightarrow> unit rio" where
  "checkMattermostJobServer env dbInfo fsConfig = checkMattermostJobServerDeployment env dbInfo fsConfig"

definition checkMattermost :: "env \<Rightarrow> DatabaseConfig \<Rightarrow> FileStoreConfig \<Rightarrow> bool rio" where
  "checkMattermost env dbInfo fsConfig =
     bindM (wrapM ''failed to check mattermost license secret.'' (checkLicence env)) (\<lambda>_.
     bindM (checkMattermostService env) (\<lambda>_.
     bindM (checkMattermostRBAC env) (\<lambda>_.
     bindM get_mm (\<lambda>mm.
     bindM (if \<not> s_UseServiceLoadBalancer (mm_Spec mm)
            then bindM (checkMattermostIngressClass env) (\<lambda>_. checkMattermostIngress env)
            else ret ()) (\<lambda>_.
     checkMattermostDeployment env dbInfo fsConfig)))))"

section \<open>Health (\<^verbatim>\<open>health_check.go\<close>)\<close>

definition checkMattermostJobServerHealth :: "env \<Rightarrow> unit rio" where
  "checkMattermostJobServerHealth env =
     bindM (gen (\<lambda>mm. MattermostJobServerPodLabels mm (mm_Name mm))) (\<lambda>labels.
     bindM get_mm (\<lambda>mm.
     let opts = \<lparr>lo_Namespace = mm_Namespace mm, lo_Labels = deref (mm_maps mm) labels\<rparr> in
     bindM (wrapM ''job server pod rollout not yet started''
              (CheckReplicaSetRollout env opts (DedicatedJobServerName mm) (mm_Namespace mm))) (\<lambda>st.
     if prs_UpdatedReplicas st = 0 then fail (New ''mattermost job server pods not yet updated'')
     else if prs_UpdatedReplicas st \<noteq> 1
     then fail (Errorf ''found %d updated job server replicas, but wanted 1'' [Itoa (prs_UpdatedReplicas st)])
     else if prs_Replicas st \<noteq> 1
     then fail (Errorf ''found job server %d pods, but wanted 1'' [Itoa (prs_Replicas st)])
     else ret ())))"

definition health_endpoint :: "env \<Rightarrow> list_options \<Rightarrow> string rio" where
  "health_endpoint env opts =
     bindM get_mm (\<lambda>mm.
     if s_UseServiceLoadBalancer (mm_Spec mm)
     then wrapM ''failed to check service load balancer'' (CheckServiceLoadBalancer env opts)
     else if IngressEnabled mm
     then wrapM ''failed to check ingress load balancer'' (CheckIngressLoadBalancer env opts)
     else ret [])"

definition initial_health_status :: "Mattermost \<Rightarrow> MattermostStatus \<Rightarrow> MattermostStatus" where
  "initial_health_status mm currentStatus =
     zero_status\<lparr>st_State := Reconciling, st_ObservedGeneration := om_Generation (mm_Meta mm),
       st_Replicas := 0, st_UpdatedReplicas := 0, st_ResourcePatch := st_ResourcePatch currentStatus\<rparr>"

text \<open>The status is returned together with the error, if there is one.\<close>

definition checkMattermostHealth :: "env \<Rightarrow> MattermostStatus \<Rightarrow> (MattermostStatus \<times> go_error option) rio" where
  "checkMattermostHealth env currentStatus =
     bindM get_mm (\<lambda>mm0.
     let status0 = initial_health_status mm0 currentStatus in
     bindM (gen (\<lambda>mm. MattermostPodLabels mm (mm_Name mm))) (\<lambda>labels.
     bindM get_mm (\<lambda>mm.
     let opts = \<lparr>lo_Namespace = mm_Namespace mm, lo_Labels = deref (mm_maps mm) labels\<rparr> in
     bindM (tryM (CheckReplicaSetRollout env opts (mm_Name mm) (mm_Namespace mm))) (\<lambda>rollout. case rollout of
       Inl e \<Rightarrow> ret (status0, Some (Wrap e ''rollout not yet started''))
     | Inr ps \<Rightarrow>
       let status1 = status0\<lparr>st_UpdatedReplicas := prs_UpdatedReplicas ps, st_Replicas := prs_Replicas ps\<rparr>;
           replicas = (case s_Replicas (mm_Spec mm) of None \<Rightarrow> 1 | Some n \<Rightarrow> n) in
       if replicas > 0 \<and> prs_UpdatedReplicas ps = 0
       then ret (status1, Some (Errorf ''mattermost pods not yet updated'' []))
       else
         let status2 = status1\<lparr>st_Image := s_Image (mm_Spec mm), st_Version := s_Version (mm_Spec mm),
                               st_Endpoint := ''not available''\<rparr> in
         bindM (tryM (health_endpoint env opts)) (\<lambda>ep. case ep of
           Inl e \<Rightarrow> ret (status2, Some e)
         | Inr endpoint \<Rightarrow>
           let status3 = (if endpoint \<noteq> [] then status2\<lparr>st_Endpoint := endpoint\<rparr> else status2);
               status4 = (if replicas > 0 then status3\<lparr>st_State := Ready\<rparr> else status3) in
           if prs_UpdatedReplicas ps \<noteq> replicas
           then ret (status4, Some (Errorf ''found %d updated replicas, but wanted %d''
                                      [Itoa (prs_UpdatedReplicas ps), Itoa replicas]))
           else if prs_Replicas ps \<noteq> replicas
           then ret (status4, Some (Errorf ''found %d pods, but wanted %d''
                                      [Itoa (prs_Replicas ps), Itoa replicas]))
           else bindM (if (case s_JobServer (mm_Spec mm) of None \<Rightarrow> False | Some js \<Rightarrow> js_DedicatedJobServer js)
                       then tryM (wrapM ''failed to check job server health'' (checkMattermostJobServerHealth env))
                       else ret (Inr ())) (\<lambda>js. case js of
                  Inl e \<Rightarrow> ret (status4, Some e)
                | Inr _ \<Rightarrow> ret (status4\<lparr>st_State := Stable\<rparr>, None)))))))"

section \<open>The reconcile loop (\<^verbatim>\<open>controller.go\<close>)\<close>

text \<open>Durations are in nanoseconds.\<close>

definition healthCheckRequeueDelay :: int where "healthCheckRequeueDelay = 6 * 1000000000"
definition resourcesReadyDelay :: int where "resourcesReadyDelay = 10 * 1000000000"

record Result =
  RequeueAfter :: int

definition done_result :: Result where "done_result = \<lparr>RequeueAfter = 0\<rparr>"

record reconciler_config =
  MaxReconciling :: int
  RequeueOnLimitDelay :: int

definition startNonReconcilingMMProcessing :: "env \<Rightarrow> int \<Rightarrow> bool rio" where
  "startNonReconcilingMMProcessing env maxReconciling =
     bindM (wrapM ''failed to list Mattermosts'' (client_List env MattermostK None Map.empty)) (\<lambda>items.
     bindM get_state (\<lambda>s.
     let (can, processing) = admit maxReconciling items (r_processing s) in
     bindM (mod_state (\<lambda>s. s\<lparr>r_processing := processing\<rparr>)) (\<lambda>_. ret can)))"

definition decrementProcessing :: "unit rio" where
  "decrementProcessing = mod_state (\<lambda>s. s\<lparr>r_processing := decrement (r_processing s)\<rparr>)"

definition updateSpec :: "env \<Rightarrow> unit rio" where
  "updateSpec env =
     bindM get_mm (\<lambda>mm. bindM (client_Update env MattermostK mm) (\<lambda>resp. mod_state (\<lambda>s. s\<lparr>r_mm := resp\<rparr>)))"

definition get_status :: "MattermostStatus rio" where
  "get_status = bindM get_state (\<lambda>s. ret (r_status s))"

text \<open>
  The recurring error path: record the error in the status of a copy of the resource, then
  return the error.
\<close>

definition on_error :: "env \<Rightarrow> mmref \<Rightarrow> 'a rio \<Rightarrow> 'a rio" where
  "on_error env ref m =
     bindM (tryM m) (\<lambda>r. case r of
       Inr x \<Rightarrow> ret x
     | Inl e \<Rightarrow> bindM get_status (\<lambda>status.
                bindM (updateStatusReconcilingAndLogError env ref status (Some e)) (\<lambda>_. fail e)))"

text \<open>The copy of the status, and the first status of a new resource.\<close>

definition init_status :: "env \<Rightarrow> unit rio" where
  "init_status env =
     bindM get_mm (\<lambda>mm.
     let status = (mm_Status mm)\<lparr>st_ObservedGeneration := om_Generation (mm_Meta mm)\<rparr> in
     bindM (mod_state (\<lambda>s. s\<lparr>r_status := status, r_shared := True\<rparr>)) (\<lambda>_.
     if st_State (mm_Status mm) = [] then updateStatusReconciling env Current status else ret ()))"

text \<open>\<^verbatim>\<open>SetDefaults\<close> writes into the resource even when it returns an error.\<close>

definition set_defaults :: "env \<Rightarrow> unit rio" where
  "set_defaults env =
     bindM (mod_state (\<lambda>s. s\<lparr>r_orig := r_mm s\<rparr>)) (\<lambda>_.
     bindM (on_error env Current (bindM (gen (\<lambda>mm. (snd (SetDefaults mm), fst (SetDefaults mm)))) lift)) (\<lambda>_.
     bindM (gen (\<lambda>mm. (snd (SetReplicasAndResourcesFromSize mm), fst (SetReplicasAndResourcesFromSize mm)))) (\<lambda>softError.
     bindM (case softError of Panic p \<Rightarrow> lift (Panic p) | _ \<Rightarrow> ret ()) (\<lambda>_.
     bindM get_state (\<lambda>s.
     if mm_Spec (r_orig s) \<noteq> mm_Spec (r_mm s)
     then bindM (mod_state (\<lambda>s. s\<lparr>r_mm := (r_mm s)\<lparr>mm_Status := r_status s\<rparr>, r_shared := True\<rparr>)) (\<lambda>_.
          on_error env Original (updateSpec env))
     else ret ())))))"

definition finish_reconcile :: "env \<Rightarrow> DatabaseConfig \<Rightarrow> FileStoreConfig \<Rightarrow> Result rio" where
  "finish_reconcile env dbConfig fileStoreConfig =
     bindM (on_error env Current (checkMattermostJobServer env dbConfig fileStoreConfig)) (\<lambda>_.
     bindM get_status (\<lambda>current.
     bindM (checkMattermostHealth env current) (\<lambda>(status, err).
     bindM (mod_state (\<lambda>s. s\<lparr>r_status := status\<rparr>)) (\<lambda>_.
     case err of
       Some _ \<Rightarrow> bindM (tryM (updateStatus env Current status)) (\<lambda>_.
                 ret \<lparr>RequeueAfter = healthCheckRequeueDelay\<rparr>)
     | None \<Rightarrow> bindM (on_error env Current (updateStatus env Current status)) (\<lambda>_. ret done_result)))))"

definition reconcile_body :: "env \<Rightarrow> Result rio" where
  "reconcile_body env =
     bindM (init_status env) (\<lambda>_.
     bindM (set_defaults env) (\<lambda>_.
     bindM (on_error env Current (checkDatabase env)) (\<lambda>dbConfig.
     bindM (on_error env Current (checkFileStore env)) (\<lambda>fileStoreConfig.
     bindM (on_error env Current (checkMattermost env dbConfig fileStoreConfig)) (\<lambda>ready.
     if \<not> ready
     then bindM get_status (\<lambda>status.
          bindM (updateStatusReconciling env Current status) (\<lambda>_.
          ret \<lparr>RequeueAfter = resourcesReadyDelay\<rparr>))
     else finish_reconcile env dbConfig fileStoreConfig)))))"

definition Reconcile :: "env \<Rightarrow> reconciler_config \<Rightarrow> key \<Rightarrow> Result rio" where
  "Reconcile env cfg request =
     bindM (tryM (client_Get env MattermostK request)) (\<lambda>found. case found of
       Inl e \<Rightarrow> if IsNotFound e then ret done_result else fail e
     | Inr mm \<Rightarrow>
         bindM (mod_state (\<lambda>s. s\<lparr>r_mm := mm, r_orig := mm\<rparr>)) (\<lambda>_.
         if st_State (mm_Status mm) \<noteq> Reconciling \<and> st_State (mm_Status mm) \<noteq> Ready
         then bindM (wrapM ''failed to verify reconciliation limit''
                       (startNonReconcilingMMProcessing env (MaxReconciling cfg))) (\<lambda>canProcess.
              if \<not> canProcess then ret \<lparr>RequeueAfter = RequeueOnLimitDelay cfg\<rparr>
              else deferM (reconcile_body env) decrementProcessing)
         else reconcile_body env))"

section \<open>Properties\<close>

text \<open>
  The update job runs the desired deployment's pods once: every container keeps its name and
  image, the application container loses its probes and migrates the database, the pod is not
  restarted and does not wait for the setup job, its labels are the extra labels and the job's name,
  and comparing images with the deployment it was made from says they are the same, so
  an unchanged deployment does not restart its job.
\<close>

theorem update_job_template:
  assumes "PrepareMattermostJobTemplate name ns d u = (job, u')"
    and "GetMattermostAppContainerFromDeployment d \<noteq> None"
  shows "isMainContainerImageSame (ps_Containers (pt_Spec (d_Template d))) (ps_Containers (pt_Spec (j_Template job))) = Ok True
    \<and> map c_Image (ps_Containers (pt_Spec (j_Template job))) = map c_Image (ps_Containers (pt_Spec (d_Template d)))
    \<and> map c_Name (ps_Containers (pt_Spec (j_Template job))) = map c_Name (ps_Containers (pt_Spec (d_Template d)))
    \<and> list_all (\<lambda>c. c_Name c \<noteq> ''mattermost'' \<or> (c_Args c = [''db'', ''migrate''] \<and> c_LivenessProbe c = None \<and> c_ReadinessProbe c = None))
         (ps_Containers (pt_Spec (j_Template job)))
    \<and> ps_RestartPolicy (pt_Spec (j_Template job)) = ''Never''
    \<and> deref (job_maps u') (pt_Labels (j_Template job)) ''app'' = Some name"
proof -
  have job: "j_Template job = \<lparr>pt_Labels = pt_Labels (j_Template job), pt_Annotations = pt_Annotations (j_Template job),
      pt_Spec = (pt_Spec (d_Template d))\<lparr>
        ps_InitContainers := RemoveContainer WaitForDBSetupContainerName (ps_InitContainers (pt_Spec (d_Template d))),
        ps_Containers := map job_container (ps_Containers (pt_Spec (d_Template d))), ps_RestartPolicy := ''Never''\<rparr>\<rparr>"
    and lab: "pt_Labels (j_Template job) = (case Option.bind u uj_ExtraLabels of
                         None \<Rightarrow> MapLit [''app'' \<mapsto> name] | Some _ \<Rightarrow> MapAt JobExtraLabelsLoc)"
    and u': "u' = map_option (\<lambda>u. u\<lparr>uj_ExtraLabels := map_option (\<lambda>l. l(''app'' \<mapsto> name)) (uj_ExtraLabels u)\<rparr>) u"
    using assms(1) by (auto simp: PrepareMattermostJobTemplate_def Let_def)
  have keep: "c_Name (job_container c) = c_Name c" "c_Image (job_container c) = c_Image c" for c
    by (simp_all add: job_container_def)
  have find: "find (\<lambda>c. c_Name c = n) (map job_container cs) = map_option job_container (find (\<lambda>c. c_Name c = n) cs)" for n cs
    by (induction cs) (auto simp: keep)
  have spec: "ps_Containers (pt_Spec (j_Template job)) = map job_container (ps_Containers (pt_Spec (d_Template d)))"
    "ps_RestartPolicy (pt_Spec (j_Template job)) = ''Never''" by (subst job; simp)+
  have "isMainContainerImageSame (ps_Containers (pt_Spec (d_Template d))) (map job_container (ps_Containers (pt_Spec (d_Template d)))) = Ok True"
    using assms(2) by (auto simp: isMainContainerImageSame_def GetMattermostAppContainer_def getContainerByName_def
        GetMattermostAppContainerFromDeployment_def getDeploymentContainerByName_def find keep)
  then show ?thesis
    using lab u' unfolding spec
    by (cases u) (auto simp: keep comp_def list_all_iff job_container_def MattermostAppContainerName_def job_maps_def
        split: option.splits)
qed
definition demo_app_container :: Container where
  "demo_app_container = empty_container\<lparr>c_Name := ''mattermost'', c_Image := ''mattermost/mm:10.5.0''\<rparr>"

definition demo_app_deployment :: Deployment where
  "demo_app_deployment = zero_deployment\<lparr>d_Template := zero_template\<lparr>pt_Spec := zero_pod_spec\<lparr>ps_Containers :=
     [demo_app_container]\<rparr>\<rparr>\<rparr>"

theorem update_job_template_witness:
  "map c_Image (ps_Containers (pt_Spec (j_Template (fst (PrepareMattermostJobTemplate UpdateJobName ''apps'' demo_app_deployment None)))))
   = [''mattermost/mm:10.5.0'']"
  using update_job_template [of UpdateJobName "''apps''" demo_app_deployment None, OF prod.collapse [symmetric]]
  by (simp add: demo_app_deployment_def demo_app_container_def zero_template_def zero_deployment_def
      GetMattermostAppContainerFromDeployment_def getDeploymentContainerByName_def getContainerByName_def
      MattermostAppContainerName_def)
definition rollout_complete :: "env \<Rightarrow> call list \<Rightarrow> key \<Rightarrow> strmap \<Rightarrow> int \<Rightarrow> bool" where
  "rollout_complete env h k sel n = (\<exists>d reps rep.
     api_direct_get (e_Deployment env) h k = Inr d
     \<and> om_Generation (d_Meta d) = d_Status_ObservedGeneration d
     \<and> api_direct_list (e_ReplicaSet env) (h @ [CDirectGet DeploymentKind k]) (snd k) sel = Inr reps
     \<and> current_replica_set d reps = Some rep
     \<and> rs_Status_AvailableReplicas rep = n \<and> d_Status_Replicas d = n)"

lemma rollout_evidence:
  assumes "CheckReplicaSetRollout env \<lparr>lo_Namespace = ns, lo_Labels = sel\<rparr> n ns s = (Ok ps, s')"
    and "prs_Replicas ps = k" "prs_UpdatedReplicas ps = k"
  shows "rollout_complete env (calls s) (n, ns) sel k"
proof -
  have K: "k_api DeploymentK env = e_Deployment env" "k_api ReplicaSetK env = e_ReplicaSet env"
    "k_kind DeploymentK = DeploymentKind"
    by (simp_all add: DeploymentK_def ReplicaSetK_def)
  show ?thesis
    using assms
    by (auto simp: CheckReplicaSetRollout_def reader_Get_def reader_List_def io_defs of_sum_def K rollout_complete_def
        split: sum.splits option.splits if_splits)
qed

lemma pod_labels_frame: "MattermostPodLabels mm n = (g, mm') \<Longrightarrow> mm_Meta mm' = mm_Meta mm
    \<and> s_Replicas (mm_Spec mm') = s_Replicas (mm_Spec mm)"
  by (auto simp: MattermostPodLabels_def write_labels_def split: option.splits)

text \<open>
  C6. The state \<^verbatim>\<open>stable\<close> is reported exactly when the check returns no error, and only on evidence read
  past the cache: the deployment's controller has seen its latest generation, the replica set of its
  revision has the wanted number of available pods, and no other pod of the deployment is left.
\<close>

theorem stable_needs_rollout:
  assumes "checkMattermostHealth env cur s = (Ok (st, err), s')"
    and "MattermostPodLabels (r_mm s) (mm_Name (r_mm s)) = (g, mm1)"
  shows "(st_State st = Stable \<longleftrightarrow> err = None)
    \<and> (err = None \<longrightarrow> rollout_complete env (calls s) (mm_Name (r_mm s), mm_Namespace (r_mm s)) (deref (mm_maps mm1) g)
         (case s_Replicas (mm_Spec (r_mm s)) of None \<Rightarrow> 1 | Some n \<Rightarrow> n)
       \<and> st_Replicas st = (case s_Replicas (mm_Spec (r_mm s)) of None \<Rightarrow> 1 | Some n \<Rightarrow> n)
       \<and> st_UpdatedReplicas st = st_Replicas st)
    \<and> st_ObservedGeneration st = om_Generation (mm_Meta (r_mm s))"
proof -
  let ?opts = "\<lparr>lo_Namespace = mm_Namespace (r_mm s), lo_Labels = deref (mm_maps mm1) g\<rparr>"
  let ?s1 = "s\<lparr>r_mm := mm1\<rparr>"
  note fr = pod_labels_frame [OF assms(2)]
  obtain rr s2 where roll: "CheckReplicaSetRollout env ?opts (mm_Name (r_mm s)) (mm_Namespace (r_mm s)) ?s1 = (rr, s2)"
    by (cases "CheckReplicaSetRollout env ?opts (mm_Name (r_mm s)) (mm_Namespace (r_mm s)) ?s1")
  have ev: "rr = Ok ps \<Longrightarrow> prs_Replicas ps = k \<Longrightarrow> prs_UpdatedReplicas ps = k \<Longrightarrow>
     rollout_complete env (calls s) (mm_Name (r_mm s), mm_Namespace (r_mm s)) (deref (mm_maps mm1) g) k" for ps k
    using rollout_evidence [of env _ _ _ ?s1 ps s2 k] roll by simp
  show ?thesis
  proof (cases rr)
    case (Ok ps)
    then show ?thesis
      using assms(1) roll ev [of ps]
      by (auto simp: checkMattermostHealth_def Let_def get_mm_def gen_def assms(2) fr bindM_def tryM_def ret_def
          get_state_def initial_health_status_def zero_status_def
          split: outcome.splits prod.splits sum.splits if_splits)
  next
    case (Err e)
    then show ?thesis
      using assms(1) roll
      by (auto simp: checkMattermostHealth_def Let_def get_mm_def gen_def assms(2) fr io_defs
          initial_health_status_def zero_status_def)
  next
    case (Panic p)
    then show ?thesis
      using assms(1) roll
      by (auto simp: checkMattermostHealth_def Let_def get_mm_def gen_def assms(2) fr io_defs)
  qed
qed
definition demo_rolled_env :: env where
  "demo_rolled_env = demo_env\<lparr>
     e_Deployment := empty_api\<lparr>api_direct_get := \<lambda>_ _. Inr (zero_deployment\<lparr>d_Status_Replicas := 1\<rparr>)\<rparr>,
     e_ReplicaSet := empty_api\<lparr>api_direct_list := \<lambda>_ _ _. Inr [\<lparr>rs_Meta = empty_meta,
        rs_Status_ObservedGeneration = 1, rs_Status_AvailableReplicas = 1\<rparr>]\<rparr>\<rparr>"

definition demo_internal_mm :: Mattermost where
  "demo_internal_mm = demo_mm\<lparr>mm_Spec := demo_spec\<lparr>s_Ingress := Some \<lparr>ing_Enabled = False, ing_Host = [], ing_Hosts = [],
     ing_Annotations = None, ing_TLSSecret = [], ing_IngressClass = None\<rparr>\<rparr>\<rparr>"

lemma demo_internal_sel:
  "s_ResourceLabels (mm_Spec demo_internal_mm) = None" "s_Replicas (mm_Spec demo_internal_mm) = None"
  "s_UseServiceLoadBalancer (mm_Spec demo_internal_mm) = False" "s_JobServer (mm_Spec demo_internal_mm) = None"
  "\<not> IngressEnabled demo_internal_mm"
  by (simp_all add: demo_internal_mm_def demo_spec_def zero_spec_def IngressEnabled_def)

lemma demo_health:
  "\<exists>st s'. checkMattermostHealth demo_rolled_env zero_status (demo_state demo_internal_mm) = (Ok (st, None), s')"
  by (simp add: checkMattermostHealth_def CheckReplicaSetRollout_def health_endpoint_def reader_Get_def reader_List_def
      io_defs of_sum_def get_mm_def gen_def Let_def demo_state_def demo_rolled_env_def demo_env_def empty_api_def
      DeploymentK_def ReplicaSetK_def current_replica_set_def getRevision_def zero_deployment_def empty_meta_def
      initial_health_status_def demo_internal_sel MattermostPodLabels_def write_labels_None)

theorem stable_needs_rollout_witness:
  "\<exists>st s'. checkMattermostHealth demo_rolled_env zero_status (demo_state demo_internal_mm) = (Ok (st, None), s')
     \<and> st_State st = Stable \<and> st_Replicas st = 1 \<and> st_UpdatedReplicas st = 1"
proof -
  obtain st s' where h: "checkMattermostHealth demo_rolled_env zero_status (demo_state demo_internal_mm) = (Ok (st, None), s')"
    using demo_health by blast
  from stable_needs_rollout [OF h prod.collapse [symmetric]] h show ?thesis
    by (auto simp: demo_state_def demo_internal_sel)
qed

definition demo_cluster :: env where
  "demo_cluster = demo_env\<lparr>e_codec := demo_codec\<lparr>cx_parse := \<lambda>_. None\<rparr>,
     e_Mattermost := empty_api\<lparr>api_get := \<lambda>_ key. if key = (''mm'', ''apps'') then Inr demo_mm else Inl (ApiError NotFound)\<rparr>\<rparr>"

text \<open>
  When the number of reconciling and processed installations has reached the limit, a stable or new
  installation is left alone: the run reads the resource and the list, writes nothing, leaves the
  counter as it was and asks to be called again after the configured delay.
\<close>

theorem limit_reached_writes_nothing:
  assumes "api_get (e_Mattermost env) (calls s) k = Inr mm"
    and "st_State (mm_Status mm) \<noteq> Reconciling" "st_State (mm_Status mm) \<noteq> Ready"
    and "api_list (e_Mattermost env) (calls s @ [CGet MattermostKind k]) None Map.empty = Inr mms"
    and "countReconcilingOrReady mms + r_processing s \<ge> MaxReconciling cfg"
  shows "Reconcile env cfg k s = (Ok \<lparr>RequeueAfter = RequeueOnLimitDelay cfg\<rparr>,
     s\<lparr>calls := calls s @ [CGet MattermostKind k, CList MattermostKind None Map.empty], r_mm := mm, r_orig := mm\<rparr>)"
  using assms
  by (simp add: Reconcile_def startNonReconcilingMMProcessing_def io_defs client_Get_def client_List_def of_sum_def
      MattermostK_def admit_def Let_def)

theorem limit_reached_writes_nothing_witness:
  "calls (snd (Reconcile demo_cluster \<lparr>MaxReconciling = 0, RequeueOnLimitDelay = 20\<rparr> (''mm'', ''apps'') (demo_state demo_mm)))
   = [CGet MattermostKind (''mm'', ''apps''), CList MattermostKind None Map.empty]"
  using limit_reached_writes_nothing [of demo_cluster "demo_state demo_mm" "(''mm'', ''apps'')" demo_mm "[]"
      "\<lparr>MaxReconciling = 0, RequeueOnLimitDelay = 20\<rparr>"]
  by (simp add: demo_cluster_def demo_env_def empty_api_def demo_state_def demo_mm_def zero_status_def
      Reconciling_def Ready_def)

text \<open>
  A patch of the deployment that is rejected or cannot be applied does not stop the reconcile: the
  unpatched deployment is used, and the status records the error and that the patch is not applied.
\<close>

theorem failed_patch_falls_back:
  assumes "ApplyToDeployment (e_codec env) (s_ResourcePatch (mm_Spec (r_mm s))) d = Err e"
  shows "\<exists>s' rp ps. patch_deployment env d s = (Ok d, s') \<and> calls s' = calls s
     \<and> st_ResourcePatch (r_status s') = Some rp \<and> rps_DeploymentPatch rp = Some ps
     \<and> \<not> pst_Applied ps \<and> pst_Error ps = e_err_text env (Wrap e ''failed to apply patch to Deployment'')
     \<and> (\<forall>old. st_ResourcePatch (r_status s) = Some old \<longrightarrow> rps_ServicePatch rp = rps_ServicePatch old)"
  using assms
  by (auto simp: patch_deployment_def get_mm_def io_defs write_patch_status_def SetDeploymentPatchStatus_def rps_or_new_def
      pst_set_def Let_def split: option.splits)

definition demo_patched_mm :: Mattermost where
  "demo_patched_mm = demo_mm\<lparr>mm_Spec := demo_spec\<lparr>s_ResourcePatch := Some demo_patch\<rparr>\<rparr>"

theorem failed_patch_falls_back_witness:
  "fst (patch_deployment demo_cluster demo_app_deployment (demo_state demo_patched_mm)) = Ok demo_app_deployment"
proof -
  have "\<exists>e. ApplyToDeployment (e_codec demo_cluster) (s_ResourcePatch (mm_Spec (r_mm (demo_state demo_patched_mm)))) demo_app_deployment = Err e"
    by (simp add: ApplyToDeployment_def validateDeploymentPatch_def demo_cluster_def demo_state_def demo_patched_mm_def demo_patch_def)
  then show ?thesis using failed_patch_falls_back by fastforce
qed

end
