(* ===== verification/WritePolicy.thy ===== *)
theory WritePolicy
  imports HealthCheck
begin

text \<open>
  Which kinds of objects a program writes, and the interface between the controllers and the resource
  helper on this question: a locale of what is known about the helper's operations, from which each
  controller derives what its handlers write.  Two answers are given: over any cluster, the kinds the
  operations are made for; over a cluster in which every object is in place, nothing at all.
\<close>

section \<open>Names of the kinds\<close>

lemma kind_tags [simp]:
  "k_kind ServiceK = ServiceKind" "k_kind ServiceAccountK = ServiceAccountKind" "k_kind RoleK = RoleKind"
  "k_kind RoleBindingK = RoleBindingKind" "k_kind IngressK = IngressKind"
  "k_kind IngressClassK = IngressClassKind" "k_kind DeploymentK = DeploymentKind" "k_kind PVCK = PVCKind"
  "k_kind SecretK = SecretKind" "k_kind MysqlK = MysqlKind" "k_kind MinioK = MinioKind"
  "k_kind JobK = JobKind" "k_kind MattermostK = MattermostKind"
  by (simp_all add: kind_defs)

section \<open>Which kinds of objects are written\<close>

definition touches :: "(action \<times> kind) set \<Rightarrow> call \<Rightarrow> bool" where
  "touches A c = (case write_of c of None \<Rightarrow> True | Some (a, k, _) \<Rightarrow> (a, k) \<in> A)"

lemma touches_read [simp]:
  "touches A (CGet k key)" "touches A (CDirectGet k key)" "touches A (CList k ns' sel)"
  "touches A (CDirectList k ns sel)"
  by (simp_all add: touches_def)

abbreviation writes :: "('z cluster_scheme \<Rightarrow> bool) \<Rightarrow> (action \<times> kind) set \<Rightarrow> ('z cluster_scheme, 'a) io \<Rightarrow> bool" where
  "writes I A m \<equiv> runs I (\<lambda>_. touches A) m (\<lambda>_. True)"

abbreviation writes_kinds :: "(action \<times> kind) set \<Rightarrow> ('z cluster_scheme, 'a) io \<Rightarrow> bool" where
  "writes_kinds A m \<equiv> writes (\<lambda>_. True) A m"

lemma kinds_read [emits_intros]:
  "call_free I \<Longrightarrow> writes I A (client_Get env K key)" "call_free I \<Longrightarrow> writes I A (reader_Get env K' key)"
  "call_free I \<Longrightarrow> writes I A (client_List env K'' ns' sel)" "call_free I \<Longrightarrow> writes I A (reader_List env K''' ns sel)"
  by (rule runs_client; simp)+

context object_kind
begin

lemma touches_write [simp]:
  "touches A (CCreate (k_obj K x)) \<longleftrightarrow> (ToCreate, k_kind K) \<in> A"
  "touches A (CUpdate (k_obj K x)) \<longleftrightarrow> (ToUpdate, k_kind K) \<in> A"
  "touches A (CDelete (k_obj K x)) \<longleftrightarrow> (ToDelete, k_kind K) \<in> A"
  "touches A (CDeleteWith opt (k_obj K x)) \<longleftrightarrow> (ToDelete, k_kind K) \<in> A"
  "touches A (CStatusUpdate (k_obj K x)) \<longleftrightarrow> (ToStatus, k_kind K) \<in> A"
  by (simp_all add: touches_def)

lemma kinds_Create: "call_free I \<Longrightarrow> (ToCreate, k_kind K) \<in> A \<Longrightarrow> writes I A (Create env K owner x)"
  unfolding Create_def SetLastApplied_def SetControllerReference_def
  by (intro emits_intros runs_client_Create) simp_all

lemma kinds_Update: "call_free I \<Longrightarrow> (ToUpdate, k_kind K) \<in> A \<Longrightarrow> writes I A (Update env K c x)"
  unfolding Update_def SetLastApplied_def
  by (auto intro!: emits_intros runs_client_Update)

lemma kinds_CreateIfNotExists: "call_free I \<Longrightarrow> (ToCreate, k_kind K) \<in> A \<Longrightarrow> writes I A (CreateIfNotExists env K err owner x)"
  unfolding CreateIfNotExists_def
  by (auto intro!: emits_intros kinds_Create split: sum.splits)

lemma kinds_Delete: "call_free I \<Longrightarrow> (ToDelete, k_kind K) \<in> A \<Longrightarrow> writes I A (client_Delete env K x)"
  by (rule runs_client_Delete) simp_all

lemma kinds_DeleteWith: "call_free I \<Longrightarrow> (ToDelete, k_kind K) \<in> A \<Longrightarrow> writes I A (client_DeleteWith env K opt x)"
  by (rule runs_client_DeleteWith) simp_all

lemma kinds_DeleteIfExists: "call_free I \<Longrightarrow> (ToDelete, k_kind K) \<in> A \<Longrightarrow> writes I A (DeleteIfExists env K m1 m2 key)"
  unfolding DeleteIfExists_def
  by (auto intro!: emits_intros kinds_Delete split: sum.splits)

lemma kinds_writes: "call_free I \<Longrightarrow> (ToUpdate, k_kind K) \<in> A \<Longrightarrow> writes I A (client_Update env K x)"
  "call_free I \<Longrightarrow> (ToStatus, k_kind K) \<in> A \<Longrightarrow> writes I A (client_StatusUpdate env K x)"
  "call_free I \<Longrightarrow> (ToCreate, k_kind K) \<in> A \<Longrightarrow> writes I A (client_Create env K x)"
  by (rule runs_client; simp)+

end

lemmas kinds_Service = Service_kind.kinds_Create Service_kind.kinds_Update Service_kind.kinds_CreateIfNotExists
  Service_kind.kinds_DeleteIfExists
lemmas kinds_access = ServiceAccount_kind.kinds_CreateIfNotExists ServiceAccount_kind.kinds_Update
  Role_kind.kinds_CreateIfNotExists Role_kind.kinds_Update RoleBinding_kind.kinds_CreateIfNotExists
  RoleBinding_kind.kinds_Update
lemmas kinds_ingress = Ingress_kind.kinds_CreateIfNotExists Ingress_kind.kinds_Update Ingress_kind.kinds_DeleteIfExists
  IngressClass_kind.kinds_CreateIfNotExists IngressClass_kind.kinds_Update IngressClass_kind.kinds_DeleteIfExists
lemmas kinds_deployment = Deployment_kind.kinds_CreateIfNotExists Deployment_kind.kinds_Update
  Deployment_kind.kinds_DeleteIfExists
lemmas kinds_job = Job_kind.kinds_Create Job_kind.kinds_Delete
lemmas kinds_data = Secret_kind.kinds_Create Secret_kind.kinds_Update PVC_kind.kinds_CreateIfNotExists
  PVC_kind.kinds_Update Mysql_kind.kinds_CreateIfNotExists Mysql_kind.kinds_Update
  Minio_kind.kinds_CreateIfNotExists Minio_kind.kinds_Update
lemmas kinds_status = Mattermost_kind.kinds_writes

lemma kinds_mono: "writes I A m \<Longrightarrow> A \<subseteq> B \<Longrightarrow> writes I B m"
  by (erule runs_weaken_calls) (auto simp: touches_def split: option.splits)

lemma kinds_no_write:
  assumes "writes I A m" and "m s = (r, s1)" and "I s"
  obtains new where "calls s1 = calls s @ new" "list_all (touches A) new"
  using assms by (elim runsD) (auto simp: ok_trace_all list_all_iff)

lemma kinds_rollout [emits_intros]:
  "call_free I \<Longrightarrow> writes I A (CheckReplicaSetRollout env opts n ns)" "call_free I \<Longrightarrow> writes I A (CheckPodsRollOut env opts img)"
  "call_free I \<Longrightarrow> writes I A (CheckServiceLoadBalancer env opts)" "call_free I \<Longrightarrow> writes I A (CheckIngressLoadBalancer env opts)"
  "call_free I \<Longrightarrow> writes I A (GetMinioService env n ns)"
  unfolding CheckReplicaSetRollout_def CheckPodsRollOut_def CheckServiceLoadBalancer_def CheckIngressLoadBalancer_def
    GetMinioService_def
  by (auto intro!: emits_intros split: option.splits list.splits)

section \<open>The interface\<close>

text \<open>Creating a missing object and bringing one up to date write only what the policy allows.\<close>

definition maintains :: "('z cluster_scheme \<Rightarrow> bool) \<Rightarrow> (action \<times> kind) set \<Rightarrow> env \<Rightarrow> 'o kind_ops \<Rightarrow> bool" where
  "maintains I A env K = ((\<forall>err owner x. writes I A (CreateIfNotExists env K err owner x))
     \<and> (\<forall>current x. writes I A (Update env K current x)))"

lemma maintainsD:
  "maintains I A env K \<Longrightarrow> writes I A (CreateIfNotExists env K err owner x)"
  "maintains I A env K \<Longrightarrow> writes I A (Update env K current x)"
  by (simp_all add: maintains_def)

locale write_policy =
  fixes I :: "'z cluster_scheme \<Rightarrow> bool" and A :: "(action \<times> kind) set" and env :: env
  assumes free: "call_free I"
    and jobs: "(ToCreate, JobKind) \<in> A" "(ToDelete, JobKind) \<in> A"
    and access: "maintains I A env ServiceAccountK" "maintains I A env RoleK" "maintains I A env RoleBindingK"
    and service: "maintains I A env ServiceK"
    and ingress: "maintains I A env IngressK"
    and deployment: "maintains I A env DeploymentK"
    and managed: "maintains I A env MysqlK" "maintains I A env MinioK"
    and secrets: "writes I A (GetOrCreateMySQLSecrets env owner n)" "writes I A (CreateOrUpdateMinioSecret env owner secret)"
begin

lemma policy_access:
  "writes I A (CreateServiceAccountIfNotExists env owner sa)" "writes I A (Update env ServiceAccountK csa sa)"
  "writes I A (CreateRoleIfNotExists env owner role)" "writes I A (Update env RoleK crole role)"
  "writes I A (CreateRoleBindingIfNotExists env owner rb)" "writes I A (Update env RoleBindingK crb rb)"
  unfolding CreateServiceAccountIfNotExists_def CreateRoleIfNotExists_def CreateRoleBindingIfNotExists_def
  by (rule maintainsD, rule access)+

lemma policy_objects:
  "writes I A (CreateServiceIfNotExists env owner svc)" "writes I A (Update env ServiceK csvc svc)"
  "writes I A (CreateIngressIfNotExists env owner ing)" "writes I A (Update env IngressK cing ing)"
  "writes I A (CreateDeploymentIfNotExists env owner d)" "writes I A (Update env DeploymentK cd d)"
  unfolding CreateServiceIfNotExists_def CreateIngressIfNotExists_def CreateDeploymentIfNotExists_def
  by (rule maintainsD, rule service ingress deployment)+

lemma policy_managed:
  "writes I A (CreateMySQLClusterIfNotExists env owner my)" "writes I A (Update env MysqlK cmy my)"
  "writes I A (CreateMinioInstanceIfNotExists env owner mi)" "writes I A (Update env MinioK cmi mi)"
  unfolding CreateMySQLClusterIfNotExists_def CreateMinioInstanceIfNotExists_def
  by (rule maintainsD, rule managed)+

lemma policy_reads:
  "writes I A (client_Get env K key)" "writes I A (reader_Get env K1 key)"
  "writes I A (client_List env K2 ns' sel)" "writes I A (reader_List env K3 ns sel)"
  "writes I A (CheckReplicaSetRollout env opts n ns)" "writes I A (CheckPodsRollOut env opts img)"
  "writes I A (CheckServiceLoadBalancer env opts)" "writes I A (CheckIngressLoadBalancer env opts)"
  "writes I A (GetMinioService env n ns)"
  by (rule kinds_read kinds_rollout, rule free)+

lemma policy_job: "writes I A (Create env JobK owner job)" "writes I A (client_Delete env JobK job)"
  by (rule kinds_job; simp add: free jobs)+

lemmas policy = policy_access policy_objects policy_managed policy_reads policy_job secrets

end

section \<open>Two providers\<close>

text \<open>Over any cluster: the operations write the kinds they are made for.\<close>

context object_kind
begin

lemma maintains_allowed:
  "call_free I \<Longrightarrow> (ToCreate, k_kind K) \<in> A \<Longrightarrow> (ToUpdate, k_kind K) \<in> A \<Longrightarrow> maintains I A env K"
  by (simp add: maintains_def kinds_CreateIfNotExists kinds_Update)

end

lemmas maintains_kinds = ServiceAccount_kind.maintains_allowed Role_kind.maintains_allowed RoleBinding_kind.maintains_allowed
  Service_kind.maintains_allowed Ingress_kind.maintains_allowed IngressClass_kind.maintains_allowed
  Deployment_kind.maintains_allowed PVC_kind.maintains_allowed Mysql_kind.maintains_allowed Minio_kind.maintains_allowed

lemma secrets_allowed:
  assumes "call_free I" and "(ToCreate, SecretKind) \<in> A" and "(ToUpdate, SecretKind) \<in> A"
  shows "writes I A (GetOrCreateMySQLSecrets env owner n)" "writes I A (CreateOrUpdateMinioSecret env owner secret)"
  unfolding GetOrCreateMySQLSecrets_def createMySQLSecret_def CreateOrUpdateMinioSecret_def createMinioSecret_def Let_def
  using assms by (auto intro!: emits_intros kinds_data split: sum.splits)

text \<open>
  Over a cluster in which the objects of a kind are in place: a read never says that there is no such
  object, and the object matcher never finds a difference.  A read may fail for another reason.
\<close>

definition in_place :: "env \<Rightarrow> 'o kind_ops \<Rightarrow> bool" where
  "in_place env K = ((\<forall>h key e. api_get (k_api K env) h key = Inl e \<longrightarrow> \<not> IsNotFound e)
     \<and> (\<forall>current x b. api_Calculate (k_api K env) current x = Inr b \<longrightarrow> b))"

lemma in_placeD:
  assumes "in_place env K"
  shows "api_get (k_api K env) h key = Inl e \<Longrightarrow> \<not> IsNotFound e" "api_Calculate (k_api K env) current x = Inr b \<Longrightarrow> b"
  using assms unfolding in_place_def by blast+

lemma writes_Get_found:
  fixes I :: "'z cluster_scheme \<Rightarrow> bool"
  assumes "call_free I" and "in_place env K"
  shows "runs I (\<lambda>_. touches A) (tryM (client_Get env K key)) (\<lambda>found. \<forall>e. found = Inl e \<longrightarrow> \<not> IsNotFound e)"
proof -
  have "(tryM (client_Get env K key) :: ('z cluster_scheme, _) io) = call_api (CGet (k_kind K) key) (\<lambda>h. Inr (api_get (k_api K env) h key))"
    by (auto simp: fun_eq_iff tryM_def client_Get_def call_api_def of_sum_def split: sum.splits)
  with assms(1) show ?thesis by (auto intro!: runs_call dest: in_placeD(1) [OF assms(2)])
qed

lemma writes_Update_in_place:
  fixes I :: "'z cluster_scheme \<Rightarrow> bool"
  assumes "call_free I" and "in_place env K"
  shows "writes I A (Update env K current x)"
proof (cases "api_Calculate (k_api K env) current x")
  case (Inr b)
  with in_placeD(2) [OF assms(2)] have "b" .
  with Inr have "(Update env K current x :: ('z cluster_scheme, _) io) = ret x" by (simp add: fun_eq_iff Update_def io_defs of_sum_def)
  then show ?thesis by (simp add: runs_ret)
next
  case (Inl e)
  then have "(Update env K current x :: ('z cluster_scheme, _) io) = fail (Wrap e ''failed to determine if resources differ'')"
    by (simp add: fun_eq_iff Update_def io_defs of_sum_def)
  then show ?thesis by (simp add: runs_fail)
qed

lemma maintains_in_place:
  assumes "call_free I" and "in_place env K"
  shows "maintains I A env K"
proof -
  have "writes I A (CreateIfNotExists env K err owner x)" for err owner x
    unfolding CreateIfNotExists_def
    by (rule runs_bind [OF writes_Get_found [OF assms]]) (auto intro!: emits_intros split: sum.splits)
  with writes_Update_in_place [OF assms] show ?thesis by (simp add: maintains_def)
qed

lemma secrets_in_place:
  assumes "call_free I" and "in_place env SecretK"
  shows "writes I A (GetOrCreateMySQLSecrets env owner n)" "writes I A (CreateOrUpdateMinioSecret env owner secret)"
proof -
  note found = runs_bind [OF writes_Get_found [OF assms]]
  show "writes I A (GetOrCreateMySQLSecrets env owner n)"
    unfolding GetOrCreateMySQLSecrets_def by (rule found) (auto intro!: emits_intros split: sum.splits)
  show "writes I A (CreateOrUpdateMinioSecret env owner secret)"
    unfolding CreateOrUpdateMinioSecret_def
    by (rule found) (auto intro!: emits_intros writes_Update_in_place assms split: sum.splits)
qed

end
