(* ===== verification/ControllerFootprint.thy ===== *)
theory ControllerFootprint
  imports MattermostReconcile WritePolicy
begin

text \<open>
  What a run of the controller can change.  The invariant is that the resource at hand is the one
  the run was started for; the footprint lists the objects by name.
\<close>

definition at_key :: "key \<Rightarrow> Mattermost \<Rightarrow> bool" where
  "at_key k mm = ((mm_Name mm, mm_Namespace mm) = k)"

definition mm_inv :: "key \<Rightarrow> rec_state \<Rightarrow> bool" where
  "mm_inv k s = (at_key k (r_mm s) \<and> at_key k (r_orig s))"

lemma call_free_mm_inv [simp]: "call_free (mm_inv k)"
  by (simp add: call_free_def mm_inv_def)

lemma mm_key [simp]: "k_key MattermostK mm = (mm_Name mm, mm_Namespace mm)"
  by (simp add: k_key_def MattermostK_def)

definition env_names :: "env \<Rightarrow> bool" where
  "env_names env = (keeps_names ServiceAccountK env \<and> keeps_names RoleK env \<and> keeps_names RoleBindingK env
     \<and> keeps_names ServiceK env \<and> keeps_names IngressK env \<and> keeps_names IngressClassK env
     \<and> keeps_names DeploymentK env \<and> keeps_names PVCK env \<and> keeps_names SecretK env
     \<and> keeps_names MysqlK env \<and> keeps_names MinioK env \<and> keeps_names JobK env
     \<and> keeps_names MattermostK env)"

text \<open>A user's patch can rename the object it is applied to; this is its absence.\<close>

definition patches_keep_names :: "env \<Rightarrow> bool" where
  "patches_keep_names env =
     ((\<forall>rp d d' b. ApplyToDeployment (e_codec env) rp d = Ok (d', b) \<longrightarrow> k_key DeploymentK d' = k_key DeploymentK d)
      \<and> (\<forall>rp d d' b. ApplyToService (e_codec env) rp d = Ok (d', b) \<longrightarrow> k_key ServiceK d' = k_key ServiceK d))"

definition keep_up :: "kind \<Rightarrow> key \<Rightarrow> footprint" where
  "keep_up kd k = {(ToCreate, kd, k), (ToUpdate, kd, k)}"

definition status_footprint :: "key \<Rightarrow> footprint" where
  "status_footprint k = {(ToStatus, MattermostKind, k)}"

definition database_footprint :: "key \<Rightarrow> footprint" where
  "database_footprint k = (case k of (n, ns) \<Rightarrow>
     keep_up MysqlKind (HashWithPrefix ''db'' n, ns)
     \<union> {(ToCreate, SecretKind, (DefaultDatabaseSecretName n, ns))})"

definition file_store_footprint :: "key \<Rightarrow> footprint" where
  "file_store_footprint k = (case k of (n, ns) \<Rightarrow>
     keep_up PVCKind (n, ns) \<union> keep_up MinioKind (n @ ''-minio'', ns)
     \<union> keep_up SecretKind (DefaultMinioSecretName n, ns))"

definition app_footprint :: "key \<Rightarrow> footprint" where
  "app_footprint k = (case k of (n, ns) \<Rightarrow>
     keep_up ServiceKind k \<union> {(ToDelete, ServiceKind, k)}
     \<union> keep_up ServiceAccountKind k \<union> keep_up RoleKind k \<union> keep_up RoleBindingKind k
     \<union> keep_up IngressKind k \<union> {(ToDelete, IngressKind, k)}
     \<union> keep_up IngressClassKind k \<union> {(ToDelete, IngressClassKind, k)}
     \<union> keep_up DeploymentKind k
     \<union> {(ToCreate, JobKind, (UpdateJobName, ns)), (ToDelete, JobKind, (UpdateJobName, ns))})"

definition job_server_footprint :: "key \<Rightarrow> footprint" where
  "job_server_footprint k = (case k of (n, ns) \<Rightarrow>
     keep_up DeploymentKind (n @ ''-jobserver'', ns)
     \<union> {(ToDelete, DeploymentKind, (n @ ''-jobserver'', ns))})"

definition mattermost_footprint :: "key \<Rightarrow> footprint" where
  "mattermost_footprint k =
     status_footprint k \<union> {(ToUpdate, MattermostKind, k)} \<union> database_footprint k
     \<union> file_store_footprint k \<union> app_footprint k \<union> job_server_footprint k"

lemmas footprint_defs = status_footprint_def database_footprint_def file_store_footprint_def
  app_footprint_def job_server_footprint_def keep_up_def

section \<open>Reading and writing the resource\<close>

lemma does_get_mm: "runs (mm_inv k) P get_mm (at_key k)"
  unfolding get_mm_def
  by (rule runs_bind [where Q = "mm_inv k"]) (auto intro!: runs_get runs_ret simp: mm_inv_def)

lemma does_get_state: "runs (mm_inv k) P get_state (mm_inv k)"
  by (rule runs_get)

lemma runs_gen:
  assumes "\<And>mm x mm'. g mm = (x, mm') \<Longrightarrow> at_key k mm \<Longrightarrow> mm_Meta mm' = mm_Meta mm \<and> Q x"
  shows "runs (mm_inv k) P (gen g) Q"
  using assms by (fastforce simp: runs_def gen_def mm_inv_def at_key_def split: prod.splits)

lemma runs_genO:
  assumes "\<And>mm x mm'. g mm = Ok (x, mm') \<Longrightarrow> at_key k mm \<Longrightarrow>
     mm_Meta mm' = mm_Meta mm \<and> Q x"
  shows "runs (mm_inv k) P (genO g) Q"
  using assms by (fastforce simp: runs_def genO_def mm_inv_def at_key_def split: prod.splits outcome.splits)

lemma runs_read_maps:
  assumes "\<And>h. Q (freeze h x)"
  shows "runs (mm_inv k) P (read_maps freeze x) Q"
  unfolding read_maps_def using assms by (auto intro!: runs_bind [OF does_get_mm] runs_ret)

lemma runs_write_patch_status: "runs (mm_inv k) P (write_patch_status f) (\<lambda>_. True)"
  by (auto simp: write_patch_status_def runs_def mod_state_def mm_inv_def at_key_def Let_def split: option.splits)

lemma does_store_update_job: "runs (mm_inv k) P (store_update_job u) (\<lambda>_. True)"
  by (auto simp: store_update_job_def runs_def mod_state_def mm_inv_def at_key_def)

lemma freeze_key [simp]:
  "k_key ServiceK (freeze_service h x) = k_key ServiceK x"
  "k_key IngressK (freeze_ingress h i) = k_key IngressK i"
  "k_key IngressClassK (freeze_ingress_class h ic) = k_key IngressClassK ic"
  "k_key DeploymentK (freeze_deployment h d) = k_key DeploymentK d"
  "k_key PVCK (freeze_pvc h p) = k_key PVCK p"
  by (simp_all add: k_key_def ServiceK_def IngressK_def IngressClassK_def DeploymentK_def PVCK_def
      freeze_service_def freeze_ingress_def freeze_ingress_class_def freeze_deployment_def freeze_pvc_def)

section \<open>Keys of the generated objects\<close>

lemma generated_keys [simp]:
  "k_key ServiceAccountK (GenerateServiceAccountV1Beta mm n) = (n, mm_Namespace mm)"
  "k_key RoleK (GenerateRoleV1Beta mm n) = (n, mm_Namespace mm)"
  "k_key RoleBindingK (GenerateRoleBindingV1Beta mm n n') = (n, mm_Namespace mm)"
  "k_key SecretK (SecretV1Beta a b mm) = (DefaultMinioSecretName (mm_Name mm), mm_Namespace mm)"
  "k_key PVCK (local_pvc mm l ms st) = (mm_Name mm, mm_Namespace mm)"
  by (simp_all add: k_key_def kind_defs GenerateServiceAccountV1Beta_def GenerateRoleV1Beta_def
      GenerateRoleBindingV1Beta_def SecretV1Beta_def GenerateSecretV1Beta_def local_pvc_def)

lemma GenerateService_key:
  assumes "GenerateServiceV1Beta mm = (svc, mm')"
  shows "mm_Meta mm' = mm_Meta mm \<and> k_key ServiceK svc = (mm_Name mm, mm_Namespace mm)"
proof -
  obtain l mm1 where l: "MattermostLabels mm (mm_Name mm) = (l, mm1)" by (cases "MattermostLabels mm (mm_Name mm)")
  with assms MattermostLabels_frame [OF l] show ?thesis
    by (auto simp: GenerateServiceV1Beta_def newServiceV1Beta_def Let_def k_key_def ServiceK_def
        configureMattermostServiceNodePort_def configureMattermostLoadBalancerService_def
        configureMattermostService_def configureMattermostServicePorts_def split: if_splits)
qed

lemma GenerateIngress_key:
  assumes "GenerateIngressV1Beta mm = (i, mm')"
  shows "mm_Meta mm' = mm_Meta mm \<and> k_key IngressK i = (mm_Name mm, mm_Namespace mm)"
proof -
  obtain l mm1 where l: "MattermostLabels mm (mm_Name mm) = (l, mm1)" by (cases "MattermostLabels mm (mm_Name mm)")
  with assms MattermostLabels_frame [OF l] show ?thesis
    by (auto simp: GenerateIngressV1Beta_def Let_def k_key_def IngressK_def ingress_meta_def)
qed

lemma GenerateALBIngress_key:
  assumes "GenerateALBIngressV1Beta mm = Ok (i, mm')"
  shows "mm_Meta mm' = mm_Meta mm \<and> k_key IngressK i = (mm_Name mm, mm_Namespace mm)"
proof -
  obtain l mm1 where l: "MattermostLabels mm (mm_Name mm) = (l, mm1)" by (cases "MattermostLabels mm (mm_Name mm)")
  with assms MattermostLabels_frame [OF l] show ?thesis
    by (auto simp: GenerateALBIngressV1Beta_def Let_def k_key_def IngressK_def ingress_meta_def bindO_eq_Ok
        split: option.splits)
qed

lemma GenerateALBIngressClass_key:
  assumes "GenerateALBIngressClassV1Beta mm = (i, mm')"
  shows "mm_Meta mm' = mm_Meta mm \<and> k_key IngressClassK i = (mm_Name mm, mm_Namespace mm)"
proof -
  obtain l mm1 where l: "MattermostLabels mm (mm_Name mm) = (l, mm1)" by (cases "MattermostLabels mm (mm_Name mm)")
  with assms MattermostLabels_frame [OF l] show ?thesis
    by (auto simp: GenerateALBIngressClassV1Beta_def k_key_def IngressClassK_def)
qed

lemma label_frames:
  "MattermostPodLabels mm n = (g, mm') \<Longrightarrow> mm_Meta mm' = mm_Meta mm"
  "MattermostJobServerPodLabels mm n = (g, mm') \<Longrightarrow> mm_Meta mm' = mm_Meta mm"
  using write_labels_frame unfolding label_defs by blast+

lemma GenerateDeployment_key:
  assumes "GenerateDeploymentV1Beta mm db fs n h sa img = Ok (d, mm')"
  shows "mm_Meta mm' = mm_Meta mm \<and> k_key DeploymentK d = (n, mm_Namespace mm)"
  using assms
proof (rule GenerateDeployment_Ok)
  fix env g1 mm1 g2 mm2 g3
  assume "deployment_annotations mm = (g1, mm1)" "MattermostLabels mm1 n = (g2, mm2)"
    "MattermostPodLabels mm2 n = (g3, mm')" "om_Name (d_Meta d) = n" "om_Namespace (d_Meta d) = mm_Namespace mm"
  then show ?thesis
    using deployment_annotations_frame MattermostLabels_frame label_frames by (simp add: k_key_def DeploymentK_def)
qed

lemma GenerateJobServer_key:
  assumes "GenerateJobServerDeploymentV1Beta mm db fs n h sa img = Ok (d, mm')"
  shows "mm_Meta mm' = mm_Meta mm \<and> k_key DeploymentK d = (n @ ''-jobserver'', mm_Namespace mm)"
  using assms
proof (rule GenerateJobServer_Ok)
  fix d0 mm1 g mm2 g'
  assume d0: "GenerateDeploymentV1Beta mm db fs (mm_Name mm) (GetIngressHost mm) (mm_Name mm) (GetImageName mm) = Ok (d0, mm1)"
    and "MattermostJobServerPodLabels mm1 n = (g, mm2)" "MattermostJobServerPodLabels mm2 n = (g', mm')"
    and "om_Name (d_Meta d) = n @ ''-jobserver''" "om_Namespace (d_Meta d) = om_Namespace (d_Meta d0)"
  then show ?thesis
    using GenerateDeployment_key [OF d0] label_frames by (simp add: k_key_def DeploymentK_def)
qed

section \<open>Footprints of the checks\<close>

lemma mm_status_update:
  assumes "keeps_names MattermostK env"
  shows "does (mm_inv k) (status_footprint k) (updateStatus env ref st) (\<lambda>_. True)"
  unfolding updateStatus_def Let_def
proof (rule runs_bind [OF does_get_state])
  fix s assume s: "mm_inv k s"
  then have k: "at_key k ((mm_at ref s)\<lparr>mm_Status := st\<rparr>)"
    by (cases ref) (auto simp: mm_inv_def at_key_def)
  have put: "mm_inv k s' \<Longrightarrow> at_key k m \<Longrightarrow> mm_inv k (put_mm ref m s')" for s' m
    by (cases ref) (auto simp: mm_inv_def)
  have put': "mm_inv k (put_mm ref m s'\<lparr>r_shared := b\<rparr>) = mm_inv k (put_mm ref m s')" for m s' b
    by (cases ref) (simp_all add: mm_inv_def)
  have calls_put: "calls (put_mm ref m s') = calls s'" for m s' by (cases ref) simp_all
  show "does (mm_inv k) (status_footprint k)
     (if mm_Status (mm_at ref s) = st then ret ()
      else bindM (mod_state (\<lambda>s'. put_mm ref ((mm_at ref s)\<lparr>mm_Status := st\<rparr>) s'\<lparr>r_shared := ref = Current \<or> r_shared s'\<rparr>))
        (\<lambda>_. bindM (wrapM ''failed to update the Mattermost status''
                      (client_StatusUpdate env MattermostK ((mm_at ref s)\<lparr>mm_Status := st\<rparr>)))
               (\<lambda>resp. mod_state (put_mm ref resp)))) (\<lambda>_. True)"
  proof (cases "mm_Status (mm_at ref s) = st")
    case True
    then show ?thesis by (simp add: runs_ret)
  next
    case False
    have upd: "does (mm_inv k) (status_footprint k)
        (wrapM ''failed to update the Mattermost status''
           (client_StatusUpdate env MattermostK ((mm_at ref s)\<lparr>mm_Status := st\<rparr>)))
        (at_key k)"
      using k keeps_namesD(4) [OF assms]
      by (intro runs_wrap runs_StatusUpdate) (auto simp: status_footprint_def at_key_def)
    show ?thesis
      using False put k
      by (auto intro!: runs_bind_any runs_bind [OF upd] runs_mod simp: calls_put put')
  qed
qed

lemma does_updateStatusReconciling:
  assumes "keeps_names MattermostK env"
  shows "does (mm_inv k) (status_footprint k) (updateStatusReconciling env ref st) (\<lambda>_. True)"
  unfolding updateStatusReconciling_def by (rule mm_status_update [OF assms])

lemma does_updateStatusReconcilingAndLogError:
  assumes "keeps_names MattermostK env"
  shows "does (mm_inv k) (status_footprint k) (updateStatusReconcilingAndLogError env ref st e) (\<lambda>_. True)"
  unfolding updateStatusReconcilingAndLogError_def Let_def
  using does_updateStatusReconciling [OF assms] by (intro runs_bind_any runs_try runs_ret) auto

lemma does_assertSecretContains:
  "does (mm_inv k) W (assertSecretContains env a b c) (\<lambda>_. True)"
  unfolding assertSecretContains_def by (auto intro!: runs_bind_any runs_wrap runs_Get runs_ret runs_fail)

lemma does_readExternalDBSecret: "does (mm_inv k) W (readExternalDBSecret env) (\<lambda>_. True)"
  unfolding readExternalDBSecret_def
  by (auto intro!: runs_bind [OF does_get_mm] runs_bind_any runs_wrap runs_Get runs_ret runs_lift
      split: option.splits)

lemma does_Mysql_ensure:
  assumes "env_names env" "k_key MysqlK x = (HashWithPrefix ''db'' n, ns)"
  shows "does (mm_inv k) (database_footprint (n, ns)) (bindM (CreateMySQLClusterIfNotExists env owner x) (\<lambda>desired.
     bindM (client_Get env MysqlK (k_key MysqlK desired)) (\<lambda>current.
     bindM (Update env MysqlK current desired) (\<lambda>_. ret ())))) (\<lambda>_. True)"
  unfolding CreateMySQLClusterIfNotExists_def
  using assms by (intro Mysql_kind.does_ensure) (auto simp: env_names_def footprint_defs)

lemma ClusterV1Beta_key:
  "ClusterV1Beta q mm = Ok c \<Longrightarrow> k_key MysqlK c = (HashWithPrefix ''db'' (mm_Name mm), mm_Namespace mm)"
  by (auto simp: ClusterV1Beta_def bindO_eq_Ok Let_def k_key_def MysqlK_def split: option.splits)

lemma does_checkDatabase:
  assumes "env_names env"
  shows "does (mm_inv k) (database_footprint k) (checkDatabase env) (\<lambda>_. True)"
proof -
  obtain n ns where k: "k = (n, ns)" by (cases k)
  have cluster: "does (mm_inv k) (database_footprint k) (checkMySQLCluster env) (\<lambda>_. True)"
    unfolding checkMySQLCluster_def
  proof (rule runs_bind [OF does_get_mm])
    fix mm assume "at_key k mm"
  then have mm: "k = (mm_Name mm, mm_Namespace mm)" by (simp add: at_key_def)
    show "does (mm_inv k) (database_footprint k)
        (bindM (lift (ClusterV1Beta (e_quantity env) mm)) (\<lambda>desired0.
         bindM (CreateMySQLClusterIfNotExists env (mm_Meta mm) desired0) (\<lambda>desired.
         bindM (client_Get env MysqlK (k_key MysqlK desired)) (\<lambda>current.
         bindM (Update env MysqlK current desired) (\<lambda>_. ret ()))))) (\<lambda>_. True)"
      by (rule runs_bind [OF runs_lift [where Q = "\<lambda>x. k_key MysqlK x = (HashWithPrefix ''db'' n, ns)"]])
         (use mm k ClusterV1Beta_key does_Mysql_ensure [OF assms] in auto)
  qed
  have mysql: "does (mm_inv k) (database_footprint k) (checkOperatorManagedMySQL env) (\<lambda>_. True)"
    unfolding checkOperatorManagedMySQL_def
    by (rule runs_bind_any [OF runs_wrap [OF cluster]], rule runs_bind [OF does_get_mm])
       (use assms in \<open>auto intro!: runs_bind_any runs_wrap does_GetOrCreateMySQLSecrets runs_lift runs_ret
          simp: k at_key_def env_names_def footprint_defs\<close>)
  show ?thesis
    unfolding checkDatabase_def checkOperatorManagedDB_def
    by (auto intro!: runs_bind [OF does_get_mm] runs_fail mysql does_readExternalDBSecret split: option.splits)
qed

lemma does_checkMinioInstance:
  assumes "env_names env"
  shows "does (mm_inv k) (file_store_footprint k) (checkMinioInstance env) (\<lambda>_. True)"
  unfolding checkMinioInstance_def
proof (rule runs_bind [OF does_get_mm])
  fix mm assume "at_key k mm"
  then have mm: "k = (mm_Name mm, mm_Namespace mm)" by (simp add: at_key_def)
  have key: "InstanceV1Beta q mm = Ok mi \<Longrightarrow> k_key MinioK mi = (mm_Name mm @ ''-minio'', mm_Namespace mm)" for q mi
    by (auto simp: InstanceV1Beta_def newMinioInstance_def bindO_eq_Ok Let_def k_key_def MinioK_def split: option.splits)
  have ens: "does (mm_inv k) (file_store_footprint k) (bindM (CreateMinioInstanceIfNotExists env owner x) (\<lambda>desired.
     bindM (client_Get env MinioK (k_key MinioK desired)) (\<lambda>current.
     bindM (Update env MinioK current desired) (\<lambda>_. ret ())))) (\<lambda>_. True)"
    if "k_key MinioK x = (mm_Name mm @ ''-minio'', mm_Namespace mm)" for x owner
    unfolding CreateMinioInstanceIfNotExists_def
    using assms that mm by (intro Minio_kind.does_ensure) (auto simp: env_names_def footprint_defs)
  show "does (mm_inv k) (file_store_footprint k)
      (bindM (lift (InstanceV1Beta (e_quantity env) mm)) (\<lambda>desired0.
       bindM (CreateMinioInstanceIfNotExists env (mm_Meta mm) desired0) (\<lambda>desired.
       bindM (client_Get env MinioK (k_key MinioK desired)) (\<lambda>current.
       bindM (Update env MinioK current desired) (\<lambda>_. ret ()))))) (\<lambda>_. True)"
    by (rule runs_bind [OF runs_lift [where Q = "\<lambda>x. k_key MinioK x = (mm_Name mm @ ''-minio'', mm_Namespace mm)"]])
       (use key ens in auto)
qed

lemma does_checkMinioSecret:
  assumes "env_names env"
  shows "does (mm_inv k) (file_store_footprint k) (checkMattermostMinioSecret env) (\<lambda>_. True)"
  unfolding checkMattermostMinioSecret_def Let_def
proof (rule runs_bind [OF does_get_state], rule runs_wrap)
  fix s assume "mm_inv k s"
  then have k: "k = (mm_Name (r_mm s), mm_Namespace (r_mm s))" by (simp add: mm_inv_def at_key_def)
  show "does (mm_inv k) (file_store_footprint k)
      (CreateOrUpdateMinioSecret env (mm_Meta (r_mm s))
        (SecretV1Beta (e_New16ID env (calls s) 0) (e_New28ID env (calls s)) (r_mm s))) (\<lambda>_. True)"
    by (rule runs_weaken [OF does_CreateOrUpdateMinioSecret])
       (use assms k in \<open>simp_all add: env_names_def footprint_defs\<close>)
qed

lemma does_write_local_pvc:
  assumes "env_names env" "k_key PVCK pvc = k"
  shows "does (mm_inv k) (file_store_footprint k) (write_local_pvc env mm l ms found pvc) (\<lambda>_. True)"
proof -
  have n: "keeps_names PVCK env" using assms by (simp add: env_names_def)
  have W: "(ToCreate, PVCKind, k) \<in> file_store_footprint k" "(ToUpdate, PVCKind, k) \<in> file_store_footprint k"
    by (cases k, simp add: footprint_defs)+
  have c: "does (mm_inv k) (file_store_footprint k) (CreatePvcIfNotExists env (mm_Meta mm) pvc) (\<lambda>_. True)"
    unfolding CreatePvcIfNotExists_def
    by (rule runs_weaken [OF PVC_kind.does_CreateIfNotExists [OF call_free_mm_inv n]]) (simp_all add: W assms)
  have u: "does (mm_inv k) (file_store_footprint k) (Update env PVCK cur pvc) (\<lambda>_. True)" for cur
    by (rule runs_weaken [OF PVC_kind.does_Update [OF call_free_mm_inv n]]) (simp_all add: W assms)
  show ?thesis
    unfolding write_local_pvc_def
    by (cases found) (auto intro!: runs_bind_any c u runs_Get runs_ret runs_fail)
qed

lemma does_checkLocalFileStore:
  assumes "env_names env"
  shows "does (mm_inv k) (file_store_footprint k) (checkLocalFileStore env) (\<lambda>_. True)"
proof -
  have pvc: "k_key PVCK (freeze_pvc h (local_pvc mm l ms st)) = k" if "at_key k mm" for h mm l ms st
    using that by (simp add: at_key_def)
  show ?thesis
    unfolding checkLocalFileStore_def Let_def
    by (auto intro!: runs_bind [OF does_get_mm] runs_lift runs_bind_any [OF runs_try] runs_Get
          runs_bind_any [OF runs_gen] runs_bind_any [OF runs_lift] pvc
          runs_bind [OF runs_read_maps [where Q = "\<lambda>p. k_key PVCK p = k"]]
          runs_bind_any [OF does_write_local_pvc] runs_ret assms dest: MattermostLabels_frame split: option.splits)
qed

lemma does_checkFileStore:
  assumes "env_names env"
  shows "does (mm_inv k) (file_store_footprint k) (checkFileStore env) (\<lambda>_. True)"
proof -
  have ext: "does (mm_inv k) W (checkExternalFileStore env) (\<lambda>_. True)" for W
    unfolding checkExternalFileStore_def
    by (auto intro!: runs_bind [OF does_get_mm] runs_bind_any runs_try runs_Get runs_lift runs_fail
        split: option.splits sum.splits)
  have vol: "does (mm_inv k) W (checkExternalVolumeFileStore env) (\<lambda>_. True)" for W
    unfolding checkExternalVolumeFileStore_def
    by (auto intro!: runs_bind [OF does_get_mm] runs_bind_any runs_wrap runs_Get runs_lift runs_fail runs_ret
        split: option.splits)
  have minio: "does (mm_inv k) (file_store_footprint k) (checkOperatorManagedMinio env) (\<lambda>_. True)"
    unfolding checkOperatorManagedMinio_def
    by (auto intro!: runs_bind_any runs_wrap does_checkMinioSecret does_checkMinioInstance assms
        runs_bind [OF does_get_mm] does_GetMinioService runs_ret)
  show ?thesis
    unfolding checkFileStore_def Let_def
    by (auto intro!: runs_bind [OF does_get_mm] ext vol minio does_checkLocalFileStore assms)
qed

section \<open>Footprints of the application's checks\<close>

lemma app_footprint_members:
  "(ToCreate, ServiceKind, k) \<in> app_footprint k" "(ToUpdate, ServiceKind, k) \<in> app_footprint k"
  "(ToDelete, ServiceKind, k) \<in> app_footprint k"
  "(ToCreate, ServiceAccountKind, k) \<in> app_footprint k" "(ToUpdate, ServiceAccountKind, k) \<in> app_footprint k"
  "(ToCreate, RoleKind, k) \<in> app_footprint k" "(ToUpdate, RoleKind, k) \<in> app_footprint k"
  "(ToCreate, RoleBindingKind, k) \<in> app_footprint k" "(ToUpdate, RoleBindingKind, k) \<in> app_footprint k"
  "(ToCreate, IngressKind, k) \<in> app_footprint k" "(ToUpdate, IngressKind, k) \<in> app_footprint k"
  "(ToDelete, IngressKind, k) \<in> app_footprint k"
  "(ToCreate, IngressClassKind, k) \<in> app_footprint k" "(ToUpdate, IngressClassKind, k) \<in> app_footprint k"
  "(ToDelete, IngressClassKind, k) \<in> app_footprint k"
  "(ToCreate, DeploymentKind, k) \<in> app_footprint k" "(ToUpdate, DeploymentKind, k) \<in> app_footprint k"
  "(ToCreate, JobKind, (UpdateJobName, snd k)) \<in> app_footprint k"
  "(ToDelete, JobKind, (UpdateJobName, snd k)) \<in> app_footprint k"
  by (cases k, simp add: footprint_defs)+

lemma patched_keys:
  assumes "patches_keep_names env"
  shows "ApplyToService (e_codec env) rp svc = Ok (svc', b) \<Longrightarrow> k_key ServiceK svc' = k_key ServiceK svc"
    and "ApplyToDeployment (e_codec env) rp d = Ok (d', b) \<Longrightarrow> k_key DeploymentK d' = k_key DeploymentK d"
  using assms unfolding patches_keep_names_def by blast+

lemma does_checkLicence: "does (mm_inv (nm, ns)) W (checkLicence env) (\<lambda>_. True)"
  unfolding checkLicence_def by (auto intro!: runs_bind_any [OF runs_weaken [OF does_get_mm]] runs_ret does_assertSecretContains)

lemma does_patch_service:
  assumes "patches_keep_names env" "k_key ServiceK d = (nm, ns)"
  shows "does (mm_inv (nm, ns)) W (patch_service env d) (\<lambda>x. k_key ServiceK x = (nm, ns))"
  unfolding patch_service_def
  using patched_keys [OF assms(1)] assms(2)
  by (auto intro!: runs_bind_any [OF runs_weaken [OF does_get_mm]] runs_bind_any [OF runs_write_patch_status] runs_ret
      runs_lift split: outcome.splits)

lemma does_patch_deployment:
  assumes "patches_keep_names env" "k_key DeploymentK d = k'"
  shows "does (mm_inv (nm, ns)) W (patch_deployment env d) (\<lambda>x. k_key DeploymentK x = k')"
  unfolding patch_deployment_def
  using patched_keys [OF assms(1)] assms(2)
  by (auto intro!: runs_bind_any [OF runs_weaken [OF does_get_mm]] runs_bind_any [OF runs_write_patch_status] runs_ret
      runs_lift split: outcome.splits)

lemma CopyService_key [simp]: "k_key ServiceK (CopyServiceEmptyAutoAssignedFields d c) = k_key ServiceK d"
  by (simp add: CopyServiceEmptyAutoAssignedFields_def Let_def k_key_def ServiceK_def)

lemma does_checkMattermostService:
  assumes "env_names env" "patches_keep_names env"
  shows "does (mm_inv (nm, ns)) (app_footprint (nm, ns)) (checkMattermostService env) (\<lambda>_. True)"
proof -
  have n: "keeps_names ServiceK env" using assms by (simp add: env_names_def)
  note W = app_footprint_members [of "(nm, ns)", simplified]
  have gen: "does (mm_inv (nm, ns)) (app_footprint (nm, ns)) (gen GenerateServiceV1Beta) (\<lambda>x. k_key ServiceK x = (nm, ns))"
    by (rule runs_gen) (auto dest: GenerateService_key simp: at_key_def)
  have create: "does (mm_inv (nm, ns)) (app_footprint (nm, ns)) (Create env ServiceK owner x) (\<lambda>_. True)"
    if "k_key ServiceK x = (nm, ns)" for x owner
    by (rule runs_weaken [OF Service_kind.does_Create [OF call_free_mm_inv n]]) (simp_all add: W that)
  have update: "does (mm_inv (nm, ns)) (app_footprint (nm, ns)) (Update env ServiceK c x) (\<lambda>_. True)"
    if "k_key ServiceK x = (nm, ns)" for x c
    by (rule runs_weaken [OF Service_kind.does_Update [OF call_free_mm_inv n]]) (simp_all add: W that)
  have delete: "does (mm_inv (nm, ns)) (app_footprint (nm, ns)) (DeleteService env (nm, ns)) (\<lambda>_. True)"
    unfolding DeleteService_def
    by (rule Service_kind.does_DeleteIfExists [OF call_free_mm_inv n]) (simp_all add: W)
  have ensure: "does (mm_inv (nm, ns)) (app_footprint (nm, ns)) (CreateServiceIfNotExists env owner x) (\<lambda>y. k_key ServiceK y = (nm, ns))"
    if "k_key ServiceK x = (nm, ns)" for x owner
    unfolding CreateServiceIfNotExists_def
    by (rule runs_weaken [OF Service_kind.does_CreateIfNotExists [OF call_free_mm_inv n]]) (simp_all add: W that)
  have get: "does (mm_inv (nm, ns)) (app_footprint (nm, ns)) (client_Get env ServiceK (nm, ns)) (\<lambda>y. k_key ServiceK y = (nm, ns))"
    by (rule Service_kind.does_Get [OF call_free_mm_inv n])
  have rm: "does (mm_inv (nm, ns)) (app_footprint (nm, ns)) (read_maps freeze_service x) (\<lambda>y. k_key ServiceK y = (nm, ns))"
    if "k_key ServiceK x = (nm, ns)" for x
    by (rule runs_read_maps) (simp add: that)
  show ?thesis
    unfolding checkMattermostService_def
    by (auto intro!: runs_bind [OF gen] runs_bind [OF rm] runs_bind [OF does_patch_service [OF assms(2)]]
        runs_bind_any [OF runs_weaken [OF does_get_mm]] runs_bind [OF ensure] runs_bind [OF get]
        runs_bind_any [OF runs_wrap] delete runs_bind_any [OF create] runs_bind_any [OF update] runs_ret)
qed

lemma does_checkMattermostRBAC:
  assumes "env_names env"
  shows "does (mm_inv (nm, ns)) (app_footprint (nm, ns)) (checkMattermostRBAC env) (\<lambda>_. True)"
proof -
  note W = app_footprint_members [of "(nm, ns)", simplified]
  note n = assms [unfolded env_names_def]
  have sa: "does (mm_inv (nm, ns)) (app_footprint (nm, ns)) (checkMattermostSA env) (\<lambda>_. True)"
    unfolding checkMattermostSA_def CreateServiceAccountIfNotExists_def
    by (auto intro!: runs_bind [OF does_get_mm] runs_ret
        ServiceAccount_kind.does_ensure [where f = "\<lambda>d c. d"] simp: n app_footprint_members at_key_def)
  have role: "does (mm_inv (nm, ns)) (app_footprint (nm, ns)) (checkMattermostRole env) (\<lambda>_. True)"
    unfolding checkMattermostRole_def CreateRoleIfNotExists_def
    by (auto intro!: runs_bind [OF does_get_mm] Role_kind.does_ensure [where f = "\<lambda>d c. d"] simp: n W at_key_def)
  have rb: "does (mm_inv (nm, ns)) (app_footprint (nm, ns)) (checkMattermostRoleBinding env) (\<lambda>_. True)"
    unfolding checkMattermostRoleBinding_def CreateRoleBindingIfNotExists_def
    by (auto intro!: runs_bind [OF does_get_mm] RoleBinding_kind.does_ensure [where f = "\<lambda>d c. d"] simp: n W at_key_def)
  show ?thesis
    unfolding checkMattermostRBAC_def by (intro runs_bind_any runs_wrap sa role rb)
qed

lemma does_checkMattermostIngressClass:
  assumes "env_names env"
  shows "does (mm_inv (nm, ns)) (app_footprint (nm, ns)) (checkMattermostIngressClass env) (\<lambda>_. True)"
proof -
  note W = app_footprint_members [of "(nm, ns)", simplified]
  have n: "keeps_names IngressClassK env" using assms by (simp add: env_names_def)
  have gen: "does (mm_inv (nm, ns)) (app_footprint (nm, ns)) (gen GenerateALBIngressClassV1Beta) (\<lambda>x. k_key IngressClassK x = (nm, ns))"
    by (rule runs_gen) (auto dest: GenerateALBIngressClass_key simp: at_key_def)
  have rm: "does (mm_inv (nm, ns)) (app_footprint (nm, ns)) (read_maps freeze_ingress_class x) (\<lambda>y. k_key IngressClassK y = (nm, ns))"
    if "k_key IngressClassK x = (nm, ns)" for x
    by (rule runs_read_maps) (simp add: that)
  have del: "does (mm_inv (nm, ns)) (app_footprint (nm, ns)) (DeleteIngressClass env (nm, ns)) (\<lambda>_. True)"
    unfolding DeleteIngressClass_def
    by (rule IngressClass_kind.does_DeleteIfExists [OF call_free_mm_inv n]) (simp_all add: W)
  show ?thesis
    unfolding checkMattermostIngressClass_def CreateIngressClassIfNotExists_def
    by (auto intro!: runs_bind [OF gen] runs_bind [OF rm] runs_bind_any [OF runs_weaken [OF does_get_mm]]
        runs_wrap del IngressClass_kind.does_ensure [where f = "\<lambda>d c. d"] n simp: W)
qed

lemma does_checkMattermostIngress:
  assumes "env_names env"
  shows "does (mm_inv (nm, ns)) (app_footprint (nm, ns)) (checkMattermostIngress env) (\<lambda>_. True)"
proof -
  note W = app_footprint_members [of "(nm, ns)", simplified]
  have n: "keeps_names IngressK env" using assms by (simp add: env_names_def)
  have gen: "does (mm_inv (nm, ns)) (app_footprint (nm, ns)) (gen GenerateIngressV1Beta) (\<lambda>x. k_key IngressK x = (nm, ns))"
    by (rule runs_gen) (auto dest: GenerateIngress_key simp: at_key_def)
  have alb: "does (mm_inv (nm, ns)) (app_footprint (nm, ns)) (genO GenerateALBIngressV1Beta) (\<lambda>x. k_key IngressK x = (nm, ns))"
    by (rule runs_genO) (auto dest: GenerateALBIngress_key simp: at_key_def)
  have pick: "does (mm_inv (nm, ns)) (app_footprint (nm, ns)) (if b then genO GenerateALBIngressV1Beta else ret x)
      (\<lambda>x. k_key IngressK x = (nm, ns))" if "k_key IngressK x = (nm, ns)" for b x
    using that alb by (auto intro: runs_ret)
  have rm: "does (mm_inv (nm, ns)) (app_footprint (nm, ns)) (read_maps freeze_ingress x) (\<lambda>y. k_key IngressK y = (nm, ns))"
    if "k_key IngressK x = (nm, ns)" for x
    by (rule runs_read_maps) (simp add: that)
  have del: "does (mm_inv (nm, ns)) (app_footprint (nm, ns)) (DeleteIngress env (nm, ns)) (\<lambda>_. True)"
    unfolding DeleteIngress_def
    by (rule Ingress_kind.does_DeleteIfExists [OF call_free_mm_inv n]) (simp_all add: W)
  show ?thesis
    unfolding checkMattermostIngress_def CreateIngressIfNotExists_def
    by (rule runs_bind [OF gen], rule runs_bind_any [OF runs_weaken [OF does_get_mm]], simp,
        rule runs_bind [OF pick], assumption, rule runs_bind [OF rm], assumption)
       (auto intro!: runs_wrap del Ingress_kind.does_ensure [where f = "\<lambda>d c. d"] n simp: W)
qed

lemma does_checkUpdateJob:
  assumes "env_names env"
  shows "does (mm_inv (nm, ns)) (app_footprint (nm, ns)) (checkUpdateJob env (ns) d)
     (\<lambda>(job, _). \<forall>j. job = Some j \<longrightarrow> k_key JobK j = (UpdateJobName, ns))"
proof -
  note W = app_footprint_members [of "(nm, ns)", simplified]
  have n: "keeps_names JobK env" using assms by (simp add: env_names_def)
  have fetch: "does (mm_inv (nm, ns)) (app_footprint (nm, ns)) (tryM (FetchMattermostUpdateJob env (ns)))
      (\<lambda>r. case r of Inl _ \<Rightarrow> True | Inr j \<Rightarrow> k_key JobK j = (UpdateJobName, ns))"
    unfolding FetchMattermostUpdateJob_def
    by (rule runs_try) (simp_all add: Job_kind.does_Get n)
  have launch: "does (mm_inv (nm, ns)) (app_footprint (nm, ns))
      (LaunchMattermostUpdateJob env store_update_job owner (ns) d u) (\<lambda>_. True)" for owner u
    by (rule does_LaunchMattermostUpdateJob) (simp_all add: n W does_store_update_job)
  have restart: "does (mm_inv (nm, ns)) (app_footprint (nm, ns))
      (RestartMattermostUpdateJob env store_update_job owner j d u) (\<lambda>_. True)"
    if "k_key JobK j = (UpdateJobName, ns)" for owner u j
    by (rule does_RestartMattermostUpdateJob [where ns = "ns"]) (simp_all add: n W that does_store_update_job)
  show ?thesis
    unfolding checkUpdateJob_def
    by (cases "GetMattermostAppContainerFromDeployment d")
       (auto intro!: runs_lift runs_bind_any [OF runs_weaken [OF does_get_mm]] runs_bind [OF fetch]
          runs_bind_any [OF runs_try [OF launch]] runs_bind_any [OF runs_try [OF restart]] runs_ret
        split: sum.splits outcome.splits)
qed

lemma does_updateMattermostDeployment:
  assumes "env_names env" "k_key DeploymentK desired = (nm, ns)"
  shows "does (mm_inv (nm, ns)) (app_footprint (nm, ns)) (updateMattermostDeployment env current desired) (\<lambda>_. True)"
proof -
  note W = app_footprint_members [of "(nm, ns)", simplified]
  have n: "keeps_names JobK env" "keeps_names DeploymentK env" using assms by (simp_all add: env_names_def)
  have upd: "does (mm_inv (nm, ns)) (app_footprint (nm, ns)) (update_deployment env current desired) (\<lambda>_. True)"
    unfolding update_deployment_def
    by (rule runs_bind [OF Deployment_kind.does_Update [OF call_free_mm_inv n(2)]])
       (simp_all add: W assms runs_ret)
  have clean: "does (mm_inv (nm, ns)) (app_footprint (nm, ns)) (cleanupUpdateJob env j) (\<lambda>_. True)"
    if "k_key JobK j = (UpdateJobName, ns)" for j
    unfolding cleanupUpdateJob_def
    by (auto intro!: runs_bind_any runs_try runs_client_Delete runs_ret simp: that W)
  have after: "does (mm_inv (nm, ns)) (app_footprint (nm, ns)) (after_update_job env current desired c) (\<lambda>_. True)"
    if "case c of (job, _) \<Rightarrow> \<forall>j. job = Some j \<longrightarrow> k_key JobK j = (UpdateJobName, ns)" for c
    unfolding after_update_job_def
    using that by (auto intro!: runs_fail upd runs_ret runs_defer clean simp: Let_def split: option.splits prod.splits)
  have chk: "does (mm_inv (nm, ns)) (app_footprint (nm, ns))
      (bindM (checkUpdateJob env (mm_Namespace mm) desired) (after_update_job env current desired)) (\<lambda>_. True)"
    if "at_key (nm, ns) mm" for mm
  proof -
    have "mm_Namespace mm = ns" using that by (auto simp: at_key_def)
    then show ?thesis
      using runs_bind [OF does_checkUpdateJob [OF assms(1)] after] by simp
  qed
  show ?thesis
    unfolding updateMattermostDeployment_def
    by (auto intro!: runs_bind_any [OF runs_lift] upd runs_bind [OF does_get_mm] chk)
qed

lemma does_checkMattermostDeployment:
  assumes "env_names env" "patches_keep_names env"
  shows "does (mm_inv (nm, ns)) (app_footprint (nm, ns)) (checkMattermostDeployment env db fs) (\<lambda>_. True)"
proof -
  note W = app_footprint_members [of "(nm, ns)", simplified]
  have n: "keeps_names DeploymentK env" using assms by (simp add: env_names_def)
  have gen: "does (mm_inv (nm, ns)) (app_footprint (nm, ns)) (genO (\<lambda>mm. GenerateDeploymentV1Beta mm db fs (mm_Name mm)
      (GetIngressHost mm) (mm_Name mm) (GetImageName mm))) (\<lambda>x. k_key DeploymentK x = (nm, ns))"
    by (rule runs_genO) (auto dest: GenerateDeployment_key simp: at_key_def)
  have rm: "does (mm_inv (nm, ns)) (app_footprint (nm, ns)) (read_maps freeze_deployment x) (\<lambda>y. k_key DeploymentK y = (nm, ns))"
    if "k_key DeploymentK x = (nm, ns)" for x
    by (rule runs_read_maps) (simp add: that)
  have ensure: "does (mm_inv (nm, ns)) (app_footprint (nm, ns)) (wrapM m (CreateDeploymentIfNotExists env owner x))
      (\<lambda>y. k_key DeploymentK y = (nm, ns))" if "k_key DeploymentK x = (nm, ns)" for m x owner
    unfolding CreateDeploymentIfNotExists_def
    by (rule runs_wrap, rule runs_weaken [OF Deployment_kind.does_CreateIfNotExists [OF call_free_mm_inv n]])
       (simp_all add: W that)
  show ?thesis
    unfolding checkMattermostDeployment_def
    by (rule runs_bind [OF gen], rule runs_bind [OF rm], assumption,
        rule runs_bind [OF does_patch_deployment [OF assms(2)]], assumption,
        rule runs_bind_any [OF runs_weaken [OF does_get_mm]], simp, rule runs_bind [OF ensure], assumption)
       (auto intro!: runs_bind_any [OF runs_wrap] runs_Get runs_wrap does_updateMattermostDeployment assms)
qed

lemma does_checkMattermost:
  assumes "env_names env" "patches_keep_names env"
  shows "does (mm_inv (nm, ns)) (app_footprint (nm, ns)) (checkMattermost env db fs) (\<lambda>_. True)"
  unfolding checkMattermost_def
  by (intro runs_bind_any runs_wrap does_checkLicence does_checkMattermostService assms
      does_checkMattermostRBAC does_checkMattermostDeployment runs_weaken [OF does_get_mm])
     (auto intro!: runs_bind_any does_checkMattermostIngressClass does_checkMattermostIngress runs_ret assms)

lemma does_checkMattermostJobServer:
  assumes "env_names env" "patches_keep_names env"
  shows "does (mm_inv (nm, ns)) (job_server_footprint (nm, ns)) (checkMattermostJobServer env db fs) (\<lambda>_. True)"
proof -
  let ?jk = "(nm @ ''-jobserver'', ns)"
  have W: "(ToCreate, DeploymentKind, ?jk) \<in> job_server_footprint (nm, ns)"
    "(ToUpdate, DeploymentKind, ?jk) \<in> job_server_footprint (nm, ns)"
    "(ToDelete, DeploymentKind, ?jk) \<in> job_server_footprint (nm, ns)"
    by (simp_all add: footprint_defs)
  have n: "keeps_names DeploymentK env" using assms by (simp add: env_names_def)
  have gen: "does (mm_inv (nm, ns)) (job_server_footprint (nm, ns)) (genO (\<lambda>mm. GenerateJobServerDeploymentV1Beta mm db fs
      (mm_Name mm) (GetIngressHost mm) (mm_Name mm) (GetImageName mm))) (\<lambda>x. k_key DeploymentK x = ?jk)"
    by (rule runs_genO) (auto dest: GenerateJobServer_key simp: at_key_def)
  have rm: "does (mm_inv (nm, ns)) (job_server_footprint (nm, ns)) (read_maps freeze_deployment x) (\<lambda>y. k_key DeploymentK y = ?jk)"
    if "k_key DeploymentK x = ?jk" for x
    by (rule runs_read_maps) (simp add: that)
  have ensure: "does (mm_inv (nm, ns)) (job_server_footprint (nm, ns)) (wrapM m (CreateDeploymentIfNotExists env owner x))
      (\<lambda>y. k_key DeploymentK y = ?jk)" if "k_key DeploymentK x = ?jk" for m x owner
    unfolding CreateDeploymentIfNotExists_def
    by (rule runs_wrap, rule runs_weaken [OF Deployment_kind.does_CreateIfNotExists [OF call_free_mm_inv n]])
       (simp_all add: W that)
  have upd: "does (mm_inv (nm, ns)) (job_server_footprint (nm, ns)) (Update env DeploymentK c x) (\<lambda>_. True)"
    if "k_key DeploymentK x = ?jk" for c x
    by (rule runs_weaken [OF Deployment_kind.does_Update [OF call_free_mm_inv n]]) (simp_all add: W that)
  have del: "does (mm_inv (nm, ns)) (job_server_footprint (nm, ns)) (DeleteDeployment env ?jk) (\<lambda>_. True)"
    unfolding DeleteDeployment_def
    by (rule Deployment_kind.does_DeleteIfExists [OF call_free_mm_inv n]) (simp_all add: W)
  have rest: "does (mm_inv (nm, ns)) (job_server_footprint (nm, ns))
      (bindM (patch_deployment env d0) (\<lambda>desired1.
       bindM (wrapM m1 (CreateDeploymentIfNotExists env owner desired1)) (\<lambda>desired.
       bindM (wrapM m2 (client_Get env DeploymentK (k_key DeploymentK desired))) (\<lambda>current.
       bindM (Update env DeploymentK current desired) (\<lambda>_. ret ()))))) (\<lambda>_. True)"
    if "k_key DeploymentK d0 = ?jk" for d0 owner m1 m2
    by (rule runs_bind [OF does_patch_deployment [OF assms(2) that]], rule runs_bind [OF ensure], assumption)
       (auto intro!: runs_bind_any [OF runs_wrap] runs_Get runs_bind_any [OF upd] runs_ret)
  show ?thesis
    unfolding checkMattermostJobServer_def checkMattermostJobServerDeployment_def
    by (auto intro!: runs_bind [OF gen] runs_bind [OF rm] runs_bind_any [OF runs_weaken [OF does_get_mm]]
        runs_wrap [OF del] rest)
qed

section \<open>The footprint of the reconcile loop\<close>

lemma footprint_parts:
  "status_footprint k \<subseteq> mattermost_footprint k" "database_footprint k \<subseteq> mattermost_footprint k"
  "file_store_footprint k \<subseteq> mattermost_footprint k" "app_footprint k \<subseteq> mattermost_footprint k"
  "job_server_footprint k \<subseteq> mattermost_footprint k" "(ToUpdate, MattermostKind, k) \<in> mattermost_footprint k"
  by (auto simp: mattermost_footprint_def)

lemma does_get_status: "runs (mm_inv k) P get_status (\<lambda>_. True)"
  unfolding get_status_def by (auto intro!: runs_bind_any runs_get runs_ret)

lemma does_on_error:
  assumes "keeps_names MattermostK env" "does (mm_inv k) (mattermost_footprint k) m Q"
  shows "does (mm_inv k) (mattermost_footprint k) (on_error env ref m) Q"
  unfolding on_error_def
proof (rule runs_bind [where Q = "\<lambda>r. case r of Inl _ \<Rightarrow> True | Inr x \<Rightarrow> Q x"])
  show "does (mm_inv k) (mattermost_footprint k) (tryM m) (\<lambda>r. case r of Inl _ \<Rightarrow> True | Inr x \<Rightarrow> Q x)"
    by (rule runs_try) (simp_all add: assms(2))
  fix r :: "go_error + 'a" assume "case r of Inl _ \<Rightarrow> True | Inr x \<Rightarrow> Q x"
  then show "does (mm_inv k) (mattermost_footprint k) (case r of Inr x \<Rightarrow> ret x
     | Inl e \<Rightarrow> bindM get_status (\<lambda>status.
                bindM (updateStatusReconcilingAndLogError env ref status (Some e)) (\<lambda>_. fail e))) Q"
    by (auto intro!: runs_ret runs_bind_any does_get_status runs_fail
        does_mono [OF does_updateStatusReconcilingAndLogError [OF assms(1)] footprint_parts(1)] split: sum.splits)
qed

lemma does_status:
  assumes "keeps_names MattermostK env"
  shows "does (mm_inv k) (mattermost_footprint k) (updateStatus env ref st) (\<lambda>_. True)"
    and "does (mm_inv k) (mattermost_footprint k) (updateStatusReconciling env ref st) (\<lambda>_. True)"
  using does_mono [OF mm_status_update [OF assms] footprint_parts(1)]
    does_mono [OF does_updateStatusReconciling [OF assms] footprint_parts(1)] by simp_all

lemma does_init_status:
  assumes "keeps_names MattermostK env"
  shows "does (mm_inv k) (mattermost_footprint k) (init_status env) (\<lambda>_. True)"
  unfolding init_status_def Let_def
  by (auto intro!: runs_bind_any [OF runs_weaken [OF does_get_mm]] runs_bind_any [OF runs_mod] does_status assms runs_ret
      simp: mm_inv_def)

lemma does_updateSpec:
  assumes "keeps_names MattermostK env"
  shows "does (mm_inv k) (mattermost_footprint k) (updateSpec env) (\<lambda>_. True)"
proof -
  have upd: "does (mm_inv k) (mattermost_footprint k) (client_Update env MattermostK mm) (at_key k)"
    if "at_key k mm" for mm
    using that keeps_namesD(3) [OF assms] footprint_parts(6)
    by (intro runs_client_Update) (auto simp: at_key_def)
  show ?thesis
    unfolding updateSpec_def
    by (rule runs_bind [OF does_get_mm], rule runs_bind [OF upd], assumption, rule runs_mod)
       (auto simp: mm_inv_def)
qed

lemma SetDefaults_meta: "mm_Meta (fst (SetDefaults mm)) = mm_Meta mm"
  using SetDefaults_frame [of mm "fst (SetDefaults mm)" "snd (SetDefaults mm)"] by simp

lemma does_set_defaults:
  assumes "keeps_names MattermostK env"
  shows "does (mm_inv k) (mattermost_footprint k) (set_defaults env) (\<lambda>_. True)"
proof -
  have d: "does (mm_inv k) (mattermost_footprint k)
      (bindM (gen (\<lambda>mm. (snd (SetDefaults mm), fst (SetDefaults mm)))) lift) (\<lambda>_. True)"
    by (rule runs_bind_any [OF runs_gen]) (auto intro: runs_lift simp: SetDefaults_meta)
  have r: "does (mm_inv k) (mattermost_footprint k)
      (gen (\<lambda>mm. (snd (SetReplicasAndResourcesFromSize mm), fst (SetReplicasAndResourcesFromSize mm)))) (\<lambda>_. True)"
    by (rule runs_gen) (auto simp: SetReplicas_frame)
  show ?thesis
    unfolding set_defaults_def
    by (rule runs_bind_any [OF runs_mod], simp add: mm_inv_def, simp, simp,
        rule runs_bind_any [OF does_on_error [OF assms d]], rule runs_bind_any [OF r])
       (auto intro!: runs_bind_any runs_lift runs_ret runs_get runs_mod does_on_error assms does_updateSpec
          simp: mm_inv_def at_key_def split: outcome.splits)
qed

lemma does_get_mm_any: "runs (mm_inv k) P get_mm (\<lambda>_. True)"
  by (rule runs_weaken [OF does_get_mm]) simp

lemma does_checkMattermostHealth:
  "does (mm_inv k) W (checkMattermostHealth env st) (\<lambda>_. True)"
proof -
  have rollout: "does (mm_inv k) W (CheckReplicaSetRollout env opts n ns) (\<lambda>_. True)" for opts n ns
    unfolding CheckReplicaSetRollout_def
    by (auto intro!: runs_bind_any runs_wrap runs_reader_Get runs_reader_List runs_fail runs_ret split: option.splits)
  have svc: "does (mm_inv k) W (CheckServiceLoadBalancer env opts) (\<lambda>_. True)" for opts
    unfolding CheckServiceLoadBalancer_def
    by (auto intro!: runs_bind_any runs_wrap runs_reader_List runs_fail runs_ret runs_lift split: option.splits list.splits)
  have ing: "does (mm_inv k) W (CheckIngressLoadBalancer env opts) (\<lambda>_. True)" for opts
    unfolding CheckIngressLoadBalancer_def
    by (auto intro!: runs_bind_any runs_wrap runs_reader_List runs_fail runs_ret runs_lift split: list.splits)
  have ep: "does (mm_inv k) W (health_endpoint env opts) (\<lambda>_. True)" for opts
    unfolding health_endpoint_def
    by (auto intro!: runs_bind_any [OF runs_weaken [OF does_get_mm]] runs_wrap svc ing runs_ret)
  have lab: "does (mm_inv k) W (gen (\<lambda>mm. MattermostPodLabels mm (mm_Name mm))) (\<lambda>_. True)"
    "does (mm_inv k) W (gen (\<lambda>mm. MattermostJobServerPodLabels mm (mm_Name mm))) (\<lambda>_. True)"
    by (rule runs_gen, auto dest: label_frames)+
  have js: "does (mm_inv k) W (checkMattermostJobServerHealth env) (\<lambda>_. True)"
    unfolding checkMattermostJobServerHealth_def Let_def
    by (auto intro!: runs_bind_any [OF lab(2)] runs_bind_any [OF runs_weaken [OF does_get_mm]]
        runs_bind_any does_get_mm_any runs_wrap rollout runs_fail runs_ret)
  show ?thesis
    unfolding checkMattermostHealth_def Let_def
    by (auto intro!: runs_bind_any [OF runs_weaken [OF does_get_mm]] runs_bind_any [OF lab(1)]
        runs_bind_any [OF runs_try] does_get_mm_any runs_try rollout ep js runs_wrap runs_bind_any runs_ret split: sum.splits)
qed

lemma does_finish_reconcile:
  assumes "env_names env" "patches_keep_names env"
  shows "does (mm_inv (nm, ns)) (mattermost_footprint (nm, ns)) (finish_reconcile env db fs) (\<lambda>_. True)"
proof -
  have n: "keeps_names MattermostK env" using assms by (simp add: env_names_def)
  note job = does_mono [OF does_checkMattermostJobServer [OF assms] footprint_parts(5)]
  show ?thesis
    unfolding finish_reconcile_def
    by (auto intro!: runs_bind_any [OF does_on_error [OF n job]] runs_bind_any [OF does_get_status]
        runs_bind_any [OF does_checkMattermostHealth] runs_bind_any [OF runs_mod] runs_bind_any [OF runs_try]
        runs_bind_any [OF does_on_error [OF n]] does_status n runs_ret
        simp: mm_inv_def split: option.splits)
qed

lemma does_reconcile_body:
  assumes "env_names env" "patches_keep_names env"
  shows "does (mm_inv (nm, ns)) (mattermost_footprint (nm, ns)) (reconcile_body env) (\<lambda>_. True)"
proof -
  have n: "keeps_names MattermostK env" using assms by (simp add: env_names_def)
  note db = does_mono [OF does_checkDatabase [OF assms(1)] footprint_parts(2)]
  note fs = does_mono [OF does_checkFileStore [OF assms(1)] footprint_parts(3)]
  note app = does_mono [OF does_checkMattermost [OF assms] footprint_parts(4)]
  show ?thesis
    unfolding reconcile_body_def
    by (auto intro!: runs_bind_any [OF does_init_status [OF n]] runs_bind_any [OF does_set_defaults [OF n]]
        runs_bind_any [OF does_on_error [OF n db]] runs_bind_any [OF does_on_error [OF n fs]]
        runs_bind_any [OF does_on_error [OF n app]] runs_bind_any [OF does_get_status]
        runs_bind_any [OF does_status(2) [OF n]] runs_ret does_finish_reconcile assms)
qed

lemma runs_establish:
  assumes "\<And>s. J (f s)" "\<And>s. calls (f s) = calls s" "runs J P m Q"
  shows "runs (\<lambda>_. True) P (bindM (mod_state f) (\<lambda>_. m)) Q"
  using assms unfolding runs_def bindM_def mod_state_def by (fastforce split: prod.splits)

lemma runs_forget: "runs I P m Q \<Longrightarrow> (\<And>s. I s) \<Longrightarrow> runs (\<lambda>_. True) P m Q"
  unfolding runs_def by blast

lemma does_Reconcile:
  assumes "env_names env" "patches_keep_names env"
  shows "does (\<lambda>_. True) (mattermost_footprint (nm, ns)) (Reconcile env cfg (nm, ns)) (\<lambda>_. True)"
proof -
  have n: "keeps_names MattermostK env" using assms by (simp add: env_names_def)
  note body = does_reconcile_body [OF assms]
  have start: "does (mm_inv (nm, ns)) (mattermost_footprint (nm, ns)) (startNonReconcilingMMProcessing env m) (\<lambda>_. True)" for m
    unfolding startNonReconcilingMMProcessing_def
    by (auto intro!: runs_bind_any runs_wrap runs_List runs_get runs_mod runs_ret simp: mm_inv_def split: prod.splits)
  have dec: "does (mm_inv (nm, ns)) (mattermost_footprint (nm, ns)) decrementProcessing (\<lambda>_. True)"
    unfolding decrementProcessing_def by (rule runs_mod) (auto simp: mm_inv_def)
  have rest: "does (\<lambda>_. True) (mattermost_footprint (nm, ns))
     (bindM (mod_state (\<lambda>s. s\<lparr>r_mm := mm, r_orig := mm\<rparr>)) (\<lambda>_.
        if st_State (mm_Status mm) \<noteq> Reconciling \<and> st_State (mm_Status mm) \<noteq> Ready
        then bindM (wrapM ''failed to verify reconciliation limit''
                      (startNonReconcilingMMProcessing env (MaxReconciling cfg))) (\<lambda>canProcess.
             if \<not> canProcess then ret \<lparr>RequeueAfter = RequeueOnLimitDelay cfg\<rparr>
             else deferM (reconcile_body env) decrementProcessing)
        else reconcile_body env)) (\<lambda>_. True)" if "at_key (nm, ns) mm" for mm
    by (rule runs_establish [where J = "mm_inv (nm, ns)"])
       (use that in \<open>auto intro!: body runs_bind_any runs_wrap start runs_ret runs_defer dec simp: mm_inv_def\<close>)
  have get: "does (\<lambda>_. True) (mattermost_footprint (nm, ns)) (tryM (client_Get env MattermostK (nm, ns)))
      (\<lambda>r. case r of Inl _ \<Rightarrow> True | Inr mm \<Rightarrow> at_key (nm, ns) mm)"
    using Mattermost_kind.does_Get [of "\<lambda>_. True" env _ "(nm, ns)"] n
    by (intro runs_try) (auto simp: at_key_def)
  show ?thesis
    unfolding Reconcile_def
  proof (rule runs_bind [OF get], goal_cases)
    case (1 r)
    then show ?case
    proof (cases r)
      case (Inl e)
      then show ?thesis by (auto intro: runs_ret runs_fail)
    next
      case (Inr mm)
      with 1 show ?thesis by (simp only: sum.case rest)
    qed
  qed
qed

end
