(* ===== verification/ControllerKinds.thy ===== *)
theory ControllerKinds
  imports ControllerFootprint
begin

text \<open>
  Which kinds of objects a run writes, whatever the API server answers: no assumption about names is
  needed here.  The handlers are followed once, over any policy of the resource helper's operations
  (WritePolicy); the two answers are for any cluster and for one in which every object is in place.
  The last section is about the update job that guards an image change.
\<close>

text \<open>The handlers leave the counter of the rate limiter alone.\<close>

definition counted :: "int \<Rightarrow> rec_state \<Rightarrow> bool" where
  "counted n s = (r_processing s = n)"

lemma call_free_counted [simp]: "call_free (counted n)"
  by (simp add: call_free_def counted_def)

lemma counted_other [simp]:
  "counted n (s\<lparr>r_mm := mm\<rparr>) = counted n s" "counted n (s\<lparr>r_orig := mm\<rparr>) = counted n s"
  "counted n (s\<lparr>r_status := st\<rparr>) = counted n s" "counted n (s\<lparr>r_shared := b\<rparr>) = counted n s"
  by (simp_all add: counted_def)

lemma kinds_gen [emits_intros]:
  "writes (counted pc) A (gen g)" "writes (counted pc) A (genO g')" "writes (counted pc) A get_mm" "writes (counted pc) A (read_maps f x)"
  by (auto simp: runs_def counted_def gen_def genO_def get_mm_def read_maps_def io_defs split: prod.splits outcome.splits)

lemma kinds_state [emits_intros]:
  "writes (counted pc) A (write_patch_status f)" "writes (counted pc) A (store_update_job u)" "writes (counted pc) A get_status"
  by (auto simp: runs_def counted_def write_patch_status_def store_update_job_def get_status_def io_defs Let_def
      split: option.splits)

section \<open>The update job\<close>

text \<open>The update job is created and deleted; nothing else is written before its outcome is known.\<close>

definition job_kinds :: "(action \<times> kind) set" where
  "job_kinds = {(ToCreate, JobKind), (ToDelete, JobKind)}"

lemma job_kinds_members [simp]: "(ToCreate, JobKind) \<in> job_kinds" "(ToDelete, JobKind) \<in> job_kinds"
  by (simp_all add: job_kinds_def)

lemma kinds_create_update_job: "writes (counted pc) job_kinds (create_update_job env store_update_job owner ns d u)"
  unfolding create_update_job_def by (auto intro!: emits_intros kinds_job split: prod.splits)

lemma kinds_checkUpdateJob: "writes (counted pc) job_kinds (checkUpdateJob env ns d)"
proof -
  have launch: "writes (counted pc) job_kinds (LaunchMattermostUpdateJob env store_update_job o' n d u)" for o' n u
    unfolding LaunchMattermostUpdateJob_def by (auto intro!: emits_intros kinds_create_update_job split: sum.splits)
  have restart: "writes (counted pc) job_kinds (RestartMattermostUpdateJob env store_update_job o' j d u)" for o' j u
    unfolding RestartMattermostUpdateJob_def
    by (auto intro!: emits_intros kinds_create_update_job kinds_job split: sum.splits)
  show ?thesis
    unfolding checkUpdateJob_def FetchMattermostUpdateJob_def
    by (auto intro!: emits_intros launch restart split: option.splits sum.splits outcome.splits)
qed

lemma kinds_assertSecret [emits_intros]: "writes (counted pc) A (assertSecretContains env n k ns)"
  unfolding assertSecretContains_def by (auto intro!: emits_intros)

lemma kinds_patches [emits_intros]:
  "writes (counted pc) A (patch_service env d)" "writes (counted pc) A (patch_deployment env d')"
  unfolding patch_service_def patch_deployment_def
  by (auto intro!: emits_intros split: outcome.splits prod.splits)

lemma kinds_cleanup: "writes (counted pc) job_kinds (cleanupUpdateJob env j)"
  unfolding cleanupUpdateJob_def by (auto intro!: emits_intros kinds_job)

section \<open>The handlers under a policy\<close>

text \<open>What the controller writes beyond the common interface: volume claims, ingress classes, deletions of what the
  resource no longer wants, a service whose type changed, and the resource itself.\<close>

definition deletable :: "kind set" where
  "deletable = {ServiceKind, IngressKind, IngressClassKind, DeploymentKind, JobKind}"

locale mattermost_policy = write_policy "counted pc" A env for pc A env +
  assumes claims: "maintains (counted pc) A env PVCK"
    and ingress_class: "maintains (counted pc) A env IngressClassK"
    and replaced_service: "(ToCreate, ServiceKind) \<in> A"
    and deletions: "k \<in> deletable \<Longrightarrow> (ToDelete, k) \<in> A"
    and resource: "(ToUpdate, MattermostKind) \<in> A" "(ToStatus, MattermostKind) \<in> A"
begin

lemma policy_extra [emits_intros]:
  "writes (counted pc) A (CreatePvcIfNotExists env owner pvc)" "writes (counted pc) A (Update env PVCK cpvc pvc)"
  "writes (counted pc) A (CreateIngressClassIfNotExists env owner ic)" "writes (counted pc) A (Update env IngressClassK cic ic)"
  unfolding CreatePvcIfNotExists_def CreateIngressClassIfNotExists_def
  by (rule maintainsD, rule claims ingress_class)+

lemma policy_deletes [emits_intros]:
  "writes (counted pc) A (DeleteService env key)" "writes (counted pc) A (DeleteIngress env key)"
  "writes (counted pc) A (DeleteIngressClass env key)" "writes (counted pc) A (DeleteDeployment env key)"
  "writes (counted pc) A (Create env ServiceK owner svc)"
  unfolding DeleteService_def DeleteIngress_def DeleteIngressClass_def DeleteDeployment_def
  by (rule kinds_Service kinds_ingress kinds_deployment; simp add: deletions replaced_service deletable_def)+

declare policy [emits_intros]

lemma job_kinds_allowed: "job_kinds \<subseteq> A"
  by (auto simp: job_kinds_def jobs)

lemma kinds_updateStatus [emits_intros]:
  "writes (counted pc) A (updateStatus env ref st)"
  "writes (counted pc) A (updateStatusReconciling env ref st)"
  "writes (counted pc) A (updateStatusReconcilingAndLogError env ref st e)"
proof -
  show u: "writes (counted pc) A (updateStatus env ref st)" for ref st
    unfolding updateStatus_def Let_def
    by (auto intro!: emits_intros kinds_status resource; case_tac ref; simp)
  then show r: "writes (counted pc) A (updateStatusReconciling env ref st)" for ref st
    unfolding updateStatusReconciling_def by blast
  show "writes (counted pc) A (updateStatusReconcilingAndLogError env ref st e)"
    unfolding updateStatusReconcilingAndLogError_def Let_def by (auto intro!: emits_intros r)
qed

lemma kinds_checkDatabase [emits_intros]: "writes (counted pc) A (checkDatabase env)"
proof -
  have ext: "writes (counted pc) A (readExternalDBSecret env)"
    unfolding readExternalDBSecret_def by (auto intro!: emits_intros split: option.splits)
  have cluster: "writes (counted pc) A (checkMySQLCluster env)"
    unfolding checkMySQLCluster_def
    by (auto intro!: emits_intros)
  have mysql: "writes (counted pc) A (checkOperatorManagedMySQL env)"
    unfolding checkOperatorManagedMySQL_def by (auto intro!: emits_intros cluster)
  have managed: "writes (counted pc) A (checkOperatorManagedDB env)"
    unfolding checkOperatorManagedDB_def by (auto intro!: emits_intros mysql split: option.splits)
  show ?thesis unfolding checkDatabase_def by (auto intro!: emits_intros ext managed)
qed

lemma kinds_checkFileStore [emits_intros]: "writes (counted pc) A (checkFileStore env)"
proof -
  have ext: "writes (counted pc) A (checkExternalFileStore env)"
    unfolding checkExternalFileStore_def by (auto intro!: emits_intros split: option.splits sum.splits)
  have vol: "writes (counted pc) A (checkExternalVolumeFileStore env)"
    unfolding checkExternalVolumeFileStore_def by (auto intro!: emits_intros split: option.splits)
  have pvc: "writes (counted pc) A (write_local_pvc env mm l m f p)" for mm l m f p
    unfolding write_local_pvc_def
    by (auto intro!: emits_intros split: sum.splits)
  have loc: "writes (counted pc) A (checkLocalFileStore env)"
    unfolding checkLocalFileStore_def Let_def by (auto intro!: emits_intros pvc split: option.splits)
  have msec: "writes (counted pc) A (checkMattermostMinioSecret env)"
    unfolding checkMattermostMinioSecret_def Let_def by (auto intro!: emits_intros)
  have inst: "writes (counted pc) A (checkMinioInstance env)"
    unfolding checkMinioInstance_def
    by (auto intro!: emits_intros)
  have minio: "writes (counted pc) A (checkOperatorManagedMinio env)"
    unfolding checkOperatorManagedMinio_def by (auto intro!: emits_intros msec inst)
  show ?thesis unfolding checkFileStore_def Let_def by (auto intro!: emits_intros ext vol loc minio)
qed

lemma kinds_checkService [emits_intros]: "writes (counted pc) A (checkMattermostService env)"
  unfolding checkMattermostService_def
  by (auto intro!: emits_intros)

lemma kinds_checkRBAC [emits_intros]: "writes (counted pc) A (checkMattermostRBAC env)"
  unfolding checkMattermostRBAC_def checkMattermostSA_def checkMattermostRole_def checkMattermostRoleBinding_def
  by (auto intro!: emits_intros)

lemma kinds_checkIngress [emits_intros]:
  "writes (counted pc) A (checkMattermostIngress env)"
  "writes (counted pc) A (checkMattermostIngressClass env)"
  unfolding checkMattermostIngress_def checkMattermostIngressClass_def
  by (auto intro!: emits_intros)

lemma kinds_updateDeployment [emits_intros]: "writes (counted pc) A (updateMattermostDeployment env c d)"
proof -
  have upd: "writes (counted pc) A (update_deployment env c d)"
    unfolding update_deployment_def by (auto intro!: emits_intros)
  have after: "writes (counted pc) A (after_update_job env c d chk)" for chk
    unfolding after_update_job_def Let_def
    by (auto intro!: emits_intros upd kinds_mono [OF kinds_cleanup job_kinds_allowed] split: prod.splits option.splits)
  show ?thesis
    unfolding updateMattermostDeployment_def
    by (auto intro!: emits_intros upd after kinds_mono [OF kinds_checkUpdateJob job_kinds_allowed])
qed

lemma kinds_checkMattermost [emits_intros]: "writes (counted pc) A (checkMattermost env db fs)"
proof -
  have dep: "writes (counted pc) A (checkMattermostDeployment env db fs)"
    unfolding checkMattermostDeployment_def
    by (auto intro!: emits_intros)
  have lic: "writes (counted pc) A (checkLicence env)"
    unfolding checkLicence_def by (auto intro!: emits_intros)
  show ?thesis unfolding checkMattermost_def by (auto intro!: emits_intros dep lic)
qed

lemma kinds_checkJobServer [emits_intros]: "writes (counted pc) A (checkMattermostJobServer env db fs)"
  unfolding checkMattermostJobServer_def checkMattermostJobServerDeployment_def
  by (auto intro!: emits_intros)

lemma kinds_health [emits_intros]: "writes (counted pc) A (checkMattermostHealth env st)"
proof -
  have ep: "writes (counted pc) A (health_endpoint env opts)" for opts
    unfolding health_endpoint_def by (auto intro!: emits_intros)
  have js: "writes (counted pc) A (checkMattermostJobServerHealth env)"
    unfolding checkMattermostJobServerHealth_def Let_def by (auto intro!: emits_intros)
  show ?thesis
    unfolding checkMattermostHealth_def Let_def by (auto intro!: emits_intros ep js split: sum.splits)
qed

lemma kinds_on_error [emits_intros]:
  "writes (counted pc) A m \<Longrightarrow> writes (counted pc) A (on_error env ref m)"
  unfolding on_error_def by (auto intro!: emits_intros split: sum.splits)

lemma kinds_set_defaults [emits_intros]: "writes (counted pc) A (set_defaults env)"
  unfolding set_defaults_def updateSpec_def
  by (auto intro!: emits_intros kinds_status resource split: outcome.splits)

lemma kinds_reconcile_body [emits_intros]: "writes (counted pc) A (reconcile_body env)"
proof -
  have init: "writes (counted pc) A (init_status env)"
    unfolding init_status_def Let_def by (auto intro!: emits_intros)
  have finish: "writes (counted pc) A (finish_reconcile env db fs)" for db fs
    unfolding finish_reconcile_def by (auto intro!: emits_intros split: prod.splits option.splits)
  show ?thesis unfolding reconcile_body_def by (auto intro!: emits_intros init finish)
qed

end

text \<open>Admission takes a place in the counter, and the end of an admitted run gives it back.\<close>

lemma kinds_admission:
  assumes "\<And>n. writes (counted n) A (reconcile_body env)"
  shows "writes (counted pc) A (bindM (wrapM msg (startNonReconcilingMMProcessing env limit)) (\<lambda>canProcess.
      if \<not> canProcess then ret res else deferM (reconcile_body env) decrementProcessing))"
proof (rule runsI)
  fix s s' :: rec_state and r
  assume c: "counted pc s" and run: "bindM (wrapM msg (startNonReconcilingMMProcessing env limit)) (\<lambda>canProcess.
      if \<not> canProcess then ret res else deferM (reconcile_body env) decrementProcessing) s = (r, s')"
  let ?list = "CList MattermostKind None Map.empty"
  let ?s1 = "\<lambda>processing. s\<lparr>calls := calls s @ [?list], r_processing := processing\<rparr>"
  obtain r2 s2 where body: "reconcile_body env (?s1 (pc + 1)) = (r2, s2)" by (cases "reconcile_body env (?s1 (pc + 1))")
  obtain new where new: "counted (pc + 1) s2" "calls s2 = calls s @ [?list] @ new" "ok_trace (\<lambda>_. touches A) (calls s @ [?list]) new"
    using assms [of "pc + 1"] body by (elim runsD) (auto simp: counted_def)
  have "s' \<in> {s\<lparr>calls := calls s @ [?list]\<rparr>, ?s1 pc, s2\<lparr>r_processing := decrement (r_processing s2)\<rparr>}"
    using run c body
    by (auto simp: startNonReconcilingMMProcessing_def bindM_def wrapM_def client_List_def call_api_def of_sum_def admit_def
        counted_def get_state_def mod_state_def ret_def deferM_def decrementProcessing_def MattermostK_def Let_def
        split: sum.splits if_splits)
  with new c show "counted pc s' \<and> (\<exists>new. calls s' = calls s @ new \<and> ok_trace (\<lambda>_. touches A) (calls s) new)
      \<and> (\<forall>x. r = Ok x \<longrightarrow> True)"
    by (auto simp: counted_def decrement_def intro: exI [of _ "?list # new"])
qed

lemma kinds_Reconcile_under:
  assumes "\<And>n. writes (counted n) A (reconcile_body env)"
  shows "writes (counted pc) A (Reconcile env cfg k)"
  unfolding Reconcile_def
  by (auto intro!: emits_intros kinds_admission assms simp: counted_def split: sum.splits)

section \<open>Over any cluster\<close>

definition maintained :: "kind set" where
  "maintained = {ServiceAccountKind, RoleKind, RoleBindingKind, ServiceKind, IngressKind, IngressClassKind,
     DeploymentKind, PVCKind, SecretKind, MysqlKind, MinioKind, JobKind}"

definition reconcile_kinds :: "(action \<times> kind) set" where
  "reconcile_kinds = {ToCreate, ToUpdate} \<times> maintained \<union> {ToDelete} \<times> deletable
     \<union> {(ToUpdate, MattermostKind), (ToStatus, MattermostKind)}"

lemma reconcile_kinds_members [simp]:
  "(ToCreate, k) \<in> reconcile_kinds \<longleftrightarrow> k \<in> maintained"
  "(ToUpdate, k) \<in> reconcile_kinds \<longleftrightarrow> k \<in> maintained \<or> k = MattermostKind"
  "(ToDelete, k) \<in> reconcile_kinds \<longleftrightarrow> k \<in> deletable"
  "(ToStatus, k) \<in> reconcile_kinds \<longleftrightarrow> k = MattermostKind"
  by (auto simp: reconcile_kinds_def)

interpretation any_cluster: mattermost_policy pc reconcile_kinds env
  by unfold_locales (auto intro!: maintains_kinds secrets_allowed simp: maintained_def deletable_def)

lemma kinds_Reconcile: "writes (counted pc) reconcile_kinds (Reconcile env cfg k)"
  by (rule kinds_Reconcile_under) (rule any_cluster.kinds_reconcile_body)

section \<open>Over a settled cluster\<close>

definition cluster_settled :: "env \<Rightarrow> bool" where
  "cluster_settled env = (in_place env ServiceAccountK \<and> in_place env RoleK \<and> in_place env RoleBindingK \<and> in_place env ServiceK
     \<and> in_place env IngressK \<and> in_place env IngressClassK \<and> in_place env DeploymentK \<and> in_place env PVCK
     \<and> in_place env SecretK \<and> in_place env MysqlK \<and> in_place env MinioK)"

definition settled_kinds :: "(action \<times> kind) set" where
  "settled_kinds = {(ToCreate, JobKind), (ToCreate, ServiceKind), (ToUpdate, MattermostKind), (ToStatus, MattermostKind)}
     \<union> {ToDelete} \<times> deletable"

lemma settled_policy:
  assumes "cluster_settled env"
  shows "mattermost_policy n settled_kinds env"
  using assms
  by unfold_locales (auto simp: cluster_settled_def settled_kinds_def deletable_def intro!: maintains_in_place secrets_in_place)


text \<open>A server that always finds the same object, and never a difference.\<close>

definition steady_api :: "'o \<Rightarrow> 'o api" where
  "steady_api x = empty_api\<lparr>api_get := \<lambda>_ _. Inr x, api_Calculate := \<lambda>_ _. Inr True\<rparr>"

definition demo_settled_env :: env where
  "demo_settled_env = demo_cluster\<lparr>
     e_ServiceAccount := steady_api (GenerateServiceAccountV1Beta demo_mm ''mm''),
     e_Role := steady_api (GenerateRoleV1Beta demo_mm ''mm''),
     e_RoleBinding := steady_api (GenerateRoleBindingV1Beta demo_mm ''mm'' ''mm''),
     e_Service := steady_api zero_service, e_Ingress := steady_api (fst (GenerateIngressV1Beta demo_mm)),
     e_IngressClass := steady_api \<lparr>ic_Meta = empty_meta, ic_Controller = ''ingress.k8s.aws/alb''\<rparr>,
     e_Deployment := steady_api zero_deployment, e_PVC := steady_api demo_claim, e_Secret := steady_api demo_external_secret,
     e_Mysql := steady_api \<lparr>myc_Meta = empty_meta, myc_MysqlVersion = ''5.7'', myc_Replicas = Some 2,
       myc_SecretName = ''mm-mysql-root-password'', myc_AccessModes = [''ReadWriteOnce''], myc_Storage = ''50Gi'', myc_BackupSchedule = [],
       myc_BackupURL = [], myc_BackupSecretName = [], myc_BackupRemoteDeletePolicy = [], myc_InitBucketURL = [],
       myc_InitBucketSecretName = []\<rparr>,
     e_Minio := steady_api \<lparr>mi_Meta = empty_meta, mi_Replicas = 4, mi_Mountpath = ''/export'', mi_CredsSecret = ''mm-minio'',
       mi_ClaimName = ''mm-minio'', mi_AccessModes = [''ReadWriteOnce''], mi_Storage = ''50Gi''\<rparr>\<rparr>"

lemma in_place_steady: "k_api K env = steady_api x \<Longrightarrow> in_place env K"
  by (simp add: in_place_def steady_api_def)

lemma demo_settled: "cluster_settled demo_settled_env"
  unfolding cluster_settled_def by (intro conjI in_place_steady) (auto simp: demo_settled_env_def kind_defs)


section \<open>Update job\<close>

definition job_permits :: "env \<Rightarrow> call list \<Rightarrow> string \<Rightarrow> Deployment \<Rightarrow> bool" where
  "job_permits env h ns desired = (\<exists>job. api_get (e_Job env) h (UpdateJobName, ns) = Inr job
     \<and> isMainContainerImageSame (ps_Containers (pt_Spec (d_Template desired))) (ps_Containers (pt_Spec (j_Template job))) = Ok True
     \<and> j_Status_CompletionTime job \<noteq> None \<and> j_Status_Failed job \<le> 0)"

lemma checkUpdateJob_ready:
  assumes "checkUpdateJob env ns desired s = (Ok (j, True, None), s1)"
  shows "job_permits env (calls s) ns desired"
proof -
  have K: "k_api JobK env = e_Job env" by (simp add: JobK_def)
  show ?thesis
    using assms
    by (auto simp: checkUpdateJob_def FetchMattermostUpdateJob_def client_Get_def get_mm_def io_defs of_sum_def K
        job_permits_def split: option.splits sum.splits outcome.splits prod.splits if_splits)
qed


definition demo_new_deployment :: Deployment where
  "demo_new_deployment = zero_deployment\<lparr>d_Template := zero_template\<lparr>pt_Spec := zero_pod_spec\<lparr>ps_Containers :=
     [demo_app_container\<lparr>c_Image := ''mattermost/mm:10.6.0''\<rparr>]\<rparr>\<rparr>\<rparr>"


end
