(* ===== verification/ControllerProgress.thy ===== *)
theory ControllerProgress
  imports ControllerKinds
begin

text \<open>
  What a run of the controller leaves behind: it comes back until the installation is stable, it gives its
  place in the rate limiter back, and the credentials it writes are the ones it reads.
\<close>

section \<open>When a run asks to be called again\<close>

text \<open>A run that ends well and does not ask for another leaves the resource stable.\<close>

definition settles :: "Result rio \<Rightarrow> bool" where
  "settles m = (\<forall>s res s'. m s = (Ok res, s') \<longrightarrow> 0 < RequeueAfter res \<or> st_State (mm_Status (r_mm s')) = Stable)"

lemma settles_bind: "(\<And>x. settles (f x)) \<Longrightarrow> settles (bindM m f)"
  unfolding settles_def bindM_Ok by blast

lemma settles_requeue: "0 < RequeueAfter res \<Longrightarrow> settles (ret res)"
  by (simp add: settles_def)

lemma settles_defer: "settles m \<Longrightarrow> settles (deferM m decrementProcessing)"
  unfolding settles_def deferM_def decrementProcessing_def mod_state_def by (fastforce split: prod.splits)

definition status_kept :: "env \<Rightarrow> bool" where
  "status_kept env = (\<forall>h x y. api_status_update (e_Mattermost env) h x = Inr y \<longrightarrow> mm_Status y = mm_Status x)"

lemma updateStatus_result:
  assumes "updateStatus env Current st s = (Ok u, s')" and "status_kept env"
  shows "mm_Status (r_mm s') = st"
  using assms
  by (auto simp: updateStatus_def bindM_Ok Let_def client_StatusUpdate_def call_api_run MattermostK_def status_kept_def
      split: if_splits)

lemma on_error_Ok: "on_error env ref m s = (Ok x, s') \<longleftrightarrow> m s = (Ok x, s')"
  by (auto simp: on_error_def bindM_Ok tryM_run)

lemma health_stable: "checkMattermostHealth env cur s = (Ok (st, None), s') \<Longrightarrow> st_State st = Stable"
  by (auto simp: checkMattermostHealth_def Let_def bindM_def tryM_def split: outcome.splits prod.splits sum.splits if_splits)

lemma settles_finish:
  assumes "status_kept env"
  shows "settles (finish_reconcile env db fs)"
  unfolding settles_def
proof (intro allI impI)
  fix s res s' assume "finish_reconcile env db fs s = (Ok res, s')"
  then obtain s1 s2 st err cur where health: "checkMattermostHealth env cur s1 = (Ok (st, err), s2)"
    and rest: "(case err of
         Some _ \<Rightarrow> bindM (tryM (updateStatus env Current st)) (\<lambda>_. ret \<lparr>RequeueAfter = healthCheckRequeueDelay\<rparr>)
       | None \<Rightarrow> bindM (on_error env Current (updateStatus env Current st)) (\<lambda>_. ret done_result)) (s2\<lparr>r_status := st\<rparr>) = (Ok res, s')"
    by (auto simp: finish_reconcile_def bindM_Ok)
  show "0 < RequeueAfter res \<or> st_State (mm_Status (r_mm s')) = Stable"
  proof (cases err)
    case None
    then have "mm_Status (r_mm s') = st" using rest updateStatus_result [OF _ assms] by (auto simp: bindM_Ok on_error_Ok)
    with health_stable health None show ?thesis by simp
  next
    case (Some e)
    then show ?thesis using rest by (auto simp: bindM_Ok healthCheckRequeueDelay_def)
  qed
qed

lemma settles_body:
  assumes "status_kept env"
  shows "settles (reconcile_body env)"
  unfolding reconcile_body_def
  by (auto intro!: settles_bind settles_requeue settles_finish [OF assms] simp: resourcesReadyDelay_def)

section \<open>The database secret\<close>

text \<open>The server stores a secret's name and data as they were sent.\<close>

definition secrets_stored :: "env \<Rightarrow> bool" where
  "secrets_stored env = (\<forall>h x y. api_create (e_Secret env) h x = Inr y \<longrightarrow>
     sec_Data y = sec_Data x \<and> om_Name (sec_Meta y) = om_Name (sec_Meta x))"

lemma Create_secret:
  assumes "Create env SecretK owner x s = (Ok y, s')" and "secrets_stored env"
  shows "sec_Data y = sec_Data x \<and> om_Name (sec_Meta y) = om_Name (sec_Meta x)"
  using assms
  by (fastforce simp: Create_def SetLastApplied_def SetControllerReference_def bindM_Ok client_Create_def call_api_run SecretK_def
      set_annotations_def set_owner_def secrets_stored_def)

section \<open>Properties\<close>

text \<open>
  C12. No installation is forgotten: a run that ends without an error either asks to be called again after
  a delay or leaves the resource, as the API server holds it, in the state stable.
\<close>

theorem reconcile_requeues_until_stable:
  assumes "Reconcile env cfg k s = (Ok res, s')" and "api_get (e_Mattermost env) (calls s) k = Inr mm"
    and "status_kept env" and "0 < RequeueOnLimitDelay cfg"
  shows "0 < RequeueAfter res \<or> st_State (mm_Status (r_mm s')) = Stable"
proof -
  define rest where "rest = (if st_State (mm_Status mm) \<noteq> Reconciling \<and> st_State (mm_Status mm) \<noteq> Ready
         then bindM (wrapM ''failed to verify reconciliation limit''
                       (startNonReconcilingMMProcessing env (MaxReconciling cfg))) (\<lambda>canProcess.
              if \<not> canProcess then ret \<lparr>RequeueAfter = RequeueOnLimitDelay cfg\<rparr>
              else deferM (reconcile_body env) decrementProcessing)
         else reconcile_body env)"
  have "settles rest"
    unfolding rest_def using assms(4) settles_body [OF assms(3)] by (auto intro!: settles_bind settles_requeue settles_defer)
  moreover have "Reconcile env cfg k s = rest (s\<lparr>calls := calls s @ [CGet MattermostKind k], r_mm := mm, r_orig := mm\<rparr>)"
    using assms(2)
    by (simp add: Reconcile_def rest_def bindM_def tryM_def ret_def mod_state_def client_Get_def call_api_def of_sum_def MattermostK_def)
  ultimately show ?thesis using assms(1) unfolding settles_def by metis
qed

lemma reconcile_requeues_until_stable_witness:
  "\<exists>res s'. Reconcile demo_cluster \<lparr>MaxReconciling = 0, RequeueOnLimitDelay = 20\<rparr> (''mm'', ''apps'') (demo_state demo_mm) = (Ok res, s')
     \<and> (0 < RequeueAfter res \<or> st_State (mm_Status (r_mm s')) = Stable)"
proof -
  let ?cfg = "\<lparr>MaxReconciling = 0, RequeueOnLimitDelay = 20\<rparr>"
  have get: "api_get (e_Mattermost demo_cluster) (calls (demo_state demo_mm)) (''mm'', ''apps'') = Inr demo_mm"
    by (simp add: demo_cluster_def)
  have kept: "status_kept demo_cluster" by (simp add: status_kept_def demo_cluster_def empty_api_def)
  obtain res s' where "Reconcile demo_cluster ?cfg (''mm'', ''apps'') (demo_state demo_mm) = (Ok res, s')"
    by (simp add: Reconcile_def startNonReconcilingMMProcessing_def io_defs client_Get_def client_List_def of_sum_def
        MattermostK_def admit_def Let_def demo_cluster_def demo_env_def empty_api_def demo_state_def demo_mm_def zero_status_def
        Reconciling_def Ready_def)
  with reconcile_requeues_until_stable [OF this get kept] show ?thesis by simp
qed

text \<open>
  C20. The counter of the rate limiter is balanced: whatever happens in a run, errors and panics included,
  the place it took is given back.
\<close>

theorem reconcile_counter_balanced:
  assumes "Reconcile env cfg k s = (r, s')"
  shows "r_processing s' = r_processing s"
  using kinds_Reconcile [of "r_processing s" env cfg k] assms by (elim runsD) (auto simp: counted_def)

lemma reconcile_counter_balanced_witness:
  "r_processing (snd (Reconcile demo_cluster \<lparr>MaxReconciling = 5, RequeueOnLimitDelay = 20\<rparr> (''mm'', ''apps'') (demo_state demo_mm))) = r_processing (demo_state demo_mm)"
  by (rule reconcile_counter_balanced [OF prod.collapse [symmetric]])

text \<open>
  C27. Writing and reading the credentials of the database: when there is no secret yet, one is created
  from which both versions of the operator read back exactly the generated passwords, the user and the
  database; its configuration refers only to keys it has, and a later run that finds it returns it
  without a write.
\<close>

theorem mysql_secret_roundtrip:
  assumes "GetOrCreateMySQLSecrets env owner name s = (Ok secret, s')" and "secrets_stored env" and "name \<noteq> []"
    and "api_get (e_Secret env) (calls s) (name, om_Namespace owner) = Inl e"
    and "\<And>h i. e_New16ID env h i \<noteq> []"
  shows "\<exists>h. NewMySQLDBConfig secret = Ok \<lparr>my_secretName = name, my_rootPassword = e_New16ID env h 0, my_userName = ''mmuser'',
       my_userPassword = e_New16ID env h 1, my_databaseName = ''mattermost''\<rparr>
    \<and> GenerateDatabaseInfoFromSecret secret = \<lparr>in_SecretName = name, in_DatabaseName = ''mattermost'', in_ExternalDBType = [],
       in_External = False, in_ReaderEndpoints = True, in_DatabaseCheckURL = True,
       in_rootPassword = e_New16ID env h 0, in_userName = ''mmuser'', in_userPassword = e_New16ID env h 1\<rparr>
    \<and> Info_IsValid (GenerateDatabaseInfoFromSecret secret) = Ok ()
    \<and> (\<forall>m mm. NewMySQLDBConfig secret = Ok m \<longrightarrow> refs_in_secret name (sec_Data secret) (dbc_EnvVars (MySQL_config m) mm))
    \<and> (\<forall>env' s2. api_get (e_Secret env') (calls s2) (name, om_Namespace owner) = Inr secret \<longrightarrow>
         GetOrCreateMySQLSecrets env' owner name s2 = (Ok secret, s2\<lparr>calls := calls s2 @ [CGet SecretKind (name, om_Namespace owner)]\<rparr>))"
proof -
  let ?h = "calls s @ [CGet SecretKind (name, om_Namespace owner)]"
  let ?x = "new_mysql_secret name (om_Namespace owner) (e_New16ID env ?h 0) (e_New16ID env ?h 1)"
  have "Create env SecretK owner ?x (s\<lparr>calls := ?h\<rparr>) = (Ok secret, s')"
    using assms(1,4)
    by (auto simp: GetOrCreateMySQLSecrets_def createMySQLSecret_def bindM_Ok tryM_run client_Get_def call_api_run SecretK_def
        get_state_def Let_def split: if_splits)
  from Create_secret [OF this assms(2)] have dat: "sec_Data secret = sec_Data ?x" and name: "om_Name (sec_Meta secret) = name"
    by (simp_all add: new_mysql_secret_def)
  have id: "data_get (sec_Data secret) ''ROOT_PASSWORD'' = e_New16ID env ?h 0" "data_get (sec_Data secret) ''USER'' = ''mmuser''"
    "data_get (sec_Data secret) ''PASSWORD'' = e_New16ID env ?h 1" "data_get (sec_Data secret) ''DATABASE'' = ''mattermost''"
    "sec_Data secret ''DB_CONNECTION_STRING'' = None"
    by (simp_all add: dat new_mysql_secret_def data_get_def)
  have cfg: "NewMySQLDBConfig secret = Ok \<lparr>my_secretName = name, my_rootPassword = e_New16ID env ?h 0, my_userName = ''mmuser'',
       my_userPassword = e_New16ID env ?h 1, my_databaseName = ''mattermost''\<rparr>"
    using assms(5) by (simp add: NewMySQLDBConfig_def id name Let_def)
  have info: "GenerateDatabaseInfoFromSecret secret = \<lparr>in_SecretName = name, in_DatabaseName = ''mattermost'', in_ExternalDBType = [],
       in_External = False, in_ReaderEndpoints = True, in_DatabaseCheckURL = True,
       in_rootPassword = e_New16ID env ?h 0, in_userName = ''mmuser'', in_userPassword = e_New16ID env ?h 1\<rparr>"
    by (simp add: GenerateDatabaseInfoFromSecret_def id name Let_def)
  have refs: "refs_in_secret name (sec_Data secret) (dbc_EnvVars (MySQL_config m) mm)" if "NewMySQLDBConfig secret = Ok m" for m mm
    using that by (simp add: cfg) (auto simp: dat new_mysql_secret_def refs_in_secret_def MySQL_config_def MySQL_EnvVars_def
        env_from_def env_value_def EnvSourceFromSecret_def Let_def)
  have again: "GetOrCreateMySQLSecrets env' owner name s2 = (Ok secret, s2\<lparr>calls := calls s2 @ [CGet SecretKind (name, om_Namespace owner)]\<rparr>)"
    if "api_get (e_Secret env') (calls s2) (name, om_Namespace owner) = Inr secret" for env' and s2
    using that by (simp add: GetOrCreateMySQLSecrets_def bindM_def tryM_def client_Get_def call_api_def of_sum_def SecretK_def ret_def)
  have "Info_IsValid (GenerateDatabaseInfoFromSecret secret) = Ok ()"
    using assms(3,5) by (simp add: info Info_IsValid_def)
  with cfg info refs again show ?thesis by blast
qed

lemma mysql_secret_roundtrip_witness:
  "\<exists>secret s' h. GetOrCreateMySQLSecrets demo_env empty_meta ''mm-mysql'' \<lparr>calls = []\<rparr> = (Ok secret, s')
     \<and> NewMySQLDBConfig secret = Ok \<lparr>my_secretName = ''mm-mysql'', my_rootPassword = e_New16ID demo_env h 0, my_userName = ''mmuser'',
       my_userPassword = e_New16ID demo_env h 1, my_databaseName = ''mattermost''\<rparr>"
proof -
  obtain secret s' where run: "GetOrCreateMySQLSecrets demo_env empty_meta ''mm-mysql'' \<lparr>calls = []\<rparr> = (Ok secret, s')"
    by (simp add: GetOrCreateMySQLSecrets_def createMySQLSecret_def Create_def SetLastApplied_def SetControllerReference_def
        io_defs client_Get_def client_Create_def of_sum_def SecretK_def demo_env_def empty_api_def Let_def)
  have env: "secrets_stored demo_env" "\<And>h i. e_New16ID demo_env h i \<noteq> []"
    "api_get (e_Secret demo_env) [] (''mm-mysql'', om_Namespace empty_meta) = Inl (ApiError NotFound)"
    by (simp_all add: secrets_stored_def demo_env_def empty_api_def)
  from mysql_secret_roundtrip [OF run env(1) _ _ env(2)] env(3) run show ?thesis by fastforce
qed

end
