(* ===== verification/TotalCorrectness.thy ===== *)
theory TotalCorrectness
  imports ControllerProgress
begin

text \<open>
  Programs that succeed: a total-correctness calculus for the programs of the controllers, what it means
  that the API server holds an object and accepts its update, and what a run of the controller can change
  of the resource it works on.
\<close>

section \<open>Programs that succeed\<close>

text \<open>Total correctness: from every state with the invariant the program ends without an error or a panic.\<close>

definition achieves :: "('s \<Rightarrow> bool) \<Rightarrow> ('s, 'a) io \<Rightarrow> ('a \<Rightarrow> bool) \<Rightarrow> bool" where
  "achieves I m Q = (\<forall>s. I s \<longrightarrow> (\<exists>x s'. m s = (Ok x, s') \<and> I s' \<and> Q x))"

lemma achievesD: "achieves I m Q \<Longrightarrow> I s \<Longrightarrow> \<exists>x s'. m s = (Ok x, s') \<and> I s' \<and> Q x"
  by (simp add: achieves_def)

lemma achieves_weaken: "achieves I m P \<Longrightarrow> (\<And>x. P x \<Longrightarrow> Q x) \<Longrightarrow> achieves I m Q"
  unfolding achieves_def by blast

lemma achieves_ret: "Q x \<Longrightarrow> achieves I (ret x) Q"
  by (simp add: achieves_def ret_def)

lemma achieves_lift: "r = Ok x \<Longrightarrow> Q x \<Longrightarrow> achieves I (lift r) Q"
  by (simp add: achieves_def lift_def)

lemma achieves_bind: "achieves I m P \<Longrightarrow> (\<And>x. P x \<Longrightarrow> achieves I (f x) Q) \<Longrightarrow> achieves I (bindM m f) Q"
  unfolding achieves_def bindM_def by (metis (no_types, lifting) case_prod_conv outcome.simps(10))

lemma achieves_then:
  "achieves I m (\<lambda>_. True) \<Longrightarrow> (\<And>x. achieves I (f x) Q) \<Longrightarrow> achieves I (bindM m f) Q"
  by (rule achieves_bind)

lemma bindM_known [simp]: "bindM (lift (Ok x)) f = f x" "bindM (wrapM msg (lift (Ok x))) f = f x" "bindM (ret x) f = f x"
  by (simp_all add: io_defs)

lemma achieves_try: "achieves I m (\<lambda>x. Q (Inr x)) \<Longrightarrow> achieves I (tryM m) Q"
  unfolding achieves_def tryM_def by (metis (no_types, lifting) case_prod_conv outcome.simps(10))

lemma achieves_wrap: "achieves I m Q \<Longrightarrow> achieves I (wrapM msg m) Q"
  unfolding achieves_def by simp

lemma achieves_on_error: "achieves I m Q \<Longrightarrow> achieves I (on_error env ref m) Q"
  unfolding achieves_def on_error_Ok .

lemma achieves_call:
  assumes "call_free I" and "\<And>h. \<exists>x. f h = Inr x \<and> Q x"
  shows "achieves I (call_api c f) Q"
  unfolding achieves_def
proof (intro allI impI)
  fix s assume "I s"
  moreover obtain x where "f (calls s) = Inr x" "Q x" using assms(2) by blast
  ultimately show "\<exists>x s'. call_api c f s = (Ok x, s') \<and> I s' \<and> Q x"
    using assms(1) by (simp add: call_api_def of_sum_def call_free_def)
qed

lemma achieves_client:
  "call_free I \<Longrightarrow> (\<And>h. \<exists>x. api_get (k_api K env) h key = Inr x \<and> Q x) \<Longrightarrow> achieves I (client_Get env K key) Q"
  "call_free I \<Longrightarrow> (\<And>h. \<exists>x. api_delete (k_api K env) h y = Inr x \<and> R x) \<Longrightarrow> achieves I (client_Delete env K y) R"
  unfolding client_defs by (rule achieves_call; simp)+

section \<open>What the server holds\<close>

definition holds :: "env \<Rightarrow> 'o kind_ops \<Rightarrow> key \<Rightarrow> 'o \<Rightarrow> bool" where
  "holds env K key x = (\<forall>h. api_get (k_api K env) h key = Inr x)"

text \<open>What is wanted can be compared with what is there, and where it differs the server accepts the update.\<close>

definition accepts :: "env \<Rightarrow> 'o kind_ops \<Rightarrow> key \<Rightarrow> 'o \<Rightarrow> bool" where
  "accepts env K key x = (\<forall>y. k_key K y = key \<longrightarrow>
     (case api_Calculate (k_api K env) x y of
        Inl _ \<Rightarrow> False
      | Inr same \<Rightarrow> same \<or> (\<exists>a. api_LastApplied (k_api K env) y = Inr a)
          \<and> (\<forall>h y'. k_key K y' = key \<longrightarrow> (\<exists>z. api_update (k_api K env) h y' = Inr z))))"

definition kept :: "env \<Rightarrow> 'o kind_ops \<Rightarrow> key \<Rightarrow> bool" where
  "kept env K key = (\<exists>x. holds env K key x \<and> accepts env K key x)"

text \<open>What is not wanted is not there, or can be deleted.\<close>

definition removable :: "env \<Rightarrow> 'o kind_ops \<Rightarrow> key \<Rightarrow> bool" where
  "removable env K key = (\<forall>h. case api_get (k_api K env) h key of
     Inl e \<Rightarrow> IsNotFound e | Inr x \<Rightarrow> \<forall>h'. api_delete (k_api K env) h' x = Inr ())"

lemma achieves_Get: "call_free I \<Longrightarrow> holds env K key x \<Longrightarrow> Q x \<Longrightarrow> achieves I (client_Get env K key) Q"
  by (rule achieves_client) (simp_all add: holds_def)

lemma achieves_known: "achieves I m (\<lambda>y. y = x) \<Longrightarrow> achieves I (f x) Q \<Longrightarrow> achieves I (bindM m f) Q"
  by (rule achieves_bind [where P = "\<lambda>y. y = x"]) simp_all

text \<open>Reading what is there, in the three ways the programs do.\<close>

lemma achieves_get_then:
  assumes "call_free I" and "holds env K key x"
  shows "achieves I (f x) Q \<Longrightarrow> achieves I (bindM (client_Get env K key) f) Q"
    and "achieves I (f x) Q \<Longrightarrow> achieves I (bindM (wrapM msg (client_Get env K key)) f) Q"
    and "achieves I (g (Inr x)) Q \<Longrightarrow> achieves I (bindM (tryM (client_Get env K key)) g) Q"
  using achieves_Get [OF assms, of "\<lambda>y. y = x"] achieves_try [of I _ "\<lambda>r. r = Inr x"]
  by (auto intro: achieves_known achieves_wrap)

lemma achieves_CreateIfNotExists:
  assumes "call_free I" and "holds env K (k_key K x) y" and "Q x"
  shows "achieves I (CreateIfNotExists env K err owner x) Q"
  unfolding CreateIfNotExists_def
  by (rule achieves_bind [where P = "\<lambda>r. r = Inr y"])
    (auto intro!: achieves_try achieves_Get achieves_ret simp: assms)

context object_kind
begin

lemma key_set_meta: "k_key K (set_version K v x) = k_key K x" "k_key K (set_annotations K a x) = k_key K x"
  by (simp_all add: k_key_def set_version_def set_annotations_def)

lemma achieves_Update:
  assumes "call_free I" and "accepts env K key current" and "k_key K x = key"
  shows "achieves I (Update env K current x) (\<lambda>_. True)"
proof -
  have "case api_Calculate (k_api K env) current x of
      Inl _ \<Rightarrow> False
    | Inr same \<Rightarrow> same \<or> (\<exists>a. api_LastApplied (k_api K env) x = Inr a)
        \<and> (\<forall>h y. k_key K y = key \<longrightarrow> (\<exists>z. api_update (k_api K env) h y = Inr z))"
    using assms(2,3) unfolding accepts_def by blast
  then obtain same where same: "api_Calculate (k_api K env) current x = Inr same"
    and diff: "same \<or> (\<exists>a. api_LastApplied (k_api K env) x = Inr a)
      \<and> (\<forall>h y. k_key K y = key \<longrightarrow> (\<exists>z. api_update (k_api K env) h y = Inr z))"
    by (cases "api_Calculate (k_api K env) current x") auto
  show ?thesis
  proof (cases same)
    case True
    with same show ?thesis by (simp add: achieves_def Update_def io_defs of_sum_def)
  next
    case False
    with diff obtain a where "api_LastApplied (k_api K env) x = Inr a"
      and upd: "\<And>h y. k_key K y = key \<Longrightarrow> \<exists>z. api_update (k_api K env) h y = Inr z" by blast
    then have "achieves I (SetLastApplied env K x) (\<lambda>y. k_key K y = key)"
      using assms(3) by (simp add: achieves_def SetLastApplied_def io_defs of_sum_def key_set_meta)
    moreover have "achieves I (client_Update env K (set_version K v y)) (\<lambda>_. True)" if "k_key K y = key" for v y
      unfolding client_Update_def using upd that by (intro achieves_call assms(1)) (simp add: key_set_meta)
    ultimately have "achieves I (bindM (SetLastApplied env K x) (\<lambda>y. client_Update env K (set_version K v y))) (\<lambda>_. True)" for v
      by (rule achieves_bind)
    with False same show ?thesis by (simp add: achieves_def Update_def io_defs of_sum_def)
  qed
qed

text \<open>The common pattern: created if missing, read, brought up to date.\<close>

lemma achieves_maintain:
  assumes "call_free I" and "kept env K (k_key K x)"
  shows "achieves I (bindM (CreateIfNotExists env K err owner x) (\<lambda>desired.
     bindM (client_Get env K (k_key K desired)) (\<lambda>current. bindM (Update env K current desired) (\<lambda>_. ret ())))) (\<lambda>_. True)"
proof -
  from assms(2) obtain y where y: "holds env K (k_key K x) y" and upd: "accepts env K (k_key K x) y" by (auto simp: kept_def)
  show ?thesis
    by (rule achieves_bind [OF achieves_CreateIfNotExists [OF assms(1) y, where Q = "\<lambda>d. d = x"]])
      (auto intro!: achieves_bind [OF achieves_Get [OF assms(1) y, where Q = "\<lambda>c. c = y"]]
        achieves_bind [OF achieves_Update [OF assms(1) upd]] achieves_ret)
qed

end

lemma achieves_DeleteIfExists:
  assumes "call_free I" and "removable env K key"
  shows "achieves I (DeleteIfExists env K m1 m2 key) (\<lambda>_. True)"
  unfolding achieves_def
proof (intro allI impI)
  fix s assume s: "I s"
  let ?s1 = "s\<lparr>calls := calls s @ [CGet (k_kind K) key]\<rparr>"
  have I1: "I (s\<lparr>calls := cs\<rparr>)" for cs using s assms(1) by (simp add: call_free_def)
  have r: "case api_get (k_api K env) (calls s) key of
     Inl e \<Rightarrow> IsNotFound e | Inr x \<Rightarrow> \<forall>h'. api_delete (k_api K env) h' x = Inr ()"
    using assms(2) unfolding removable_def by blast
  show "\<exists>x s'. DeleteIfExists env K m1 m2 key s = (Ok x, s') \<and> I s' \<and> True"
  proof (cases "api_get (k_api K env) (calls s) key")
    case (Inl e)
    with r have "IsNotFound e" by simp
    with Inl I1 show ?thesis
      by (simp add: DeleteIfExists_def client_Get_def io_defs of_sum_def)
  next
    case (Inr x)
    with r have "api_delete (k_api K env) h x = Inr ()" for h by simp
    with Inr I1 show ?thesis
      by (simp add: DeleteIfExists_def client_Get_def client_Delete_def io_defs of_sum_def)
  qed
qed

section \<open>The resource during a run\<close>

text \<open>
  What a run may change of the resource it works on: versions and other metadata, the status, and the
  maps that the label helpers write into.
\<close>

definition alike :: "Mattermost \<Rightarrow> Mattermost \<Rightarrow> bool" where
  "alike mm mm' = (mm_Name mm' = mm_Name mm \<and> mm_Namespace mm' = mm_Namespace mm \<and> extra_labels mm' = extra_labels mm
     \<and> (s_ResourceLabels (mm_Spec mm') = None \<longleftrightarrow> s_ResourceLabels (mm_Spec mm) = None)
     \<and> s_Database (mm_Spec mm') = s_Database (mm_Spec mm)
     \<and> s_FileStore (mm_Spec mm') = s_FileStore (mm_Spec mm)
     \<and> s_LicenseSecret (mm_Spec mm') = s_LicenseSecret (mm_Spec mm)
     \<and> s_ResourcePatch (mm_Spec mm') = s_ResourcePatch (mm_Spec mm)
     \<and> s_UseServiceLoadBalancer (mm_Spec mm') = s_UseServiceLoadBalancer (mm_Spec mm)
     \<and> s_JobServer (mm_Spec mm') = s_JobServer (mm_Spec mm)
     \<and> s_Replicas (mm_Spec mm') = s_Replicas (mm_Spec mm)
     \<and> s_AWSLoadBalancerController (mm_Spec mm') = s_AWSLoadBalancerController (mm_Spec mm)
     \<and> s_Ingress (mm_Spec mm') = s_Ingress (mm_Spec mm)
     \<and> s_IngressName (mm_Spec mm') = s_IngressName (mm_Spec mm)
     \<and> s_IngressAnnotations (mm_Spec mm') = s_IngressAnnotations (mm_Spec mm)
     \<and> s_Image (mm_Spec mm') = s_Image (mm_Spec mm)
     \<and> s_Version (mm_Spec mm') = s_Version (mm_Spec mm)
     \<and> s_ImagePullPolicy (mm_Spec mm') = s_ImagePullPolicy (mm_Spec mm)
     \<and> s_Size (mm_Spec mm') = s_Size (mm_Spec mm)
     \<and> s_Scheduling (mm_Spec mm') = s_Scheduling (mm_Spec mm)
     \<and> s_Volumes (mm_Spec mm') = s_Volumes (mm_Spec mm))"

lemma alike_sel:
  assumes "alike mm mm'"
  shows "mm_Name mm' = mm_Name mm" "mm_Namespace mm' = mm_Namespace mm" "extra_labels mm' = extra_labels mm"
    "s_ResourceLabels (mm_Spec mm') = None \<longleftrightarrow> s_ResourceLabels (mm_Spec mm) = None"
    "s_Database (mm_Spec mm') = s_Database (mm_Spec mm)" "s_FileStore (mm_Spec mm') = s_FileStore (mm_Spec mm)"
    "s_LicenseSecret (mm_Spec mm') = s_LicenseSecret (mm_Spec mm)" "s_ResourcePatch (mm_Spec mm') = s_ResourcePatch (mm_Spec mm)"
    "s_UseServiceLoadBalancer (mm_Spec mm') = s_UseServiceLoadBalancer (mm_Spec mm)" "s_JobServer (mm_Spec mm') = s_JobServer (mm_Spec mm)"
    "s_Replicas (mm_Spec mm') = s_Replicas (mm_Spec mm)" "s_AWSLoadBalancerController (mm_Spec mm') = s_AWSLoadBalancerController (mm_Spec mm)"
    "s_Ingress (mm_Spec mm') = s_Ingress (mm_Spec mm)" "s_IngressName (mm_Spec mm') = s_IngressName (mm_Spec mm)"
    "s_IngressAnnotations (mm_Spec mm') = s_IngressAnnotations (mm_Spec mm)" "s_Image (mm_Spec mm') = s_Image (mm_Spec mm)"
    "s_Version (mm_Spec mm') = s_Version (mm_Spec mm)" "s_ImagePullPolicy (mm_Spec mm') = s_ImagePullPolicy (mm_Spec mm)"
    "s_Size (mm_Spec mm') = s_Size (mm_Spec mm)" "s_Scheduling (mm_Spec mm') = s_Scheduling (mm_Spec mm)"
    "s_Volumes (mm_Spec mm') = s_Volumes (mm_Spec mm)"
  using assms by (simp_all only: alike_def)

lemma alike_fun:
  assumes "alike mm mm'"
  shows "AWSLoadBalancerEnabled mm' = AWSLoadBalancerEnabled mm" "IngressEnabled mm' = IngressEnabled mm"
    "GetImageName mm' = GetImageName mm" "deployment_body_size mm' = deployment_body_size mm"
    "DedicatedJobServerName mm' = DedicatedJobServerName mm"
    "NewExternalDBConfig url mm' secret = NewExternalDBConfig url mm secret"
    "NewExternalFileStoreInfo mm' sec = NewExternalFileStoreInfo mm sec"
    "NewExternalVolumeFileStoreInfo mm' = NewExternalVolumeFileStoreInfo mm" "sized mm' = sized mm"
    "GetAWSLoadBalancerIngressAnnotations mm' = GetAWSLoadBalancerIngressAnnotations mm"
proof -
  have ann: "GetIngresAnnotations mm' = GetIngresAnnotations mm"
    using assms by (simp add: alike_def GetIngresAnnotations_def cong: option.case_cong)
  then show "deployment_body_size mm' = deployment_body_size mm"
    using assms by (simp add: alike_def deployment_body_size_def Let_def)
qed (use assms in \<open>simp_all add: alike_def AWSLoadBalancerEnabled_def IngressEnabled_def GetImageName_def DedicatedJobServerName_def
      NewExternalDBConfig_def NewExternalFileStoreInfo_def NewExternalVolumeFileStoreInfo_def sized_def
      GetAWSLoadBalancerIngressAnnotations_def cong: option.case_cong\<close>)

lemma alike_refl [simp]: "alike mm mm"
  by (simp add: alike_def)

lemma alike_trans: "alike mm mm' \<Longrightarrow> alike mm' mm'' \<Longrightarrow> alike mm mm''"
  by (simp add: alike_def)

lemma alike_same_spec:
  "mm_Spec mm' = mm_Spec mm \<Longrightarrow> mm_Name mm' = mm_Name mm \<Longrightarrow> mm_Namespace mm' = mm_Namespace mm \<Longrightarrow> alike mm mm'"
  by (simp add: alike_def extra_labels_def)

lemma alike_labels: "write_labels mm f = (g, mm') \<Longrightarrow> alike mm mm'"
  by (auto simp: write_labels_def alike_def extra_labels_def split: option.splits)

lemma alike_annotations: "deployment_annotations mm = (g, mm') \<Longrightarrow> alike mm mm'"
  by (auto simp: deployment_annotations_def alike_def extra_labels_def Let_def split: option.splits)


lemma alike_MattermostLabels:
  "alike m (snd (MattermostLabels m n))" "alike m (snd (MattermostPodLabels m n))" "alike m (snd (MattermostJobServerPodLabels m n))"
  unfolding label_defs by (rule alike_labels [OF prod.collapse [symmetric]])+

lemma alike_generated:
  "alike m (snd (GenerateServiceV1Beta m))" "alike m (snd (GenerateIngressV1Beta m))" "alike m (snd (GenerateALBIngressClassV1Beta m))"
  using alike_MattermostLabels(1) [of m "mm_Name m"]
  by (auto simp: GenerateServiceV1Beta_def newServiceV1Beta_def GenerateIngressV1Beta_def GenerateALBIngressClassV1Beta_def
      Let_def split: prod.splits)

lemma alike_deployment:
  assumes "GenerateDeploymentV1Beta m db fs name h sa img = Ok (d, m')"
  shows "alike m m'"
proof -
  from assms obtain g1 m1 g2 m2 g3 where "deployment_annotations m = (g1, m1)" "MattermostLabels m1 name = (g2, m2)"
    "MattermostPodLabels m2 name = (g3, m')" by (elim GenerateDeployment_Ok)
  then show ?thesis
    using alike_annotations alike_MattermostLabels alike_trans by (metis snd_conv)
qed

lemma alike_job_server:
  assumes "GenerateJobServerDeploymentV1Beta m db fs name h sa img = Ok (d, m')"
  shows "alike m m'"
proof -
  from assms obtain d0 m1 g m2 g' where
    "GenerateDeploymentV1Beta m db fs (mm_Name m) (GetIngressHost m) (mm_Name m) (GetImageName m) = Ok (d0, m1)"
    "MattermostJobServerPodLabels m1 name = (g, m2)" "MattermostJobServerPodLabels m2 name = (g', m')"
    by (elim GenerateJobServer_Ok)
  then show ?thesis
    using alike_deployment alike_MattermostLabels alike_trans by (metis snd_conv)
qed

section \<open>Programs on the resource\<close>

definition working_on :: "Mattermost \<Rightarrow> rec_state \<Rightarrow> bool" where
  "working_on mm s = alike mm (r_mm s)"

lemma working_call_free: "call_free (working_on mm)"
  by (simp add: call_free_def working_on_def)

lemma achieves_with_mm:
  "(\<And>m. alike mm m \<Longrightarrow> achieves (working_on mm) (f m) Q) \<Longrightarrow> achieves (working_on mm) (bindM get_mm f) Q"
  by (simp add: achieves_def working_on_def get_mm_def io_defs)

lemma achieves_with_state:
  "(\<And>s. I s \<Longrightarrow> achieves I (f s) Q) \<Longrightarrow> achieves I (bindM get_state f) Q"
  by (simp add: achieves_def io_defs)

lemma achieves_mod: "(\<And>s. I s \<Longrightarrow> I (f s)) \<Longrightarrow> achieves I (mod_state f) (\<lambda>_. True)"
  by (simp add: achieves_def io_defs)

lemma achieves_gen:
  "(\<And>m. alike mm m \<Longrightarrow> alike m (snd (g m)) \<and> Q (fst (g m))) \<Longrightarrow> achieves (working_on mm) (gen g) Q"
  unfolding achieves_def working_on_def gen_def
  by (simp add: Let_def case_prod_beta) (blast intro: alike_trans)

lemma achieves_genO:
  "(\<And>m. alike mm m \<Longrightarrow> \<exists>x m'. g m = Ok (x, m') \<and> alike m m' \<and> Q x) \<Longrightarrow> achieves (working_on mm) (genO g) Q"
  unfolding achieves_def working_on_def genO_def by (fastforce dest: alike_trans)

lemma achieves_read_maps:
  "(\<And>h. Q (freeze h x)) \<Longrightarrow> achieves (working_on mm) (read_maps freeze x) Q"
  unfolding read_maps_def by (auto intro!: achieves_with_mm achieves_ret)

lemma achieves_write_patch_status: "achieves (working_on mm) (write_patch_status f) (\<lambda>_. True)"
  unfolding write_patch_status_def
  by (rule achieves_mod) (auto simp: working_on_def Let_def intro: alike_trans [OF _ alike_same_spec] split: option.splits)

end
