(* ===== verification/ComponentSuccess.thy ===== *)
theory ComponentSuccess
  imports TotalCorrectness
begin

text \<open>
  When each check of the controller succeeds: the database, the file store, the service, the access
  control, the ingress and the two deployments, each under the conditions on the cluster it reads.
\<close>

section \<open>The database and the file store\<close>

definition database_ready :: "env \<Rightarrow> Mattermost \<Rightarrow> bool" where
  "database_ready env mm = (let db = s_Database (mm_Spec mm); ns = mm_Namespace mm in
     if db_IsExternal db
     then \<exists>ext secret c. db_External db = Some ext \<and> holds env SecretK (edb_Secret ext, ns) secret
            \<and> NewExternalDBConfig (e_url_Parse env) mm secret = Ok c
     else \<exists>omd secret c. db_OperatorManaged db = Some omd \<and> omd_Type omd = ''mysql'' \<and> e_quantity env (omd_StorageSize omd)
            \<and> kept env MysqlK (HashWithPrefix ''db'' (mm_Name mm), ns)
            \<and> holds env SecretK (DefaultDatabaseSecretName (mm_Name mm), ns) secret \<and> NewMySQLDBConfig secret = Ok c)"

lemma achieves_checkMySQLCluster:
  assumes "sized mm" and "\<not> db_IsExternal (s_Database (mm_Spec mm))"
    and "\<And>omd. db_OperatorManaged (s_Database (mm_Spec mm)) = Some omd \<Longrightarrow> e_quantity env (omd_StorageSize omd)"
    and "kept env MysqlK (HashWithPrefix ''db'' (mm_Name mm), mm_Namespace mm)"
  shows "achieves (working_on mm) (checkMySQLCluster env) (\<lambda>_. True)"
  unfolding checkMySQLCluster_def CreateMySQLClusterIfNotExists_def
proof (rule achieves_with_mm)
  fix m assume m: "alike mm m"
  have "\<exists>c. ClusterV1Beta (e_quantity env) m = Ok c \<and> myc_Replicas c \<noteq> None
     \<and> om_Name (myc_Meta c) = HashWithPrefix ''db'' (mm_Name m) \<and> om_Namespace (myc_Meta c) = mm_Namespace m"
    using assms(1-3) by (intro ClusterV1Beta_no_panic) (simp_all add: alike_fun [OF m] alike_sel [OF m])
  then obtain c where c: "ClusterV1Beta (e_quantity env) m = Ok c"
    and key: "k_key MysqlK c = (HashWithPrefix ''db'' (mm_Name mm), mm_Namespace mm)"
    by (auto simp: k_key_def MysqlK_def alike_sel [OF m])
  show "achieves (working_on mm) (bindM (lift (ClusterV1Beta (e_quantity env) m)) (\<lambda>desired0.
      bindM (CreateIfNotExists env MysqlK (\<lambda>e. e) (mm_Meta m) desired0) (\<lambda>desired.
      bindM (client_Get env MysqlK (k_key MysqlK desired)) (\<lambda>current.
      bindM (Update env MysqlK current desired) (\<lambda>_. ret ()))))) (\<lambda>_. True)"
    unfolding c bindM_known by (rule Mysql_kind.achieves_maintain [OF working_call_free]) (simp add: assms(4) key)
qed

lemma achieves_managed_db:
  assumes "sized mm" and "\<not> db_IsExternal (s_Database (mm_Spec mm))" and "database_ready env mm"
  shows "achieves (working_on mm) (checkOperatorManagedDB env) (\<lambda>_. True)"
proof -
  from assms(2,3) obtain omd secret c where omd: "db_OperatorManaged (s_Database (mm_Spec mm)) = Some omd" "omd_Type omd = ''mysql''"
    and q: "e_quantity env (omd_StorageSize omd)" and kept: "kept env MysqlK (HashWithPrefix ''db'' (mm_Name mm), mm_Namespace mm)"
    and sec: "holds env SecretK (DefaultDatabaseSecretName (mm_Name mm), mm_Namespace mm) secret" and c: "NewMySQLDBConfig secret = Ok c"
    unfolding database_ready_def Let_def by (simp only: if_False) blast
  have mysql: "achieves (working_on mm) (checkMySQLCluster env) (\<lambda>_. True)"
    using achieves_checkMySQLCluster [OF assms(1,2) _ kept] q omd(1) by simp
  have get: "achieves (working_on mm) (GetOrCreateMySQLSecrets env (mm_Meta m) (DefaultDatabaseSecretName (mm_Name m))) (\<lambda>s. s = secret)"
    if m: "alike mm m" for m
    unfolding GetOrCreateMySQLSecrets_def alike_sel [OF m]
    by (rule achieves_get_then(3) [OF working_call_free sec]) (simp add: achieves_ret)
  have "achieves (working_on mm) (checkOperatorManagedMySQL env) (\<lambda>_. True)"
    unfolding checkOperatorManagedMySQL_def
    by (intro achieves_then [OF achieves_wrap [OF mysql]] achieves_with_mm achieves_known [OF achieves_wrap [OF get]])
      (simp_all add: c achieves_ret)
  then show ?thesis
    unfolding checkOperatorManagedDB_def
    by (intro achieves_with_mm) (simp add: alike_sel omd)
qed

lemma achieves_checkDatabase:
  assumes "sized mm" and "database_ready env mm"
  shows "achieves (working_on mm) (checkDatabase env) (\<lambda>_. True)"
proof -
  have "achieves (working_on mm) (readExternalDBSecret env) (\<lambda>_. True)" if ext: "db_IsExternal (s_Database (mm_Spec mm))"
    unfolding readExternalDBSecret_def
  proof (rule achieves_with_mm)
    fix m assume m: "alike mm m"
    from assms(2) ext obtain ext secret c where e: "db_External (s_Database (mm_Spec mm)) = Some ext"
      and sec: "holds env SecretK (edb_Secret ext, mm_Namespace mm) secret" and c: "NewExternalDBConfig (e_url_Parse env) mm secret = Ok c"
      unfolding database_ready_def Let_def by (simp only: if_True) blast
    show "achieves (working_on mm) (case db_External (s_Database (mm_Spec m)) of None \<Rightarrow> lift (Panic ''nil External'')
       | Some ext \<Rightarrow> bindM (wrapM ''failed to get external db Secret'' (client_Get env SecretK (edb_Secret ext, mm_Namespace m))) (\<lambda>secret.
           bindM (lift (NewExternalDBConfig (e_url_Parse env) m secret)) (\<lambda>c. ret (External_config c)))) (\<lambda>_. True)"
      unfolding alike_sel [OF m] alike_fun [OF m] e option.case
      by (rule achieves_get_then(2) [OF working_call_free sec]) (simp add: c achieves_ret)
  qed
  then show ?thesis
    using achieves_managed_db [OF assms(1) _ assms(2)]
    unfolding checkDatabase_def by (intro achieves_with_mm) (simp add: alike_sel)
qed

definition file_store_ready :: "env \<Rightarrow> Mattermost \<Rightarrow> bool" where
  "file_store_ready env mm = (let fs = s_FileStore (mm_Spec mm); nm = mm_Name mm; ns = mm_Namespace mm in
     if fs_IsExternal fs
     then \<exists>ext. fs_External fs = Some ext \<and>
       (if efs_UseServiceAccount ext
        then \<exists>sa c. holds env ServiceAccountK (nm, ns) sa
               \<and> deref (\<lambda>_. Map.empty) (om_Annotations (sa_Meta sa)) ''eks.amazonaws.com/role-arn'' \<noteq> None
               \<and> NewExternalFileStoreInfo mm None = Ok c
        else \<exists>secret c. holds env SecretK (efs_Secret ext, ns) secret \<and> NewExternalFileStoreInfo mm (Some secret) = Ok c)
     else if fs_IsExternalVolume fs
     then \<exists>ev pvc. fs_ExternalVolume fs = Some ev \<and> holds env PVCK (evs_VolumeClaimName ev, ns) pvc
            \<and> pvc_Status_Phase pvc \<in> {''Bound'', ''Pending''}
     else if fs_IsLocal fs
     then \<exists>l pvc. fs_Local fs = Some l
            \<and> e_quantity env (if lfs_StorageSize l \<noteq> [] then lfs_StorageSize l else DefaultFilestoreStorageSize)
            \<and> holds env PVCK (nm, ns) pvc \<and> accepts env PVCK (nm, ns) pvc
            \<and> (lfs_AccessModes l = [] \<or> accessModesEqual (pvc_AccessModes pvc) (lfs_AccessModes l))
     else (\<exists>omm. fs_OperatorManaged fs = Some omm \<and> e_quantity env (omm_StorageSize omm))
            \<and> kept env SecretK (DefaultMinioSecretName nm, ns) \<and> kept env MinioK (nm @ ''-minio'', ns)
            \<and> (\<exists>svc. holds env ServiceK (nm @ ''-minio-hl-svc'', ns) svc \<and> svc_Ports svc \<noteq> []))"

lemma achieves_external_file_store:
  assumes "fs_IsExternal (s_FileStore (mm_Spec mm))" and "file_store_ready env mm"
  shows "achieves (working_on mm) (checkExternalFileStore env) (\<lambda>_. True)"
  unfolding checkExternalFileStore_def
proof (rule achieves_with_mm, goal_cases)
  case (1 m)
  from assms obtain ext where e: "fs_External (s_FileStore (mm_Spec mm)) = Some ext" and ready: "if efs_UseServiceAccount ext
        then \<exists>sa c. holds env ServiceAccountK (mm_Name mm, mm_Namespace mm) sa
               \<and> deref (\<lambda>_. Map.empty) (om_Annotations (sa_Meta sa)) ''eks.amazonaws.com/role-arn'' \<noteq> None
               \<and> NewExternalFileStoreInfo mm None = Ok c
        else \<exists>secret c. holds env SecretK (efs_Secret ext, mm_Namespace mm) secret \<and> NewExternalFileStoreInfo mm (Some secret) = Ok c"
    unfolding file_store_ready_def Let_def by (simp only: if_True) blast
  show ?case
    unfolding alike_sel [OF 1] alike_fun [OF 1] e option.case
    by (cases "efs_UseServiceAccount ext") (use ready in \<open>auto intro!: achieves_get_then [OF working_call_free] achieves_lift\<close>)
qed

lemma achieves_external_volume:
  assumes "\<not> fs_IsExternal (s_FileStore (mm_Spec mm))" "fs_IsExternalVolume (s_FileStore (mm_Spec mm))" and "file_store_ready env mm"
  shows "achieves (working_on mm) (checkExternalVolumeFileStore env) (\<lambda>_. True)"
  unfolding checkExternalVolumeFileStore_def
proof (rule achieves_with_mm, goal_cases)
  case (1 m)
  from assms obtain ev pvc where e: "fs_ExternalVolume (s_FileStore (mm_Spec mm)) = Some ev"
    and pvc: "holds env PVCK (evs_VolumeClaimName ev, mm_Namespace mm) pvc" "pvc_Status_Phase pvc \<in> {''Bound'', ''Pending''}"
    unfolding file_store_ready_def Let_def by (simp only: if_True if_False) blast
  have "NewExternalVolumeFileStoreInfo mm = Ok (ExternalVolumeFileStore (evs_VolumeClaimName ev))"
    using assms(2) e by (simp add: NewExternalVolumeFileStoreInfo_def fs_IsExternalVolume_def)
  then show ?case
    unfolding alike_sel [OF 1] alike_fun [OF 1] e option.case
    using pvc by (auto intro!: achieves_get_then(1) [OF working_call_free] achieves_ret)
qed

lemma achieves_local_file_store:
  assumes "\<not> fs_IsExternal (s_FileStore (mm_Spec mm))" "\<not> fs_IsExternalVolume (s_FileStore (mm_Spec mm))"
    "fs_IsLocal (s_FileStore (mm_Spec mm))" and "file_store_ready env mm"
  shows "achieves (working_on mm) (checkLocalFileStore env) (\<lambda>_. True)"
  unfolding checkLocalFileStore_def
proof (rule achieves_with_mm, goal_cases)
  case (1 m)
  let ?k = "(mm_Name mm, mm_Namespace mm)"
  from assms obtain l pvc where e: "fs_Local (s_FileStore (mm_Spec mm)) = Some l"
    and q: "e_quantity env (if lfs_StorageSize l \<noteq> [] then lfs_StorageSize l else DefaultFilestoreStorageSize)"
    and pvc: "holds env PVCK ?k pvc" "accepts env PVCK ?k pvc"
    and modes: "lfs_AccessModes l = [] \<or> accessModesEqual (pvc_AccessModes pvc) (lfs_AccessModes l)"
    unfolding file_store_ready_def Let_def by (simp only: if_True if_False) blast
  let ?modes = "determineAccessModes l (pvc_AccessModes pvc) True"
  have labels: "achieves (working_on mm) (gen (\<lambda>m'. MattermostLabels m' n)) (\<lambda>_. True)" for n
    by (rule achieves_gen) (simp add: alike_MattermostLabels)
  have brought: "achieves (working_on mm) (write_local_pvc env m l ?modes (Inr pvc) x) (\<lambda>_. True)" if "k_key PVCK x = ?k" for x
    using modes unfolding write_local_pvc_def
    by (auto intro!: achieves_then [OF PVC_kind.achieves_Update [OF working_call_free pvc(2) that]] achieves_ret simp: determineAccessModes_def)
  have "achieves (working_on mm) (read_maps freeze_pvc (local_pvc m g ?modes st)) (\<lambda>x. k_key PVCK x = ?k)" for g st
    by (rule achieves_read_maps) (simp add: alike_sel [OF 1])
  then show ?case
    unfolding alike_sel [OF 1] e option.case Let_def
    using q by (auto intro!: achieves_get_then(3) [OF working_call_free pvc(1)] achieves_then [OF labels] achieves_bind [OF _ achieves_then [OF brought]]
        achieves_ret simp: MustParse_def)
qed

lemma achieves_minio_secret:
  assumes "kept env SecretK (DefaultMinioSecretName (mm_Name mm), mm_Namespace mm)"
  shows "achieves (working_on mm) (checkMattermostMinioSecret env) (\<lambda>_. True)"
  unfolding checkMattermostMinioSecret_def
proof (rule achieves_with_state)
  fix s assume "working_on mm s"
  then have m: "alike mm (r_mm s)" by (simp add: working_on_def)
  let ?d = "SecretV1Beta (e_New16ID env (calls s) 0) (e_New28ID env (calls s)) (r_mm s)"
  have key: "k_key SecretK (?d\<lparr>sec_Data := dat\<rparr>) = (DefaultMinioSecretName (mm_Name mm), mm_Namespace mm)"
    "k_key SecretK ?d = (DefaultMinioSecretName (mm_Name mm), mm_Namespace mm)" for dat
    by (simp_all add: k_key_def SecretK_def SecretV1Beta_def GenerateSecretV1Beta_def alike_sel [OF m])
  from assms obtain x where x: "holds env SecretK (k_key SecretK ?d) x" "accepts env SecretK (k_key SecretK ?d) x"
    unfolding kept_def key by blast
  have "achieves (working_on mm) (CreateOrUpdateMinioSecret env owner ?d) (\<lambda>_. True)" for owner
    unfolding CreateOrUpdateMinioSecret_def
    by (rule achieves_get_then(3) [OF working_call_free x(1)])
      (auto intro!: Secret_kind.achieves_Update [OF working_call_free x(2)] simp: key alike_sel [OF m])
  then show "achieves (working_on mm) (let desired = ?d in wrapM ''failed to create or update Minio Secret''
      (CreateOrUpdateMinioSecret env (mm_Meta (r_mm s)) desired)) (\<lambda>_. True)"
    unfolding Let_def by (rule achieves_wrap)
qed

lemma achieves_minio_instance:
  assumes "sized mm" and "\<not> isAnyExceptOperatorManaged (s_FileStore (mm_Spec mm))"
    and "\<And>omm. fs_OperatorManaged (s_FileStore (mm_Spec mm)) = Some omm \<Longrightarrow> e_quantity env (omm_StorageSize omm)"
    and "kept env MinioK (mm_Name mm @ ''-minio'', mm_Namespace mm)"
  shows "achieves (working_on mm) (checkMinioInstance env) (\<lambda>_. True)"
  unfolding checkMinioInstance_def CreateMinioInstanceIfNotExists_def
proof (rule achieves_with_mm, goal_cases)
  case (1 m)
  have "\<exists>mi. InstanceV1Beta (e_quantity env) m = Ok mi \<and> om_Name (mi_Meta mi) = mm_Name m @ ''-minio''
     \<and> om_Namespace (mi_Meta mi) = mm_Namespace m"
    using assms(1-3) by (intro InstanceV1Beta_no_panic) (simp_all add: alike_fun [OF 1] alike_sel [OF 1])
  then obtain mi where mi: "InstanceV1Beta (e_quantity env) m = Ok mi"
    and key: "k_key MinioK mi = (mm_Name mm @ ''-minio'', mm_Namespace mm)"
    by (auto simp: k_key_def MinioK_def alike_sel [OF 1])
  show ?case
    unfolding mi bindM_known by (rule Minio_kind.achieves_maintain [OF working_call_free]) (simp add: assms(4) key)
qed

lemma achieves_minio_service:
  assumes "holds env ServiceK (nm @ ''-minio-hl-svc'', ns) svc" and "svc_Ports svc \<noteq> []"
  shows "achieves (working_on mm) (GetMinioService env nm ns) (\<lambda>_. True)"
  unfolding GetMinioService_def
  by (rule achieves_get_then(1) [OF working_call_free assms(1)]) (use assms(2) in \<open>auto intro!: achieves_ret split: list.split\<close>)

lemma achieves_checkFileStore:
  assumes "sized mm" and "file_store_ready env mm"
  shows "achieves (working_on mm) (checkFileStore env) (\<lambda>_. True)"
proof -
  let ?fs = "s_FileStore (mm_Spec mm)"
  have minio: "achieves (working_on mm) (checkOperatorManagedMinio env) (\<lambda>_. True)" if managed: "\<not> isAnyExceptOperatorManaged ?fs"
  proof -
    from assms(2) managed obtain omm svc where "fs_OperatorManaged ?fs = Some omm" "e_quantity env (omm_StorageSize omm)"
      and secret: "kept env SecretK (DefaultMinioSecretName (mm_Name mm), mm_Namespace mm)"
      and inst: "kept env MinioK (mm_Name mm @ ''-minio'', mm_Namespace mm)"
      and svc: "holds env ServiceK (mm_Name mm @ ''-minio-hl-svc'', mm_Namespace mm) svc" "svc_Ports svc \<noteq> []"
      unfolding file_store_ready_def isAnyExceptOperatorManaged_def Let_def by auto
    then have "achieves (working_on mm) (checkMinioInstance env) (\<lambda>_. True)"
      by (intro achieves_minio_instance [OF assms(1) managed]) auto
    then show ?thesis
      unfolding checkOperatorManagedMinio_def
      by (intro achieves_then [OF achieves_wrap] achieves_minio_secret [OF secret] achieves_with_mm)
        (simp_all add: alike_sel achieves_minio_service [OF svc] achieves_ret)
  qed
  show ?thesis
    unfolding checkFileStore_def
  proof (rule achieves_with_mm, goal_cases)
    case (1 m)
    show ?case
      unfolding alike_sel [OF 1] Let_def
      using achieves_external_file_store [OF _ assms(2)] achieves_external_volume [OF _ _ assms(2)]
        achieves_local_file_store [OF _ _ _ assms(2)] minio
      by (simp add: isAnyExceptOperatorManaged_def)
  qed
qed

section \<open>The application's objects\<close>

definition service_type :: "Mattermost \<Rightarrow> string" where
  "service_type mm = (if AWSLoadBalancerEnabled mm then ''NodePort''
     else if s_UseServiceLoadBalancer (mm_Spec mm) then ''LoadBalancer'' else ''ClusterIP'')"

definition main_image :: "Deployment \<Rightarrow> string option" where
  "main_image d = map_option c_Image (GetMattermostAppContainer (ps_Containers (pt_Spec (d_Template d))))"

definition wants_job_server :: "Mattermost \<Rightarrow> bool" where
  "wants_job_server mm = (case s_JobServer (mm_Spec mm) of None \<Rightarrow> False | Some js \<Rightarrow> js_DedicatedJobServer js)"

text \<open>The operator creates an ingress class of its own when the user names none.\<close>

definition own_ingress_class :: "Mattermost \<Rightarrow> bool" where
  "own_ingress_class mm = (AWSLoadBalancerEnabled mm
     \<and> (case s_AWSLoadBalancerController (mm_Spec mm) of None \<Rightarrow> True | Some a \<Rightarrow> aws_IngressClassName a = []))"

definition uses_service_account :: "Mattermost \<Rightarrow> bool" where
  "uses_service_account mm = (case fs_External (s_FileStore (mm_Spec mm)) of None \<Rightarrow> False | Some ext \<Rightarrow> efs_UseServiceAccount ext)"

definition access_ready :: "env \<Rightarrow> Mattermost \<Rightarrow> bool" where
  "access_ready env mm = (let k = (mm_Name mm, mm_Namespace mm) in
     (\<exists>svc. holds env ServiceK k svc \<and> accepts env ServiceK k svc \<and> svc_Type svc \<in> {[], service_type mm})
     \<and> (uses_service_account mm \<or> kept env ServiceAccountK k) \<and> kept env RoleK k \<and> kept env RoleBindingK k
     \<and> (s_UseServiceLoadBalancer (mm_Spec mm)
        \<or> (if own_ingress_class mm then kept env IngressClassK k else removable env IngressClassK k)
          \<and> (if IngressEnabled mm \<or> AWSLoadBalancerEnabled mm then kept env IngressK k else removable env IngressK k)))"

definition deployments_ready :: "env \<Rightarrow> Mattermost \<Rightarrow> bool" where
  "deployments_ready env mm = (let k = (mm_Name mm, mm_Namespace mm); js = (mm_Name mm @ ''-jobserver'', mm_Namespace mm) in
     (\<exists>sz. deployment_body_size mm = Ok sz)
     \<and> (\<exists>d. holds env DeploymentK k d \<and> accepts env DeploymentK k d \<and> main_image d = Some (GetImageName mm))
     \<and> (if wants_job_server mm then kept env DeploymentK js else removable env DeploymentK js))"

definition licence_ready :: "env \<Rightarrow> Mattermost \<Rightarrow> bool" where
  "licence_ready env mm = (s_LicenseSecret (mm_Spec mm) = []
     \<or> (\<exists>secret. holds env SecretK (s_LicenseSecret (mm_Spec mm), mm_Namespace mm) secret \<and> ''license'' \<in> dom (sec_Data secret)))"

lemma alike_wants:
  assumes "alike mm m"
  shows "service_type m = service_type mm" "wants_job_server m = wants_job_server mm"
    "own_ingress_class m = own_ingress_class mm" "uses_service_account m = uses_service_account mm"
  by (simp_all add: service_type_def wants_job_server_def own_ingress_class_def uses_service_account_def
      alike_sel [OF assms] alike_fun [OF assms])

lemma GenerateService_type: "svc_Type (fst (GenerateServiceV1Beta mm)) = service_type mm"
  by (simp add: GenerateServiceV1Beta_def newServiceV1Beta_def service_type_def configureMattermostService_def
      configureMattermostServiceNodePort_def configureMattermostLoadBalancerService_def configureMattermostServicePorts_def
      Let_def split: prod.splits)

lemma achieves_checkLicence: "licence_ready env mm \<Longrightarrow> achieves (working_on mm) (checkLicence env) (\<lambda>_. True)"
  unfolding checkLicence_def assertSecretContains_def licence_ready_def
  by (rule achieves_with_mm)
    (auto intro!: achieves_ret achieves_get_then(2) [OF working_call_free] simp: alike_sel)

lemma achieves_patch_service:
  assumes "s_ResourcePatch (mm_Spec mm) = None" and "Q d"
  shows "achieves (working_on mm) (patch_service env d) Q"
  unfolding patch_service_def
  by (rule achieves_with_mm)
    (simp add: alike_sel assms ApplyToService_def achieves_then [OF achieves_write_patch_status achieves_ret])

lemma achieves_patch_deployment:
  assumes "s_ResourcePatch (mm_Spec mm) = None" and "Q d"
  shows "achieves (working_on mm) (patch_deployment env d) Q"
  unfolding patch_deployment_def
  by (rule achieves_with_mm)
    (simp add: alike_sel assms ApplyToDeployment_def achieves_then [OF achieves_write_patch_status achieves_ret])

lemma achieves_checkMattermostService:
  assumes "access_ready env mm" and "s_ResourcePatch (mm_Spec mm) = None"
  shows "achieves (working_on mm) (checkMattermostService env) (\<lambda>_. True)"
proof -
  let ?k = "(mm_Name mm, mm_Namespace mm)"
  let ?Q = "\<lambda>x. k_key ServiceK x = ?k \<and> svc_Type x = service_type mm"
  from assms(1) obtain svc where svc: "holds env ServiceK ?k svc" "accepts env ServiceK ?k svc" "svc_Type svc \<in> {[], service_type mm}"
    unfolding access_ready_def Let_def by blast
  have generate: "achieves (working_on mm) (gen GenerateServiceV1Beta) ?Q"
  proof (rule achieves_gen)
    fix m assume m: "alike mm m"
    show "alike m (snd (GenerateServiceV1Beta m)) \<and> ?Q (fst (GenerateServiceV1Beta m))"
      using GenerateService_key [OF prod.collapse [symmetric], of m]
      by (simp add: alike_generated GenerateService_type alike_wants [OF m] alike_sel [OF m])
  qed
  have freeze: "achieves (working_on mm) (read_maps freeze_service x) ?Q" if "?Q x" for x
    using that by (intro achieves_read_maps) (simp add: freeze_service_def [of _ x] k_key_def ServiceK_def)
  have update: "achieves (working_on mm) (Update env ServiceK svc (CopyServiceEmptyAutoAssignedFields x svc)) (\<lambda>_. True)" if "?Q x" for x
    using that by (intro Service_kind.achieves_Update [OF working_call_free svc(2)]) (simp add: CopyService_key)
  have finish: "achieves (working_on mm) (bindM (CreateServiceIfNotExists env owner x) (\<lambda>desired.
     bindM (client_Get env ServiceK (k_key ServiceK desired)) (\<lambda>current.
     if svc_Type current \<noteq> svc_Type desired \<and> svc_Type current \<noteq> []
     then bindM (wrapM ''failed to delete service'' (DeleteService env (k_key ServiceK current))) (\<lambda>_.
          bindM (Create env ServiceK owner desired) (\<lambda>_. ret ()))
     else bindM (Update env ServiceK current (CopyServiceEmptyAutoAssignedFields desired current)) (\<lambda>_. ret ())))) (\<lambda>_. True)"
    if x: "?Q x" for x owner
    unfolding CreateServiceIfNotExists_def
    by (rule achieves_known [OF achieves_CreateIfNotExists [OF working_call_free, of env ServiceK x svc]])
      (use x svc in \<open>auto intro!: achieves_get_then(1) [OF working_call_free svc(1)] achieves_then [OF update] achieves_ret\<close>)
  show ?thesis
    unfolding checkMattermostService_def
    by (rule achieves_bind [OF generate], rule achieves_bind [OF freeze], assumption,
        rule achieves_bind [OF achieves_patch_service [OF assms(2), where Q = ?Q]], assumption,
        rule achieves_with_mm, rule finish)
qed

lemma achieves_checkMattermostRBAC:
  assumes "access_ready env mm"
  shows "achieves (working_on mm) (checkMattermostRBAC env) (\<lambda>_. True)"
proof -
  let ?k = "(mm_Name mm, mm_Namespace mm)"
  have keys: "k_key ServiceAccountK (GenerateServiceAccountV1Beta m (mm_Name m)) = ?k"
    "k_key RoleK (GenerateRoleV1Beta m (mm_Name m)) = ?k"
    "k_key RoleBindingK (GenerateRoleBindingV1Beta m (mm_Name m) (mm_Name m)) = ?k" if "alike mm m" for m
    by (simp_all add: k_key_def kind_defs GenerateServiceAccountV1Beta_def GenerateRoleV1Beta_def
        GenerateRoleBindingV1Beta_def alike_sel [OF that])
  from assms have ready: "uses_service_account mm \<or> kept env ServiceAccountK ?k" "kept env RoleK ?k" "kept env RoleBindingK ?k"
    unfolding access_ready_def Let_def by blast+
  have "achieves (working_on mm) (checkMattermostSA env) (\<lambda>_. True)"
    unfolding checkMattermostSA_def CreateServiceAccountIfNotExists_def
  proof (rule achieves_with_mm, goal_cases)
    case (1 m)
    then show ?case
      using ready(1) unfolding alike_wants(4) [OF 1, unfolded uses_service_account_def]
      by (auto intro!: achieves_ret ServiceAccount_kind.achieves_maintain [OF working_call_free] simp: keys alike_sel uses_service_account_def)
  qed
  moreover have "achieves (working_on mm) (checkMattermostRole env) (\<lambda>_. True)"
    unfolding checkMattermostRole_def CreateRoleIfNotExists_def
    by (rule achieves_with_mm) (auto intro!: Role_kind.achieves_maintain [OF working_call_free] simp: keys ready alike_sel)
  moreover have "achieves (working_on mm) (checkMattermostRoleBinding env) (\<lambda>_. True)"
    unfolding checkMattermostRoleBinding_def CreateRoleBindingIfNotExists_def
    by (rule achieves_with_mm) (auto intro!: RoleBinding_kind.achieves_maintain [OF working_call_free] simp: keys ready alike_sel)
  ultimately show ?thesis
    unfolding checkMattermostRBAC_def by (intro achieves_then achieves_wrap)
qed

lemma achieves_checkMattermostIngressClass:
  assumes "if own_ingress_class mm then kept env IngressClassK (mm_Name mm, mm_Namespace mm)
    else removable env IngressClassK (mm_Name mm, mm_Namespace mm)"
  shows "achieves (working_on mm) (checkMattermostIngressClass env) (\<lambda>_. True)"
proof -
  let ?Q = "\<lambda>x. k_key IngressClassK x = (mm_Name mm, mm_Namespace mm)"
  have generate: "achieves (working_on mm) (gen GenerateALBIngressClassV1Beta) ?Q"
    by (rule achieves_gen) (use GenerateALBIngressClass_key [OF prod.collapse [symmetric]] in \<open>simp add: alike_generated alike_sel\<close>)
  have freeze: "achieves (working_on mm) (read_maps freeze_ingress_class x) ?Q" if "?Q x" for x
    using that by (intro achieves_read_maps) simp
  show ?thesis
    unfolding checkMattermostIngressClass_def CreateIngressClassIfNotExists_def DeleteIngressClass_def
  proof (rule achieves_bind [OF generate], rule achieves_with_mm, rule achieves_bind [OF freeze], assumption, goal_cases)
    case (1 x m d)
    have "\<not> AWSLoadBalancerEnabled mm \<or> (case s_AWSLoadBalancerController (mm_Spec mm) of None \<Rightarrow> False | Some a \<Rightarrow> aws_IngressClassName a \<noteq> [])
        \<longleftrightarrow> \<not> own_ingress_class mm"
      by (auto simp: own_ingress_class_def split: option.splits)
    then show ?case
      using assms 1(3) unfolding alike_sel [OF 1(2)] alike_fun [OF 1(2)]
      by (auto intro!: IngressClass_kind.achieves_maintain [OF working_call_free] achieves_wrap achieves_DeleteIfExists [OF working_call_free])
  qed
qed

lemma achieves_checkMattermostIngress:
  assumes "if IngressEnabled mm \<or> AWSLoadBalancerEnabled mm then kept env IngressK (mm_Name mm, mm_Namespace mm)
    else removable env IngressK (mm_Name mm, mm_Namespace mm)"
  shows "achieves (working_on mm) (checkMattermostIngress env) (\<lambda>_. True)"
proof -
  let ?Q = "\<lambda>x. k_key IngressK x = (mm_Name mm, mm_Namespace mm)"
  have nginx: "achieves (working_on mm) (gen GenerateIngressV1Beta) ?Q"
    by (rule achieves_gen) (use GenerateIngress_key [OF prod.collapse [symmetric]] in \<open>simp add: alike_generated alike_sel\<close>)
  have alb: "achieves (working_on mm) (genO GenerateALBIngressV1Beta) ?Q" if "AWSLoadBalancerEnabled mm"
  proof (rule achieves_genO)
    fix m assume m: "alike mm m"
    have "AWSLoadBalancerEnabled m" using that by (simp add: alike_fun [OF m])
    then obtain x m' where gen: "GenerateALBIngressV1Beta m = Ok (x, m')"
      by (cases "MattermostLabels m (mm_Name m)") (auto simp: GenerateALBIngressV1Beta_def AWSLoadBalancerEnabled_def
          GetAWSLoadBalancerIngressAnnotations_def Let_def split: option.splits)
    moreover from gen have "alike m m'"
      using alike_MattermostLabels(1) [of m "mm_Name m"]
      by (cases "MattermostLabels m (mm_Name m)") (auto simp: GenerateALBIngressV1Beta_def bindO_eq_Ok Let_def split: option.splits)
    ultimately show "\<exists>x m'. GenerateALBIngressV1Beta m = Ok (x, m') \<and> alike m m' \<and> ?Q x"
      using GenerateALBIngress_key [OF gen] by (simp add: alike_sel [OF m])
  qed
  have freeze: "achieves (working_on mm) (read_maps freeze_ingress x) ?Q" if "?Q x" for x
    using that by (intro achieves_read_maps) simp
  show ?thesis
    unfolding checkMattermostIngress_def CreateIngressIfNotExists_def DeleteIngress_def
  proof (rule achieves_bind [OF nginx], rule achieves_with_mm, rule achieves_bind [where P = ?Q], goal_cases)
    case (1 x m)
    then show ?case using alb by (auto intro: achieves_ret simp: alike_fun)
  next
    case (2 x m y)
    show ?case
    proof (rule achieves_bind [OF freeze [OF 2(3)]], goal_cases)
      case (1 d)
      then show ?case
        using assms unfolding alike_fun [OF 2(2)]
        by (auto intro!: Ingress_kind.achieves_maintain [OF working_call_free] achieves_wrap achieves_DeleteIfExists [OF working_call_free])
    qed
  qed
qed

lemma main_image_same:
  assumes "main_image a = Some img" and "main_image b = Some img"
  shows "isMainDeploymentContainerImageSame a b = Ok True"
  using assms by (auto simp: main_image_def isMainDeploymentContainerImageSame_def isMainContainerImageSame_def)

lemma achieves_generate_deployment:
  assumes "deployment_body_size mm = Ok sz"
  shows "achieves (working_on mm) (genO (\<lambda>m. GenerateDeploymentV1Beta m db fs (mm_Name m) (GetIngressHost m) (mm_Name m) (GetImageName m)))
     (\<lambda>d. k_key DeploymentK d = (mm_Name mm, mm_Namespace mm) \<and> main_image d = Some (GetImageName mm))"
proof (rule achieves_genO)
  fix m assume m: "alike mm m"
  have "\<exists>env. deployment_env m db fs (GetIngressHost m) = Ok env"
    using assms by (simp add: deployment_env_def deployment_general_env_def alike_fun [OF m])
  then obtain d m' where d: "GenerateDeploymentV1Beta m db fs (mm_Name m) (GetIngressHost m) (mm_Name m) (GetImageName m) = Ok (d, m')"
    using GenerateDeployment_total by blast
  then obtain env where "ps_Containers (pt_Spec (d_Template d)) = deployment_containers m fs env (GetImageName m)"
    by (elim GenerateDeployment_Ok)
  then have "main_image d = Some (GetImageName m)"
    using deployment_containers_hd [of m fs env "GetImageName m"]
    by (auto simp: main_image_def GetMattermostAppContainer_def getContainerByName_def)
  with d GenerateDeployment_key [OF d] alike_deployment [OF d] alike_sel [OF m] alike_fun [OF m]
  show "\<exists>x m'. GenerateDeploymentV1Beta m db fs (mm_Name m) (GetIngressHost m) (mm_Name m) (GetImageName m) = Ok (x, m')
      \<and> alike m m' \<and> k_key DeploymentK x = (mm_Name mm, mm_Namespace mm) \<and> main_image x = Some (GetImageName mm)" by simp
qed

lemma achieves_checkMattermostDeployment:
  assumes "deployments_ready env mm" and "s_ResourcePatch (mm_Spec mm) = None"
  shows "achieves (working_on mm) (checkMattermostDeployment env db fs) (\<lambda>ready. ready)"
proof -
  let ?k = "(mm_Name mm, mm_Namespace mm)"
  let ?Q = "\<lambda>d. k_key DeploymentK d = ?k \<and> main_image d = Some (GetImageName mm)"
  from assms(1) obtain sz d where size: "deployment_body_size mm = Ok sz"
    and d: "holds env DeploymentK ?k d" "accepts env DeploymentK ?k d" "main_image d = Some (GetImageName mm)"
    unfolding deployments_ready_def Let_def by blast
  have freeze: "achieves (working_on mm) (read_maps freeze_deployment x) ?Q" if "?Q x" for x
    using that by (intro achieves_read_maps) (simp add: main_image_def freeze_deployment_def [of _ x] k_key_def DeploymentK_def)
  have update: "achieves (working_on mm) (updateMattermostDeployment env d x) (\<lambda>ready. ready)" if "?Q x" for x
    using that main_image_same [OF d(3), of x]
    by (auto simp: updateMattermostDeployment_def update_deployment_def
        intro!: achieves_then [OF Deployment_kind.achieves_Update [OF working_call_free d(2)]] achieves_ret)
  show ?thesis
    unfolding checkMattermostDeployment_def CreateDeploymentIfNotExists_def
  proof (rule achieves_bind [OF achieves_generate_deployment [OF size]], rule achieves_bind [OF freeze], assumption,
      rule achieves_bind [OF achieves_patch_deployment [OF assms(2), where Q = ?Q]], assumption, rule achieves_with_mm, goal_cases)
    case (1 x0 x1 x m)
    show ?case
      by (rule achieves_known [OF achieves_wrap [OF achieves_CreateIfNotExists [OF working_call_free, of env DeploymentK x d]]])
        (use 1 d in \<open>auto intro!: achieves_get_then(2) [OF working_call_free d(1)] achieves_wrap update\<close>)
  qed
qed

lemma achieves_checkMattermostJobServer:
  assumes "deployments_ready env mm" and "s_ResourcePatch (mm_Spec mm) = None"
  shows "achieves (working_on mm) (checkMattermostJobServer env db fs) (\<lambda>_. True)"
proof -
  let ?k = "(mm_Name mm @ ''-jobserver'', mm_Namespace mm)"
  let ?Q = "\<lambda>d. k_key DeploymentK d = ?k"
  from assms(1) obtain sz where size: "deployment_body_size mm = Ok sz"
    and ready: "if wants_job_server mm then kept env DeploymentK ?k else removable env DeploymentK ?k"
    unfolding deployments_ready_def Let_def by blast
  have generate: "achieves (working_on mm) (genO (\<lambda>m. GenerateJobServerDeploymentV1Beta m db fs (mm_Name m) (GetIngressHost m)
      (mm_Name m) (GetImageName m))) ?Q"
  proof (rule achieves_genO)
    fix m assume m: "alike mm m"
    have "\<exists>env. deployment_env m db fs (GetIngressHost m) = Ok env"
      using size by (simp add: deployment_env_def deployment_general_env_def alike_fun [OF m])
    then obtain d0 m1 where d0: "GenerateDeploymentV1Beta m db fs (mm_Name m) (GetIngressHost m) (mm_Name m) (GetImageName m) = Ok (d0, m1)"
      using GenerateDeployment_total by blast
    then obtain env where "ps_Containers (pt_Spec (d_Template d0)) = deployment_containers m fs env (GetImageName m)"
      by (elim GenerateDeployment_Ok)
    then have "\<exists>d m'. GenerateJobServerDeploymentV1Beta m db fs (mm_Name m) (GetIngressHost m) (mm_Name m) (GetImageName m) = Ok (d, m')"
      using d0 deployment_containers_hd [of m fs env "GetImageName m"]
      by (auto simp: GenerateJobServerDeploymentV1Beta_def Let_def split: prod.splits)
    then obtain d m' where d: "GenerateJobServerDeploymentV1Beta m db fs (mm_Name m) (GetIngressHost m) (mm_Name m) (GetImageName m) = Ok (d, m')"
      by blast
    with GenerateJobServer_key [OF d] alike_job_server [OF d] alike_sel [OF m]
    show "\<exists>x m'. GenerateJobServerDeploymentV1Beta m db fs (mm_Name m) (GetIngressHost m) (mm_Name m) (GetImageName m) = Ok (x, m')
        \<and> alike m m' \<and> ?Q x" by simp
  qed
  have freeze: "achieves (working_on mm) (read_maps freeze_deployment x) ?Q" if "?Q x" for x
    using that by (intro achieves_read_maps) simp
  show ?thesis
    unfolding checkMattermostJobServer_def checkMattermostJobServerDeployment_def CreateDeploymentIfNotExists_def DeleteDeployment_def
  proof (rule achieves_bind [OF generate], rule achieves_bind [OF freeze], assumption, rule achieves_with_mm, goal_cases)
    case (1 x0 x m)
    show ?case
    proof (cases "wants_job_server mm")
      case True
      then obtain d where d: "holds env DeploymentK ?k d" "accepts env DeploymentK ?k d" using ready by (auto simp: kept_def)
      have "achieves (working_on mm) (bindM (patch_deployment env x) (\<lambda>desired1.
       bindM (wrapM ''failed to create mattermost job server deployment''
                (CreateIfNotExists env DeploymentK (\<lambda>e. Wrap e ''failed to check if deployment exists'') (mm_Meta m) desired1)) (\<lambda>desired.
       bindM (wrapM ''failed to get mattermost job server deployment''
                (client_Get env DeploymentK (k_key DeploymentK desired))) (\<lambda>current.
       bindM (Update env DeploymentK current desired) (\<lambda>_. ret ()))))) (\<lambda>_. True)"
        by (rule achieves_known [OF achieves_patch_deployment [OF assms(2)]], rule refl,
            rule achieves_known [OF achieves_wrap [OF achieves_CreateIfNotExists [OF working_call_free, of env DeploymentK x d]]])
          (use 1 d in \<open>auto intro!: achieves_get_then(2) [OF working_call_free d(1)]
            achieves_then [OF Deployment_kind.achieves_Update [OF working_call_free d(2)]] achieves_ret\<close>)
      with True show ?thesis
        unfolding alike_sel [OF 1(3)] by (auto simp: wants_job_server_def split: option.splits)
    next
      case False
      have "achieves (working_on mm) (wrapM ''failed to delete job server deployment''
          (DeleteIfExists env DeploymentK ''failed to check if deployment exists'' ''failed to delete deployment'' (k_key DeploymentK x))) (\<lambda>_. True)"
        using ready False 1(2) by (auto intro!: achieves_wrap achieves_DeleteIfExists [OF working_call_free])
      with False show ?thesis
        unfolding alike_sel [OF 1(3)] by (auto simp: wants_job_server_def split: option.splits)
    qed
  qed
qed

end
