(* ===== verification/ControllerLiveness.thy ===== *)
theory ControllerLiveness
  imports ComponentSuccess
begin

text \<open>
  Liveness of the \<^verbatim>\<open>Mattermost\<close> controller: the conditions on the cluster under which a run of the whole
  reconciler succeeds, and that it then reports the installation as stable.
\<close>

definition application_ready :: "env \<Rightarrow> Mattermost \<Rightarrow> bool" where
  "application_ready env mm = (s_ResourcePatch (mm_Spec mm) = None \<and> licence_ready env mm \<and> access_ready env mm \<and> deployments_ready env mm)"

lemma achieves_checkMattermost:
  assumes "application_ready env mm"
  shows "achieves (working_on mm) (checkMattermost env db fs) (\<lambda>ready. ready)"
proof -
  from assms have ready: "s_ResourcePatch (mm_Spec mm) = None" "licence_ready env mm" "access_ready env mm" "deployments_ready env mm"
    by (simp_all add: application_ready_def)
  let ?k = "(mm_Name mm, mm_Namespace mm)"
  from ready(3) have ing: "s_UseServiceLoadBalancer (mm_Spec mm)
        \<or> (if own_ingress_class mm then kept env IngressClassK ?k else removable env IngressClassK ?k)
          \<and> (if IngressEnabled mm \<or> AWSLoadBalancerEnabled mm then kept env IngressK ?k else removable env IngressK ?k)"
    unfolding access_ready_def Let_def by blast
  have ingress: "achieves (working_on mm) (if \<not> s_UseServiceLoadBalancer (mm_Spec m)
        then bindM (checkMattermostIngressClass env) (\<lambda>_. checkMattermostIngress env) else ret ()) (\<lambda>_. True)"
    if "alike mm m" for m
    using ing by (auto simp: alike_sel [OF that]
        intro!: achieves_ret achieves_then [OF achieves_checkMattermostIngressClass] achieves_checkMattermostIngress)
  show ?thesis
    unfolding checkMattermost_def
    by (intro achieves_then [OF achieves_wrap [OF achieves_checkLicence [OF ready(2)]]]
        achieves_then [OF achieves_checkMattermostService [OF ready(3,1)]]
        achieves_then [OF achieves_checkMattermostRBAC [OF ready(3)]] achieves_with_mm)
      (rule achieves_then [OF ingress], assumption, rule achieves_checkMattermostDeployment [OF ready(4,1)])
qed

section \<open>Health\<close>

text \<open>
  The labels the health check selects with: those of the pods of this installation, on top of what the
  resource labels have become in the run.
\<close>

definition pod_selector :: "Mattermost \<Rightarrow> string \<Rightarrow> strmap \<Rightarrow> bool" where
  "pod_selector mm app sel = (\<exists>l. (s_ResourceLabels (mm_Spec mm) = None \<longrightarrow> l = Map.empty)
     \<and> sel = (l ++ extra_labels mm ++ MattermostResourceLabels (mm_Name mm))(ClusterLabel \<mapsto> mm_Name mm, ''app'' \<mapsto> app))"

definition wanted_replicas :: "Mattermost \<Rightarrow> int" where
  "wanted_replicas mm = (case s_Replicas (mm_Spec mm) of None \<Rightarrow> 1 | Some n \<Rightarrow> n)"

definition reachable :: "env \<Rightarrow> Mattermost \<Rightarrow> strmap \<Rightarrow> bool" where
  "reachable env mm sel = (\<forall>h.
     if s_UseServiceLoadBalancer (mm_Spec mm)
     then \<exists>svc lb lbs. api_direct_list (e_Service env) h (mm_Namespace mm) sel = Inr [svc]
            \<and> svc_Status_LoadBalancer svc = Some (lb # lbs)
     else if IngressEnabled mm
     then \<exists>ing rule rules. api_direct_list (e_Ingress env) h (mm_Namespace mm) sel = Inr [ing] \<and> i_Rules ing = rule # rules
     else True)"

definition rolled_out :: "env \<Rightarrow> Mattermost \<Rightarrow> bool" where
  "rolled_out env mm = (\<forall>h sel.
     (pod_selector mm MattermostAppContainerName sel \<longrightarrow>
        rollout_complete env h (mm_Name mm, mm_Namespace mm) sel (wanted_replicas mm) \<and> reachable env mm sel)
     \<and> (wants_job_server mm \<longrightarrow> pod_selector mm MattermostJobServerContainerName sel \<longrightarrow>
          rollout_complete env h (DedicatedJobServerName mm, mm_Namespace mm) sel 1))"

lemma achieves_rollout:
  assumes "call_free I" and "\<And>h. rollout_complete env h (nm, ns) sel n"
  shows "achieves I (CheckReplicaSetRollout env \<lparr>lo_Namespace = ns, lo_Labels = sel\<rparr> nm ns)
     (\<lambda>ps. prs_Replicas ps = n \<and> prs_UpdatedReplicas ps = n)"
  unfolding achieves_def
proof (intro allI impI)
  fix s assume s: "I s"
  have K: "k_api DeploymentK env = e_Deployment env" "k_api ReplicaSetK env = e_ReplicaSet env" "k_kind DeploymentK = DeploymentKind"
    by (simp_all add: DeploymentK_def ReplicaSetK_def)
  have I1: "I (s\<lparr>calls := cs\<rparr>)" for cs using s assms(1) by (simp add: call_free_def)
  obtain d reps rep where "api_direct_get (e_Deployment env) (calls s) (nm, ns) = Inr d"
     "om_Generation (d_Meta d) = d_Status_ObservedGeneration d"
     "api_direct_list (e_ReplicaSet env) (calls s @ [CDirectGet DeploymentKind (nm, ns)]) ns sel = Inr reps"
     "current_replica_set d reps = Some rep" "rs_Status_AvailableReplicas rep = n" "d_Status_Replicas d = n"
    using assms(2) [of "calls s"] unfolding rollout_complete_def by auto
  then show "\<exists>x s'. CheckReplicaSetRollout env \<lparr>lo_Namespace = ns, lo_Labels = sel\<rparr> nm ns s = (Ok x, s') \<and> I s'
      \<and> prs_Replicas x = n \<and> prs_UpdatedReplicas x = n"
    using I1 by (simp add: CheckReplicaSetRollout_def reader_Get_def reader_List_def io_defs of_sum_def K)
qed

lemma achieves_endpoint:
  assumes "reachable env mm sel"
  shows "achieves (working_on mm) (health_endpoint env \<lparr>lo_Namespace = mm_Namespace mm, lo_Labels = sel\<rparr>) (\<lambda>_. True)"
proof -
  have K: "k_api ServiceK env = e_Service env" "k_api IngressK env = e_Ingress env" by (simp_all add: ServiceK_def IngressK_def)
  have "achieves (working_on mm) (CheckServiceLoadBalancer env \<lparr>lo_Namespace = mm_Namespace mm, lo_Labels = sel\<rparr>) (\<lambda>_. True)"
    if "s_UseServiceLoadBalancer (mm_Spec mm)"
  proof -
    have "\<exists>svcs. api_direct_list (e_Service env) h (mm_Namespace mm) sel = Inr svcs
        \<and> (\<exists>svc lb lbs. svcs = [svc] \<and> svc_Status_LoadBalancer svc = Some (lb # lbs))" for h
      using assms that unfolding reachable_def by metis
    from achieves_wrap [OF achieves_call [OF working_call_free this]] show ?thesis
      unfolding CheckServiceLoadBalancer_def reader_List_def list_options.simps K
      by (rule achieves_bind) (auto intro: achieves_ret)
  qed
  moreover have "achieves (working_on mm) (CheckIngressLoadBalancer env \<lparr>lo_Namespace = mm_Namespace mm, lo_Labels = sel\<rparr>) (\<lambda>_. True)"
    if "\<not> s_UseServiceLoadBalancer (mm_Spec mm)" "IngressEnabled mm"
  proof -
    have "\<exists>ings. api_direct_list (e_Ingress env) h (mm_Namespace mm) sel = Inr ings
        \<and> (\<exists>ing rule rules. ings = [ing] \<and> i_Rules ing = rule # rules)" for h
      using assms that unfolding reachable_def by metis
    from achieves_wrap [OF achieves_call [OF working_call_free this]] show ?thesis
      unfolding CheckIngressLoadBalancer_def reader_List_def list_options.simps K
      by (rule achieves_bind) (auto intro: achieves_ret)
  qed
  ultimately show ?thesis
    unfolding health_endpoint_def
    by (intro achieves_with_mm) (auto simp: alike_sel alike_fun intro!: achieves_wrap achieves_ret)
qed

lemma pod_selectors:
  assumes "alike mm m"
  shows "pod_selector mm MattermostAppContainerName (deref (mm_maps (snd (MattermostPodLabels m (mm_Name m)))) (fst (MattermostPodLabels m (mm_Name m))))"
    and "pod_selector mm MattermostJobServerContainerName
      (deref (mm_maps (snd (MattermostJobServerPodLabels m (mm_Name m)))) (fst (MattermostJobServerPodLabels m (mm_Name m))))"
  unfolding pod_selector_def pod_labels_contents [OF prod.collapse [symmetric]] job_labels_contents [OF prod.collapse [symmetric]]
  using alike_sel(4) [OF assms]
  by (auto intro!: exI [of _ "mm_maps m ResourceLabelsLoc"] simp: alike_sel(1,3) [OF assms] split: option.split)

lemma achieves_gen_mm:
  assumes "\<And>m. alike mm m \<Longrightarrow> alike m (snd (g m)) \<and> achieves (working_on mm) (f (fst (g m)) (snd (g m))) Q"
  shows "achieves (working_on mm) (bindM (gen g) (\<lambda>x. bindM get_mm (f x))) Q"
  unfolding achieves_def
proof (intro allI impI)
  fix s assume s: "working_on mm s"
  then have m: "alike mm (r_mm s)" by (simp add: working_on_def)
  let ?s = "s\<lparr>r_mm := snd (g (r_mm s))\<rparr>"
  have "working_on mm ?s" using assms [OF m] alike_trans [OF m] by (simp add: working_on_def)
  from achievesD [OF conjunct2 [OF assms [OF m]] this]
  show "\<exists>x s'. bindM (gen g) (\<lambda>x. bindM get_mm (f x)) s = (Ok x, s') \<and> working_on mm s' \<and> Q x"
    by (simp add: gen_def get_mm_def io_defs case_prod_beta)
qed

lemma achieves_job_server_health:
  assumes "rolled_out env mm" and "wants_job_server mm"
  shows "achieves (working_on mm) (checkMattermostJobServerHealth env) (\<lambda>_. True)"
  unfolding checkMattermostJobServerHealth_def
proof (rule achieves_gen_mm, goal_cases)
  case (1 m)
  let ?g = "MattermostJobServerPodLabels m (mm_Name m)"
  have a: "alike m (snd ?g)" by (rule alike_MattermostLabels)
  have m': "alike mm (snd ?g)" using alike_trans [OF 1 a] .
  have "rollout_complete env h (DedicatedJobServerName mm, mm_Namespace mm) (deref (mm_maps (snd ?g)) (fst ?g)) 1" for h
    using assms pod_selectors(2) [OF 1] unfolding rolled_out_def by blast
  from achieves_rollout [OF working_call_free this]
  have roll: "achieves (working_on mm) (CheckReplicaSetRollout env
      \<lparr>lo_Namespace = mm_Namespace mm, lo_Labels = deref (mm_maps (snd ?g)) (fst ?g)\<rparr> (DedicatedJobServerName mm) (mm_Namespace mm))
      (\<lambda>ps. prs_Replicas ps = 1 \<and> prs_UpdatedReplicas ps = 1)" .
  show ?case
    unfolding Let_def alike_sel [OF m'] alike_fun [OF m']
    by (intro conjI a achieves_bind [OF achieves_wrap [OF roll]]) (simp add: achieves_ret)
qed

lemma achieves_health:
  assumes "rolled_out env mm"
  shows "achieves (working_on mm) (checkMattermostHealth env cur) (\<lambda>(st, err). err = None)"
  unfolding checkMattermostHealth_def Let_def
proof (rule achieves_with_mm, rule achieves_gen_mm, goal_cases)
  case (1 m0 m)
  let ?g = "MattermostPodLabels m (mm_Name m)"
  have a: "alike m (snd ?g)" by (rule alike_MattermostLabels)
  have m': "alike mm (snd ?g)" using alike_trans [OF 1(2) a] .
  let ?sel = "deref (mm_maps (snd ?g)) (fst ?g)"
  have sel: "rollout_complete env h (mm_Name mm, mm_Namespace mm) ?sel (wanted_replicas mm)" "reachable env mm ?sel" for h
    using assms pod_selectors(1) [OF 1(2)] unfolding rolled_out_def by blast+
  let ?opts = "\<lparr>lo_Namespace = mm_Namespace mm, lo_Labels = ?sel\<rparr>"
  have roll: "achieves (working_on mm) (tryM (CheckReplicaSetRollout env ?opts (mm_Name mm) (mm_Namespace mm)))
      (\<lambda>r. \<exists>ps. r = Inr ps \<and> prs_Replicas ps = wanted_replicas mm \<and> prs_UpdatedReplicas ps = wanted_replicas mm)"
    by (rule achieves_try, rule achieves_weaken [OF achieves_rollout [OF working_call_free sel(1)]]) simp
  have endpoint: "achieves (working_on mm) (tryM (health_endpoint env ?opts)) (\<lambda>r. \<exists>x. r = Inr x)"
    by (rule achieves_try, rule achieves_weaken [OF achieves_endpoint [OF sel(2)]]) simp
  have js: "achieves (working_on mm) (tryM (wrapM ''failed to check job server health'' (checkMattermostJobServerHealth env))) (\<lambda>r. r = Inr ())"
    if "case s_JobServer (mm_Spec mm) of None \<Rightarrow> False | Some js \<Rightarrow> js_DedicatedJobServer js"
    using achieves_job_server_health [OF assms] that unfolding wants_job_server_def
    by (intro achieves_try achieves_wrap) simp
  have wanted: "(case s_Replicas (mm_Spec mm) of None \<Rightarrow> 1 | Some n \<Rightarrow> n) = wanted_replicas mm" by (simp add: wanted_replicas_def)
  show ?case
    unfolding alike_sel [OF m'] alike_fun [OF m'] wanted
    by (intro conjI a, rule achieves_bind [OF roll])
      (auto intro!: achieves_bind [OF endpoint] achieves_known [OF js] achieves_ret)
qed

section \<open>The resource itself\<close>

definition same_resource :: "Mattermost \<Rightarrow> Mattermost \<Rightarrow> bool" where
  "same_resource mm m = (mm_Spec m = mm_Spec mm \<and> mm_Name m = mm_Name mm \<and> mm_Namespace m = mm_Namespace mm)"

text \<open>The server accepts what the controller writes to the resource; versions and other metadata may change.\<close>

definition resource_writable :: "env \<Rightarrow> bool" where
  "resource_writable env = (\<forall>h x.
     (\<exists>y. api_status_update (e_Mattermost env) h x = Inr y \<and> same_resource x y \<and> mm_Status y = mm_Status x)
     \<and> (\<exists>y. api_update (e_Mattermost env) h x = Inr y \<and> same_resource x y))"

lemma writable_status_kept: "resource_writable env \<Longrightarrow> status_kept env"
  unfolding status_kept_def resource_writable_def by (metis sum.inject(2))

lemma same_resource_alike: "same_resource mm m \<Longrightarrow> alike mm m"
  by (simp add: same_resource_def alike_same_spec)

lemma bindM_step: "m s = (Ok x, s') \<Longrightarrow> bindM m f s = f x s'"
  by (simp add: bindM_def)

lemma updateStatus_succeeds:
  assumes "resource_writable env"
  shows "\<exists>s'. updateStatus env Current st s = (Ok (), s') \<and> same_resource (r_mm s) (r_mm s')"
proof (cases "mm_Status (r_mm s) = st")
  case True
  then show ?thesis by (simp add: updateStatus_def same_resource_def io_defs)
next
  case False
  obtain y where y: "api_status_update (e_Mattermost env) (calls s) ((r_mm s)\<lparr>mm_Status := st\<rparr>) = Inr y"
    "same_resource ((r_mm s)\<lparr>mm_Status := st\<rparr>) y" using assms unfolding resource_writable_def by blast
  with False show ?thesis
    by (simp add: updateStatus_def io_defs Let_def client_StatusUpdate_def MattermostK_def of_sum_def same_resource_def)
qed

lemma achieves_updateStatus: "resource_writable env \<Longrightarrow> achieves (working_on mm) (updateStatus env Current st) (\<lambda>_. True)"
  unfolding achieves_def working_on_def
  using updateStatus_succeeds same_resource_alike alike_trans by (metis (no_types, lifting))

lemma init_status_succeeds:
  assumes "resource_writable env"
  shows "\<exists>s'. init_status env s = (Ok (), s') \<and> same_resource (r_mm s) (r_mm s')"
proof -
  let ?st = "(mm_Status (r_mm s))\<lparr>st_ObservedGeneration := om_Generation (mm_Meta (r_mm s))\<rparr>"
  from updateStatus_succeeds [OF assms, of "?st\<lparr>st_State := Reconciling\<rparr>" "s\<lparr>r_status := ?st, r_shared := True\<rparr>"]
  show ?thesis
    by (simp add: init_status_def get_mm_def io_defs Let_def updateStatusReconciling_def same_resource_def)
qed

lemma same_resource_defaults:
  assumes "same_resource mm m"
  shows "snd (SetDefaults m) = snd (SetDefaults mm)" "same_resource (fst (SetDefaults mm)) (fst (SetDefaults m))"
    "same_resource (fst (SetReplicasAndResourcesFromSize mm)) (fst (SetReplicasAndResourcesFromSize m))"
  using assms
  by (simp_all add: same_resource_def SetDefaults_def AWSLoadBalancerEnabled_def GetAWSLoadBalancerHostNames_def IngressEnabled_def
      GetIngressHost_def SetReplicasAndResourcesFromSize_def setDefaultReplicasAndResources_def
      overrideReplicasAndResourcesFromSize_def Let_def
      split: outcome.split cong: option.case_cong)

lemma SetReplicas_not_panic: "snd (SetReplicasAndResourcesFromSize mm) \<noteq> Panic p"
  by (auto simp: SetReplicasAndResourcesFromSize_def GetClusterSize_def split: option.splits)

lemma set_defaults_succeeds:
  assumes "default_mattermost mm = Ok dm" and "same_resource mm (r_mm s)" and "resource_writable env"
  shows "\<exists>s'. set_defaults env s = (Ok (), s') \<and> working_on dm s'"
proof -
  let ?m = "r_mm s"
  let ?m1 = "fst (SetDefaults ?m)"
  let ?m2 = "fst (SetReplicasAndResourcesFromSize ?m1)"
  from assms(1) obtain mm1 where mm1: "SetDefaults mm = (mm1, Ok ())" and dm: "dm = fst (SetReplicasAndResourcesFromSize mm1)"
    by (auto simp: default_mattermost_Ok)
  have ok: "snd (SetDefaults ?m) = Ok ()" and m1: "same_resource mm1 ?m1"
    using same_resource_defaults [OF assms(2)] mm1 by simp_all
  have m2: "same_resource dm ?m2" unfolding dm by (rule same_resource_defaults(3) [OF m1])
  let ?set = "bindM (gen (\<lambda>mm. (snd (SetDefaults mm), fst (SetDefaults mm)))) lift"
  let ?size = "gen (\<lambda>mm. (snd (SetReplicasAndResourcesFromSize mm), fst (SetReplicasAndResourcesFromSize mm)))"
  let ?s0 = "s\<lparr>r_orig := ?m\<rparr>"
  let ?s1 = "s\<lparr>r_orig := ?m, r_mm := ?m2\<rparr>"
  let ?rest = "bindM get_state (\<lambda>s. if mm_Spec (r_orig s) \<noteq> mm_Spec (r_mm s)
     then bindM (mod_state (\<lambda>s. s\<lparr>r_mm := (r_mm s)\<lparr>mm_Status := r_status s\<rparr>, r_shared := True\<rparr>)) (\<lambda>_.
          on_error env Original (updateSpec env)) else ret ())"
  have "?set ?s0 = (Ok (), ?s0\<lparr>r_mm := ?m1\<rparr>)" using ok by (simp add: gen_def io_defs)
  then have "on_error env Current ?set ?s0 = (Ok (), ?s0\<lparr>r_mm := ?m1\<rparr>)" by (simp only: on_error_Ok)
  moreover have "?size (?s0\<lparr>r_mm := ?m1\<rparr>) = (Ok (snd (SetReplicasAndResourcesFromSize ?m1)), ?s1)" by (simp add: gen_def)
  moreover have "(case snd (SetReplicasAndResourcesFromSize ?m1) of Panic p \<Rightarrow> lift (Panic p) | _ \<Rightarrow> ret ()) ?s1 = (Ok (), ?s1)"
    using SetReplicas_not_panic by (auto simp: ret_def split: outcome.split)
  ultimately have run: "set_defaults env s = ?rest ?s1"
    by (simp add: set_defaults_def bindM_def mod_state_def)
  show ?thesis
  proof (cases "mm_Spec ?m = mm_Spec ?m2")
    case True
    then show ?thesis
      unfolding run using same_resource_alike [OF m2] by (simp add: io_defs working_on_def)
  next
    case False
    let ?x = "?m2\<lparr>mm_Status := r_status s\<rparr>"
    obtain y where y: "api_update (e_Mattermost env) (calls s) ?x = Inr y" "same_resource ?x y"
      using assms(3) unfolding resource_writable_def by blast
    then have "same_resource dm y" using m2 by (simp add: same_resource_def)
    with False y(1) show ?thesis
      unfolding run
      by (simp add: io_defs on_error_def updateSpec_def get_mm_def client_Update_def MattermostK_def of_sum_def working_on_def
          same_resource_alike)
  qed
qed

definition healthy :: "env \<Rightarrow> Mattermost \<Rightarrow> bool" where
  "healthy env mm = (resource_writable env \<and> database_ready env mm \<and> file_store_ready env mm
     \<and> application_ready env mm \<and> rolled_out env mm)"

lemma achieves_finish:
  assumes "healthy env mm"
  shows "achieves (working_on mm) (finish_reconcile env db fs) (\<lambda>res. res = done_result)"
proof -
  from assms have h: "resource_writable env" "deployments_ready env mm" "s_ResourcePatch (mm_Spec mm) = None" "rolled_out env mm"
    by (simp_all add: healthy_def application_ready_def)
  have status: "achieves (working_on mm) get_status (\<lambda>_. True)"
    by (simp add: achieves_def get_status_def io_defs)
  have store: "achieves (working_on mm) (mod_state (\<lambda>s. s\<lparr>r_status := st\<rparr>)) (\<lambda>_. True)" for st
    by (rule achieves_mod) (simp add: working_on_def)
  show ?thesis
    unfolding finish_reconcile_def
    by (intro achieves_then [OF achieves_on_error [OF achieves_checkMattermostJobServer [OF h(2,3)]]] achieves_then [OF status],
        rule achieves_bind [OF achieves_health [OF h(4)]])
      (auto intro!: achieves_then [OF store] achieves_then [OF achieves_on_error [OF achieves_updateStatus [OF h(1)]]] achieves_ret)
qed

lemma reconcile_body_succeeds:
  assumes "default_mattermost mm = Ok dm" and "healthy env dm" and "same_resource mm (r_mm s)"
  shows "\<exists>s'. reconcile_body env s = (Ok done_result, s') \<and> st_State (mm_Status (r_mm s')) = Stable"
proof -
  from assms(2) have h: "resource_writable env" "database_ready env dm" "file_store_ready env dm" "application_ready env dm"
    by (simp_all add: healthy_def)
  have sized: "sized dm" using default_mattermost_settled [OF assms(1)] by simp
  let ?rest = "bindM (on_error env Current (checkDatabase env)) (\<lambda>dbConfig.
     bindM (on_error env Current (checkFileStore env)) (\<lambda>fileStoreConfig.
     bindM (on_error env Current (checkMattermost env dbConfig fileStoreConfig)) (\<lambda>ready.
     if \<not> ready
     then bindM get_status (\<lambda>status.
          bindM (updateStatusReconciling env Current status) (\<lambda>_.
          ret \<lparr>RequeueAfter = resourcesReadyDelay\<rparr>))
     else finish_reconcile env dbConfig fileStoreConfig)))"
  have rest: "achieves (working_on dm) ?rest (\<lambda>res. res = done_result)"
    by (intro achieves_then [OF achieves_on_error [OF achieves_checkDatabase [OF sized h(2)]]]
        achieves_then [OF achieves_on_error [OF achieves_checkFileStore [OF sized h(3)]]],
        rule achieves_bind [OF achieves_on_error [OF achieves_checkMattermost [OF h(4)]]])
      (simp add: achieves_finish [OF assms(2)])
  obtain s1 where s1: "init_status env s = (Ok (), s1)" "same_resource (r_mm s) (r_mm s1)"
    using init_status_succeeds [OF h(1)] by blast
  then have "same_resource mm (r_mm s1)" using assms(3) by (simp add: same_resource_def)
  from set_defaults_succeeds [OF assms(1) this h(1)] obtain s2 where s2: "set_defaults env s1 = (Ok (), s2)" "working_on dm s2"
    by blast
  from achievesD [OF rest s2(2)] obtain s' where "?rest s2 = (Ok done_result, s')" by blast
  with s1 s2 have run: "reconcile_body env s = (Ok done_result, s')"
    by (simp add: reconcile_body_def bindM_Ok)
  moreover have "st_State (mm_Status (r_mm s')) = Stable"
    using settles_body [OF writable_status_kept [OF h(1)]] run unfolding settles_def by (fastforce simp: done_result_def)
  ultimately show ?thesis by blast
qed

section \<open>Properties\<close>

definition admitted :: "env \<Rightarrow> reconciler_config \<Rightarrow> key \<Rightarrow> rec_state \<Rightarrow> Mattermost \<Rightarrow> bool" where
  "admitted env cfg k s mm = (st_State (mm_Status mm) \<in> {Reconciling, Ready}
     \<or> (\<exists>mms. api_list (e_Mattermost env) (calls s @ [CGet MattermostKind k]) None Map.empty = Inr mms
          \<and> countReconcilingOrReady mms + r_processing s < MaxReconciling cfg))"

text \<open>
  C5. A healthy installation becomes stable: when the rate limiter admits the run, the resource can be
  defaulted, the secrets the configuration needs have their keys, the objects the installation
  consists of are there and can be brought up to date, the ones it does not want can be deleted, and
  the deployments have rolled out, one run of the reconciler ends without an error, asks for no other
  run and leaves the resource in the state stable.
\<close>

theorem healthy_cluster_becomes_stable:
  assumes "api_get (e_Mattermost env) (calls s) k = Inr mm" and "admitted env cfg k s mm"
    and "default_mattermost mm = Ok dm" and "healthy env dm"
  shows "\<exists>s'. Reconcile env cfg k s = (Ok done_result, s') \<and> st_State (mm_Status (r_mm s')) = Stable"
proof -
  let ?s = "s\<lparr>calls := calls s @ [CGet MattermostKind k], r_mm := mm, r_orig := mm\<rparr>"
  let ?limited = "st_State (mm_Status mm) \<noteq> Reconciling \<and> st_State (mm_Status mm) \<noteq> Ready"
  have start: "Reconcile env cfg k s = (if ?limited
      then bindM (wrapM ''failed to verify reconciliation limit'' (startNonReconcilingMMProcessing env (MaxReconciling cfg))) (\<lambda>canProcess.
             if \<not> canProcess then ret \<lparr>RequeueAfter = RequeueOnLimitDelay cfg\<rparr>
             else deferM (reconcile_body env) decrementProcessing)
      else reconcile_body env) ?s"
    using assms(1)
    by (simp add: Reconcile_def bindM_def tryM_def ret_def mod_state_def client_Get_def call_api_def of_sum_def MattermostK_def)
  show ?thesis
  proof (cases ?limited)
    case False
    from reconcile_body_succeeds [OF assms(3,4), of ?s] show ?thesis
      unfolding start if_not_P [OF False] by (simp add: same_resource_def)
  next
    case True
    then obtain mms where mms: "api_list (e_Mattermost env) (calls ?s) None Map.empty = Inr mms"
      "countReconcilingOrReady mms + r_processing s < MaxReconciling cfg" using assms(2) by (auto simp: admitted_def)
    let ?s1 = "?s\<lparr>calls := calls ?s @ [CList MattermostKind None Map.empty], r_processing := r_processing s + 1\<rparr>"
    have "wrapM ''failed to verify reconciliation limit'' (startNonReconcilingMMProcessing env (MaxReconciling cfg)) ?s = (Ok True, ?s1)"
      using mms by (simp add: startNonReconcilingMMProcessing_def io_defs client_List_def of_sum_def MattermostK_def admit_def Let_def)
    then have run: "Reconcile env cfg k s = deferM (reconcile_body env) decrementProcessing ?s1"
      unfolding start if_P [OF True] by (subst bindM_step) (assumption, simp)
    obtain s' where "reconcile_body env ?s1 = (Ok done_result, s')" "st_State (mm_Status (r_mm s')) = Stable"
      using reconcile_body_succeeds [OF assms(3,4), of ?s1] by (auto simp: same_resource_def)
    then show ?thesis unfolding run by (simp add: deferM_def decrementProcessing_def mod_state_def)
  qed
qed

text \<open>A cluster in which everything the demo installation needs is there, and nothing else.\<close>

definition serving :: "'o \<Rightarrow> 'o api" where
  "serving x = empty_api\<lparr>api_get := \<lambda>_ _. Inr x\<rparr>"

definition demo_running :: Deployment where
  "demo_running = zero_deployment\<lparr>d_Status_Replicas := 2, d_Template := zero_template\<lparr>pt_Spec := zero_pod_spec\<lparr>ps_Containers :=
     [demo_app_container\<lparr>c_Image := ''mattermost/mattermost-enterprise-edition:10.5.0''\<rparr>]\<rparr>\<rparr>\<rparr>"

definition healthy_env :: env where
  "healthy_env = demo_env\<lparr>
     e_Mattermost := serving demo_internal_mm,
     e_ServiceAccount := serving (GenerateServiceAccountV1Beta demo_mm ''mm''),
     e_Role := serving (GenerateRoleV1Beta demo_mm ''mm''),
     e_RoleBinding := serving (GenerateRoleBindingV1Beta demo_mm ''mm'' ''mm''),
     e_Service := serving (configureMattermostServicePorts zero_service),
     e_Secret := serving (new_mysql_secret ''mm-mysql-root-password'' ''apps'' ''r'' ''p''),
     e_Mysql := serving (case ClusterV1Beta (\<lambda>_. True) demo_mm of Ok c \<Rightarrow> c),
     e_Minio := serving (case InstanceV1Beta (\<lambda>_. True) demo_mm of Ok i \<Rightarrow> i),
     e_Deployment := empty_api\<lparr>
       api_get := \<lambda>_ key. if key = (''mm'', ''apps'') then Inr demo_running else Inl (ApiError NotFound),
       api_direct_get := \<lambda>_ _. Inr demo_running\<rparr>,
     e_ReplicaSet := empty_api\<lparr>api_direct_list := \<lambda>_ _ _. Inr [\<lparr>rs_Meta = empty_meta,
       rs_Status_ObservedGeneration = 1, rs_Status_AvailableReplicas = 2\<rparr>]\<rparr>\<rparr>"

lemma demo_internal_defaulted:
  "case default_mattermost demo_internal_mm of
     Ok dm \<Rightarrow> mm_Name dm = ''mm'' \<and> mm_Namespace dm = ''apps'' \<and> \<not> db_IsExternal (s_Database (mm_Spec dm))
       \<and> \<not> fs_IsExternal (s_FileStore (mm_Spec dm)) \<and> \<not> fs_IsExternalVolume (s_FileStore (mm_Spec dm))
       \<and> \<not> fs_IsLocal (s_FileStore (mm_Spec dm)) \<and> s_ResourcePatch (mm_Spec dm) = None \<and> s_LicenseSecret (mm_Spec dm) = []
       \<and> \<not> s_UseServiceLoadBalancer (mm_Spec dm) \<and> \<not> own_ingress_class dm \<and> \<not> AWSLoadBalancerEnabled dm \<and> \<not> IngressEnabled dm
       \<and> \<not> wants_job_server dm \<and> wanted_replicas dm = 2
       \<and> GetImageName dm = ''mattermost/mattermost-enterprise-edition:10.5.0''
       \<and> map_option (\<lambda>d. (omd_Type d, omd_StorageSize d)) (db_OperatorManaged (s_Database (mm_Spec dm))) = Some (''mysql'', ''50Gi'')
       \<and> map_option omm_StorageSize (fs_OperatorManaged (s_FileStore (mm_Spec dm))) = Some ''50Gi''
       \<and> deployment_body_size dm = Ok (Itoa (defaultMaxFileSize * sizeMB))
   | _ \<Rightarrow> False"
  by (simp add: default_mattermost_def SetDefaults_def demo_internal_mm_def demo_mm_def demo_spec_def zero_spec_def
      AWSLoadBalancerEnabled_def IngressEnabled_def GetIngressHost_def GetIngresAnnotations_def Let_def
      SetReplicasAndResourcesFromSize_def setDefaultReplicasAndResources_def db_SetDefaults_def fs_SetDefaults_def
      db_IsExternal_def fs_kind_defs db_SetDefaultReplicasAndResources_def fs_SetDefaultReplicasAndResources_def
      db_ensureDefault_def fs_ensureDefault_def omd_SetDefaults_def omm_SetDefaults_def
      omd_SetDefaultReplicasAndResources_def omm_SetDefaultReplicasAndResources_def zero_omd_def zero_omm_def
      DefaultStorageSize_def DefaultFilestoreStorageSize_def or_default_def own_ingress_class_def wants_job_server_def
      wanted_replicas_def GetImageName_def deployment_body_size_def determineMaxBodySize_def DefaultMattermostDatabaseType_def
      DefaultMattermostImage_def or_replicas_def DefaultSize_def size5000_def)

lemma healthy_demo:
  assumes "default_mattermost demo_internal_mm = Ok dm"
  shows "healthy healthy_env dm"
proof -
  note d = demo_internal_defaulted [unfolded assms outcome.case]
  from d obtain omd omm where managed: "db_OperatorManaged (s_Database (mm_Spec dm)) = Some omd" "omd_Type omd = ''mysql''"
      "omd_StorageSize omd = ''50Gi''" "fs_OperatorManaged (s_FileStore (mm_Spec dm)) = Some omm" "omm_StorageSize omm = ''50Gi''"
    by auto
  note env = healthy_env_def demo_env_def serving_def empty_api_def
  have there: "kept healthy_env ServiceAccountK k" "kept healthy_env RoleK k" "kept healthy_env RoleBindingK k"
    "kept healthy_env SecretK k" "kept healthy_env MysqlK k" "kept healthy_env MinioK k" for k
    by (auto simp: kept_def holds_def accepts_def kind_defs env)
  have gone: "removable healthy_env IngressK k" "removable healthy_env IngressClassK k"
    "removable healthy_env DeploymentK (''mm-jobserver'', ''apps'')" for k
    by (simp_all add: removable_def kind_defs env)
  have service: "holds healthy_env ServiceK k (configureMattermostServicePorts zero_service)"
    "accepts healthy_env ServiceK k x" "svc_Type (configureMattermostServicePorts zero_service) = []"
    "svc_Ports (configureMattermostServicePorts zero_service) \<noteq> []" for k x
    by (simp_all add: holds_def accepts_def kind_defs env configureMattermostServicePorts_def zero_service_def)
  have running: "holds healthy_env DeploymentK (''mm'', ''apps'') demo_running" "accepts healthy_env DeploymentK k x"
    "main_image demo_running = Some ''mattermost/mattermost-enterprise-edition:10.5.0''" for k x
    by (simp_all add: holds_def accepts_def kind_defs env main_image_def demo_running_def demo_app_container_def
        GetMattermostAppContainer_def getContainerByName_def MattermostAppContainerName_def)
  have "holds healthy_env SecretK k (new_mysql_secret ''mm-mysql-root-password'' ''apps'' ''r'' ''p'')"
    "\<exists>c. NewMySQLDBConfig (new_mysql_secret ''mm-mysql-root-password'' ''apps'' ''r'' ''p'') = Ok c" for k
    by (simp_all add: holds_def kind_defs env NewMySQLDBConfig_def new_mysql_secret_def data_get_def Let_def)
  moreover have quantity: "e_quantity healthy_env ''50Gi''" by (simp add: env)
  ultimately have db: "database_ready healthy_env dm"
    using d managed there by (auto simp: database_ready_def Let_def)
  have minio: "\<exists>svc. holds healthy_env ServiceK k svc \<and> svc_Ports svc \<noteq> []" for k
    using service by blast
  have fs: "file_store_ready healthy_env dm"
    using d managed there minio quantity by (auto simp: file_store_ready_def Let_def)
  have own: "\<exists>svc. holds healthy_env ServiceK k svc \<and> accepts healthy_env ServiceK k svc \<and> (svc_Type svc = [] \<or> svc_Type svc = t)"
    "\<exists>r. holds healthy_env DeploymentK (''mm'', ''apps'') r \<and> accepts healthy_env DeploymentK (''mm'', ''apps'') r
       \<and> main_image r = Some ''mattermost/mattermost-enterprise-edition:10.5.0''" for k t
    using service running by blast+
  have app: "application_ready healthy_env dm"
    using d there gone own
    by (auto simp: application_ready_def licence_ready_def access_ready_def deployments_ready_def Let_def)
  have "rollout_complete healthy_env h (''mm'', ''apps'') sel 2" for h sel
    by (simp add: rollout_complete_def env demo_running_def zero_deployment_def empty_meta_def current_replica_set_def getRevision_def)
  then have roll: "rolled_out healthy_env dm"
    using d by (simp add: rolled_out_def reachable_def)
  have "resource_writable healthy_env"
    by (simp add: resource_writable_def env same_resource_def)
  with db fs app roll show ?thesis by (simp add: healthy_def)
qed

lemma healthy_cluster_becomes_stable_witness:
  "\<exists>s'. Reconcile healthy_env \<lparr>MaxReconciling = 5, RequeueOnLimitDelay = 20\<rparr> (''mm'', ''apps'') (demo_state demo_internal_mm)
        = (Ok done_result, s') \<and> st_State (mm_Status (r_mm s')) = Stable"
proof -
  obtain dm where dm: "default_mattermost demo_internal_mm = Ok dm"
    using demo_internal_defaulted by (auto split: outcome.splits)
  have "api_get (e_Mattermost healthy_env) (calls (demo_state demo_internal_mm)) (''mm'', ''apps'') = Inr demo_internal_mm"
    by (simp add: healthy_env_def serving_def)
  moreover have "admitted healthy_env \<lparr>MaxReconciling = 5, RequeueOnLimitDelay = 20\<rparr> (''mm'', ''apps'') (demo_state demo_internal_mm) demo_internal_mm"
    by (simp add: admitted_def healthy_env_def serving_def empty_api_def demo_state_def)
  ultimately show ?thesis
    using dm healthy_demo [OF dm] by (rule healthy_cluster_becomes_stable)
qed

end
