(* ===== verification/ClusterInstallationController.thy ===== *)
theory ClusterInstallationController
  imports ControllerKinds LegacyGenerators
begin

text \<open>
  The controller of the older \<^verbatim>\<open>ClusterInstallation\<close> resource,
  \<^verbatim>\<open>controllers/mattermost/clusterinstallation\<close>: \<^verbatim>\<open>utils.go\<close>, \<^verbatim>\<open>mysql.go\<close>, \<^verbatim>\<open>postgresql.go\<close>, \<^verbatim>\<open>minio.go\<close>,
  \<^verbatim>\<open>mattermost.go\<close>, \<^verbatim>\<open>bluegreen.go\<close> and \<^verbatim>\<open>canary.go\<close>.  The state of a run is the resource as the
  handlers leave it.  The label maps are new ones each time; the one map that is shared with an object,
  the ingress annotations of the blue and green ingresses, is passed as a value: what the object
  matcher's library adds to it is its own annotation, which it leaves out of its comparisons.
\<close>

record ci_state = cluster +
  c_ci :: ClusterInstallation

type_synonym 'a cio = "(ci_state, 'a) io"

definition get_ci :: "ClusterInstallation cio" where
  "get_ci = bindM get_state (\<lambda>s. ret (c_ci s))"

definition put_ci :: "ClusterInstallation \<Rightarrow> unit cio" where
  "put_ci ci = mod_state (\<lambda>s. s\<lparr>c_ci := ci\<rparr>)"

section \<open>Status (\<^verbatim>\<open>utils.go\<close>)\<close>

definition ci_checkSecret :: "env \<Rightarrow> string \<Rightarrow> string \<Rightarrow> string \<Rightarrow> unit cio" where
  "ci_checkSecret env secretName keyName ns =
     bindM (wrapM ''error getting secret'' (client_Get env SecretK (secretName, ns))) (\<lambda>foundSecret.
     if keyName \<in> dom (sec_Data foundSecret) then ret ()
     else fail (Errorf ''secret %s is missing data key: %s'' [secretName, keyName]))"

definition ci_updateStatus :: "env \<Rightarrow> ClusterInstallationStatus \<Rightarrow> unit cio" where
  "ci_updateStatus env status =
     bindM get_ci (\<lambda>ci.
     if ci_Status ci = status then ret ()
     else let ci' = ci\<lparr>ci_Status := status\<rparr> in
          bindM (put_ci ci') (\<lambda>_.
          bindM (wrapM ''failed to update the clusterinstallation status''
                   (client_StatusUpdate env ClusterInstallationK ci')) put_ci))"

definition ci_setState :: "env \<Rightarrow> string \<Rightarrow> unit cio" where
  "ci_setState env desired =
     bindM get_ci (\<lambda>ci.
     if cst_State (ci_Status ci) \<noteq> desired
     then wrapM (''failed to set state to '' @ desired)
            (ci_updateStatus env ((ci_Status ci)\<lparr>cst_State := desired\<rparr>))
     else ret ())"

definition ci_setStateReconciling :: "env \<Rightarrow> unit cio" where
  "ci_setStateReconciling env = ci_setState env ci_Reconciling"

definition ci_setStateReconcilingAndLogError :: "env \<Rightarrow> unit cio" where
  "ci_setStateReconcilingAndLogError env = bindM (tryM (ci_setState env ci_Reconciling)) (\<lambda>_. ret ())"

section \<open>Health (\<^verbatim>\<open>utils.go\<close>)\<close>

definition ci_health_endpoint :: "env \<Rightarrow> bool \<Rightarrow> list_options \<Rightarrow> string cio" where
  "ci_health_endpoint env useServiceLoadBalancer opts =
     (if useServiceLoadBalancer
      then wrapM ''failed to check service load balancer'' (CheckServiceLoadBalancer env opts)
      else wrapM ''failed to check ingress load balancer'' (CheckIngressLoadBalancer env opts))"

text \<open>The status is returned together with the error, if there is one.\<close>

definition checkClusterInstallation ::
  "env \<Rightarrow> string \<Rightarrow> string \<Rightarrow> string \<Rightarrow> string \<Rightarrow> int \<Rightarrow> bool \<Rightarrow> strmap
     \<Rightarrow> (ClusterInstallationStatus \<times> go_error option) cio" where
  "checkClusterInstallation env ns name img version replicas0 useServiceLoadBalancer labels =
     (let status0 = zero_ci_status\<lparr>cst_State := ci_Reconciling, cst_Replicas := 0, cst_UpdatedReplicas := 0\<rparr>;
          opts = \<lparr>lo_Namespace = ns, lo_Labels = labels\<rparr>;
          replicas = (if replicas0 < 0 then 0 else replicas0)
      in bindM (tryM (CheckReplicaSetRollout env opts name ns)) (\<lambda>rollout. case rollout of
           Inl e \<Rightarrow> ret (status0, Some (Wrap e ''rollout not yet started''))
         | Inr ps \<Rightarrow>
             let status1 = status0\<lparr>cst_UpdatedReplicas := prs_UpdatedReplicas ps, cst_Replicas := prs_Replicas ps\<rparr> in
             if prs_UpdatedReplicas ps \<noteq> replicas
             then ret (status1, Some (Errorf ''found %d updated replicas, but wanted %d''
                                        [Itoa (prs_UpdatedReplicas ps), Itoa replicas]))
             else if prs_Replicas ps \<noteq> replicas
             then ret (status1, Some (Errorf ''found %d pods, but wanted %d''
                                        [Itoa (prs_Replicas ps), Itoa replicas]))
             else
               let status2 = status1\<lparr>cst_Image := img, cst_Version := version,
                                     cst_Endpoint := ''not available''\<rparr> in
               bindM (tryM (ci_health_endpoint env useServiceLoadBalancer opts)) (\<lambda>ep. case ep of
                 Inl e \<Rightarrow> ret (status2, Some e)
               | Inr endpoint \<Rightarrow>
                   let status3 = (if endpoint \<noteq> [] then status2\<lparr>cst_Endpoint := endpoint\<rparr> else status2) in
                   ret (status3\<lparr>cst_State := ci_Stable\<rparr>, None))))"

definition check_app_deployment ::
  "env \<Rightarrow> ClusterInstallation \<Rightarrow> AppDeployment \<Rightarrow> (ClusterInstallationStatus \<times> go_error option) cio" where
  "check_app_deployment env ci d =
     checkClusterInstallation env (ci_Namespace ci) (ad_Name d) (ad_Image d) (ad_Version d)
       (csp_Replicas (ci_Spec ci)) (csp_UseServiceLoadBalancer (ci_Spec ci))
       (ClusterInstallationLabels ci (ad_Name d))"

text \<open>With two deployments both are checked, and the status is that of the production one.\<close>

definition handleCheckClusterInstallation :: "env \<Rightarrow> (ClusterInstallationStatus \<times> go_error option) cio" where
  "handleCheckClusterInstallation env =
     bindM get_ci (\<lambda>ci.
     let sp = ci_Spec ci; bg = csp_BlueGreen sp in
     if \<not> bg_Enable bg
     then checkClusterInstallation env (ci_Namespace ci) (ci_Name ci) (csp_Image sp) (csp_Version sp)
            (csp_Replicas sp) (csp_UseServiceLoadBalancer sp) (ClusterInstallationLabels ci (ci_Name ci))
     else
       bindM (check_app_deployment env ci (bg_Blue bg)) (\<lambda>(blueStatus, blueErr).
       bindM (check_app_deployment env ci (bg_Green bg)) (\<lambda>(greenStatus, greenErr).
       let status = (if bg_ProductionDeployment bg = BlueName then blueStatus else greenStatus)
                      \<lparr>cst_BlueName := ad_Name (bg_Blue bg), cst_GreenName := ad_Name (bg_Green bg)\<rparr>
       in ret (status, case blueErr of
            Some e \<Rightarrow> Some (Wrap e ''blue installation validation failed'')
          | None \<Rightarrow> (case greenErr of
               Some e \<Rightarrow> Some (Wrap e ''green installation validation failed'')
             | None \<Rightarrow> None)))))"

text \<open>Writes into the map it is given, unless there is nothing to require.\<close>

definition ensureLabels :: "strmap option \<Rightarrow> strmap option \<Rightarrow> strmap option" where
  "ensureLabels required final =
     (case required of
        None \<Rightarrow> final
      | Some req \<Rightarrow> Some ((case final of None \<Rightarrow> Map.empty | Some f \<Rightarrow> f) ++ req))"

section \<open>The database (\<^verbatim>\<open>mysql.go\<close>, \<^verbatim>\<open>postgresql.go\<close>)\<close>

text \<open>The pattern of the handlers: create the object if it is missing, read it, bring it up to date.\<close>

definition ensure_object ::
  "env \<Rightarrow> 'o kind_ops \<Rightarrow> (ObjectMeta \<Rightarrow> 'o \<Rightarrow> 'o cio) \<Rightarrow> ('o \<Rightarrow> 'o \<Rightarrow> 'o) \<Rightarrow> 'o \<Rightarrow> unit cio" where
  "ensure_object env K create adjust desired0 =
     bindM get_ci (\<lambda>ci.
     bindM (create (ci_Meta ci) desired0) (\<lambda>desired.
     bindM (client_Get env K (k_key K desired)) (\<lambda>current.
     bindM (Update env K current (adjust desired current)) (\<lambda>_. ret ()))))"

definition ci_checkMySQLCluster :: "env \<Rightarrow> unit cio" where
  "ci_checkMySQLCluster env =
     bindM get_ci (\<lambda>ci.
     bindM (lift (ci_Cluster (e_quantity env) ci)) (\<lambda>desired.
     ensure_object env MysqlK (CreateMySQLClusterIfNotExists env) (\<lambda>d _. d) desired))"

definition getOrCreateMySQLSecrets :: "env \<Rightarrow> Info cio" where
  "getOrCreateMySQLSecrets env =
     bindM get_ci (\<lambda>ci.
     bindM (if cid_Secret (csp_Database (ci_Spec ci)) \<noteq> []
            then wrapM ''failed to get custom database secret''
                   (client_Get env SecretK (cid_Secret (csp_Database (ci_Spec ci)), ci_Namespace ci))
            else wrapM ''failed to get or create MySQL secret''
                   (GetOrCreateMySQLSecrets env (ci_Meta ci) (DefaultDatabaseSecretName (ci_Name ci)))) (\<lambda>dbSecret.
     let dbInfo = GenerateDatabaseInfoFromSecret dbSecret in
     bindM (lift (Info_IsValid dbInfo)) (\<lambda>_. ret dbInfo)))"

definition checkPostgres :: "env \<Rightarrow> unit cio" where
  "checkPostgres env = fail (New ''database type 'postgres' not yet implemented'')"

section \<open>The file store (\<^verbatim>\<open>minio.go\<close>)\<close>

definition checkCustomMinioSecret :: "env \<Rightarrow> unit cio" where
  "checkCustomMinioSecret env =
     bindM get_ci (\<lambda>ci.
     let name = cim_Secret (csp_Minio (ci_Spec ci)) in
     bindM (client_Get env SecretK (name, ci_Namespace ci)) (\<lambda>secret.
     if sec_Data secret ''accesskey'' = None
     then fail (Errorf ''custom Minio Secret %s does not have an 'accesskey' value'' [name])
     else if sec_Data secret ''secretkey'' = None
     then fail (Errorf ''custom Minio Secret %s does not have an 'secretkey' value'' [name])
     else ret ()))"

definition ci_checkMattermostMinioSecret :: "env \<Rightarrow> unit cio" where
  "ci_checkMattermostMinioSecret env =
     bindM get_state (\<lambda>s.
     let desiredSecret = minio_Secret (e_New16ID env (calls s) 0) (e_New28ID env (calls s)) (c_ci s)
     in bindM (CreateOrUpdateMinioSecret env (ci_Meta (c_ci s)) desiredSecret) (\<lambda>_. ret ()))"

definition checkMinioSecret :: "env \<Rightarrow> unit cio" where
  "checkMinioSecret env =
     bindM get_ci (\<lambda>ci. if cim_Secret (csp_Minio (ci_Spec ci)) \<noteq> [] then checkCustomMinioSecret env
                         else ci_checkMattermostMinioSecret env)"

definition ci_checkMinioInstance :: "env \<Rightarrow> unit cio" where
  "ci_checkMinioInstance env =
     bindM get_ci (\<lambda>ci.
     bindM (lift (Instance (e_quantity env) ci)) (\<lambda>desired.
     ensure_object env MinioK (CreateMinioInstanceIfNotExists env) (\<lambda>d _. d) desired))"

definition checkMinio :: "env \<Rightarrow> unit cio" where
  "checkMinio env =
     bindM (checkMinioSecret env) (\<lambda>_.
     bindM get_ci (\<lambda>ci. if cim_IsExternal (csp_Minio (ci_Spec ci)) then ret () else ci_checkMinioInstance env))"

section \<open>Service, access control and ingress (\<^verbatim>\<open>mattermost.go\<close>)\<close>

definition ci_checkMattermostService :: "env \<Rightarrow> string \<Rightarrow> string \<Rightarrow> unit cio" where
  "ci_checkMattermostService env resourceName selectorName =
     bindM get_ci (\<lambda>ci.
     ensure_object env ServiceK (CreateServiceIfNotExists env) CopyServiceEmptyAutoAssignedFields
       (GenerateService ci resourceName selectorName))"

definition ci_checkMattermostSA :: "env \<Rightarrow> string \<Rightarrow> unit cio" where
  "ci_checkMattermostSA env saName =
     bindM get_ci (\<lambda>ci.
     ensure_object env ServiceAccountK (CreateServiceAccountIfNotExists env) (\<lambda>d _. d)
       (GenerateServiceAccount ci saName))"

definition ci_checkMattermostRole :: "env \<Rightarrow> string \<Rightarrow> unit cio" where
  "ci_checkMattermostRole env roleName =
     bindM get_ci (\<lambda>ci.
     ensure_object env RoleK (CreateRoleIfNotExists env) (\<lambda>d _. d) (GenerateRole ci roleName))"

definition ci_checkMattermostRoleBinding :: "env \<Rightarrow> string \<Rightarrow> string \<Rightarrow> unit cio" where
  "ci_checkMattermostRoleBinding env roleName saName =
     bindM get_ci (\<lambda>ci.
     ensure_object env RoleBindingK (CreateRoleBindingIfNotExists env) (\<lambda>d _. d)
       (GenerateRoleBinding ci roleName saName))"

definition ci_checkMattermostRBAC :: "env \<Rightarrow> string \<Rightarrow> string \<Rightarrow> unit cio" where
  "ci_checkMattermostRBAC env roleName saName =
     bindM (wrapM ''failed to check mattermost ServiceAccount'' (ci_checkMattermostSA env saName)) (\<lambda>_.
     bindM (wrapM ''failed to check mattermost Role'' (ci_checkMattermostRole env roleName)) (\<lambda>_.
     wrapM ''failed to check mattermost RoleBinding'' (ci_checkMattermostRoleBinding env roleName saName)))"

definition ci_checkMattermostIngress :: "env \<Rightarrow> string \<Rightarrow> string \<Rightarrow> gomap \<Rightarrow> unit cio" where
  "ci_checkMattermostIngress env resourceName ingressName ingressAnnotations =
     bindM get_ci (\<lambda>ci.
     ensure_object env IngressK (CreateIngressIfNotExists env) (\<lambda>d _. d)
       (GenerateIngress ci resourceName ingressName ingressAnnotations))"

section \<open>The update job (\<^verbatim>\<open>mattermost.go\<close>)\<close>

definition ci_updateJobName :: string where "ci_updateJobName = ''mattermost-update-check''"

definition ci_isMainContainerImageSame ::
  "ClusterInstallation \<Rightarrow> Container list \<Rightarrow> Container list \<Rightarrow> bool outcome" where
  "ci_isMainContainerImageSame ci a b =
     (case ci_GetMattermostAppContainer ci a of
        None \<Rightarrow> Err (Errorf ''failed to find main container in a list while comparing images'' [])
      | Some containerA \<Rightarrow>
          (case ci_GetMattermostAppContainer ci b of
             None \<Rightarrow> Err (Errorf ''failed to find main container in a list while comparing images'' [])
           | Some containerB \<Rightarrow> Ok (c_Image containerA = c_Image containerB)))"

text \<open>Neither deployment is a nil pointer where the controller calls this function.\<close>

definition ci_isMainDeploymentContainerImageSame ::
  "ClusterInstallation \<Rightarrow> Deployment \<Rightarrow> Deployment \<Rightarrow> bool outcome" where
  "ci_isMainDeploymentContainerImageSame ci a b =
     wrapO ''failed to compare deployment images, deployments: %s/%s, %s/%s''
       (ci_isMainContainerImageSame ci (ps_Containers (pt_Spec (d_Template a))) (ps_Containers (pt_Spec (d_Template b))))"

text \<open>The errors are logged only: when the list fails no pod is deleted.\<close>

definition ci_cleanupUpdateJob :: "env \<Rightarrow> Job \<Rightarrow> unit cio" where
  "ci_cleanupUpdateJob env job =
     bindM (tryM (client_Delete env JobK job)) (\<lambda>_.
     bindM (tryM (client_List env PodK (Some (om_Namespace (j_Meta job))) [''app'' \<mapsto> ci_updateJobName])) (\<lambda>listed.
     for_each (\<lambda>pod. bindM (tryM (client_Delete env PodK pod)) (\<lambda>_. ret ()))
       (case listed of Inl _ \<Rightarrow> [] | Inr podList \<Rightarrow> podList)))"

text \<open>This version has no update job specification: the pointer is nil, and nothing is written back.\<close>

definition ci_launch_update_job :: "env \<Rightarrow> ClusterInstallation \<Rightarrow> Deployment \<Rightarrow> unit cio" where
  "ci_launch_update_job env ci desired =
     LaunchMattermostUpdateJob env (\<lambda>_. ret ()) (ci_Meta ci) (ci_Namespace ci) desired None"

definition ci_restart_update_job :: "env \<Rightarrow> ClusterInstallation \<Rightarrow> Job \<Rightarrow> Deployment \<Rightarrow> unit cio" where
  "ci_restart_update_job env ci job desired =
     RestartMattermostUpdateJob env (\<lambda>_. ret ()) (ci_Meta ci) job desired None"

text \<open>The job to clean up, and the error.\<close>

definition ci_checkUpdateJob :: "env \<Rightarrow> Deployment \<Rightarrow> (Job option \<times> go_error option) cio" where
  "ci_checkUpdateJob env desired =
     (case ci_GetMattermostAppContainerFromDeployment desired of
        None \<Rightarrow> lift (Panic ''nil container'')
      | Some _ \<Rightarrow>
     bindM get_ci (\<lambda>ci.
     bindM (tryM (FetchMattermostUpdateJob env (ci_Namespace ci))) (\<lambda>fetched. case fetched of
       Inl e \<Rightarrow>
         if IsNotFound e
         then bindM (tryM (ci_launch_update_job env ci desired)) (\<lambda>launched. case launched of
                Inl e' \<Rightarrow> ret (None, Some (Wrap e' ''Launching update image job failed''))
              | Inr _ \<Rightarrow> ret (None, Some (New ''Began update image job'')))
         else ret (None, Some (Wrap e ''failed to determine if an update image job is already running''))
     | Inr job \<Rightarrow>
         (case ci_isMainContainerImageSame ci (ps_Containers (pt_Spec (d_Template desired)))
                 (ps_Containers (pt_Spec (j_Template job))) of
            Err e \<Rightarrow> ret (None, Some (Wrap e ''failed to compare image of update job and desired deployment''))
          | Panic p \<Rightarrow> lift (Panic p)
          | Ok isSameImage \<Rightarrow>
              if \<not> isSameImage
              then bindM (tryM (ci_restart_update_job env ci job desired)) (\<lambda>restarted. case restarted of
                     Inl e \<Rightarrow> ret (None, Some (Wrap e ''failed to restart update job''))
                   | Inr _ \<Rightarrow> ret (None, Some (New ''Restarted update image job'')))
              else if j_Status_CompletionTime job = None
              then ret (None, Some (New ''update image job still running''))
              else if j_Status_Failed job > 0
              then ret (Some job, Some (New ''update image job failed''))
              else ret (Some job, None)))))"

definition ci_update_deployment :: "env \<Rightarrow> Deployment \<Rightarrow> Deployment \<Rightarrow> unit cio" where
  "ci_update_deployment env current desired = bindM (Update env DeploymentK current desired) (\<lambda>_. ret ())"

definition ci_after_update_job ::
  "env \<Rightarrow> Deployment \<Rightarrow> Deployment \<Rightarrow> Job option \<times> go_error option \<Rightarrow> unit cio" where
  "ci_after_update_job env current desired check =
     (let (job, err) = check;
          rest = (case err of Some e \<Rightarrow> fail e | None \<Rightarrow> ci_update_deployment env current desired)
      in case job of None \<Rightarrow> rest | Some j \<Rightarrow> deferM rest (ci_cleanupUpdateJob env j))"

definition ci_updateMattermostDeployment :: "env \<Rightarrow> Deployment \<Rightarrow> Deployment \<Rightarrow> unit cio" where
  "ci_updateMattermostDeployment env current desired =
     bindM get_ci (\<lambda>ci.
     bindM (lift (ci_isMainDeploymentContainerImageSame ci current desired)) (\<lambda>sameImage.
     if sameImage then ci_update_deployment env current desired
     else bindM (ci_checkUpdateJob env desired) (ci_after_update_job env current desired)))"

section \<open>Deployments (\<^verbatim>\<open>mattermost.go\<close>)\<close>

definition ci_database_info :: "env \<Rightarrow> Info cio" where
  "ci_database_info env =
     bindM get_ci (\<lambda>ci.
     bindM (if cid_Secret (csp_Database (ci_Spec ci)) = []
            then wrapM ''failed to get database information'' (getOrCreateMySQLSecrets env)
            else bindM (wrapM ''failed to get database secret''
                          (client_Get env SecretK (cid_Secret (csp_Database (ci_Spec ci)), ci_Namespace ci)))
                   (\<lambda>databaseSecret. ret (GenerateDatabaseInfoFromSecret databaseSecret))) (\<lambda>dbInfo.
     bindM (wrapM ''database secret is not valid'' (lift (Info_IsValid dbInfo))) (\<lambda>_. ret dbInfo)))"

definition ci_minio_url :: "env \<Rightarrow> string cio" where
  "ci_minio_url env =
     bindM get_ci (\<lambda>ci.
     if cim_IsExternal (csp_Minio (ci_Spec ci)) then ret (cim_ExternalURL (csp_Minio (ci_Spec ci)))
     else wrapM ''failed to get minio service.'' (GetMinioService env (ci_Name ci) (ci_Namespace ci)))"

definition ci_check_licence :: "env \<Rightarrow> unit cio" where
  "ci_check_licence env =
     bindM get_ci (\<lambda>ci.
     if csp_MattermostLicenseSecret (ci_Spec ci) \<noteq> []
     then wrapM ''failed to get mattermost license secret.''
            (ci_checkSecret env (csp_MattermostLicenseSecret (ci_Spec ci)) ''license'' (ci_Namespace ci))
     else ret ())"

definition ci_checkMattermostDeployment :: "env \<Rightarrow> string \<Rightarrow> string \<Rightarrow> string \<Rightarrow> string \<Rightarrow> unit cio" where
  "ci_checkMattermostDeployment env resourceName ingressName saName imageName =
     bindM (ci_database_info env) (\<lambda>dbInfo.
     bindM (ci_minio_url env) (\<lambda>minioURL.
     bindM (ci_check_licence env) (\<lambda>_.
     bindM get_ci (\<lambda>ci.
     bindM (lift (GenerateDeployment ci dbInfo resourceName ingressName saName imageName minioURL)) (\<lambda>desired0.
     bindM (wrapM ''failed to create mattermost deployment''
              (CreateDeploymentIfNotExists env (ci_Meta ci) desired0)) (\<lambda>desired.
     bindM (wrapM ''failed to get mattermost deployment''
              (client_Get env DeploymentK (k_key DeploymentK desired))) (\<lambda>current.
     wrapM ''failed to update mattermost deployment''
       (ci_updateMattermostDeployment env current desired))))))))"

text \<open>The resource is read before it is deleted; one that is not there is no error.\<close>

definition deleteMattermostResource :: "env \<Rightarrow> 'o kind_ops \<Rightarrow> string \<Rightarrow> unit cio" where
  "deleteMattermostResource env K resourceName =
     bindM get_ci (\<lambda>ci.
     bindM (tryM (client_Get env K (resourceName, ci_Namespace ci))) (\<lambda>found. case found of
       Inl e \<Rightarrow> if IsNotFound e then ret () else fail e
     | Inr resource \<Rightarrow> client_Delete env K resource))"

definition deleteMattermostDeployment :: "env \<Rightarrow> string \<Rightarrow> unit cio" where
  "deleteMattermostDeployment env resourceName = deleteMattermostResource env DeploymentK resourceName"

definition deleteMattermostService :: "env \<Rightarrow> string \<Rightarrow> unit cio" where
  "deleteMattermostService env resourceName = deleteMattermostResource env ServiceK resourceName"

definition deleteMattermostIngress :: "env \<Rightarrow> string \<Rightarrow> unit cio" where
  "deleteMattermostIngress env resourceName = deleteMattermostResource env IngressK resourceName"

definition deleteAllMattermostComponents :: "env \<Rightarrow> string \<Rightarrow> unit cio" where
  "deleteAllMattermostComponents env resourceName =
     bindM (deleteMattermostDeployment env resourceName) (\<lambda>_.
     bindM (deleteMattermostService env resourceName) (\<lambda>_.
     deleteMattermostIngress env resourceName))"

definition ci_ingress_annotations :: "ClusterInstallation \<Rightarrow> strmap" where
  "ci_ingress_annotations ci =
     write_all [''kubernetes.io/ingress.class'' \<mapsto> ''nginx'',
                ''nginx.ingress.kubernetes.io/proxy-body-size'' \<mapsto> ''1000M'']
       (csp_IngressAnnotations (ci_Spec ci))"

definition ci_checkMattermost :: "env \<Rightarrow> unit cio" where
  "ci_checkMattermost env =
     bindM get_ci (\<lambda>ci.
     bindM (ci_checkMattermostService env (ci_Name ci) (ci_GetProductionDeploymentName ci)) (\<lambda>_.
     bindM (ci_checkMattermostRBAC env (ci_Name ci) (ci_Name ci)) (\<lambda>_.
     bindM (if \<not> csp_UseServiceLoadBalancer (ci_Spec ci)
            then ci_checkMattermostIngress env (ci_Name ci) (csp_IngressName (ci_Spec ci))
                   (MapLit (ci_ingress_annotations ci))
            else ret ()) (\<lambda>_.
     if \<not> bg_Enable (csp_BlueGreen (ci_Spec ci))
     then ci_checkMattermostDeployment env (ci_Name ci) (csp_IngressName (ci_Spec ci)) (ci_Name ci)
            (ci_GetImageName ci)
     else ret ()))))"

section \<open>Blue/green and canary deployments\<close>

definition option_map_value :: "strmap option \<Rightarrow> gomap" where
  "option_map_value m = (case m of None \<Rightarrow> NilMap | Some m \<Rightarrow> MapLit m)"

definition check_blue_green_deployment :: "env \<Rightarrow> ClusterInstallation \<Rightarrow> AppDeployment \<Rightarrow> unit cio" where
  "check_blue_green_deployment env ci d =
     bindM (ci_checkMattermostService env (ad_Name d) (ad_Name d)) (\<lambda>_.
     bindM (if \<not> csp_UseServiceLoadBalancer (ci_Spec ci)
            then ci_checkMattermostIngress env (ad_Name d) (ad_IngressName d)
                   (option_map_value (csp_IngressAnnotations (ci_Spec ci)))
            else ret ()) (\<lambda>_.
     ci_checkMattermostDeployment env (ad_Name d) (ad_IngressName d) (ci_Name ci) (GetDeploymentImageName d)))"

definition checkBlueGreen :: "env \<Rightarrow> unit cio" where
  "checkBlueGreen env =
     bindM get_ci (\<lambda>ci.
     let bg = csp_BlueGreen (ci_Spec ci) in
     if bg_Enable bg
     then bindM (for_each (check_blue_green_deployment env ci) [bg_Blue bg, bg_Green bg]) (\<lambda>_.
          deleteMattermostDeployment env (ci_Name ci))
     else
       bindM (if cst_BlueName (ci_Status ci) \<noteq> []
              then deleteAllMattermostComponents env (cst_BlueName (ci_Status ci)) else ret ()) (\<lambda>_.
       if cst_GreenName (ci_Status ci) \<noteq> []
       then deleteAllMattermostComponents env (cst_GreenName (ci_Status ci)) else ret ()))"

definition canary_annotations :: strmap where
  "canary_annotations = [''kubernetes.io/ingress.class'' \<mapsto> ''nginx'',
     ''nginx.ingress.kubernetes.io/canary'' \<mapsto> ''true'',
     ''nginx.ingress.kubernetes.io/canary-by-cookie'' \<mapsto> ''canary'']"

definition checkCanary :: "env \<Rightarrow> unit cio" where
  "checkCanary env =
     bindM get_ci (\<lambda>ci.
     if can_Enable (csp_Canary (ci_Spec ci))
     then let c = can_Deployment (csp_Canary (ci_Spec ci)) in
          bindM (ci_checkMattermostService env (ad_Name c) (ad_Name c)) (\<lambda>_.
          bindM (ci_checkMattermostIngress env (ad_Name c) (csp_IngressName (ci_Spec ci))
                   (MapLit canary_annotations)) (\<lambda>_.
          ci_checkMattermostDeployment env (ad_Name c) (csp_IngressName (ci_Spec ci)) (ci_Name ci)
            (GetDeploymentImageName c)))
     else ret ())"

end
