(* ===== verification/Conversion.thy ===== *)
theory Conversion
  imports ClusterInstallationController
begin

text \<open>
  Converting a \<^verbatim>\<open>ClusterInstallation\<close> to a \<^verbatim>\<open>Mattermost\<close> resource:
  \<^verbatim>\<open>controllers/mattermost/clusterinstallation/conversion.go\<close>.
\<close>

definition IsConvertible :: "ClusterInstallation \<Rightarrow> unit outcome" where
  "IsConvertible ci =
     (if bg_Enable (csp_BlueGreen (ci_Spec ci))
      then Err (New ''ClusterInstallation resource with BlueGreen enabled cannot be converted to Mattermost resource. Disable BlueGreen to enable migration.'')
      else if can_Enable (csp_Canary (ci_Spec ci))
      then Err (New ''ClusterInstallation resource with Canary enabled cannot be converted to Mattermost resource. Disable Canary to enable migration.'')
      else Ok ())"

text \<open>0 means that the number is not specified.\<close>

definition convertReplicas :: "int \<Rightarrow> int option" where
  "convertReplicas old = (if old < 0 then Some 0 else if old = 0 then None else Some old)"

definition convertToOperatorManagedMinio :: "ClusterInstallation \<Rightarrow> FileStore" where
  "convertToOperatorManagedMinio ci =
     (let mi = csp_Minio (ci_Spec ci)
      in \<lparr>fs_External = None, fs_ExternalVolume = None,
          fs_OperatorManaged = Some \<lparr>omm_StorageSize = cim_StorageSize mi,
            omm_Replicas = convertReplicas (cim_Replicas mi), omm_Resources = cim_Resources mi\<rparr>,
          fs_Local = None\<rparr>)"

definition convertFileStore :: "ClusterInstallation \<Rightarrow> FileStore" where
  "convertFileStore ci =
     (let mi = csp_Minio (ci_Spec ci)
      in if \<not> cim_IsExternal mi then convertToOperatorManagedMinio ci
         else \<lparr>fs_External = Some \<lparr>efs_URL = cim_ExternalURL mi, efs_Bucket = cim_ExternalBucket mi,
                 efs_Secret = cim_Secret mi, efs_UseServiceAccount = False\<rparr>,
               fs_ExternalVolume = None, fs_OperatorManaged = None, fs_Local = None\<rparr>)"

definition convertToOperatorManagedDB :: "ClusterInstallation \<Rightarrow> Database" where
  "convertToOperatorManagedDB ci =
     (let db = csp_Database (ci_Spec ci)
      in \<lparr>db_External = None,
          db_OperatorManaged = Some
            \<lparr>omd_Type = cid_Type db,
             omd_StorageSize = cid_StorageSize db,
             omd_Replicas = convertReplicas (cid_Replicas db),
             omd_Resources = cid_Resources db,
             omd_InitBucketURL = cid_InitBucketURL db,
             omd_BackupSchedule = cid_BackupSchedule db,
             omd_BackupURL = cid_BackupURL db,
             omd_BackupRemoteDeletePolicy = cid_BackupRemoteDeletePolicy db,
             omd_BackupSecretName = cid_BackupSecretName db,
             omd_BackupRestoreSecretName = cid_BackupRestoreSecretName db,
             omd_Version = cid_Version db\<rparr>,
          db_DisableReadinessCheck = False, db_ReadinessCheck = None\<rparr>)"

definition convertToExternalDB :: "ClusterInstallation \<Rightarrow> Database" where
  "convertToExternalDB ci =
     \<lparr>db_External = Some \<lparr>edb_Secret = cid_Secret (csp_Database (ci_Spec ci))\<rparr>,
      db_OperatorManaged = None, db_DisableReadinessCheck = False, db_ReadinessCheck = None\<rparr>"

definition convertDatabase :: "env \<Rightarrow> ClusterInstallation \<Rightarrow> Database cio" where
  "convertDatabase env ci =
     (if cid_Secret (csp_Database (ci_Spec ci)) = [] then ret (convertToOperatorManagedDB ci)
      else
        bindM (wrapM ''failed to get Database Secret''
                 (client_Get env SecretK (cid_Secret (csp_Database (ci_Spec ci)), ci_Namespace ci))) (\<lambda>secret.
        let dbInfo = GenerateDatabaseInfoFromSecret secret in
        bindM (wrapM ''dbInfo generated from Secret is invalid'' (lift (Info_IsValid dbInfo))) (\<lambda>_.
        ret (if \<not> in_External dbInfo then convertToOperatorManagedDB ci else convertToExternalDB ci))))"

definition convertElasticSearch :: "ci_ElasticSearch \<Rightarrow> ElasticSearch" where
  "convertElasticSearch es = \<lparr>es_Host = cie_Host es, es_UserName = cie_UserName es, es_Password = cie_Password es\<rparr>"

definition convertScheduling :: "ClusterInstallationSpec \<Rightarrow> Scheduling" where
  "convertScheduling sp = \<lparr>sch_Resources = csp_Resources sp, sch_NodeSelector = csp_NodeSelector sp,
     sch_Affinity = csp_Affinity sp, sch_Tolerations = []\<rparr>"

definition convertProbes :: "ClusterInstallationSpec \<Rightarrow> Probes" where
  "convertProbes sp = \<lparr>prb_LivenessProbe = csp_LivenessProbe sp, prb_ReadinessProbe = csp_ReadinessProbe sp\<rparr>"

text \<open>The composite literal, and the database, which takes a read.\<close>

definition convert_with :: "ClusterInstallation \<Rightarrow> Database \<Rightarrow> Mattermost" where
  "convert_with ci db =
     (let sp = ci_Spec ci
      in \<lparr>mm_Meta = empty_meta\<lparr>om_Name := ci_Name ci, om_Namespace := ci_Namespace ci,
            om_Labels := om_Labels (ci_Meta ci), om_Annotations := om_Annotations (ci_Meta ci)\<rparr>,
          mm_Spec = zero_spec\<lparr>
            s_Size := csp_Size sp,
            s_Image := csp_Image sp,
            s_Version := csp_Version sp,
            s_Replicas := convertReplicas (csp_Replicas sp),
            s_MattermostEnv := csp_MattermostEnv sp,
            s_LicenseSecret := csp_MattermostLicenseSecret sp,
            s_IngressName := csp_IngressName sp,
            s_IngressAnnotations := csp_IngressAnnotations sp,
            s_UseIngressTLS := csp_UseIngressTLS sp,
            s_UseServiceLoadBalancer := csp_UseServiceLoadBalancer sp,
            s_ServiceAnnotations := csp_ServiceAnnotations sp,
            s_ResourceLabels := csp_ResourceLabels sp,
            s_ImagePullPolicy := csp_ImagePullPolicy sp,
            s_FileStore := convertFileStore ci,
            s_ElasticSearch := convertElasticSearch (csp_ElasticSearch sp),
            s_Scheduling := convertScheduling sp,
            s_Probes := convertProbes sp,
            s_Database := db\<rparr>,
          mm_Status = zero_status\<rparr>)"

definition ConvertToMM :: "env \<Rightarrow> ClusterInstallation \<Rightarrow> Mattermost cio" where
  "ConvertToMM env ci =
     bindM (wrapM ''failed to convert ClusterInstallation.Spec.Database to Mattermost.Spec.Database''
              (convertDatabase env ci)) (\<lambda>mmDB. ret (convert_with ci mmDB))"

end
