(* ===== verification/Migration.thy ===== *)
theory Migration
  imports Conversion
begin

text \<open>
  Migrating a \<^verbatim>\<open>ClusterInstallation\<close> to a \<^verbatim>\<open>Mattermost\<close> resource:
  \<^verbatim>\<open>controllers/mattermost/clusterinstallation/migration.go\<close>.  The old deployment is deleted with its
  pods left running, a new one with the new labels takes its place, and when that one is ready the new
  resource is created.  The old resource and its replica sets are deleted when the new one is stable.
\<close>

record MigrationResult =
  mr_Status :: string
  mr_RequeueIn :: int
  mr_Finished :: bool

definition zero_migration_result :: MigrationResult where
  "zero_migration_result = \<lparr>mr_Status = [], mr_RequeueIn = 0, mr_Finished = False\<rparr>"

text \<open>
  The new resource holds the very map object of the old one's \<^verbatim>\<open>ResourceLabels\<close>: what the label helper
  writes into it is seen in both.  The result is the labels and the new resource.
\<close>

definition share_labels :: "Mattermost \<Rightarrow> ClusterInstallation \<Rightarrow> ClusterInstallation" where
  "share_labels mm ci = ci\<lparr>ci_Spec := (ci_Spec ci)\<lparr>csp_ResourceLabels := s_ResourceLabels (mm_Spec mm)\<rparr>\<rparr>"

definition migrated_labels :: "Mattermost \<Rightarrow> (strmap \<times> Mattermost) cio" where
  "migrated_labels mm =
     (let (g, mm') = MattermostLabels mm (mm_Name mm)
      in bindM (mod_state (\<lambda>s. s\<lparr>c_ci := share_labels mm' (c_ci s)\<rparr>)) (\<lambda>_. ret (deref (mm_maps mm') g, mm')))"

definition isDeploymentMigrated :: "env \<Rightarrow> string \<Rightarrow> Mattermost \<Rightarrow> (bool \<times> Mattermost) cio" where
  "isDeploymentMigrated env ns mm =
     bindM (migrated_labels mm) (\<lambda>(labels, mm').
     bindM (wrapM ''failed to list deployments'' (client_List env DeploymentK (Some ns) labels)) (\<lambda>items.
     ret (length items = 1, mm')))"

definition getDeployment :: "Deployment list \<Rightarrow> string \<Rightarrow> Deployment option" where
  "getDeployment items name = find (\<lambda>d. om_Name (d_Meta d) = name) items"

definition isDeploymentReady :: "env \<Rightarrow> string \<Rightarrow> Mattermost \<Rightarrow> (bool \<times> Mattermost) cio" where
  "isDeploymentReady env ns mm0 =
     bindM (migrated_labels mm0) (\<lambda>(labels, mm).
     bindM (wrapM ''failed to list deployments'' (client_List env DeploymentK (Some ns) labels)) (\<lambda>items.
     case getDeployment items (mm_Name mm) of
       None \<Rightarrow> fail (Errorf ''failed to found migrated deployment'' [])
     | Some _ \<Rightarrow>
         bindM (wrapM ''failed to check if pods are ready''
                  (CheckPodsRollOut env \<lparr>lo_Namespace = ns, lo_Labels = labels\<rparr> (GetImageName mm))) (\<lambda>status.
         ret ((case s_Replicas (mm_Spec mm) of None \<Rightarrow> 1 | Some n \<Rightarrow> n) = prs_UpdatedReplicas status, mm))))"

section \<open>Waiting for the deletion\<close>

text \<open>
  Durations in nanoseconds.  The loop reads past the cache until the deployment is gone, or the timer
  is found to have fired; between two reads it sleeps.  \<open>elapsed\<close> is the time since the timer was set.
\<close>

definition deletion_timeout :: nat where "deletion_timeout = 60 * 1000000000"
definition poll_interval :: nat where "poll_interval = 2 * 1000000000"

definition gone :: "'a outcome \<Rightarrow> bool" where
  "gone r = (case r of Err e \<Rightarrow> IsNotFound e | _ \<Rightarrow> False)"

function wait_loop :: "env \<Rightarrow> key \<Rightarrow> nat \<Rightarrow> 'z cluster_scheme \<Rightarrow> unit outcome \<times> 'z cluster_scheme" where
  "wait_loop env name elapsed s =
     (let (r, s') = reader_Get env DeploymentK name s;
          now = elapsed + e_latency env (calls s')
      in if gone r then (Ok (), s')
         else if deletion_timeout \<le> now
         then (Err (Errorf ''timeout waiting for deployment deletion'' []), s')
         else wait_loop env name (now + poll_interval) s')"
  by pat_completeness auto

termination
  by (relation "measure (\<lambda>(_, _, elapsed, _). deletion_timeout - elapsed)")
     (auto simp: poll_interval_def)

declare wait_loop.simps [simp del]

definition waitForDeploymentDeletion :: "env \<Rightarrow> key \<Rightarrow> unit cio" where
  "waitForDeploymentDeletion env name = wait_loop env name 0"

section \<open>The migration\<close>

text \<open>The new deployment has the old one's specification, with the new selector and pod labels.\<close>

definition migrated_deployment :: "ClusterInstallation \<Rightarrow> Mattermost \<Rightarrow> strmap \<Rightarrow> Deployment \<Rightarrow> Deployment" where
  "migrated_deployment ci mm newLabels oldDeployment =
     oldDeployment\<lparr>
       d_Meta := empty_meta\<lparr>om_Name := ci_Name ci, om_Namespace := ci_Namespace ci, om_Labels := MapLit newLabels\<rparr>,
       d_Selector := MapLit (MattermostSelectorLabels (mm_Name mm)),
       d_Template := (d_Template oldDeployment)\<lparr>pt_Labels := MapLit newLabels\<rparr>,
       d_Status_ObservedGeneration := 0, d_Status_Replicas := 0\<rparr>"

definition recreateDeployment :: "env \<Rightarrow> Mattermost \<Rightarrow> Mattermost cio" where
  "recreateDeployment env mm0 =
     bindM get_ci (\<lambda>ci.
     bindM (wrapM ''failed to get old deployment''
              (client_Get env DeploymentK (ci_Name ci, ci_Namespace ci))) (\<lambda>oldDeployment.
     bindM (wrapM ''failed to delete old deployment''
              (client_DeleteWith env DeploymentK PropagationOrphan oldDeployment)) (\<lambda>_.
     bindM (wrapM ''error while waiting for deployment deletion''
              (waitForDeploymentDeletion env (ci_Name ci, ci_Namespace ci))) (\<lambda>_.
     bindM (migrated_labels mm0) (\<lambda>(newLabels, mm).
     bindM (wrapM ''failed to create new Deployment''
              (client_Create env DeploymentK (migrated_deployment ci mm newLabels oldDeployment))) (\<lambda>_.
     ret mm))))))"

definition initializeMigration :: "env \<Rightarrow> bool cio" where
  "initializeMigration env =
     bindM get_ci (\<lambda>ci.
     bindM (wrapM ''failed to convert ClusterInstallation to Mattermost'' (ConvertToMM env ci)) (\<lambda>mm0.
     bindM (wrapM ''failed to check if Deployment is migrated''
              (isDeploymentMigrated env (ci_Namespace ci) mm0)) (\<lambda>(isMigrated, mm1).
     bindM (if \<not> isMigrated
            then wrapM ''failed to migrate Deployment'' (recreateDeployment env mm1)
            else ret mm1) (\<lambda>mm2.
     bindM (wrapM ''failed to check if deployment is ready''
              (isDeploymentReady env (ci_Namespace ci) mm2)) (\<lambda>(isReady, mm).
     if \<not> isReady then ret False
     else bindM (wrapM ''failed to create Mattermost CR'' (client_Create env MattermostK mm)) (\<lambda>_. ret True))))))"

definition cleanupReplicaSets :: "env \<Rightarrow> unit cio" where
  "cleanupReplicaSets env =
     bindM get_ci (\<lambda>ci.
     bindM (wrapM ''failed to list Replica Sets''
              (client_List env ReplicaSetK (Some (ci_Namespace ci))
                 (ClusterInstallationLabels ci (ci_Name ci)))) (\<lambda>replicaSets.
     for_each (\<lambda>rs. wrapM ''failed to remove old Replica Sets'' (client_Delete env ReplicaSetK rs)) replicaSets))"

text \<open>Everything after the first part runs with the zero resource when the new one was not found.\<close>

definition finish_migration :: "env \<Rightarrow> string \<Rightarrow> MigrationResult cio" where
  "finish_migration env state =
     (if state \<noteq> Stable
      then ret \<lparr>mr_Status = ''Migration to Mattermost is in progress - waiting for Mattermost to be ready'',
                mr_RequeueIn = 10 * 1000000000, mr_Finished = False\<rparr>
      else
        bindM (wrapM ''failed to cleanup old Replica Sets'' (cleanupReplicaSets env)) (\<lambda>_.
        bindM get_ci (\<lambda>ci.
        bindM (tryM (client_Delete env ClusterInstallationK ci)) (\<lambda>deleted. case deleted of
          Inl e \<Rightarrow> if IsNotFound e then ret (zero_migration_result\<lparr>mr_Finished := True\<rparr>)
                   else fail (Wrap e ''failed to cleanup Cluster Installation'')
        | Inr _ \<Rightarrow> ret (zero_migration_result\<lparr>mr_Finished := True\<rparr>)))))"

definition HandleMigration :: "env \<Rightarrow> MigrationResult cio" where
  "HandleMigration env =
     bindM get_ci (\<lambda>ci. case IsConvertible ci of
       Err e \<Rightarrow> ret (zero_migration_result\<lparr>mr_Status :=
                  ''Migration to Mattermost cannot be performed safely: '' @ e_err_text env e\<rparr>)
     | Panic p \<Rightarrow> lift (Panic p)
     | Ok _ \<Rightarrow>
         bindM (tryM (client_Get env MattermostK (ci_Name ci, ci_Namespace ci))) (\<lambda>existing. case existing of
           Inl e \<Rightarrow>
             if \<not> IsNotFound e then fail (Wrap e ''failed to check if Mattermost CR exists'')
             else bindM (wrapM ''failed to initialize migration'' (initializeMigration env)) (\<lambda>finished.
                  if \<not> finished
                  then ret \<lparr>mr_Status = ''Migration to Mattermost is in progress - recreating deployment'',
                            mr_RequeueIn = 10 * 1000000000, mr_Finished = False\<rparr>
                  else finish_migration env [])
         | Inr existingMM \<Rightarrow> finish_migration env (st_State (mm_Status existingMM))))"

end
