(* ===== verification/ClusterInstallationReconcile.thy ===== *)
theory ClusterInstallationReconcile
  imports Migration
begin

text \<open>
  The reconcile loop of \<^verbatim>\<open>ClusterInstallation\<close> resources:
  \<^verbatim>\<open>controllers/mattermost/clusterinstallation/controller.go\<close>.
\<close>

definition ci_healthCheckRequeueDelay :: int where "ci_healthCheckRequeueDelay = 6 * 1000000000"

fun countReconciling :: "ClusterInstallation list \<Rightarrow> int" where
  "countReconciling [] = 0"
| "countReconciling (ci # cis) =
     (if cst_State (ci_Status ci) = ci_Reconciling then 1 + countReconciling cis else countReconciling cis)"

section \<open>The database\<close>

text \<open>\<open>True\<close> when the secret describes an external database and nothing is left to do.\<close>

definition ci_external_database :: "env \<Rightarrow> bool cio" where
  "ci_external_database env =
     bindM get_ci (\<lambda>ci.
     if cid_Secret (csp_Database (ci_Spec ci)) = [] then ret False
     else
       bindM (wrapM ''failed to get database secret''
                (client_Get env SecretK (cid_Secret (csp_Database (ci_Spec ci)), ci_Namespace ci))) (\<lambda>databaseSecret.
       let dbInfo = GenerateDatabaseInfoFromSecret databaseSecret in
       bindM (wrapM ''database secret is not valid'' (lift (Info_IsValid dbInfo))) (\<lambda>_.
       ret (in_External dbInfo))))"

definition ci_checkDatabase :: "env \<Rightarrow> unit cio" where
  "ci_checkDatabase env =
     bindM (ci_external_database env) (\<lambda>external.
     bindM get_ci (\<lambda>ci.
     let t = cid_Type (csp_Database (ci_Spec ci)) in
     if external then ret ()
     else if t = ''mysql'' then ci_checkMySQLCluster env
     else if t = ''postgres'' then checkPostgres env
     else fail (ApiError (OtherReason ''Invalid''))))"

section \<open>Migration\<close>

definition tryToMigrate :: "env \<Rightarrow> Result cio" where
  "tryToMigrate env =
     bindM (tryM (HandleMigration env)) (\<lambda>handled. case handled of
       Inl e \<Rightarrow>
         bindM get_ci (\<lambda>ci.
         bindM (tryM (ci_updateStatus env ((ci_Status ci)\<lparr>cst_Migration :=
                        Some \<lparr>mig_Status = [], mig_Error = e_err_text env e\<rparr>\<rparr>))) (\<lambda>_. fail e))
     | Inr res \<Rightarrow>
         if mr_Finished res then ret done_result
         else
           bindM get_ci (\<lambda>ci.
           bindM (ci_updateStatus env ((ci_Status ci)\<lparr>cst_Migration :=
                    Some \<lparr>mig_Status = mr_Status res, mig_Error = []\<rparr>\<rparr>)) (\<lambda>_.
           ret \<lparr>RequeueAfter = mr_RequeueIn res\<rparr>)))"

section \<open>The reconcile loop\<close>

text \<open>The recurring error path: set the state, log a failure of that, return the error.\<close>

definition ci_on_error :: "env \<Rightarrow> 'a cio \<Rightarrow> 'a cio" where
  "ci_on_error env m =
     bindM (tryM m) (\<lambda>r. case r of
       Inr x \<Rightarrow> ret x
     | Inl e \<Rightarrow> bindM (ci_setStateReconcilingAndLogError env) (\<lambda>_. fail e))"

text \<open>\<^verbatim>\<open>SetDefaults\<close> writes into the resource even when it returns an error.\<close>

definition ci_set_defaults :: "env \<Rightarrow> unit cio" where
  "ci_set_defaults env =
     bindM get_ci (\<lambda>originalMattermost.
     bindM (put_ci (fst (ci_SetDefaults originalMattermost))) (\<lambda>_.
     bindM (ci_on_error env (lift (snd (ci_SetDefaults originalMattermost)))) (\<lambda>_.
     bindM get_ci (\<lambda>ci1.
     bindM (put_ci (fst (ci_SetReplicasAndResourcesFromSize ci1))) (\<lambda>_.
     bindM (case snd (ci_SetReplicasAndResourcesFromSize ci1) of Panic p \<Rightarrow> lift (Panic p) | _ \<Rightarrow> ret ()) (\<lambda>_.
     bindM get_ci (\<lambda>ci2.
     if ci_Spec originalMattermost \<noteq> ci_Spec ci2
     then ci_on_error env (bindM (client_Update env ClusterInstallationK ci2) put_ci)
     else ret ())))))))"

definition ci_finish_reconcile :: "env \<Rightarrow> Result cio" where
  "ci_finish_reconcile env =
     bindM (handleCheckClusterInstallation env) (\<lambda>(status, err).
     case err of
       Some _ \<Rightarrow> bindM (tryM (ci_updateStatus env status)) (\<lambda>_.
                 ret \<lparr>RequeueAfter = ci_healthCheckRequeueDelay\<rparr>)
     | None \<Rightarrow> bindM (ci_on_error env (ci_updateStatus env status)) (\<lambda>_. ret done_result))"

definition ci_reconcile_body :: "env \<Rightarrow> Result cio" where
  "ci_reconcile_body env =
     bindM (ci_set_defaults env) (\<lambda>_.
     bindM (ci_on_error env (ci_checkDatabase env)) (\<lambda>_.
     bindM (ci_on_error env (checkMinio env)) (\<lambda>_.
     bindM (ci_on_error env (ci_checkMattermost env)) (\<lambda>_.
     bindM (ci_on_error env (checkBlueGreen env)) (\<lambda>_.
     bindM (ci_on_error env (checkCanary env)) (\<lambda>_.
     ci_finish_reconcile env))))))"

text \<open>What follows the check of the limit.\<close>

definition ci_admitted :: "env \<Rightarrow> Result cio" where
  "ci_admitted env =
     bindM get_ci (\<lambda>ci.
     bindM (if cst_State (ci_Status ci) = [] then ci_setStateReconciling env else ret ()) (\<lambda>_.
     bindM get_ci (\<lambda>ci'.
     if csp_Migrate (ci_Spec ci')
     then bindM (ci_setStateReconciling env) (\<lambda>_. tryToMigrate env)
     else ci_reconcile_body env)))"

definition ci_Reconcile :: "env \<Rightarrow> reconciler_config \<Rightarrow> key \<Rightarrow> Result cio" where
  "ci_Reconcile env cfg request =
     bindM (tryM (client_Get env ClusterInstallationK request)) (\<lambda>found. case found of
       Inl e \<Rightarrow> if IsNotFound e then ret done_result else fail e
     | Inr ci \<Rightarrow>
         bindM (put_ci ci) (\<lambda>_.
         if cst_State (ci_Status ci) \<noteq> ci_Reconciling
         then bindM (wrapM ''failed to list ClusterInstallations''
                       (client_List env ClusterInstallationK None Map.empty)) (\<lambda>clusterInstallations.
              if countReconciling clusterInstallations \<ge> MaxReconciling cfg
              then ret \<lparr>RequeueAfter = RequeueOnLimitDelay cfg\<rparr>
              else ci_admitted env)
         else ci_admitted env))"

end
