(* ===== verification/ConversionFacts.thy ===== *)
theory ConversionFacts
  imports ClusterInstallationReconcile
begin

text \<open>
  What the conversion of a \<^verbatim>\<open>ClusterInstallation\<close> keeps: it commutes with the defaults of the two
  versions, and the pods generated for the converted resource are the installation's.  An external store
  is the exception.
\<close>

section \<open>Conversion and defaulting\<close>

lemma convertReplicas_simps [simp]:
  "convertReplicas 0 = None" "0 < n \<Longrightarrow> convertReplicas n = Some n" "convertReplicas n = None \<longleftrightarrow> n = 0"
  by (auto simp: convertReplicas_def)

lemma convertReplicas_default:
  "0 < d \<Longrightarrow> convertReplicas (int_default n d) = or_replicas (convertReplicas n) d"
  by (auto simp: convertReplicas_def int_default_def or_replicas_def)

lemma shared_constants:
  "ci_DefaultMattermostImage = DefaultMattermostImage" "ci_DefaultMattermostVersion = DefaultMattermostVersion"
  "ci_DefaultPullPolicy = DefaultPullPolicy" "ci_DefaultMattermostDatabaseType = DefaultMattermostDatabaseType"
  "ci_DefaultStorageSize = DefaultStorageSize" "DefaultMinioStorageSize = DefaultFilestoreStorageSize"
  "DefaultMysqlDatabaseVersion = DefaultDatabaseVersion"
  by (simp_all add: ci_const_defs const_defs)

abbreviation managed :: "ClusterInstallation \<Rightarrow> Mattermost" where
  "managed ci \<equiv> convert_with ci (convertToOperatorManagedDB ci)"

lemma managed_db:
  "db_IsExternal (convertToOperatorManagedDB ci) = False"
  "db_ensureDefault (convertToOperatorManagedDB ci) = the (db_OperatorManaged (convertToOperatorManagedDB ci))"
  by (simp_all add: convertToOperatorManagedDB_def db_IsExternal_def db_ensureDefault_def Let_def)

lemma convertFileStore_kinds:
  "isAnyExceptOperatorManaged (convertFileStore ci) = cim_IsExternal (csp_Minio (ci_Spec ci))"
  by (auto simp: convertFileStore_def convertToOperatorManagedMinio_def fs_kind_defs cim_IsExternal_def Let_def)

lemma conversion_defaults:
  assumes "csp_IngressName (ci_Spec ci) \<noteq> []"
    and "\<not> bg_Enable (csp_BlueGreen (ci_Spec ci))" "\<not> can_Enable (csp_Canary (ci_Spec ci))"
    and "cid_Type (csp_Database (ci_Spec ci)) \<in> {[], ''mysql''}"
  shows "ci_SetDefaults ci = (fst (ci_SetDefaults ci), Ok ())
    \<and> SetDefaults (managed ci) = (managed (fst (ci_SetDefaults ci)), Ok ())"
  using assms
  by (cases "cim_IsExternal (csp_Minio (ci_Spec ci))")
     (auto simp: ci_SetDefaults_def Let_def SetDefaults_def convert_with_def convertToOperatorManagedDB_def
      convertFileStore_def convertToOperatorManagedMinio_def cim_SetDefaults_def cid_SetDefaults_def
      AWSLoadBalancerEnabled_def IngressEnabled_def GetIngressHost_def zero_spec_def fs_kind_defs
      fs_SetDefaults_def db_SetDefaults_def db_IsExternal_def omd_SetDefaults_def omm_SetDefaults_def db_ensureDefault_def
      fs_ensureDefault_def shared_constants cim_IsExternal_def or_default_def convertScheduling_def convertProbes_def
      DefaultMattermostDatabaseType_def)

lemma conversion_override:
  assumes "sane_size sz"
  shows "managed (ci_overrideReplicasAndResourcesFromSize sz ci) = overrideReplicasAndResourcesFromSize sz (managed ci)"
  using assms
  by (cases "cim_IsExternal (csp_Minio (ci_Spec ci))")
     (auto simp: ci_overrideReplicasAndResourcesFromSize_def overrideReplicasAndResourcesFromSize_def Let_def sane_size_def
      convert_with_def convertToOperatorManagedDB_def convertFileStore_def convertToOperatorManagedMinio_def
      fs_OverrideReplicasAndResourcesFromSize_def db_OverrideReplicasAndResourcesFromSize_def db_IsExternal_def
      omd_OverrideReplicasAndResourcesFromSize_def omm_OverrideReplicasAndResourcesFromSize_def db_ensureDefault_def
      fs_ensureDefault_def fs_kind_defs cim_IsExternal_def convertScheduling_def convertProbes_def)

lemma conversion_default_database:
  assumes "cid_Replicas (csp_Database (ci_Spec ci)) \<noteq> 0 \<or> cid_InitBucketURL (csp_Database (ci_Spec ci)) = []"
  shows "convertToOperatorManagedDB (ci_setDefaultReplicasAndResources ci)
     = db_SetDefaultReplicasAndResources (convertToOperatorManagedDB ci)"
proof -
  let ?d = "cs_Replicas (cis_Database DefaultSize)" and ?db = "csp_Database (ci_Spec ci)"
  have "(if cid_Replicas ?db = 0 \<and> cid_InitBucketURL ?db = [] then ?d else cid_Replicas ?db) = int_default (cid_Replicas ?db) ?d"
    using assms by (auto simp: int_default_def)
  then show ?thesis
    using sane_DefaultSize
    by (simp add: convertToOperatorManagedDB_def ci_setDefaultReplicasAndResources_def Let_def convertReplicas_default
        sane_size_def db_SetDefaultReplicasAndResources_def db_IsExternal_def db_ensureDefault_def
        omd_SetDefaultReplicasAndResources_def)
qed

lemma conversion_default_store:
  "convertFileStore (ci_setDefaultReplicasAndResources ci) = fs_SetDefaultReplicasAndResources (convertFileStore ci)"
  using sane_DefaultSize
  by (simp add: convertFileStore_def convertToOperatorManagedMinio_def ci_setDefaultReplicasAndResources_def Let_def
      convertReplicas_default sane_size_def fs_SetDefaultReplicasAndResources_def fs_kind_defs cim_IsExternal_def
      fs_ensureDefault_def omm_SetDefaultReplicasAndResources_def)

lemma conversion_default_size:
  assumes "cid_Replicas (csp_Database (ci_Spec ci)) \<noteq> 0 \<or> cid_InitBucketURL (csp_Database (ci_Spec ci)) = []"
  shows "managed (ci_setDefaultReplicasAndResources ci) = setDefaultReplicasAndResources (managed ci)"
  using sane_DefaultSize
  unfolding convert_with_def setDefaultReplicasAndResources_def conversion_default_database [OF assms]
    conversion_default_store Let_def
  by (simp add: ci_setDefaultReplicasAndResources_def Let_def convertReplicas_default sane_size_def convertScheduling_def
      convertProbes_def)

section \<open>What the two versions generate\<close>

text \<open>What the two versions build the deployment from, read from the same secret.\<close>

lemma operator_secret:
  assumes "in_External (GenerateDatabaseInfoFromSecret secret) = False" and "NewMySQLDBConfig secret = Ok m"
  shows "in_SecretName (GenerateDatabaseInfoFromSecret secret) = my_secretName m"
    "in_DatabaseName (GenerateDatabaseInfoFromSecret secret) = my_databaseName m"
  using assms by (auto simp: GenerateDatabaseInfoFromSecret_def NewMySQLDBConfig_def Let_def split: if_splits)

lemma managed_sel [simp]:
  "mm_Name (convert_with ci db) = ci_Name ci" "mm_Namespace (convert_with ci db) = ci_Namespace ci"
  "s_Database (mm_Spec (convert_with ci db)) = db"
  "s_MattermostEnv (mm_Spec (convert_with ci db)) = csp_MattermostEnv (ci_Spec ci)"
  "s_JobServer (mm_Spec (convert_with ci db)) = None" "s_PodTemplate (mm_Spec (convert_with ci db)) = None"
  "s_LicenseSecret (mm_Spec (convert_with ci db)) = csp_MattermostLicenseSecret (ci_Spec ci)"
  "s_Volumes (mm_Spec (convert_with ci db)) = []" "s_VolumeMounts (mm_Spec (convert_with ci db)) = []"
  "s_DeploymentTemplate (mm_Spec (convert_with ci db)) = None"
  "s_PodExtensions (mm_Spec (convert_with ci db)) = \<lparr>pe_InitContainers = [], pe_SidecarContainers = [], pe_ContainerPorts = []\<rparr>"
  "s_Replicas (mm_Spec (convert_with ci db)) = convertReplicas (csp_Replicas (ci_Spec ci))"
  "s_ImagePullPolicy (mm_Spec (convert_with ci db)) = csp_ImagePullPolicy (ci_Spec ci)"
  "s_ImagePullSecrets (mm_Spec (convert_with ci db)) = []" "s_DNSConfig (mm_Spec (convert_with ci db)) = None"
  "s_DNSPolicy (mm_Spec (convert_with ci db)) = []"
  "s_Scheduling (mm_Spec (convert_with ci db)) = convertScheduling (ci_Spec ci)"
  "s_Probes (mm_Spec (convert_with ci db)) = convertProbes (ci_Spec ci)"
  "s_ElasticSearch (mm_Spec (convert_with ci db)) = convertElasticSearch (csp_ElasticSearch (ci_Spec ci))"
  "s_UseServiceLoadBalancer (mm_Spec (convert_with ci db)) = csp_UseServiceLoadBalancer (ci_Spec ci)"
  "GetIngresAnnotations (convert_with ci db) = csp_IngressAnnotations (ci_Spec ci)"
  "s_FileStore (mm_Spec (convert_with ci db)) = convertFileStore ci"
  by (simp_all add: convert_with_def zero_spec_def GetIngresAnnotations_def Let_def)

lemma converted_db_env:
  assumes "in_External (GenerateDatabaseInfoFromSecret secret) = False" and "NewMySQLDBConfig secret = Ok m"
  shows "dbc_EnvVars (MySQL_config m) (convert_with ci db) = ci_db_env ci (GenerateDatabaseInfoFromSecret secret)"
  using operator_secret [OF assms] assms(1)
  by (simp add: MySQL_config_def MySQL_EnvVars_def ci_db_env_def ci_mysql_host_def EnvSourceFromSecret_def Let_def)

lemma converted_db_init:
  assumes "in_External (GenerateDatabaseInfoFromSecret secret) = False"
  shows "dbc_InitContainers (MySQL_config m) (convert_with ci (convertToOperatorManagedDB ci))
    = ci_db_init_containers ci (GenerateDatabaseInfoFromSecret secret)"
  using assms
  by (simp add: MySQL_config_def MySQL_InitContainers_def ci_db_init_containers_def ci_mysql_host_def
      convertToOperatorManagedDB_def Let_def)

text \<open>Neither an external store, nor a secret or bucket of the user's choice.\<close>

definition own_minio :: "ClusterInstallation \<Rightarrow> bool" where
  "own_minio ci = (\<not> cim_IsExternal (csp_Minio (ci_Spec ci)) \<and> cim_Secret (csp_Minio (ci_Spec ci)) = []
     \<and> cim_ExternalBucket (csp_Minio (ci_Spec ci)) = [])"

abbreviation own_store :: "ClusterInstallation \<Rightarrow> string \<Rightarrow> FileStoreConfig" where
  "own_store ci minioURL \<equiv> NewOperatorManagedFileStoreInfo (managed ci) (DefaultMinioSecretName (ci_Name ci)) minioURL"

lemma converted_store:
  assumes "own_minio ci"
  shows "env_lookup (fsc_EnvVars (own_store ci url) mm) n = env_lookup (ci_minio_env ci url) n"
    and "fsc_InitContainers (own_store ci url) (convert_with ci db) = ci_minio_init_containers ci url"
    and "fsc_Volumes (own_store ci url) mm = ([], [])"
proof -
  have sec: "ci_minio_secret ci = DefaultMinioSecretName (ci_Name ci)" and b: "ci_bucket ci = ci_Name ci"
    and ext: "\<not> cim_IsExternal (csp_Minio (ci_Spec ci))"
    using assms by (auto simp: own_minio_def ci_minio_secret_def DefaultMinioSecretName_def ci_bucket_def)
  have ne: "DefaultMinioSecretName (ci_Name ci) \<noteq> []" by (simp add: DefaultMinioSecretName_def)
  show "env_lookup (fsc_EnvVars (own_store ci url) mm) n = env_lookup (ci_minio_env ci url) n"
    using ne by (auto simp: NewOperatorManagedFileStoreInfo_def MinioFileStore_def s3EnvVars_def ci_minio_env_def sec b
        env_lookup_def EnvSourceFromSecret_def fileStoreSecretAccessKey_def fileStoreSecretSecretKey_def FormatBool_def)
  show "fsc_InitContainers (own_store ci url) (convert_with ci db) = ci_minio_init_containers ci url"
    using ext by (simp add: NewOperatorManagedFileStoreInfo_def MinioFileStore_def minio_init_containers_def
        ci_minio_init_containers_def sec EnvSourceFromSecret_def fileStoreSecretAccessKey_def fileStoreSecretSecretKey_def)
  show "fsc_Volumes (own_store ci url) mm = ([], [])"
    by (simp add: NewOperatorManagedFileStoreInfo_def MinioFileStore_def)
qed

lemma converted_general:
  "deployment_general_env (convert_with ci db) host = ci_general_env ci host"
  "deployment_es_env (convert_with ci db) = ci_es_env ci" "has_licence (convert_with ci db) = ci_has_licence ci"
  by (simp_all add: deployment_general_env_def ci_general_env_def deployment_body_size_def ci_body_size_def has_licence_def
      ci_has_licence_def deployment_es_env_def ci_es_env_def convertElasticSearch_def Let_def)

lemma converted_env:
  assumes "in_External (GenerateDatabaseInfoFromSecret secret) = False" and "NewMySQLDBConfig secret = Ok m"
    and "own_minio ci"
    and "ci_env ci (GenerateDatabaseInfoFromSecret secret) host url = Ok vars"
  obtains vars' where "deployment_env (managed ci) (MySQL_config m) (own_store ci url) host = Ok vars'"
    "\<forall>n. env_lookup vars' n = env_lookup vars n"
proof -
  from assms(4) obtain gen where gen: "ci_general_env ci host = Ok gen"
    and vars: "vars = mergeEnvVars (ci_db_env ci (GenerateDatabaseInfoFromSecret secret) @ ci_minio_env ci url @ ci_es_env ci @ gen)
       (csp_MattermostEnv (ci_Spec ci))"
    by (auto simp: ci_env_def bindO_eq_Ok)
  let ?vars' = "mergeEnvVars (dbc_EnvVars (MySQL_config m) (managed ci) @ fsc_EnvVars (own_store ci url) (managed ci)
     @ ci_es_env ci @ gen) (csp_MattermostEnv (ci_Spec ci))"
  have "deployment_env (managed ci) (MySQL_config m) (own_store ci url) host = Ok ?vars'"
    by (simp add: deployment_env_def converted_general gen)
  moreover have "\<forall>n. env_lookup ?vars' n = env_lookup vars n"
    unfolding vars mergeEnvVars_lookup env_lookup_append converted_db_env [OF assms(1,2)] converted_store(1) [OF assms(3)]
    by simp
  ultimately show ?thesis by (rule that)
qed

section \<open>One database, one store, no negative number\<close>

definition sole :: "'a option \<Rightarrow> 'b option \<Rightarrow> bool" where
  "sole a b = (a = None \<longleftrightarrow> b \<noteq> None)"

definition natural :: "int option \<Rightarrow> bool" where
  "natural n = (case n of None \<Rightarrow> True | Some n \<Rightarrow> 0 \<le> n)"

lemma natural_convertReplicas [simp]: "natural (convertReplicas n)"
  by (simp add: natural_def convertReplicas_def)

lemma convertFileStore_sole:
  "sole (fs_External (convertFileStore ci)) (fs_OperatorManaged (convertFileStore ci))"
  "fs_ExternalVolume (convertFileStore ci) = None" "fs_Local (convertFileStore ci) = None"
  "case fs_OperatorManaged (convertFileStore ci) of None \<Rightarrow> True | Some m \<Rightarrow> natural (omm_Replicas m)"
  by (simp_all add: convertFileStore_def convertToOperatorManagedMinio_def sole_def Let_def)

lemma convertDatabase_cases:
  assumes "convertDatabase env ci s = (Ok db, s')"
  shows "db \<in> {convertToOperatorManagedDB ci, convertToExternalDB ci}"
    and "s' = s\<lparr>calls := calls s @ (if cid_Secret (csp_Database (ci_Spec ci)) = [] then []
           else [CGet SecretKind (cid_Secret (csp_Database (ci_Spec ci)), ci_Namespace ci)])\<rparr>"
proof -
  have K: "k_kind SecretK = SecretKind" by (simp add: SecretK_def)
  show "db \<in> {convertToOperatorManagedDB ci, convertToExternalDB ci}"
    using assms by (auto simp: convertDatabase_def bindM_Ok Let_def split: if_splits)
  show "s' = s\<lparr>calls := calls s @ (if cid_Secret (csp_Database (ci_Spec ci)) = [] then []
           else [CGet SecretKind (cid_Secret (csp_Database (ci_Spec ci)), ci_Namespace ci)])\<rparr>"
    using assms
    by (auto simp: convertDatabase_def bindM_Ok Let_def client_Get_def call_api_run K lift_def split: if_splits)
qed

lemma converted_db_sole:
  assumes "db \<in> {convertToOperatorManagedDB ci, convertToExternalDB ci}"
  shows "sole (db_External db) (db_OperatorManaged db)"
    "case db_OperatorManaged db of None \<Rightarrow> True | Some m \<Rightarrow> natural (omd_Replicas m)"
  using assms by (auto simp: convertToOperatorManagedDB_def convertToExternalDB_def sole_def Let_def)

section \<open>Properties\<close>




definition demo_db_secret :: Secret where
  "demo_db_secret = new_mysql_secret ''mm-mysql'' ''apps'' ''root'' ''pass''"

definition demo_db :: MySQLDBConfig where
  "demo_db = \<lparr>my_secretName = ''mm-mysql'', my_rootPassword = ''root'', my_userName = ''mmuser'', my_userPassword = ''pass'',
     my_databaseName = ''mattermost''\<rparr>"


text \<open>
  C30. A converted resource is well formed, whatever the installation: it has one database and one file
  store, with no negative number of replicas, and is in the place of the installation under its name.
  The conversion reads at most the database secret and writes nothing.
\<close>

theorem conversion_well_formed:
  assumes "ConvertToMM env ci s = (Ok mm, s')"
  shows "mm_Name mm = ci_Name ci \<and> mm_Namespace mm = ci_Namespace ci
    \<and> sole (db_External (s_Database (mm_Spec mm))) (db_OperatorManaged (s_Database (mm_Spec mm)))
    \<and> (case db_OperatorManaged (s_Database (mm_Spec mm)) of None \<Rightarrow> True | Some m \<Rightarrow> natural (omd_Replicas m))
    \<and> sole (fs_External (s_FileStore (mm_Spec mm))) (fs_OperatorManaged (s_FileStore (mm_Spec mm)))
    \<and> fs_ExternalVolume (s_FileStore (mm_Spec mm)) = None \<and> fs_Local (s_FileStore (mm_Spec mm)) = None
    \<and> (case fs_OperatorManaged (s_FileStore (mm_Spec mm)) of None \<Rightarrow> True | Some m \<Rightarrow> natural (omm_Replicas m))
    \<and> natural (s_Replicas (mm_Spec mm))
    \<and> s' = s\<lparr>calls := calls s @ (if cid_Secret (csp_Database (ci_Spec ci)) = [] then []
           else [CGet SecretKind (cid_Secret (csp_Database (ci_Spec ci)), ci_Namespace ci)])\<rparr>"
proof -
  from assms obtain db where db: "convertDatabase env ci s = (Ok db, s')" and mm: "mm = convert_with ci db"
    by (auto simp: ConvertToMM_def bindM_Ok)
  show ?thesis
    using convertDatabase_cases [OF db] converted_db_sole [OF convertDatabase_cases(1) [OF db]] convertFileStore_sole [of ci]
    by (simp add: mm)
qed

lemma conversion_well_formed_witness:
  "\<exists>mm s'. ConvertToMM demo_env demo_ci \<lparr>calls = [], c_ci = demo_ci\<rparr> = (Ok mm, s') \<and> mm_Name mm = ''mm'' \<and> natural (s_Replicas (mm_Spec mm)) \<and> calls s' = []"
proof -
  have "cid_Secret (csp_Database (ci_Spec demo_ci)) = []" by (simp add: demo_ci_def demo_ci_spec_def zero_ci_database_def)
  then have "ConvertToMM demo_env demo_ci \<lparr>calls = [], c_ci = demo_ci\<rparr>
     = (Ok (convert_with demo_ci (convertToOperatorManagedDB demo_ci)), \<lparr>calls = [], c_ci = demo_ci\<rparr>)"
    by (simp add: ConvertToMM_def convertDatabase_def bindM_run)
  from conversion_well_formed [OF this] this show ?thesis by (auto simp: demo_ci_def demo_ci_spec_def zero_ci_database_def)
qed

text \<open>
  An external store is converted with two differences: where the installation uses its own name as
  the bucket, the converted resource has none and its controller refuses it; and the connection that
  was made without TLS is made with TLS.
\<close>

theorem external_store_conversion:
  assumes "cim_IsExternal (csp_Minio (ci_Spec ci))"
    and "om_Name (sec_Meta secret) = ci_minio_secret ci" and "sec_Data secret ''accesskey'' \<noteq> None"
    and "sec_Data secret ''secretkey'' \<noteq> None"
  shows "if cim_ExternalBucket (csp_Minio (ci_Spec ci)) = []
    then NewExternalFileStoreInfo (convert_with ci db) (Some secret) = Err (New ''external file store bucket is empty'')
    else \<exists>c. NewExternalFileStoreInfo (convert_with ci db) (Some secret) = Ok c
      \<and> env_lookup (fsc_EnvVars c mm) ''MM_FILESETTINGS_AMAZONS3SSL'' = Some (env_value ''MM_FILESETTINGS_AMAZONS3SSL'' ''true'')
      \<and> env_lookup (ci_minio_env ci (cim_ExternalURL (csp_Minio (ci_Spec ci)))) ''MM_FILESETTINGS_AMAZONS3SSL''
          = Some (env_value ''MM_FILESETTINGS_AMAZONS3SSL'' ''false'')
      \<and> (\<forall>n. n \<noteq> ''MM_FILESETTINGS_AMAZONS3SSL'' \<longrightarrow> env_lookup (fsc_EnvVars c mm) n
           = env_lookup (ci_minio_env ci (cim_ExternalURL (csp_Minio (ci_Spec ci)))) n)"
proof -
  let ?mi = "csp_Minio (ci_Spec ci)"
  let ?c = "ExternalFileStore \<lparr>fsi_secretName = ci_minio_secret ci, fsi_bucketName = cim_ExternalBucket ?mi,
     fsi_url = cim_ExternalURL ?mi, fsi_useS3SSL = True\<rparr>"
  have ext: "fs_External (convertFileStore ci) = Some \<lparr>efs_URL = cim_ExternalURL ?mi,
      efs_Bucket = cim_ExternalBucket ?mi, efs_Secret = cim_Secret ?mi, efs_UseServiceAccount = False\<rparr>"
    using assms(1) by (simp add: convertFileStore_def Let_def)
  have ne: "ci_minio_secret ci \<noteq> []" by (simp add: ci_minio_secret_def)
  have url: "cim_ExternalURL ?mi \<noteq> []" using assms(1) by (simp add: cim_IsExternal_def)
  show ?thesis
  proof (cases "cim_ExternalBucket ?mi = []")
    case True
    then show ?thesis by (simp add: NewExternalFileStoreInfo_def ext)
  next
    case False
    have "NewExternalFileStoreInfo (convert_with ci db) (Some secret) = Ok ?c"
      using assms(2-) False url by (simp add: NewExternalFileStoreInfo_def ext)
    moreover have "env_lookup (fsc_EnvVars ?c mm) n = env_lookup (ci_minio_env ci (cim_ExternalURL ?mi)) n"
      if "n \<noteq> ''MM_FILESETTINGS_AMAZONS3SSL''" for n
      using that ne False by (auto simp: ExternalFileStore_def s3EnvVars_def ci_minio_env_def ci_bucket_def env_lookup_def
          EnvSourceFromSecret_def fileStoreSecretAccessKey_def fileStoreSecretSecretKey_def)
    moreover have "env_lookup (fsc_EnvVars ?c mm) ''MM_FILESETTINGS_AMAZONS3SSL''
         = Some (env_value ''MM_FILESETTINGS_AMAZONS3SSL'' ''true'')"
      "env_lookup (ci_minio_env ci (cim_ExternalURL ?mi)) ''MM_FILESETTINGS_AMAZONS3SSL''
         = Some (env_value ''MM_FILESETTINGS_AMAZONS3SSL'' ''false'')"
      by (simp_all add: ExternalFileStore_def s3EnvVars_def ci_minio_env_def env_lookup_def FormatBool_def)
    ultimately show ?thesis using False by auto
  qed
qed

definition demo_external_ci :: ClusterInstallation where
  "demo_external_ci = new_cluster_installation ''mm'' ''apps''
     (demo_ci_spec\<lparr>csp_Minio := zero_ci_minio\<lparr>cim_ExternalURL := ''s3:9000'', cim_Secret := ''s3''\<rparr>\<rparr>)"

definition demo_s3_secret :: Secret where
  "demo_s3_secret = \<lparr>sec_Meta = empty_meta\<lparr>om_Name := ''s3'', om_Namespace := ''apps''\<rparr>,
     sec_Data = [''accesskey'' \<mapsto> ''a'', ''secretkey'' \<mapsto> ''k''], sec_StringData = Map.empty\<rparr>"

lemma external_store_conversion_witness:
  "NewExternalFileStoreInfo (convert_with demo_external_ci (convertToOperatorManagedDB demo_external_ci)) (Some demo_s3_secret)
     = Err (New ''external file store bucket is empty'')"
  using external_store_conversion [of demo_external_ci demo_s3_secret]
  by (simp add: demo_external_ci_def demo_s3_secret_def demo_ci_spec_def cim_IsExternal_def ci_minio_secret_def zero_ci_minio_def)

end
