(* ===== verification/MigrationSafety.thy ===== *)
theory MigrationSafety
  imports ConversionFacts
begin

text \<open>
  What a migration may do and when: it ends, it deletes only what it may, and what it leaves in place
  belongs to the other controller.  The last property is about a migration that was interrupted.
\<close>

section \<open>Waiting for the deletion\<close>

text \<open>The first \<open>n\<close> reads, and the most there can be when some time has passed.\<close>

definition polls :: "key \<Rightarrow> nat \<Rightarrow> call list" where
  "polls name n = replicate n (CDirectGet DeploymentKind name)"

lemma polls_simps [simp]: "polls name (Suc n) = CDirectGet DeploymentKind name # polls name n" "polls name 0 = []"
  by (simp_all add: polls_def)

definition still_there :: "env \<Rightarrow> call list \<Rightarrow> key \<Rightarrow> bool" where
  "still_there env h name = (\<not> gone (of_sum (api_direct_get (e_Deployment env) h name)))"

definition polls_bound :: "nat \<Rightarrow> nat" where
  "polls_bound elapsed = (if elapsed < deletion_timeout then (deletion_timeout - 1 - elapsed) div poll_interval + 2 else 1)"

lemma polls_bound_step:
  assumes "elapsed \<le> now" and "now < deletion_timeout"
  shows "Suc (polls_bound (now + poll_interval)) \<le> polls_bound elapsed"
proof (cases "now + poll_interval < deletion_timeout")
  case True
  have "(deletion_timeout - 1 - now) div poll_interval = (deletion_timeout - 1 - (now + poll_interval)) div poll_interval + 1"
    using True div_add_self2 [of poll_interval "deletion_timeout - 1 - (now + poll_interval)"]
    by (simp add: poll_interval_def deletion_timeout_def)
  moreover have "(deletion_timeout - 1 - now) div poll_interval \<le> (deletion_timeout - 1 - elapsed) div poll_interval"
    using assms(1) by (intro div_le_mono) simp
  ultimately show ?thesis using True assms by (simp add: polls_bound_def)
next
  case False
  then show ?thesis using assms by (simp add: polls_bound_def)
qed

lemma wait_loop_polls:
  assumes "wait_loop env name elapsed s = (r, s')"
  shows "\<exists>n < polls_bound elapsed. calls s' = calls s @ polls name (Suc n)
     \<and> (\<forall>i<n. still_there env (calls s @ polls name i) name)
     \<and> r = (if still_there env (calls s @ polls name n) name
            then Err (Errorf ''timeout waiting for deployment deletion'' []) else Ok ())"
  using assms
proof (induction env name elapsed s rule: wait_loop.induct)
  case (1 env name elapsed s)
  let ?P = "CDirectGet DeploymentKind name"
  let ?s1 = "s\<lparr>calls := calls s @ [?P]\<rparr>" and ?now = "elapsed + e_latency env (calls s @ [?P])"
  have read: "reader_Get env DeploymentK name s = (of_sum (api_direct_get (e_Deployment env) (calls s) name), ?s1)"
    by (simp add: reader_Get_def call_api_run DeploymentK_def)
  have pos: "0 < polls_bound elapsed" by (simp add: polls_bound_def)
  show ?case
  proof (cases "still_there env (calls s) name \<and> ?now < deletion_timeout")
    case False
    then have "(r, s') = (if still_there env (calls s) name
         then Err (Errorf ''timeout waiting for deployment deletion'' []) else Ok (), ?s1)"
      using "1.prems" by (auto simp: wait_loop.simps [of env name elapsed] read still_there_def Let_def split: if_splits)
    then show ?thesis using pos by (intro exI [of _ 0]) auto
  next
    case True
    then have loop: "wait_loop env name (?now + poll_interval) ?s1 = (r, s')"
      using "1.prems" by (auto simp: wait_loop.simps [of env name elapsed] read still_there_def Let_def split: if_splits)
    obtain n where n: "n < polls_bound (?now + poll_interval)" "calls s' = calls ?s1 @ polls name (Suc n)"
      "\<forall>i<n. still_there env (calls ?s1 @ polls name i) name"
      "r = (if still_there env (calls ?s1 @ polls name n) name
            then Err (Errorf ''timeout waiting for deployment deletion'' []) else Ok ())"
      using "1.IH" [OF read [symmetric] refl] True loop by (auto simp: still_there_def)
    have "Suc n < polls_bound elapsed" using n(1) polls_bound_step [of elapsed ?now] True by simp
    moreover have "\<forall>i<Suc n. still_there env (calls s @ polls name i) name"
      using True n(3) by (auto simp: less_Suc_eq_0_disj)
    ultimately show ?thesis using n(2,4) by (intro exI [of _ "Suc n"]) simp
  qed
qed

section \<open>What is written\<close>

text \<open>What a migration may write; \<open>settled\<close> says that the new resource was read in that state.\<close>

definition migration_allowed :: "bool \<Rightarrow> call \<Rightarrow> bool" where
  "migration_allowed settled c = (case c of
     CCreate k \<Rightarrow> kobj_kind k \<in> {DeploymentKind, MattermostKind}
   | CUpdate _ \<Rightarrow> False
   | CStatusUpdate _ \<Rightarrow> False
   | CDelete k \<Rightarrow> settled \<and> kobj_kind k \<in> {ReplicaSetKind, ClusterInstallationKind}
   | CDeleteWith opt k \<Rightarrow> opt = PropagationOrphan \<and> kobj_kind k = DeploymentKind
   | _ \<Rightarrow> True)"

lemma migration_allowed_simps [simp]:
  "migration_allowed b (CGet k key)" "migration_allowed b (CDirectGet k key)" "migration_allowed b (CList k ns sel)"
  "migration_allowed b (CDirectList k ns' sel)"
  by (simp_all add: migration_allowed_def)

abbreviation migrates :: "bool \<Rightarrow> ('z cluster_scheme, 'a) io \<Rightarrow> bool" where
  "migrates b m \<equiv> runs (\<lambda>_. True) (\<lambda>_. migration_allowed b) m (\<lambda>_. True)"

lemma migrates_read [emits_intros]:
  "migrates b (client_Get env K key)" "migrates b (reader_Get env K' key)" "migrates b (client_List env K'' ns' sel)" "migrates b (reader_List env PodK ns sel)"
  by (rule runs_client; simp)+

lemma migrates_state [emits_intros]: "migrates b get_ci" "migrates b (put_ci ci)" "migrates b (migrated_labels mm)"
  by (auto simp: runs_def get_ci_def put_ci_def migrated_labels_def bindM_run mod_state_def split: prod.splits)

lemma migrates_write [emits_intros]:
  "migrates b (client_Create env DeploymentK x)" "migrates b (client_Create env MattermostK y)"
  "migrates b (client_DeleteWith env DeploymentK PropagationOrphan x)"
  "b \<Longrightarrow> migrates b (client_Delete env ReplicaSetK z)" "b \<Longrightarrow> migrates b (client_Delete env ClusterInstallationK ci)"
  by (rule runs_client runs_client_DeleteWith; simp add: migration_allowed_def kind_defs)+

lemma migrates_convert [emits_intros]: "migrates b (ConvertToMM env ci)"
  unfolding ConvertToMM_def convertDatabase_def Let_def by (auto intro!: emits_intros)

lemma migrates_wait [emits_intros]: "migrates b (waitForDeploymentDeletion env key)"
proof (rule runsI)
  fix s s' :: ci_state and r assume "waitForDeploymentDeletion env key s = (r, s')"
  then obtain n where "calls s' = calls s @ polls key n"
    using wait_loop_polls unfolding waitForDeploymentDeletion_def by blast
  then show "True \<and> (\<exists>new. calls s' = calls s @ new \<and> ok_trace (\<lambda>_. migration_allowed b) (calls s) new) \<and> (\<forall>x. r = Ok x \<longrightarrow> True)"
    by (auto simp: polls_def ok_trace_all)
qed

lemma migrates_rollout: "migrates b (CheckPodsRollOut env opts img)"
  unfolding CheckPodsRollOut_def by (auto intro!: emits_intros)

lemma migrates_initialize [emits_intros]: "migrates b (initializeMigration env)"
proof -
  have m: "migrates b (isDeploymentMigrated env ns mm)" "migrates b (isDeploymentReady env ns mm)" "migrates b (recreateDeployment env mm)" for ns mm
    unfolding isDeploymentMigrated_def isDeploymentReady_def recreateDeployment_def
    by (auto intro!: emits_intros migrates_rollout split: prod.splits option.splits)
  show ?thesis unfolding initializeMigration_def by (auto intro!: emits_intros m split: prod.splits)
qed

lemma migrates_finish: "migrates (state = Stable) (finish_migration env state)"
proof (cases "state = Stable")
  case True
  then show ?thesis
    unfolding finish_migration_def cleanupReplicaSets_def
    by (auto intro!: emits_intros split: sum.splits)
next
  case False
  then show ?thesis unfolding finish_migration_def by (auto intro!: emits_intros)
qed

section \<open>Properties\<close>

text \<open>
  C24. Waiting for the old deployment to disappear always ends: after at most 31 reads, whatever they
  take, and with success exactly when the last of them was told that there is no such deployment.
\<close>

theorem wait_for_deletion_ends:
  assumes "waitForDeploymentDeletion env name s = (r, s')"
  shows "\<exists>n<31. calls s' = calls s @ polls name (Suc n)
     \<and> (\<forall>i<n. still_there env (calls s @ polls name i) name)
     \<and> r = (if still_there env (calls s @ polls name n) name
            then Err (Errorf ''timeout waiting for deployment deletion'' []) else Ok ())"
proof -
  have "polls_bound 0 = 31" by (simp add: polls_bound_def deletion_timeout_def poll_interval_def)
  with wait_loop_polls [OF assms [unfolded waitForDeploymentDeletion_def]] show ?thesis by simp
qed

lemma wait_for_deletion_ends_witness:
  "calls (snd (waitForDeploymentDeletion demo_env (''mm'', ''apps'') \<lparr>calls = [], c_ci = demo_ci\<rparr>))
    = [CDirectGet DeploymentKind (''mm'', ''apps'')]"
proof -
  have "\<not> still_there demo_env h name" for h name
    by (simp add: still_there_def demo_env_def empty_api_def gone_def of_sum_def)
  with wait_for_deletion_ends [OF prod.collapse [symmetric], of demo_env "(''mm'', ''apps'')" "\<lparr>calls = [], c_ci = demo_ci\<rparr>"]
  obtain n where n: "calls (snd (waitForDeploymentDeletion demo_env (''mm'', ''apps'') \<lparr>calls = [], c_ci = demo_ci\<rparr>))
      = polls (''mm'', ''apps'') (Suc n)" "\<forall>i<n. still_there demo_env (polls (''mm'', ''apps'') i) (''mm'', ''apps'')"
    by auto
  with \<open>\<And>h name. \<not> still_there demo_env h name\<close> have "n = 0" by blast
  with n show ?thesis by simp
qed

text \<open>
  C7. Migrating deletes no data, and nothing in vain: the old deployment only with its pods left running,
  the replica sets and the old resource only when the new resource was read as stable.  It updates
  nothing, and creates only the deployment and the new resource.
\<close>

theorem migration_deletes_when_stable:
  assumes "HandleMigration env s = (r, s')"
  shows "\<exists>new. calls s' = calls s @ new \<and>
    (\<forall>c \<in> set new. migration_allowed (\<exists>mm. api_get (e_Mattermost env) (calls s) (ci_Name (c_ci s), ci_Namespace (c_ci s)) = Inr mm
       \<and> st_State (mm_Status mm) = Stable) c)"
proof -
  let ?key = "(ci_Name (c_ci s), ci_Namespace (c_ci s))" and ?first = "CGet MattermostKind (ci_Name (c_ci s), ci_Namespace (c_ci s))"
  let ?found = "api_get (e_Mattermost env) (calls s) ?key"
  let ?b = "\<exists>mm. ?found = Inr mm \<and> st_State (mm_Status mm) = Stable"
  let ?s1 = "s\<lparr>calls := calls s @ [?first]\<rparr>"
  have get: "client_Get env MattermostK ?key s = (of_sum ?found, ?s1)"
    by (simp add: client_Get_def call_api_run MattermostK_def)
  have run: "\<exists>new. calls s' = calls s @ new \<and> (\<forall>c \<in> set new. migration_allowed ?b c)"
    if "migrates ?b m" and "m ?s1 = (r, s')" for m :: "MigrationResult cio"
    using that by (elim runsD) (auto simp: ok_trace_all)
  show ?thesis
  proof (cases "IsConvertible (c_ci s)")
    case (Ok u)
    show ?thesis
    proof (cases ?found)
      case (Inr mm)
      then have "migrates ?b (finish_migration env (st_State (mm_Status mm)))" using migrates_finish by simp
      from run [OF this] show ?thesis
        using assms Inr by (simp add: HandleMigration_def get_ci_def bindM_run tryM_run get Ok of_sum_def)
    next
      case (Inl e)
      have fin: "migrates ?b (finish_migration env [])" by (simp add: finish_migration_def Stable_def runs_ret)
      define init where "init = bindM (wrapM ''failed to initialize migration'' (initializeMigration env)) (\<lambda>finished.
                  if \<not> finished
                  then ret \<lparr>mr_Status = ''Migration to Mattermost is in progress - recreating deployment'',
                            mr_RequeueIn = 10 * 1000000000, mr_Finished = False\<rparr>
                  else finish_migration env [])"
      have run_Inl: "HandleMigration env s
          = (if \<not> IsNotFound e then fail (Wrap e ''failed to check if Mattermost CR exists'') else init) ?s1"
        using Inl unfolding HandleMigration_def init_def [symmetric]
        by (simp only: get_ci_def bindM_def tryM_def get_state_def ret_def get Ok of_sum_def split_conv outcome.case sum.case if_distribR)
      note start = trans [OF run_Inl [symmetric] assms]
      have "migrates ?b init"
        unfolding init_def by (rule runs_bind_any [OF runs_wrap [OF migrates_initialize]]) (simp add: runs_ret fin)
      then have "migrates ?b (if \<not> IsNotFound e then fail (Wrap e ''failed to check if Mattermost CR exists'') else init)"
        by (simp add: runs_fail)
      from run [OF this start] show ?thesis .
    qed
  qed (use assms in \<open>auto simp: HandleMigration_def get_ci_def bindM_run\<close>)
qed

lemma migration_deletes_when_stable_witness:
  "\<exists>new. calls (snd (HandleMigration demo_env \<lparr>calls = [], c_ci = demo_ci\<rparr>)) = new \<and> (\<forall>c \<in> set new. migration_allowed False c)"
  using migration_deletes_when_stable [OF prod.collapse [symmetric], of demo_env "\<lparr>calls = [], c_ci = demo_ci\<rparr>"]
  by (simp add: demo_env_def empty_api_def)

text \<open>
  An installation with a blue/green or canary deployment is not migrated: the cluster is not even
  read, and the status says why.
\<close>

theorem unconvertible_is_untouched:
  assumes "bg_Enable (csp_BlueGreen (ci_Spec (c_ci s))) \<or> can_Enable (csp_Canary (ci_Spec (c_ci s)))"
  shows "\<exists>why. HandleMigration env s = (Ok \<lparr>mr_Status = why, mr_RequeueIn = 0, mr_Finished = False\<rparr>, s)
    \<and> prefix ''Migration to Mattermost cannot be performed safely: '' why"
  using assms
  by (cases "bg_Enable (csp_BlueGreen (ci_Spec (c_ci s)))")
     (simp_all add: HandleMigration_def IsConvertible_def get_ci_def bindM_def get_state_def ret_def zero_migration_result_def)

lemma unconvertible_is_untouched_witness:
  "\<exists>why. HandleMigration demo_env \<lparr>calls = [], c_ci = new_cluster_installation ''mm'' ''apps''
       (demo_ci_spec\<lparr>csp_BlueGreen := (csp_BlueGreen demo_ci_spec)\<lparr>bg_Enable := True\<rparr>\<rparr>)\<rparr>
     = (Ok \<lparr>mr_Status = why, mr_RequeueIn = 0, mr_Finished = False\<rparr>, \<lparr>calls = [], c_ci = new_cluster_installation ''mm'' ''apps''
       (demo_ci_spec\<lparr>csp_BlueGreen := (csp_BlueGreen demo_ci_spec)\<lparr>bg_Enable := True\<rparr>\<rparr>)\<rparr>)"
  using unconvertible_is_untouched [of "\<lparr>calls = [], c_ci = new_cluster_installation ''mm'' ''apps''
       (demo_ci_spec\<lparr>csp_BlueGreen := (csp_BlueGreen demo_ci_spec)\<lparr>bg_Enable := True\<rparr>\<rparr>)\<rparr>" demo_env]
  by auto

text \<open>
  C29. The deployment that migration creates is the one the other controller maintains: it has its name and
  the selector that controller generates, which the pods of its template match; the pods are otherwise the
  old deployment's.
\<close>

theorem migrated_deployment_adopted:
  assumes "MattermostLabels mm (mm_Name mm) = (g, mm')" and "mm_Name mm = ci_Name ci" and "mm_Namespace mm = ci_Namespace ci"
    and "GenerateDeploymentV1Beta mm db fs (mm_Name mm) host sa img = Ok (d, mm2)"
  shows "let d' = migrated_deployment ci mm' (deref (mm_maps mm') g) old
    in k_key DeploymentK d' = k_key DeploymentK d \<and> d_Selector d' = d_Selector d
      \<and> matches_labels (MattermostSelectorLabels (mm_Name mm)) (deref (mm_maps mm') (pt_Labels (d_Template d')))
      \<and> pt_Spec (d_Template d') = pt_Spec (d_Template old) \<and> d_Replicas d' = d_Replicas old"
proof -
  have d: "d_Selector d = MapLit (MattermostSelectorLabels (mm_Name mm))" "k_key DeploymentK d = (mm_Name mm, mm_Namespace mm)"
    using assms(4) by (auto elim!: GenerateDeployment_Ok simp: k_key_def DeploymentK_def)
  have n: "mm_Name mm' = mm_Name mm" using MattermostLabels_frame [OF assms(1)] by simp
  have l: "matches_labels (MattermostSelectorLabels (mm_Name mm)) (deref (mm_maps mm') g)"
    unfolding write_labels_contents [OF assms(1) [unfolded MattermostLabels_def]] matches_labels_def by (rule selector_labels_le)
  show ?thesis using d n l assms(2,3) by (simp add: migrated_deployment_def k_key_def DeploymentK_def Let_def)
qed

lemma migrated_deployment_adopted_witness:
  "\<exists>g mm' d mm2. MattermostLabels demo_mm ''mm'' = (g, mm') \<and> demo_deployment = Ok (d, mm2)
     \<and> d_Selector (migrated_deployment demo_ci mm' (deref (mm_maps mm') g) zero_deployment) = d_Selector d"
proof -
  obtain d mm2 where d: "demo_deployment = Ok (d, mm2)" using demo_deployment_Ok by blast
  obtain g mm' where l: "MattermostLabels demo_mm ''mm'' = (g, mm')" by (cases "MattermostLabels demo_mm ''mm''")
  have names: "mm_Name demo_mm = ''mm''" "ci_Name demo_ci = ''mm''" "mm_Namespace demo_mm = ''apps''" "ci_Namespace demo_ci = ''apps''"
    by (simp_all add: demo_mm_def demo_ci_def)
  with migrated_deployment_adopted [of demo_mm g mm' demo_ci] l d show ?thesis
    unfolding demo_deployment_def by (fastforce simp: Let_def)
qed



end
