(* ===== verification/ClusterInstallationSafety.thy ===== *)
theory ClusterInstallationSafety
  imports MigrationSafety
begin

text \<open>
  The controller of \<^verbatim>\<open>ClusterInstallation\<close> resources: what a run writes, whatever the API server
  answers, over any cluster and over one in which every object is in place, when a changed image reaches the deployment, what the state \<^verbatim>\<open>stable\<close> means, and where
  the traffic of blue/green and canary deployments goes.
\<close>

section \<open>Which kinds of objects are written\<close>

definition ci_maintained :: "kind set" where
  "ci_maintained = {ServiceAccountKind, RoleKind, RoleBindingKind, ServiceKind, IngressKind, DeploymentKind, SecretKind,
     MysqlKind, MinioKind, JobKind}"

definition ci_deletable :: "kind set" where
  "ci_deletable = {ServiceKind, IngressKind, DeploymentKind, JobKind, PodKind, ReplicaSetKind, ClusterInstallationKind}"

definition ci_kinds :: "(action \<times> kind) set" where
  "ci_kinds = {ToCreate, ToUpdate} \<times> ci_maintained \<union> {ToDelete} \<times> ci_deletable
     \<union> {(ToCreate, MattermostKind), (ToUpdate, ClusterInstallationKind), (ToStatus, ClusterInstallationKind)}"

lemma ci_kinds_members [simp]:
  "(ToCreate, k) \<in> ci_kinds \<longleftrightarrow> k \<in> ci_maintained \<or> k = MattermostKind"
  "(ToUpdate, k) \<in> ci_kinds \<longleftrightarrow> k \<in> ci_maintained \<or> k = ClusterInstallationKind"
  "(ToDelete, k) \<in> ci_kinds \<longleftrightarrow> k \<in> ci_deletable"
  "(ToStatus, k) \<in> ci_kinds \<longleftrightarrow> k = ClusterInstallationKind"
  by (auto simp: ci_kinds_def)

text \<open>What is written to bring a deployment up to date: nothing is deleted but update jobs and their pods.\<close>

definition build_kinds :: "(action \<times> kind) set" where
  "build_kinds = {ToCreate, ToUpdate} \<times> ci_maintained \<union> {(ToDelete, JobKind), (ToDelete, PodKind)}"

lemma build_kinds_members [simp]:
  "(ToCreate, k) \<in> build_kinds \<longleftrightarrow> k \<in> ci_maintained" "(ToUpdate, k) \<in> build_kinds \<longleftrightarrow> k \<in> ci_maintained"
  "(ToDelete, k) \<in> build_kinds \<longleftrightarrow> k \<in> {JobKind, PodKind}"
  by (auto simp: build_kinds_def)

lemma build_kinds_le: "build_kinds \<subseteq> ci_kinds"
  by (auto simp: build_kinds_def ci_maintained_def ci_deletable_def)

abbreviation ci_writes :: "'a cio \<Rightarrow> bool" where
  "ci_writes \<equiv> writes_kinds ci_kinds"

abbreviation builds :: "'a cio \<Rightarrow> bool" where
  "builds \<equiv> writes_kinds build_kinds"

lemma kinds_ci_state [emits_intros]: "writes_kinds A get_ci" "writes_kinds A (put_ci ci)"
  by (auto simp: runs_def get_ci_def put_ci_def bindM_run)

lemma ci_kind_names [simp]:
  "k_kind ClusterInstallationK = ClusterInstallationKind" "k_kind PodK = PodKind" "k_kind ReplicaSetK = ReplicaSetKind"
  by (simp_all add: kind_defs)

lemmas kinds_ClusterInstallation = ClusterInstallation_kind.kinds_writes ClusterInstallation_kind.kinds_Delete

lemma kinds_ensure_object:
  assumes "\<And>owner x. writes_kinds A (create owner x)" and "\<And>c x. writes_kinds A (Update env K c x :: 'o cio)"
  shows "writes_kinds A (ensure_object env (K :: 'o kind_ops) create adjust desired)"
  unfolding ensure_object_def using assms by (auto intro!: emits_intros)

section \<open>The update job\<close>

text \<open>The update job, and the pods that its clean-up deletes.\<close>

definition ci_job_kinds :: "(action \<times> kind) set" where
  "ci_job_kinds = insert (ToDelete, PodKind) job_kinds"

lemma ci_job_kinds_members [simp]:
  "(ToCreate, JobKind) \<in> ci_job_kinds" "(ToDelete, JobKind) \<in> ci_job_kinds" "(ToDelete, PodKind) \<in> ci_job_kinds"
  by (simp_all add: ci_job_kinds_def job_kinds_def)

lemma ci_job_kinds_written:
  "writes_kinds ci_job_kinds (ci_checkUpdateJob env d)" "writes_kinds ci_job_kinds (ci_cleanupUpdateJob env j)"
proof -
  have create: "writes_kinds ci_job_kinds (create_update_job env (\<lambda>_. ret ()) owner ns d' u)" for owner ns d' u
    unfolding create_update_job_def by (auto intro!: emits_intros kinds_job split: prod.splits)
  have "writes_kinds ci_job_kinds (ci_launch_update_job env ci d)" "writes_kinds ci_job_kinds (ci_restart_update_job env ci j' d)" for ci j'
    unfolding ci_launch_update_job_def ci_restart_update_job_def LaunchMattermostUpdateJob_def RestartMattermostUpdateJob_def
    by (auto intro!: emits_intros create kinds_job split: sum.splits)
  then show "writes_kinds ci_job_kinds (ci_checkUpdateJob env d)"
    unfolding ci_checkUpdateJob_def FetchMattermostUpdateJob_def
    by (auto intro!: emits_intros split: option.splits sum.splits outcome.splits)
  show "writes_kinds ci_job_kinds (ci_cleanupUpdateJob env j)"
    unfolding ci_cleanupUpdateJob_def by (auto intro!: emits_intros kinds_job Pod_kind.kinds_Delete split: sum.splits)
qed

section \<open>The handlers under a policy\<close>

text \<open>Bringing the deployments up to date needs the common interface and the pods of old update jobs.\<close>

locale build_policy = write_policy "(\<lambda>_. True) :: ci_state \<Rightarrow> bool" A env for A env +
  assumes job_pods: "(ToDelete, PodKind) \<in> A"
begin

lemma ci_job_kinds_allowed: "ci_job_kinds \<subseteq> A"
  by (auto simp: ci_job_kinds_def job_kinds_def jobs job_pods)

declare policy [emits_intros]

lemma builds_mysql_secrets [emits_intros]: "writes_kinds A (getOrCreateMySQLSecrets env)"
  unfolding getOrCreateMySQLSecrets_def Let_def by (auto intro!: emits_intros)

lemma builds_service [emits_intros]:
  "writes_kinds A (ci_checkMattermostService env n sel)" "writes_kinds A (ci_checkMattermostIngress env n h a)"
  "writes_kinds A (ci_checkMattermostRBAC env n sa)"
  unfolding ci_checkMattermostService_def ci_checkMattermostIngress_def ci_checkMattermostRBAC_def ci_checkMattermostSA_def
    ci_checkMattermostRole_def ci_checkMattermostRoleBinding_def
  by (auto intro!: emits_intros kinds_ensure_object)

lemma builds_update_deployment [emits_intros]: "writes_kinds A (ci_updateMattermostDeployment env c d)"
proof -
  have upd: "writes_kinds A (ci_update_deployment env c d)"
    unfolding ci_update_deployment_def by (auto intro!: emits_intros)
  have after: "writes_kinds A (ci_after_update_job env c d chk)" for chk
    unfolding ci_after_update_job_def Let_def
    by (auto intro!: emits_intros upd kinds_mono [OF ci_job_kinds_written(2) ci_job_kinds_allowed] split: prod.splits option.splits)
  show ?thesis
    unfolding ci_updateMattermostDeployment_def
    by (auto intro!: emits_intros upd after kinds_mono [OF ci_job_kinds_written(1) ci_job_kinds_allowed])
qed

lemma builds_deployment [emits_intros]: "writes_kinds A (ci_checkMattermostDeployment env n h sa img)"
proof -
  have "writes_kinds A (ci_database_info env)" "writes_kinds A (ci_minio_url env)" "writes_kinds A (ci_check_licence env)"
    unfolding ci_database_info_def ci_minio_url_def ci_check_licence_def ci_checkSecret_def by (auto intro!: emits_intros)
  then show ?thesis
    unfolding ci_checkMattermostDeployment_def by (auto intro!: emits_intros)
qed

lemma builds_blue_green [emits_intros]: "writes_kinds A (check_blue_green_deployment env ci d)"
  unfolding check_blue_green_deployment_def by (auto intro!: emits_intros)

end

text \<open>A whole run also deletes the parts that are no longer wanted, and writes the resource itself.\<close>

locale ci_policy = build_policy A env for A env +
  assumes deletions: "k \<in> {ServiceKind, IngressKind, DeploymentKind} \<Longrightarrow> (ToDelete, k) \<in> A"
    and resource: "(ToUpdate, ClusterInstallationKind) \<in> A" "(ToStatus, ClusterInstallationKind) \<in> A"
begin

lemma kinds_ci_status [emits_intros]:
  "writes_kinds A (ci_updateStatus env st)" "writes_kinds A (ci_setState env state)" "writes_kinds A (ci_setStateReconciling env)"
  "writes_kinds A (ci_setStateReconcilingAndLogError env)"
proof -
  show u: "writes_kinds A (ci_updateStatus env st)" for st
    unfolding ci_updateStatus_def Let_def by (auto intro!: emits_intros kinds_ClusterInstallation resource)
  show s: "writes_kinds A (ci_setState env state)" for state
    unfolding ci_setState_def by (auto intro!: emits_intros u)
  show "writes_kinds A (ci_setStateReconciling env)" "writes_kinds A (ci_setStateReconcilingAndLogError env)"
    unfolding ci_setStateReconciling_def ci_setStateReconcilingAndLogError_def by (auto intro!: emits_intros s)
qed

lemma kinds_ci_on_error [emits_intros]: "writes_kinds A m \<Longrightarrow> writes_kinds A (ci_on_error env m)"
  unfolding ci_on_error_def by (auto intro!: emits_intros split: sum.splits)

lemma kinds_ci_database [emits_intros]: "writes_kinds A (ci_checkDatabase env)"
proof -
  have "writes_kinds A (ci_checkMySQLCluster env)"
    unfolding ci_checkMySQLCluster_def by (auto intro!: emits_intros kinds_ensure_object)
  moreover have "writes_kinds A (ci_external_database env)"
    unfolding ci_external_database_def Let_def by (auto intro!: emits_intros)
  ultimately show ?thesis
    unfolding ci_checkDatabase_def checkPostgres_def Let_def by (auto intro!: emits_intros)
qed

lemma kinds_minio [emits_intros]: "writes_kinds A (checkMinio env)"
proof -
  have "writes_kinds A (ci_checkMattermostMinioSecret env)" "writes_kinds A (checkCustomMinioSecret env)"
    unfolding ci_checkMattermostMinioSecret_def checkCustomMinioSecret_def Let_def by (auto intro!: emits_intros)
  moreover have "writes_kinds A (ci_checkMinioInstance env)"
    unfolding ci_checkMinioInstance_def by (auto intro!: emits_intros kinds_ensure_object)
  ultimately show ?thesis
    unfolding checkMinio_def checkMinioSecret_def by (auto intro!: emits_intros)
qed

lemma kinds_delete_components [emits_intros]:
  "writes_kinds A (deleteAllMattermostComponents env n)" "writes_kinds A (deleteMattermostDeployment env n)"
  unfolding deleteAllMattermostComponents_def deleteMattermostDeployment_def deleteMattermostService_def
    deleteMattermostIngress_def deleteMattermostResource_def
  by (auto intro!: emits_intros Deployment_kind.kinds_Delete Service_kind.kinds_Delete Ingress_kind.kinds_Delete
      simp: deletions split: sum.splits)

lemma kinds_ci_mattermost [emits_intros]:
  "writes_kinds A (ci_checkMattermost env)" "writes_kinds A (checkBlueGreen env)" "writes_kinds A (checkCanary env)"
  unfolding ci_checkMattermost_def checkBlueGreen_def checkCanary_def Let_def
  by (auto intro!: emits_intros)

lemma kinds_ci_finish [emits_intros]: "writes_kinds A (ci_finish_reconcile env)"
proof -
  have "writes_kinds A (checkClusterInstallation env ns n img v r lb labels)" for ns n img v r lb labels
    unfolding checkClusterInstallation_def ci_health_endpoint_def Let_def
    by (auto intro!: emits_intros split: sum.splits)
  then have "writes_kinds A (handleCheckClusterInstallation env)"
    unfolding handleCheckClusterInstallation_def check_app_deployment_def Let_def
    by (auto intro!: emits_intros split: prod.splits)
  then show ?thesis
    unfolding ci_finish_reconcile_def by (auto intro!: emits_intros split: prod.splits option.splits)
qed

lemma kinds_ci_set_defaults [emits_intros]: "writes_kinds A (ci_set_defaults env)"
  unfolding ci_set_defaults_def
  by (auto intro!: emits_intros kinds_ClusterInstallation resource split: outcome.splits)

lemma kinds_ci_body [emits_intros]: "writes_kinds A (ci_reconcile_body env)"
  unfolding ci_reconcile_body_def by (auto intro!: emits_intros)

end

section \<open>Over any cluster\<close>

interpretation building: build_policy build_kinds env
  by unfold_locales (auto intro!: maintains_kinds secrets_allowed simp: ci_maintained_def)

interpretation any_installation: ci_policy ci_kinds env
  by unfold_locales (auto intro!: maintains_kinds secrets_allowed simp: ci_maintained_def ci_deletable_def)

lemma migration_touches: "migration_allowed b c \<Longrightarrow> touches ci_kinds c"
  by (cases c) (auto simp: migration_allowed_def touches_def ci_maintained_def ci_deletable_def)

lemma kinds_migrate [emits_intros]: "ci_writes (HandleMigration env)" "ci_writes (tryToMigrate env)"
proof -
  have finish: "migrates True (finish_migration env state)" for state
    using migrates_finish [of state env] by (cases "state = Stable") (simp_all add: finish_migration_def runs_ret)
  have "migrates True (HandleMigration env)"
    unfolding HandleMigration_def
    by (auto intro!: emits_intros finish split: outcome.splits sum.splits)
  then show h: "ci_writes (HandleMigration env)"
    by (rule runs_weaken_calls) (rule migration_touches)
  show "ci_writes (tryToMigrate env)"
    unfolding tryToMigrate_def by (auto intro!: emits_intros h split: sum.splits)
qed

lemma kinds_ci_Reconcile: "ci_writes (ci_Reconcile env cfg k)"
proof -
  have "ci_writes (ci_admitted env)" unfolding ci_admitted_def by (auto intro!: emits_intros)
  then show ?thesis unfolding ci_Reconcile_def by (auto intro!: emits_intros split: sum.splits)
qed

section \<open>Over a settled cluster\<close>

definition ci_settled :: "env \<Rightarrow> bool" where
  "ci_settled env = (in_place env ServiceAccountK \<and> in_place env RoleK \<and> in_place env RoleBindingK \<and> in_place env ServiceK
     \<and> in_place env IngressK \<and> in_place env DeploymentK \<and> in_place env SecretK \<and> in_place env MysqlK \<and> in_place env MinioK)"

definition ci_settled_kinds :: "(action \<times> kind) set" where
  "ci_settled_kinds = {(ToCreate, JobKind), (ToUpdate, ClusterInstallationKind), (ToStatus, ClusterInstallationKind)}
     \<union> {ToDelete} \<times> {ServiceKind, IngressKind, DeploymentKind, JobKind, PodKind}"

lemma ci_settled_policy:
  assumes "ci_settled env"
  shows "ci_policy ci_settled_kinds env"
  using assms
  by unfold_locales (auto simp: ci_settled_def ci_settled_kinds_def intro!: maintains_in_place secrets_in_place)

lemma ci_settled_cluster_left_alone:
  assumes "ci_settled env" and "ci_reconcile_body env s = (r, s')"
  shows "\<exists>new. calls s' = calls s @ new \<and> list_all (\<lambda>c. case write_of c of None \<Rightarrow> True
     | Some (ToCreate, k, _) \<Rightarrow> k = JobKind
     | Some (ToDelete, k, _) \<Rightarrow> k \<in> {ServiceKind, IngressKind, DeploymentKind, JobKind, PodKind}
     | Some (_, k, _) \<Rightarrow> k = ClusterInstallationKind) new"
proof -
  obtain new where "calls s' = calls s @ new" "list_all (touches ci_settled_kinds) new"
    using ci_policy.kinds_ci_body [OF ci_settled_policy [OF assms(1)]] assms(2) by (rule kinds_no_write) simp
  moreover have "touches ci_settled_kinds c \<Longrightarrow> (case write_of c of None \<Rightarrow> True
     | Some (ToCreate, k, _) \<Rightarrow> k = JobKind
     | Some (ToDelete, k, _) \<Rightarrow> k \<in> {ServiceKind, IngressKind, DeploymentKind, JobKind, PodKind}
     | Some (_, k, _) \<Rightarrow> k = ClusterInstallationKind)" for c
    by (auto simp: touches_def ci_settled_kinds_def split: option.splits action.splits)
  ultimately show ?thesis by (intro exI [of _ new]) (auto simp: list_all_iff)
qed

section \<open>The update job, services and deletions\<close>

definition ci_job_permits :: "env \<Rightarrow> call list \<Rightarrow> ClusterInstallation \<Rightarrow> Deployment \<Rightarrow> bool" where
  "ci_job_permits env h ci desired = (\<exists>job. api_get (e_Job env) h (UpdateJobName, ci_Namespace ci) = Inr job
     \<and> ci_isMainContainerImageSame ci (ps_Containers (pt_Spec (d_Template desired))) (ps_Containers (pt_Spec (j_Template job))) = Ok True
     \<and> j_Status_CompletionTime job \<noteq> None \<and> j_Status_Failed job \<le> 0)"

lemma ci_checkUpdateJob_ready:
  assumes "ci_checkUpdateJob env desired s = (Ok (j, None), s1)"
  shows "ci_job_permits env (calls s) (c_ci s) desired"
proof -
  have K: "k_api JobK env = e_Job env" by (simp add: JobK_def)
  show ?thesis
    using assms
    by (auto simp: ci_checkUpdateJob_def FetchMattermostUpdateJob_def client_Get_def get_ci_def io_defs of_sum_def K
        ci_job_permits_def split: option.splits sum.splits outcome.splits prod.splits if_splits)
qed

lemma service_selector:
  "svc_Selector (GenerateService ci n sel) = MapLit (ClusterInstallationSelectorLabels sel)"
  by (simp add: GenerateService_def newService_def configureMattermostLoadBalancerService_def configureMattermostService_def
      configureMattermostServicePorts_def Let_def)

definition deletes_deployment :: "call \<Rightarrow> bool" where
  "deletes_deployment c = (\<exists>key. write_of c = Some (ToDelete, DeploymentKind, key))"

section \<open>Properties\<close>

text \<open>
  C14. Whatever the API server answers, a reconcile run of an installation never deletes a secret, a volume
  claim, a database cluster, a MinIO instance or anything of the access control, and it writes no kind of
  object outside its list.
\<close>

theorem ci_reconcile_never_deletes_data:
  assumes "ci_Reconcile env cfg k s = (r, s')"
  shows "\<exists>new. calls s' = calls s @ new \<and> (\<forall>c \<in> set new. \<forall>a kind key. write_of c = Some (a, kind, key) \<longrightarrow> (case a of
      ToDelete \<Rightarrow> kind \<in> {ServiceKind, IngressKind, DeploymentKind, JobKind, PodKind, ReplicaSetKind, ClusterInstallationKind}
    | ToUpdate \<Rightarrow> kind \<in> ci_maintained \<or> kind = ClusterInstallationKind
    | ToCreate \<Rightarrow> kind \<in> ci_maintained \<or> kind = MattermostKind
    | ToStatus \<Rightarrow> kind = ClusterInstallationKind))"
proof -
  obtain new where new: "calls s' = calls s @ new" "list_all (touches ci_kinds) new"
    using kinds_ci_Reconcile assms by (rule kinds_no_write) simp
  have "case a of
      ToDelete \<Rightarrow> kind \<in> {ServiceKind, IngressKind, DeploymentKind, JobKind, PodKind, ReplicaSetKind, ClusterInstallationKind}
    | ToUpdate \<Rightarrow> kind \<in> ci_maintained \<or> kind = ClusterInstallationKind
    | ToCreate \<Rightarrow> kind \<in> ci_maintained \<or> kind = MattermostKind
    | ToStatus \<Rightarrow> kind = ClusterInstallationKind"
    if "touches ci_kinds c" and "write_of c = Some (a, kind, key)" for c a kind key
    using that by (cases a) (simp_all add: touches_def ci_deletable_def)
  with new(2) have "\<forall>c \<in> set new. \<forall>a kind key. write_of c = Some (a, kind, key) \<longrightarrow> (case a of
      ToDelete \<Rightarrow> kind \<in> {ServiceKind, IngressKind, DeploymentKind, JobKind, PodKind, ReplicaSetKind, ClusterInstallationKind}
    | ToUpdate \<Rightarrow> kind \<in> ci_maintained \<or> kind = ClusterInstallationKind
    | ToCreate \<Rightarrow> kind \<in> ci_maintained \<or> kind = MattermostKind
    | ToStatus \<Rightarrow> kind = ClusterInstallationKind)"
    unfolding list_all_iff by blast
  with new(1) show ?thesis by blast
qed

lemma ci_reconcile_never_deletes_data_witness:
  "\<exists>new. calls (snd (ci_Reconcile demo_env \<lparr>MaxReconciling = 1, RequeueOnLimitDelay = 20\<rparr> (''mm'', ''apps'') \<lparr>calls = [], c_ci = demo_ci\<rparr>)) = new
     \<and> (\<forall>c \<in> set new. \<forall>key. write_of c \<noteq> Some (ToDelete, SecretKind, key))"
  using ci_reconcile_never_deletes_data [OF prod.collapse [symmetric], of demo_env "\<lparr>MaxReconciling = 1, RequeueOnLimitDelay = 20\<rparr>"
      "(''mm'', ''apps'')" "\<lparr>calls = [], c_ci = demo_ci\<rparr>"]
  by fastforce

text \<open>
  C15. A change of the image reaches the deployment of an installation only after the update job: the
  deployment is updated only when the job exists, was made for the same image, has completed and has no
  failed pod.  Until then only the job, and the pods of jobs, are written.
\<close>

theorem ci_image_change_waits_for_update_job:
  assumes "ci_updateMattermostDeployment env current desired s = (r, s')"
    and "ci_isMainDeploymentContainerImageSame (c_ci s) current desired = Ok False"
    and "\<not> ci_job_permits env (calls s) (c_ci s) desired"
  shows "\<exists>new. calls s' = calls s @ new \<and> list_all (\<lambda>c. case write_of c of
     None \<Rightarrow> True | Some (a, k, _) \<Rightarrow> k = JobKind \<and> (a = ToCreate \<or> a = ToDelete) \<or> k = PodKind \<and> a = ToDelete) new"
proof -
  obtain rc s1 where chk: "ci_checkUpdateJob env desired s = (rc, s1)" by (cases "ci_checkUpdateJob env desired s")
  have run: "ci_updateMattermostDeployment env current desired s =
      bindM (ci_checkUpdateJob env desired) (ci_after_update_job env current desired) s"
    using assms(2) by (simp add: ci_updateMattermostDeployment_def get_ci_def io_defs)
  obtain new1 where new1: "calls s1 = calls s @ new1" "list_all (touches ci_job_kinds) new1"
    using ci_job_kinds_written(1) chk by (rule kinds_no_write) simp
  have "\<exists>new2. calls s' = calls s1 @ new2 \<and> list_all (touches ci_job_kinds) new2"
  proof (cases rc)
    case (Ok c)
    obtain j e where c: "c = (j, e)" by (cases c)
    have "e \<noteq> None" using assms(3) ci_checkUpdateJob_ready [of env desired s j s1] chk Ok c by auto
    then have "writes_kinds ci_job_kinds (ci_after_update_job env current desired c)"
      unfolding ci_after_update_job_def c Let_def
      by (auto intro!: emits_intros ci_job_kinds_written(2) split: option.splits)
    moreover have "ci_after_update_job env current desired c s1 = (r, s')"
      using assms(1) run chk Ok by (simp add: bindM_def)
    ultimately show ?thesis by (rule kinds_no_write) auto
  qed (use assms(1) run chk in \<open>auto simp: bindM_def\<close>)
  then obtain new2 where "calls s' = calls s1 @ new2" "list_all (touches ci_job_kinds) new2" by blast
  with new1 have "calls s' = calls s @ (new1 @ new2)" "list_all (touches ci_job_kinds) (new1 @ new2)" by simp_all
  moreover have "touches ci_job_kinds c \<Longrightarrow> (case write_of c of
     None \<Rightarrow> True | Some (a, k, _) \<Rightarrow> k = JobKind \<and> (a = ToCreate \<or> a = ToDelete) \<or> k = PodKind \<and> a = ToDelete)" for c
    by (auto simp: touches_def ci_job_kinds_def job_kinds_def split: option.splits)
  ultimately show ?thesis by (intro exI [of _ "new1 @ new2"]) (auto simp: list_all_iff)
qed

lemma ci_image_change_waits_for_update_job_witness:
  "\<exists>new. calls (snd (ci_updateMattermostDeployment demo_env demo_app_deployment demo_new_deployment \<lparr>calls = [], c_ci = demo_ci\<rparr>)) = new
     \<and> list_all (\<lambda>c. case write_of c of
     None \<Rightarrow> True | Some (a, k, _) \<Rightarrow> k = JobKind \<and> (a = ToCreate \<or> a = ToDelete) \<or> k = PodKind \<and> a = ToDelete) new"
proof -
  have img: "ci_isMainDeploymentContainerImageSame demo_ci demo_app_deployment demo_new_deployment = Ok False"
    by (simp add: ci_isMainDeploymentContainerImageSame_def ci_isMainContainerImageSame_def demo_app_deployment_def
        demo_new_deployment_def demo_app_container_def zero_deployment_def zero_template_def demo_ci_def demo_ci_spec_def
        ci_GetMattermostAppContainer_def ci_getContainerByName_def MattermostAppContainerName_def ci_MattermostAppContainerName_def
        zero_ci_spec_def)
  have "\<not> ci_job_permits demo_env h ci d" for h ci d by (simp add: ci_job_permits_def demo_env_def empty_api_def)
  with ci_image_change_waits_for_update_job [OF prod.collapse [symmetric], of "\<lparr>calls = [], c_ci = demo_ci\<rparr>"] img
  show ?thesis by fastforce
qed


definition demo_ci_state :: ci_state where
  "demo_ci_state = \<lparr>calls = [], c_ci = demo_ci\<rparr>"

definition demo_served_env :: env where
  "demo_served_env = demo_rolled_env\<lparr>e_Ingress := empty_api\<lparr>api_direct_list := \<lambda>_ _ _.
     Inr [GenerateIngress demo_ci ''mm'' ''mm.example.com'' NilMap]\<rparr>\<rparr>"


text \<open>
  C17. Blue/green: the deployment with the installation's own name is deleted only after the blue and the
  green one were both brought up to date.
\<close>

theorem blue_green_before_deletion:
  assumes "checkBlueGreen env s = (r, s')" and "bg_Enable (csp_BlueGreen (ci_Spec (c_ci s)))"
  shows "\<exists>built cut. calls s' = calls s @ built @ cut \<and> (\<forall>c \<in> set built. \<not> deletes_deployment c)
    \<and> (cut \<noteq> [] \<longrightarrow> (\<exists>s1. for_each (check_blue_green_deployment env (c_ci s))
          [bg_Blue (csp_BlueGreen (ci_Spec (c_ci s))), bg_Green (csp_BlueGreen (ci_Spec (c_ci s)))] s = (Ok (), s1)
        \<and> calls s1 = calls s @ built))"
proof -
  let ?ds = "[bg_Blue (csp_BlueGreen (ci_Spec (c_ci s))), bg_Green (csp_BlueGreen (ci_Spec (c_ci s)))]"
  obtain r1 s1 where build: "for_each (check_blue_green_deployment env (c_ci s)) ?ds s = (r1, s1)"
    by (cases "for_each (check_blue_green_deployment env (c_ci s)) ?ds s")
  have "builds (for_each (check_blue_green_deployment env (c_ci s)) ?ds)"
    by (intro runs_for_each building.builds_blue_green)
  then obtain built where built: "calls s1 = calls s @ built" "list_all (touches build_kinds) built"
    using build by (rule kinds_no_write) simp
  have keep: "\<forall>c \<in> set built. \<not> deletes_deployment c"
    using built(2) by (auto simp: list_all_iff touches_def deletes_deployment_def)
  have run: "checkBlueGreen env s = (case (r1, s1) of (Ok _, s1) \<Rightarrow> deleteMattermostDeployment env (ci_Name (c_ci s)) s1
      | (Err e, s1) \<Rightarrow> (Err e, s1) | (Panic p, s1) \<Rightarrow> (Panic p, s1))"
    using assms(2) build by (simp add: checkBlueGreen_def get_ci_def bindM_def get_state_def ret_def Let_def del: for_each.simps)
  show ?thesis
  proof (cases r1)
    case (Ok u)
    then have "deleteMattermostDeployment env (ci_Name (c_ci s)) s1 = (r, s')" using run assms(1) by simp
    with any_installation.kinds_delete_components(2) obtain cut where "calls s' = calls s1 @ cut" by (rule kinds_no_write) simp
    with built(1) keep build Ok show ?thesis by (intro exI [of _ built] exI [of _ cut]) auto
  next
    case (Err e)
    with run assms(1) built(1) keep show ?thesis by (intro exI [of _ built] exI [of _ "[]"]) simp
  next
    case (Panic p)
    with run assms(1) built(1) keep show ?thesis by (intro exI [of _ built] exI [of _ "[]"]) simp
  qed
qed

definition demo_blue_green_ci :: ClusterInstallation where
  "demo_blue_green_ci = new_cluster_installation ''mm'' ''apps'' (demo_ci_spec\<lparr>csp_BlueGreen :=
     \<lparr>bg_ProductionDeployment = ''blue'', bg_Enable = True, bg_Blue = zero_app_deployment\<lparr>ad_Name := ''mm-blue''\<rparr>,
      bg_Green = zero_app_deployment\<lparr>ad_Name := ''mm-green''\<rparr>\<rparr>\<rparr>)"

lemma blue_green_before_deletion_witness:
  "\<exists>built cut. calls (snd (checkBlueGreen demo_env \<lparr>calls = [], c_ci = demo_blue_green_ci\<rparr>)) = built @ cut
     \<and> (\<forall>c \<in> set built. \<not> deletes_deployment c)"
  using blue_green_before_deletion [OF prod.collapse [symmetric], of "\<lparr>calls = [], c_ci = demo_blue_green_ci\<rparr>" demo_env]
  by (fastforce simp: demo_blue_green_ci_def)

text \<open>
  C26. The service of an installation selects the pods of its production deployment, and that deployment
  selects them itself, unless the user gave one of the operator's labels another value: the user's labels
  are written last, and the pods are then nobody's.
\<close>

theorem ci_pods_selected:
  assumes "GenerateDeployment ci info (ci_GetProductionDeploymentName ci) host sa img url = Ok d"
  shows "\<exists>sel labels. svc_Selector (GenerateService ci (ci_Name ci) (ci_GetProductionDeploymentName ci)) = MapLit sel
    \<and> d_Selector d = MapLit sel \<and> pt_Labels (d_Template d) = MapLit labels
    \<and> (matches_labels sel labels \<longleftrightarrow> (\<forall>k v. sel k = Some v \<longrightarrow> ci_user_labels ci k \<in> {None, Some v}))"
proof -
  let ?n = "ci_GetProductionDeploymentName ci"
  have d: "d_Selector d = MapLit (ClusterInstallationSelectorLabels ?n)" "pt_Labels (d_Template d) = MapLit (ClusterInstallationLabels ci ?n)"
    using assms by (auto simp: GenerateDeployment_def bindO_eq_Ok)
  have labels: "ClusterInstallationLabels ci ?n = ClusterInstallationSelectorLabels ?n ++ ci_user_labels ci"
    by (simp add: ClusterInstallationLabels_def ClusterInstallationSelectorLabels_def)
  have "matches_labels sel (sel ++ u) \<longleftrightarrow> (\<forall>k v. sel k = Some v \<longrightarrow> u k \<in> {None, Some v})" for sel u :: strmap
    unfolding matches_labels_iff by (fastforce simp: map_add_Some_iff)
  with d service_selector labels show ?thesis
    by (intro exI [of _ "ClusterInstallationSelectorLabels ?n"] exI [of _ "ClusterInstallationLabels ci ?n"]) simp
qed

lemma demo_ci_deployment:
  assumes "csp_UseServiceLoadBalancer (ci_Spec ci) = False" "csp_IngressAnnotations (ci_Spec ci) = None"
  shows "\<exists>d. GenerateDeployment ci info n h sa img url = Ok d"
proof -
  have "ci_body_size ci = Ok (Itoa (defaultMaxFileSize * sizeMB))"
    using assms by (simp add: ci_body_size_def Let_def determineMaxBodySize_def)
  then show ?thesis by (simp add: GenerateDeployment_def ci_env_def ci_general_env_def Let_def)
qed

lemma ci_pods_selected_witness:
  "\<exists>d sel labels. GenerateDeployment demo_ci (GenerateDatabaseInfoFromSecret demo_db_secret) ''mm'' ''mm.example.com'' ''mm'' ''img'' ''minio'' = Ok d
     \<and> d_Selector d = MapLit sel \<and> pt_Labels (d_Template d) = MapLit labels \<and> matches_labels sel labels"
proof -
  have ci: "ci_user_labels demo_ci = Map.empty" "ci_GetProductionDeploymentName demo_ci = ''mm''"
    by (simp_all add: demo_ci_def demo_ci_spec_def zero_ci_spec_def ci_user_labels_def ci_GetProductionDeploymentName_def Let_def)
  obtain d where d: "GenerateDeployment demo_ci (GenerateDatabaseInfoFromSecret demo_db_secret) ''mm'' ''mm.example.com'' ''mm'' ''img'' ''minio'' = Ok d"
    using demo_ci_deployment [of demo_ci] by (fastforce simp: demo_ci_def demo_ci_spec_def zero_ci_spec_def)
  with ci_pods_selected [of demo_ci] show ?thesis unfolding ci by fastforce
qed

text \<open>
  C39. Every ingress of an installation leads to the service with its own name, also the ingress of a canary
  and those of a blue and a green deployment; what that service selects are the pods of the production
  deployment, and no pods of the canary or of the other colour.
\<close>

theorem ingress_leads_to_production:
  assumes "name \<noteq> ci_GetProductionDeploymentName ci" and "ci_user_labels ci ci_ClusterLabel = None"
    and "GenerateDeployment ci info name host sa img url = Ok d"
  shows "(\<forall>rule \<in> set (i_Rules (GenerateIngress ci name host annotations)). \<forall>p \<in> set (ir_Paths rule). ip_ServiceName p = ci_Name ci)
    \<and> (\<exists>sel labels. svc_Selector (GenerateService ci (ci_Name ci) (ci_GetProductionDeploymentName ci)) = MapLit sel
        \<and> pt_Labels (d_Template d) = MapLit labels \<and> \<not> matches_labels sel labels)"
proof -
  have labels: "pt_Labels (d_Template d) = MapLit (ClusterInstallationLabels ci name)"
    using assms(3) by (auto simp: GenerateDeployment_def bindO_eq_Ok)
  have "ci_ClusterLabel \<noteq> ''app''" by (simp add: ci_ClusterLabel_def)
  then have "ClusterInstallationSelectorLabels (ci_GetProductionDeploymentName ci) ci_ClusterLabel = Some (ci_GetProductionDeploymentName ci)"
    "ClusterInstallationLabels ci name ci_ClusterLabel = Some name"
    using assms(2) by (simp_all add: ClusterInstallationSelectorLabels_def ClusterInstallationLabels_def map_add_def)
  then have "\<not> matches_labels (ClusterInstallationSelectorLabels (ci_GetProductionDeploymentName ci)) (ClusterInstallationLabels ci name)"
    using assms(1) unfolding matches_labels_iff by (metis option.inject)
  moreover have "\<forall>rule \<in> set (i_Rules (GenerateIngress ci name host annotations)). \<forall>p \<in> set (ir_Paths rule). ip_ServiceName p = ci_Name ci"
    by (simp add: GenerateIngress_def)
  ultimately show ?thesis using labels service_selector by auto
qed

lemma ingress_leads_to_production_witness:
  "\<exists>d sel labels. GenerateDeployment demo_blue_green_ci (GenerateDatabaseInfoFromSecret demo_db_secret) ''mm-green'' ''g.example.com'' ''mm'' ''img'' ''minio'' = Ok d
     \<and> svc_Selector (GenerateService demo_blue_green_ci ''mm'' ''mm-blue'') = MapLit sel
     \<and> pt_Labels (d_Template d) = MapLit labels \<and> \<not> matches_labels sel labels"
proof -
  have ci: "ci_user_labels demo_blue_green_ci ci_ClusterLabel = None" "ci_GetProductionDeploymentName demo_blue_green_ci = ''mm-blue''"
    "ci_Name demo_blue_green_ci = ''mm''"
    by (simp_all add: demo_blue_green_ci_def demo_ci_spec_def zero_ci_spec_def ci_user_labels_def ci_GetProductionDeploymentName_def
        Let_def zero_app_deployment_def BlueName_def GreenName_def)
  obtain d where d: "GenerateDeployment demo_blue_green_ci (GenerateDatabaseInfoFromSecret demo_db_secret) ''mm-green'' ''g.example.com'' ''mm'' ''img'' ''minio'' = Ok d"
    using demo_ci_deployment [of demo_blue_green_ci] by (fastforce simp: demo_blue_green_ci_def demo_ci_spec_def zero_ci_spec_def)
  with ingress_leads_to_production [of "''mm-green''" demo_blue_green_ci] ci show ?thesis by fastforce
qed

end
