(* ===== verification/MigrationProtocol.thy ===== *)
theory MigrationProtocol
  imports MigrationSafety
begin

text \<open>
  The migration as a refinement of a protocol: an automaton over the calls says which write may follow which,
  and every run of the migration is a path of it.
\<close>

section \<open>The order of the writes\<close>

text \<open>
  The protocol of a migration, as an automaton over the calls: the old deployment is deleted with its pods
  left running, the new one created, the new resource created; or, in a later run, the replica sets are
  deleted and then the old resource.  A write out of order has no step.
\<close>

datatype migration_phase = Before | OldDeleted | NewCreated | Announced | CleaningUp | Done

definition migration_step :: "migration_phase \<Rightarrow> call \<Rightarrow> migration_phase option" where
  "migration_step p c = (case c of
     CDeleteWith opt k \<Rightarrow>
       if p = Before \<and> opt = PropagationOrphan \<and> kobj_kind k = DeploymentKind then Some OldDeleted else None
   | CCreate k \<Rightarrow>
       if p = OldDeleted \<and> kobj_kind k = DeploymentKind then Some NewCreated
       else if p \<in> {Before, NewCreated} \<and> kobj_kind k = MattermostKind then Some Announced
       else None
   | CDelete k \<Rightarrow>
       if p \<in> {Before, CleaningUp} \<and> kobj_kind k = ReplicaSetKind then Some CleaningUp
       else if p \<in> {Before, CleaningUp} \<and> kobj_kind k = ClusterInstallationKind then Some Done
       else None
   | CUpdate _ \<Rightarrow> None
   | CStatusUpdate _ \<Rightarrow> None
   | _ \<Rightarrow> Some p)"

fun migration_path :: "migration_phase \<Rightarrow> call list \<Rightarrow> migration_phase option" where
  "migration_path p [] = Some p"
| "migration_path p (c # cs) = Option.bind (migration_step p c) (\<lambda>q. migration_path q cs)"

lemma migration_path_append: "migration_path p (xs @ ys) = Option.bind (migration_path p xs) (\<lambda>q. migration_path q ys)"
  by (induction xs arbitrary: p) (auto split: Option.bind_split)

lemma migration_step_read [simp]:
  "migration_step p (CGet k key) = Some p" "migration_step p (CDirectGet k key) = Some p"
  "migration_step p (CList k ns sel) = Some p" "migration_step p (CDirectList k ns' sel) = Some p"
  by (simp_all add: migration_step_def)

text \<open>\<open>moves p m Q\<close>: in phase \<open>p\<close> the program follows the protocol, and ends with its result in a phase of \<open>Q\<close>.\<close>

definition moves :: "migration_phase \<Rightarrow> ('z cluster_scheme, 'a) io \<Rightarrow> ('a \<Rightarrow> migration_phase \<Rightarrow> bool) \<Rightarrow> bool" where
  "moves p m Q = (\<forall>s r s'. m s = (r, s') \<longrightarrow>
     (\<exists>new q. calls s' = calls s @ new \<and> migration_path p new = Some q \<and> (\<forall>x. r = Ok x \<longrightarrow> Q x q)))"

lemma movesD:
  assumes "moves p m Q" and "m s = (r, s')"
  obtains new q where "calls s' = calls s @ new" "migration_path p new = Some q" "\<forall>x. r = Ok x \<longrightarrow> Q x q"
  using assms unfolding moves_def by meson

lemma moves_bind:
  assumes "moves p m Q" and "\<And>x q. Q x q \<Longrightarrow> moves q (f x) R"
  shows "moves p (bindM m f) R"
  unfolding moves_def
proof (intro allI impI)
  fix s r s' assume run: "bindM m f s = (r, s')"
  obtain r1 s1 where m: "m s = (r1, s1)" by (cases "m s")
  from assms(1) m obtain new q where 1: "calls s1 = calls s @ new" "migration_path p new = Some q" "\<forall>x. r1 = Ok x \<longrightarrow> Q x q"
    by (rule movesD)
  show "\<exists>new q. calls s' = calls s @ new \<and> migration_path p new = Some q \<and> (\<forall>x. r = Ok x \<longrightarrow> R x q)"
  proof (cases r1)
    case (Ok x)
    then have fx: "f x s1 = (r, s')" using run m by (simp add: bindM_def)
    have "moves q (f x) R" using assms(2) 1(3) Ok by simp
    from this fx obtain new' q' where "calls s' = calls s1 @ new'" "migration_path q new' = Some q'" "\<forall>x. r = Ok x \<longrightarrow> R x q'"
      by (rule movesD)
    with 1(1,2) show ?thesis by (intro exI [of _ "new @ new'"] exI [of _ q']) (simp add: migration_path_append)
  qed (use run m 1 in \<open>auto simp: bindM_def\<close>)
qed

lemma moves_wrap: "moves p m Q \<Longrightarrow> moves p (wrapM msg m) Q"
  unfolding moves_def wrapM_def by (fastforce split: prod.splits elim: wrapO.elims)

lemma moves_weaken:
  assumes "moves p m Q" and "\<And>x q. Q x q \<Longrightarrow> R x q"
  shows "moves p m R"
  unfolding moves_def
proof (intro allI impI)
  fix s r s' assume "m s = (r, s')"
  with assms(1) obtain new q where "calls s' = calls s @ new" "migration_path p new = Some q" "\<forall>x. r = Ok x \<longrightarrow> Q x q"
    by (rule movesD)
  then show "\<exists>new q. calls s' = calls s @ new \<and> migration_path p new = Some q \<and> (\<forall>x. r = Ok x \<longrightarrow> R x q)"
    by (intro exI [of _ new] exI [of _ q]) (simp add: assms(2))
qed

lemma moves_ret: "Q x p \<Longrightarrow> moves p (ret x) Q" "moves p (fail e) Q" "(\<And>x. r = Ok x \<Longrightarrow> Q x p) \<Longrightarrow> moves p (lift r) Q"
  by (auto simp: moves_def)

lemma moves_call: "migration_step p c = Some q \<Longrightarrow> moves p (call_api c f) (\<lambda>_ q'. q' = q)"
  by (fastforce simp: moves_def call_api_run)

lemma moves_try_call:
  assumes "migration_step p c = Some q"
  shows "moves p (tryM (call_api c f)) (\<lambda>_ q'. q' = q)"
  unfolding moves_def
proof (intro allI impI)
  fix s r s' assume "tryM (call_api c f) s = (r, s')"
  then have "calls s' = calls s @ [c]"
    by (cases "f (calls s)") (auto simp: tryM_def call_api_def of_sum_def)
  with assms show "\<exists>new q'. calls s' = calls s @ new \<and> migration_path p new = Some q' \<and> (\<forall>x. r = Ok x \<longrightarrow> q' = q)"
    by (intro exI [of _ "[c]"] exI [of _ q]) simp
qed

text \<open>A program without a write stays in its phase.\<close>

abbreviation quiet_io :: "('z cluster_scheme, 'a) io \<Rightarrow> bool" where
  "quiet_io m \<equiv> runs (\<lambda>_. True) (\<lambda>_ c. \<not> is_write c) m (\<lambda>_. True)"

lemma path_without_writes: "\<forall>c \<in> set cs. \<not> is_write c \<Longrightarrow> migration_path p cs = Some p"
proof (induction cs)
  case (Cons c cs)
  then have "migration_step p c = Some p" by (cases c) (simp_all add: migration_step_def)
  with Cons show ?case by simp
qed simp

lemma moves_quiet:
  assumes "quiet_io m" and "\<And>x. moves p (f x) R"
  shows "moves p (bindM m f) R"
proof (rule moves_bind)
  show "moves p m (\<lambda>_ q. q = p)"
    unfolding moves_def using assms(1)
    by (fastforce elim: runsD simp: ok_trace_all path_without_writes)
qed (simp add: assms(2))

lemma quiet_read [emits_intros]:
  "quiet_io (client_Get env K key)" "quiet_io (client_List env K1 ns sel)" "quiet_io (reader_List env K2 ns' sel')"
  by (rule runs_client; simp)+

lemma quiet_state [emits_intros]: "quiet_io get_ci" "quiet_io (migrated_labels mm)"
  by (auto simp: runs_def get_ci_def migrated_labels_def bindM_run mod_state_def split: prod.splits)

lemma quiet_wait: "quiet_io (waitForDeploymentDeletion env key)"
proof (rule runsI)
  fix s s' :: ci_state and r assume "waitForDeploymentDeletion env key s = (r, s')"
  then obtain n where "calls s' = calls s @ polls key n"
    using wait_loop_polls unfolding waitForDeploymentDeletion_def by blast
  then show "True \<and> (\<exists>new. calls s' = calls s @ new \<and> ok_trace (\<lambda>_ c. \<not> is_write c) (calls s) new) \<and> (\<forall>x. r = Ok x \<longrightarrow> True)"
    by (auto simp: polls_def ok_trace_all)
qed

lemma quiet_parts [emits_intros]:
  "quiet_io (ConvertToMM env ci)" "quiet_io (isDeploymentMigrated env ns mm)" "quiet_io (isDeploymentReady env ns mm)"
  unfolding ConvertToMM_def convertDatabase_def isDeploymentMigrated_def isDeploymentReady_def CheckPodsRollOut_def Let_def
  by (auto intro!: emits_intros split: prod.splits option.splits)

lemmas moves_intros = moves_ret moves_quiet emits_intros quiet_wait

lemma moves_writes:
  "moves OldDeleted (client_Create env DeploymentK d) (\<lambda>_ q. q = NewCreated)"
  "p \<in> {Before, NewCreated} \<Longrightarrow> moves p (client_Create env MattermostK mm) (\<lambda>_ q. q = Announced)"
  "moves Before (client_DeleteWith env DeploymentK PropagationOrphan d) (\<lambda>_ q. q = OldDeleted)"
  "p \<in> {Before, CleaningUp} \<Longrightarrow> moves p (client_Delete env ReplicaSetK rs) (\<lambda>_ q. q = CleaningUp)"
  "p \<in> {Before, CleaningUp} \<Longrightarrow> moves p (tryM (client_Delete env ClusterInstallationK ci)) (\<lambda>_ q. q = Done)"
  unfolding client_defs by (rule moves_call moves_try_call; simp add: migration_step_def kind_defs)+

lemma moves_recreate: "moves Before (recreateDeployment env mm) (\<lambda>_ q. q = NewCreated)"
  unfolding recreateDeployment_def
  by (auto intro!: moves_quiet emits_intros quiet_wait moves_bind [OF moves_wrap [OF moves_writes(3)]]
      moves_bind [OF moves_wrap [OF moves_writes(1)]] moves_ret split: prod.splits)

lemma moves_initialize:
  "moves Before (initializeMigration env) (\<lambda>finished q. finished \<longrightarrow> q = Announced)"
proof -
  have redo: "moves Before (if \<not> b then wrapM msg (recreateDeployment env mm) else ret mm) (\<lambda>_ q. q \<in> {Before, NewCreated})" for b msg mm
    by (auto intro!: moves_ret moves_wrap moves_weaken [OF moves_recreate])
  have announce: "moves q (bindM (wrapM msg (client_Create env MattermostK mm)) (\<lambda>_. ret True)) (\<lambda>finished q. finished \<longrightarrow> q = Announced)"
    if "q \<in> {Before, NewCreated}" for q msg mm
    by (rule moves_bind [OF moves_wrap [OF moves_writes(2) [OF that]]]) (simp add: moves_ret)
  show ?thesis
    unfolding initializeMigration_def
    by (auto intro!: moves_quiet emits_intros moves_bind [OF redo] announce moves_ret split: prod.splits)
qed

lemma moves_cleanup: "moves Before (cleanupReplicaSets env) (\<lambda>_ q. q \<in> {Before, CleaningUp})"
proof -
  have loop: "moves p (for_each (\<lambda>rs. wrapM msg (client_Delete env ReplicaSetK rs)) items) (\<lambda>_ q. q \<in> {Before, CleaningUp})"
    if "p \<in> {Before, CleaningUp}" for p items msg
    using that
  proof (induction items arbitrary: p)
    case (Cons rs items)
    show ?case
      unfolding for_each.simps
      by (rule moves_bind [OF moves_wrap [OF moves_writes(4) [OF Cons.prems]]]) (use Cons.IH [of CleaningUp] in simp)
  qed (auto intro: moves_ret)
  show ?thesis
    unfolding cleanupReplicaSets_def
    by (rule moves_quiet [OF quiet_state(1)], rule moves_quiet [OF runs_wrap [OF quiet_read(2)]], rule loop) simp
qed

lemma moves_finish:
  assumes "p = Before \<or> state \<noteq> Stable"
  shows "moves p (finish_migration env state) (\<lambda>res q. mr_Finished res \<longrightarrow> q = Done)"
proof (cases "state = Stable")
  case True
  have remove: "moves q (bindM get_ci (\<lambda>ci. bindM (tryM (client_Delete env ClusterInstallationK ci)) (\<lambda>deleted. case deleted of
          Inl e \<Rightarrow> if IsNotFound e then ret (zero_migration_result\<lparr>mr_Finished := True\<rparr>)
                   else fail (Wrap e ''failed to cleanup Cluster Installation'')
        | Inr _ \<Rightarrow> ret (zero_migration_result\<lparr>mr_Finished := True\<rparr>)))) (\<lambda>res q. mr_Finished res \<longrightarrow> q = Done)"
    if "q \<in> {Before, CleaningUp}" for q
    by (rule moves_quiet [OF quiet_state(1)], rule moves_bind [OF moves_writes(5) [OF that]])
       (auto intro!: moves_ret simp: zero_migration_result_def split: sum.splits)
  show ?thesis
    using True assms unfolding finish_migration_def
    by (auto intro!: moves_bind [OF moves_wrap [OF moves_cleanup]] remove)
next
  case False
  then show ?thesis unfolding finish_migration_def by (auto intro!: moves_ret)
qed

lemma moves_HandleMigration: "moves Before (HandleMigration env) (\<lambda>res q. mr_Finished res \<longrightarrow> q = Done)"
  unfolding HandleMigration_def
  by (auto intro!: moves_quiet emits_intros moves_ret moves_finish moves_bind [OF moves_wrap [OF moves_initialize]]
      simp: zero_migration_result_def Stable_def split: outcome.splits sum.splits)

section \<open>Properties\<close>

text \<open>
  C8. A migration refines its protocol: whatever the API server answers, the writes of a run are, in this
  order, the deletion of the old deployment, the creation of the new one and of the new resource, or the
  deletions of replica sets and of the old resource; and a run that says it is finished got to the end.
\<close>

theorem migration_follows_protocol:
  assumes "HandleMigration env s = (r, s')"
  shows "\<exists>new phase. calls s' = calls s @ new \<and> migration_path Before new = Some phase
    \<and> (\<forall>res. r = Ok res \<longrightarrow> mr_Finished res \<longrightarrow> phase = Done)"
  using movesD [OF moves_HandleMigration assms] by metis

definition demo_stable_env :: env where
  "demo_stable_env = demo_env\<lparr>e_Mattermost := empty_api\<lparr>api_get := \<lambda>_ _.
     Inr (demo_mm\<lparr>mm_Status := zero_status\<lparr>st_State := Stable\<rparr>\<rparr>)\<rparr>\<rparr>"

lemma migration_follows_protocol_witness:
  "\<exists>res s' new. HandleMigration demo_stable_env \<lparr>calls = [], c_ci = demo_ci\<rparr> = (Ok res, s') \<and> mr_Finished res
     \<and> calls s' = new \<and> migration_path Before new = Some Done"
proof -
  have "IsConvertible demo_ci = Ok ()" by (simp add: IsConvertible_def demo_ci_def demo_ci_spec_def zero_ci_spec_def)
  then obtain res s' where run: "HandleMigration demo_stable_env \<lparr>calls = [], c_ci = demo_ci\<rparr> = (Ok res, s')" and fin: "mr_Finished res"
    by (simp add: HandleMigration_def finish_migration_def cleanupReplicaSets_def get_ci_def io_defs client_Get_def client_List_def
        client_Delete_def of_sum_def MattermostK_def ReplicaSetK_def ClusterInstallationK_def demo_stable_env_def demo_env_def
        empty_api_def zero_status_def zero_migration_result_def)
  from migration_follows_protocol [OF run] run fin show ?thesis by fastforce
qed

end
