(* ===== verification/RestoreDB.thy ===== *)
theory RestoreDB
  imports ControllerKinds LegacyGenerators
begin

text \<open>
  Restoring the database of an installation from a backup: \<^verbatim>\<open>controllers/mattermost/mattermostrestoredb\<close>.
  The operator scales the MySQL cluster to 0, deletes its volume claims and scales it up again, whereupon
  the MySQL operator initialises it from the backup.

  The state of a run is the restore resource (\<open>b_restore\<close>), the installation (\<open>b_ci\<close>) and the field
  \<^verbatim>\<open>state\<close> of the reconciler (\<open>b_state\<close>), which is empty when the process starts, is shared by all
  restore resources, and survives a run.
\<close>

record restore_state = cluster +
  b_restore :: MattermostRestoreDB
  b_ci :: ClusterInstallation
  b_state :: string

type_synonym 'a bio = "(restore_state, 'a) io"

definition get_restore :: "MattermostRestoreDB bio" where
  "get_restore = bindM get_state (\<lambda>s. ret (b_restore s))"

definition put_restore :: "MattermostRestoreDB \<Rightarrow> unit bio" where
  "put_restore rdb = mod_state (\<lambda>s. s\<lparr>b_restore := rdb\<rparr>)"

definition get_installation :: "ClusterInstallation bio" where
  "get_installation = bindM get_state (\<lambda>s. ret (b_ci s))"

definition put_installation :: "ClusterInstallation \<Rightarrow> unit bio" where
  "put_installation ci = mod_state (\<lambda>s. s\<lparr>b_ci := ci\<rparr>)"

definition setRestoring :: "unit bio" where "setRestoring = mod_state (\<lambda>s. s\<lparr>b_state := Restoring\<rparr>)"
definition setFinished :: "unit bio" where "setFinished = mod_state (\<lambda>s. s\<lparr>b_state := Finished\<rparr>)"
definition setFailed :: "unit bio" where "setFailed = mod_state (\<lambda>s. s\<lparr>b_state := Failed\<rparr>)"

definition restore_updateStatus :: "env \<Rightarrow> MattermostRestoreDBStatus \<Rightarrow> unit bio" where
  "restore_updateStatus env status =
     bindM get_restore (\<lambda>rdb.
     if rdb_Status rdb = status then ret ()
     else let rdb' = rdb\<lparr>rdb_Status := status\<rparr> in
          bindM (put_restore rdb') (\<lambda>_.
          bindM (client_StatusUpdate env RestoreDBK rdb') put_restore))"

section \<open>The MySQL secret (\<^verbatim>\<open>mysql.go\<close>)\<close>

definition updated_mysql_secret :: "MattermostRestoreDBSpec \<Rightarrow> Secret \<Rightarrow> Secret" where
  "updated_mysql_secret sp dbSecret =
     dbSecret\<lparr>sec_StringData :=
       [''USER'' \<mapsto> or_default (rsp_MattermostDBUser sp) ''mmuser'',
        ''DATABASE'' \<mapsto> or_default (rsp_MattermostDBName sp) ''mattermost'',
        ''PASSWORD'' \<mapsto> or_default (rsp_MattermostDBPassword sp) (data_get (sec_Data dbSecret) ''PASSWORD'')]\<rparr>"

definition updateMySQLSecrets :: "env \<Rightarrow> unit bio" where
  "updateMySQLSecrets env =
     bindM get_restore (\<lambda>rdb.
     let sp = rdb_Spec rdb in
     bindM (client_Get env SecretK
              (DefaultDatabaseSecretName (rsp_MattermostClusterName sp), om_Namespace (rdb_Meta rdb))) (\<lambda>dbSecret.
     bindM (client_Update env SecretK (updated_mysql_secret sp dbSecret)) (\<lambda>_. ret ())))"

section \<open>The steps of a restore (\<^verbatim>\<open>controller.go\<close>)\<close>

definition restore_failed :: "env \<Rightarrow> Result bio" where
  "restore_failed env =
     bindM setFailed (\<lambda>_.
     bindM get_restore (\<lambda>rdb.
     bindM (restore_updateStatus env ((rdb_Status rdb)\<lparr>rst_State := Failed\<rparr>)) (\<lambda>_. ret done_result)))"

text \<open>The number of replicas is saved when the status differs from the reconciler's field.\<close>

definition record_state :: "env \<Rightarrow> unit bio" where
  "record_state env =
     bindM get_state (\<lambda>s.
     let st = rdb_Status (b_restore s) in
     if rst_State st \<noteq> b_state s
     then bindM (tryM (restore_updateStatus env
                  (st\<lparr>rst_State := b_state s,
                      rst_OriginalDBReplicas := cid_Replicas (csp_Database (ci_Spec (b_ci s)))\<rparr>))) (\<lambda>r. case r of
            Inl e \<Rightarrow> bindM setRestoring (\<lambda>_. fail e)
          | Inr _ \<Rightarrow> ret ())
     else ret ())"

definition set_db_replicas :: "int \<Rightarrow> ClusterInstallation \<Rightarrow> ClusterInstallation" where
  "set_db_replicas n ci =
     ci\<lparr>ci_Spec := (ci_Spec ci)\<lparr>csp_Database := (csp_Database (ci_Spec ci))\<lparr>cid_Replicas := n\<rparr>\<rparr>\<rparr>"

definition scaled_down :: "MattermostRestoreDBSpec \<Rightarrow> ClusterInstallation \<Rightarrow> ClusterInstallation" where
  "scaled_down sp ci =
     ci\<lparr>ci_Spec := (ci_Spec ci)\<lparr>csp_Database := (csp_Database (ci_Spec ci))\<lparr>cid_Replicas := 0,
          cid_InitBucketURL := rsp_InitBucketURL sp, cid_BackupRestoreSecretName := rsp_RestoreSecret sp\<rparr>\<rparr>\<rparr>"

definition write_installation :: "env \<Rightarrow> ClusterInstallation \<Rightarrow> unit bio" where
  "write_installation env ci =
     bindM (put_installation ci) (\<lambda>_.
     bindM (client_Update env ClusterInstallationK ci) put_installation)"

definition scale_down :: "env \<Rightarrow> unit bio" where
  "scale_down env =
     bindM get_state (\<lambda>s.
     if cid_Replicas (csp_Database (ci_Spec (b_ci s))) \<noteq> 0
     then write_installation env (scaled_down (rdb_Spec (b_restore s)) (b_ci s))
     else ret ())"

definition update_credentials :: "env \<Rightarrow> unit bio" where
  "update_credentials env =
     bindM get_restore (\<lambda>rdb.
     let sp = rdb_Spec rdb in
     if rsp_MattermostDBName sp \<noteq> [] \<or> rsp_MattermostDBUser sp \<noteq> [] \<or> rsp_MattermostDBPassword sp \<noteq> []
     then updateMySQLSecrets env else ret ())"

text \<open>An error asks for a later run: it is returned while the cluster still has members.\<close>

definition check_scaled_down :: "env \<Rightarrow> MysqlCluster \<Rightarrow> unit bio" where
  "check_scaled_down env mySQLCluster =
     bindM get_restore (\<lambda>rdb.
     bindM (wrapM ''unable to get the statefulset''
              (client_Get env StatefulSetK
                 (om_Name (myc_Meta mySQLCluster) @ ''-mysql'', om_Namespace (rdb_Meta rdb)))) (\<lambda>statefulset.
     if ss_Status_ReadyReplicas statefulset \<noteq> 0
     then fail (Errorf ''Waiting for MySQL Statefulset scale to 0'' [])
     else
       bindM (tryM (client_List env PodK (Some (om_Namespace (myc_Meta mySQLCluster))) ci_MySQLLabels)) (\<lambda>listed.
       case listed of
         Inl e \<Rightarrow> if IsNotFound e then ret () else fail (Wrap e ''unable to get pod list'')
       | Inr pods \<Rightarrow> if pods \<noteq> [] then fail (Errorf ''Waiting for MySQL Statefulset pods scale to 0'' [])
                     else ret ())))"

definition db_claim_name :: "string \<Rightarrow> int \<Rightarrow> string" where
  "db_claim_name cluster i = ''data-'' @ cluster @ ''-mysql-'' @ Itoa i"

definition delete_claim :: "env \<Rightarrow> string \<Rightarrow> string \<Rightarrow> int \<Rightarrow> unit bio" where
  "delete_claim env cluster ns i =
     bindM (tryM (client_Get env PVCK (db_claim_name cluster i, ns))) (\<lambda>found. case found of
       Inl e \<Rightarrow> if IsNotFound e then ret () else fail e
     | Inr persistentVolumeClaim \<Rightarrow> client_DeleteWith env PVCK (GracePeriodSeconds 0) persistentVolumeClaim)"

text \<open>\<^verbatim>\<open>for i := 0; i < n; i++\<close>\<close>

definition count_up :: "int \<Rightarrow> int list" where
  "count_up n = map int [0..<nat n]"

definition delete_claims :: "env \<Rightarrow> MysqlCluster \<Rightarrow> unit bio" where
  "delete_claims env mySQLCluster =
     bindM get_restore (\<lambda>rdb.
     for_each (delete_claim env (om_Name (myc_Meta mySQLCluster)) (om_Namespace (rdb_Meta rdb)))
       (count_up (rst_OriginalDBReplicas (rdb_Status rdb))))"

definition restored_replicas :: "int \<Rightarrow> int" where
  "restored_replicas original = (if original = 0 then 1 else original)"

definition scale_up :: "env \<Rightarrow> unit bio" where
  "scale_up env =
     bindM get_state (\<lambda>s.
     write_installation env
       (set_db_replicas (restored_replicas (rst_OriginalDBReplicas (rdb_Status (b_restore s)))) (b_ci s)))"

definition finish_restore :: "env \<Rightarrow> Result bio" where
  "finish_restore env =
     bindM setFinished (\<lambda>_.
     bindM get_restore (\<lambda>rdb.
     bindM (tryM (restore_updateStatus env ((rdb_Status rdb)\<lparr>rst_State := Finished\<rparr>))) (\<lambda>_. ret done_result)))"

definition restore_body :: "env \<Rightarrow> Result bio" where
  "restore_body env =
     bindM (record_state env) (\<lambda>_.
     bindM (scale_down env) (\<lambda>_.
     bindM (update_credentials env) (\<lambda>_.
     bindM get_installation (\<lambda>ci.
     bindM (lift (ci_Cluster (e_quantity env) ci)) (\<lambda>mySQLCluster.
     bindM (check_scaled_down env mySQLCluster) (\<lambda>_.
     bindM (delete_claims env mySQLCluster) (\<lambda>_.
     bindM (scale_up env) (\<lambda>_. finish_restore env))))))))"

definition restore_Reconcile :: "env \<Rightarrow> key \<Rightarrow> Result bio" where
  "restore_Reconcile env request =
     bindM (tryM (client_Get env RestoreDBK request)) (\<lambda>found. case found of
       Inl e \<Rightarrow> if IsNotFound e then ret done_result else bindM setFailed (\<lambda>_. fail e)
     | Inr restoreMM \<Rightarrow>
         bindM (put_restore restoreMM) (\<lambda>_.
         bindM (tryM (client_Get env ClusterInstallationK
                  (rsp_MattermostClusterName (rdb_Spec restoreMM), om_Namespace (rdb_Meta restoreMM)))) (\<lambda>installation.
         case installation of
           Inl _ \<Rightarrow> restore_failed env
         | Inr ci \<Rightarrow> bindM (put_installation ci) (\<lambda>_. restore_body env))))"

end
