(* ===== verification/RestoreSafety.thy ===== *)
theory RestoreSafety
  imports RestoreDB
begin

text \<open>
  What a database restore deletes and when: every deletion is guarded by a reading that the database is
  stopped.  The last two properties show that the record of the replicas, on which the deletion rests, is
  missing in the first run and that a finished restore is run again.
\<close>

section \<open>Facts\<close>

text \<open>The restore resource and the installation keep their names during a run.\<close>

definition restore_names :: "string \<Rightarrow> string \<Rightarrow> restore_state \<Rightarrow> bool" where
  "restore_names name ns s = (om_Namespace (rdb_Meta (b_restore s)) = ns \<and> k_key ClusterInstallationK (b_ci s) = (name, ns))"

definition not_deleting :: "call list \<Rightarrow> call \<Rightarrow> bool" where
  "not_deleting h c = (case write_of c of Some (a, _) \<Rightarrow> a \<noteq> ToDelete | None \<Rightarrow> True)"

lemma not_deleting_simps [simp]:
  "not_deleting h (CGet k key)" "not_deleting h (CList k ns' sel)" "not_deleting h (CUpdate x)"
  "not_deleting h (CStatusUpdate x)"
  by (simp_all add: not_deleting_def)

lemma count_up_nonneg: "i \<in> set (count_up n) \<Longrightarrow> 0 \<le> i"
  by (auto simp: count_up_def)

text \<open>
  What is read before a claim is deleted: the stateful set of the cluster has no ready replica, and
  there is no pod with the labels of the MySQL operator.
\<close>

definition stopped :: "env \<Rightarrow> call list \<Rightarrow> string \<Rightarrow> string \<Rightarrow> bool" where
  "stopped env h cluster ns =
     (\<exists>ss l. api_get (e_StatefulSet env) h (cluster @ ''-mysql'', ns) = Inr ss \<and> ss_Status_ReadyReplicas ss = 0
        \<and> api_list (e_Pod env) (h @ [CGet StatefulSetKind (cluster @ ''-mysql'', ns)]) (Some ns) ci_MySQLLabels = l
        \<and> (l = Inr [] \<or> (\<exists>e. l = Inl e \<and> IsNotFound e)))"

lemma check_scaled_down_evidence:
  assumes "check_scaled_down env c s = (Ok (), s')" and "om_Namespace (rdb_Meta (b_restore s)) = ns"
    and "om_Namespace (myc_Meta c) = ns"
  shows "stopped env (calls s) (om_Name (myc_Meta c)) ns"
proof -
  have K: "k_api StatefulSetK env = e_StatefulSet env" "k_api PodK env = e_Pod env" "k_kind StatefulSetK = StatefulSetKind"
    by (simp_all add: StatefulSetK_def PodK_def)
  obtain ss s1 where ss: "client_Get env StatefulSetK (om_Name (myc_Meta c) @ ''-mysql'', ns) s = (Ok ss, s1)"
    and rest: "ss_Status_ReadyReplicas ss = 0"
      "bindM (tryM (client_List env PodK (Some ns) ci_MySQLLabels)) (\<lambda>listed. case listed of
         Inl e \<Rightarrow> if IsNotFound e then ret () else fail (Wrap e ''unable to get pod list'')
       | Inr pods \<Rightarrow> if pods \<noteq> [] then fail (Errorf ''Waiting for MySQL Statefulset pods scale to 0'' [])
                     else ret ()) s1 = (Ok (), s')"
    using assms by (auto simp: check_scaled_down_def get_restore_def bindM_Ok split: if_splits)
  from ss have 1: "api_get (e_StatefulSet env) (calls s) (om_Name (myc_Meta c) @ ''-mysql'', ns) = Inr ss"
    "s1 = s\<lparr>calls := calls s @ [CGet StatefulSetKind (om_Name (myc_Meta c) @ ''-mysql'', ns)]\<rparr>"
    by (auto simp: client_Get_def call_api_run K)
  have "api_list (e_Pod env) (calls s1) (Some ns) ci_MySQLLabels = Inr []
     \<or> (\<exists>e. api_list (e_Pod env) (calls s1) (Some ns) ci_MySQLLabels = Inl e \<and> IsNotFound e)"
    using rest(2) by (auto simp: bindM_Ok tryM_run client_List_def call_api_run K split: if_splits)
  with 1 rest(1) show ?thesis unfolding stopped_def by auto
qed

definition restore_prepare :: "env \<Rightarrow> MysqlCluster bio" where
  "restore_prepare env =
     bindM (record_state env) (\<lambda>_.
     bindM (scale_down env) (\<lambda>_.
     bindM (update_credentials env) (\<lambda>_.
     bindM get_installation (\<lambda>ci. lift (ci_Cluster (e_quantity env) ci)))))"

definition restore_apply :: "env \<Rightarrow> MysqlCluster \<Rightarrow> Result bio" where
  "restore_apply env c = bindM (delete_claims env c) (\<lambda>_. bindM (scale_up env) (\<lambda>_. finish_restore env))"

lemma restore_body_phases:
  "restore_body env = bindM (restore_prepare env) (\<lambda>c. bindM (check_scaled_down env c) (\<lambda>_. restore_apply env c))"
  by (simp add: restore_body_def restore_prepare_def restore_apply_def bindM_assoc)

text \<open>The API server names the objects it returns as they were asked for or sent.\<close>

definition restore_names_kept :: "env \<Rightarrow> bool" where
  "restore_names_kept env = (keeps_names RestoreDBK env \<and> keeps_names ClusterInstallationK env \<and> keeps_names PVCK env)"

lemma restore_names_keptD:
  assumes "restore_names_kept env"
  shows "keeps_names RestoreDBK env" and "keeps_names ClusterInstallationK env" and "keeps_names PVCK env"
  using assms by (simp_all add: restore_names_kept_def)

abbreviation quiet :: "string \<Rightarrow> string \<Rightarrow> 'a bio \<Rightarrow> ('a \<Rightarrow> bool) \<Rightarrow> bool" where
  "quiet name ns \<equiv> runs (restore_names name ns) not_deleting"

lemma names_call_free [simp]: "call_free (restore_names name ns)"
  by (simp add: call_free_def restore_names_def)

lemma quiet_get_restore: "quiet name ns get_restore (\<lambda>rdb. om_Namespace (rdb_Meta rdb) = ns)"
  by (auto simp: runs_def get_restore_def bindM_run restore_names_def)

lemma quiet_get_installation: "quiet name ns get_installation (\<lambda>ci. k_key ClusterInstallationK ci = (name, ns))"
  by (auto simp: runs_def get_installation_def bindM_run restore_names_def)

lemma quiet_get_state: "quiet name ns get_state (restore_names name ns)"
  by (auto simp: runs_def)

lemma quiet_put_restore: "om_Namespace (rdb_Meta rdb) = ns \<Longrightarrow> quiet name ns (put_restore rdb) (\<lambda>_. True)"
  by (auto simp: runs_def put_restore_def restore_names_def)

lemma quiet_put_installation: "k_key ClusterInstallationK ci = (name, ns) \<Longrightarrow> quiet name ns (put_installation ci) (\<lambda>_. True)"
  by (auto simp: runs_def put_installation_def restore_names_def)

lemma quiet_set_state: "quiet name ns setFailed (\<lambda>_. True)" "quiet name ns setFinished (\<lambda>_. True)" "quiet name ns setRestoring (\<lambda>_. True)"
  by (auto simp: runs_def setFailed_def setFinished_def setRestoring_def restore_names_def)

lemma quiet_reads:
  "quiet name ns (client_Get env K key) (\<lambda>_. True)" "quiet name ns (client_List env K' ns' sel) (\<lambda>_. True)"
  by (rule runs_client; simp)+

lemma quiet_updateStatus:
  assumes names: "restore_names_kept env"
  shows "quiet name ns (restore_updateStatus env st) (\<lambda>_. True)"
proof -
  have key: "om_Namespace (rdb_Meta y) = om_Namespace (rdb_Meta x)"
    if "api_status_update (k_api RestoreDBK env) h x = Inr y" for h x y
    using keeps_namesD(4) [OF restore_names_keptD(1) [OF names] that] by (simp add: k_key_def RestoreDBK_def)
  show ?thesis
    unfolding restore_updateStatus_def Let_def
  proof (rule runs_bind [OF quiet_get_restore])
    fix rdb :: MattermostRestoreDB assume "om_Namespace (rdb_Meta rdb) = ns"
    then have put: "quiet name ns (put_restore (rdb\<lparr>rdb_Status := st\<rparr>)) (\<lambda>_. True)"
      by (intro quiet_put_restore) simp
    have upd: "quiet name ns (client_StatusUpdate env RestoreDBK (rdb\<lparr>rdb_Status := st\<rparr>)) (\<lambda>y. om_Namespace (rdb_Meta y) = ns)"
      using \<open>om_Namespace (rdb_Meta rdb) = ns\<close> key by (intro runs_StatusUpdate) simp_all
    show "quiet name ns (if rdb_Status rdb = st then ret ()
       else bindM (put_restore (rdb\<lparr>rdb_Status := st\<rparr>)) (\<lambda>_.
            bindM (client_StatusUpdate env RestoreDBK (rdb\<lparr>rdb_Status := st\<rparr>)) put_restore)) (\<lambda>_. True)"
      by (cases "rdb_Status rdb = st")
         (simp_all add: runs_ret runs_bind_any [OF put] runs_bind [OF upd] quiet_put_restore)
  qed
qed

lemma quiet_write_installation:
  assumes names: "restore_names_kept env"
    and "k_key ClusterInstallationK ci = (name, ns)"
  shows "quiet name ns (write_installation env ci) (\<lambda>_. True)"
proof -
  have "quiet name ns (client_Update env ClusterInstallationK ci) (\<lambda>y. k_key ClusterInstallationK y = (name, ns))"
    using assms keeps_namesD(3) [OF restore_names_keptD(2) [OF names]] by (intro runs_client_Update) auto
  then show ?thesis
    unfolding write_installation_def using assms
    by (auto intro!: runs_bind_any [OF quiet_put_installation] runs_bind quiet_put_installation)
qed

lemma quiet_record_state:
  assumes names: "restore_names_kept env"
  shows "quiet name ns (record_state env) (\<lambda>_. True)"
  unfolding record_state_def Let_def using names
  by (auto intro!: emits_intros quiet_updateStatus quiet_set_state split: sum.splits)

lemma key_of_scaled: "k_key ClusterInstallationK (scaled_down sp ci) = k_key ClusterInstallationK ci"
  "k_key ClusterInstallationK (set_db_replicas n ci) = k_key ClusterInstallationK ci"
  by (simp_all add: k_key_def ClusterInstallationK_def scaled_down_def set_db_replicas_def)

lemma quiet_scale:
  assumes names: "restore_names_kept env"
  shows "quiet name ns (scale_down env) (\<lambda>_. True)" "quiet name ns (scale_up env) (\<lambda>_. True)"
proof -
  have key: "restore_names name ns s \<Longrightarrow> k_key ClusterInstallationK (b_ci s) = (name, ns)" for s
    by (simp add: restore_names_def)
  have writes: "restore_names name ns s \<Longrightarrow> k_key ClusterInstallationK ci = k_key ClusterInstallationK (b_ci s) \<Longrightarrow>
     quiet name ns (write_installation env ci) (\<lambda>_. True)" for s and ci :: ClusterInstallation
    using key by (intro quiet_write_installation [OF names]) simp
  show "quiet name ns (scale_down env) (\<lambda>_. True)"
    unfolding scale_down_def
    by (rule runs_bind [OF quiet_get_state]) (simp add: writes key_of_scaled runs_ret)
  show "quiet name ns (scale_up env) (\<lambda>_. True)"
    unfolding scale_up_def
    by (rule runs_bind [OF quiet_get_state]) (simp add: writes key_of_scaled)
qed

lemma quiet_update_credentials: "quiet name ns (update_credentials env) (\<lambda>_. True)"
proof -
  have "quiet name ns (client_Update env SecretK x) (\<lambda>_. True)" for x by (rule runs_client_Update) auto
  then have "quiet name ns (updateMySQLSecrets env) (\<lambda>_. True)"
    unfolding updateMySQLSecrets_def Let_def
    by (auto intro!: emits_intros quiet_reads runs_weaken [OF quiet_get_restore])
  then show ?thesis
    unfolding update_credentials_def Let_def
    by (auto intro!: emits_intros runs_weaken [OF quiet_get_restore])
qed

lemma quiet_check_scaled_down: "quiet name ns (check_scaled_down env c) (\<lambda>_. True)"
  unfolding check_scaled_down_def
  by (auto intro!: emits_intros quiet_reads runs_weaken [OF quiet_get_restore] split: sum.splits)

lemma quiet_finish:
  assumes names: "restore_names_kept env"
  shows "quiet name ns (finish_restore env) (\<lambda>_. True)" "quiet name ns (restore_failed env) (\<lambda>_. True)"
  unfolding finish_restore_def restore_failed_def using names
  by (auto intro!: emits_intros quiet_set_state quiet_updateStatus runs_weaken [OF quiet_get_restore])

lemma quiet_Cluster:
  assumes "k_key ClusterInstallationK ci = (name, ns)"
  shows "quiet name ns (lift (ci_Cluster (e_quantity env) ci)) (\<lambda>c. om_Name (myc_Meta c) = HashWithPrefix ''db'' name
     \<and> om_Namespace (myc_Meta c) = ns)"
  using assms
  by (auto simp: runs_def ci_Cluster_def Let_def bindO_eq_Ok k_key_def ClusterInstallationK_def)


text \<open>A deletion is of a volume claim of the cluster.\<close>

abbreviation claims_only :: "string \<Rightarrow> string \<Rightarrow> call list \<Rightarrow> call \<Rightarrow> bool" where
  "claims_only name ns h c \<equiv> (case write_of c of Some (ToDelete, k, key) \<Rightarrow>
     k = PVCKind \<and> (\<exists>i\<ge>0. key = (db_claim_name (HashWithPrefix ''db'' name) i, ns)) | _ \<Rightarrow> True)"

lemma quiet_claims: "not_deleting h c \<Longrightarrow> claims_only name ns h c"
  by (auto simp: not_deleting_def split: option.splits action.splits)

lemma claims_delete:
  assumes names: "restore_names_kept env"
    and "0 \<le> i"
  shows "runs (restore_names name ns) (claims_only name ns) (delete_claim env (HashWithPrefix ''db'' name) ns i) (\<lambda>_. True)"
  unfolding delete_claim_def
proof (rule runs_bind)
  let ?key = "(db_claim_name (HashWithPrefix ''db'' name) i, ns)"
  show "runs (restore_names name ns) (claims_only name ns) (tryM (client_Get env PVCK ?key))
     (\<lambda>r. case r of Inl _ \<Rightarrow> True | Inr x \<Rightarrow> k_key PVCK x = ?key)"
    using keeps_namesD(1) [OF restore_names_keptD(3) [OF names]] by (intro runs_try runs_Get) simp_all
  fix r :: "go_error + PVC" assume r: "case r of Inl _ \<Rightarrow> True | Inr x \<Rightarrow> k_key PVCK x = ?key"
  show "runs (restore_names name ns) (claims_only name ns)
     (case r of Inl e \<Rightarrow> if IsNotFound e then ret () else fail e
      | Inr x \<Rightarrow> client_DeleteWith env PVCK (GracePeriodSeconds 0) x) (\<lambda>_. True)"
  proof (cases r)
    case (Inr x)
    have "kobj_key (k_obj PVCK x) = ?key" using r Inr by (simp add: kobj_key_def k_key_def)
    moreover have "kobj_kind (k_obj PVCK x) = PVCKind" by (simp add: PVCK_def)
    ultimately show ?thesis using assms Inr by (auto intro!: runs_client_DeleteWith)
  qed (auto intro!: emits_intros)
qed

lemma claims_delete_all:
  assumes names: "restore_names_kept env"
    and "om_Name (myc_Meta c) = HashWithPrefix ''db'' name"
  shows "runs (restore_names name ns) (claims_only name ns) (delete_claims env c) (\<lambda>_. True)"
  unfolding delete_claims_def
proof (rule runs_bind)
  show "runs (restore_names name ns) (claims_only name ns) get_restore (\<lambda>rdb. om_Namespace (rdb_Meta rdb) = ns)"
    by (rule runs_weaken_calls [OF quiet_get_restore]) (rule quiet_claims)
  fix rdb :: MattermostRestoreDB assume "om_Namespace (rdb_Meta rdb) = ns"
  with assms show "runs (restore_names name ns) (claims_only name ns)
     (for_each (delete_claim env (om_Name (myc_Meta c)) (om_Namespace (rdb_Meta rdb)))
       (count_up (rst_OriginalDBReplicas (rdb_Status rdb)))) (\<lambda>_. True)"
    by (intro runs_for_each) (simp add: claims_delete [OF names] count_up_nonneg)
qed


lemma quiet_prepare:
  assumes names: "restore_names_kept env"
  shows "quiet name ns (restore_prepare env) (\<lambda>c. om_Name (myc_Meta c) = HashWithPrefix ''db'' name \<and> om_Namespace (myc_Meta c) = ns)"
  unfolding restore_prepare_def
  by (intro runs_bind_any [OF quiet_record_state [OF names]] runs_bind_any [OF quiet_scale(1) [OF names]]
      runs_bind_any [OF quiet_update_credentials] runs_bind [OF quiet_get_installation] quiet_Cluster)

lemma claims_apply:
  assumes names: "restore_names_kept env"
    and "om_Name (myc_Meta c) = HashWithPrefix ''db'' name"
  shows "runs (restore_names name ns) (claims_only name ns) (restore_apply env c) (\<lambda>_. True)"
  unfolding restore_apply_def
  by (intro runs_bind_any [OF claims_delete_all [OF assms]]
      runs_bind_any [OF runs_weaken_calls [OF quiet_scale(2) [OF names] quiet_claims]]
      runs_weaken_calls [OF quiet_finish(1) [OF names] quiet_claims])

text \<open>A call that deletes is made on that evidence, found earlier in the history.\<close>

abbreviation guarded :: "env \<Rightarrow> string \<Rightarrow> string \<Rightarrow> call list \<Rightarrow> call \<Rightarrow> bool" where
  "guarded env name ns h c \<equiv> (case write_of c of Some (ToDelete, k, key) \<Rightarrow>
     k = PVCKind \<and> (\<exists>i\<ge>0. key = (db_claim_name (HashWithPrefix ''db'' name) i, ns))
     \<and> (\<exists>h1. prefix h1 h \<and> stopped env h1 (HashWithPrefix ''db'' name) ns) | _ \<Rightarrow> True)"

lemma quiet_guarded: "not_deleting h c \<Longrightarrow> guarded env name ns h c"
  by (auto simp: not_deleting_def split: option.splits action.splits)

lemma guarded_body:
  assumes names: "restore_names_kept env"
  shows "runs (restore_names name ns) (guarded env name ns) (restore_body env) (\<lambda>_. True)"
proof (rule runsI)
  fix s r s' assume I: "restore_names name ns s" and run: "restore_body env s = (r, s')"
  obtain r1 s1 where p: "restore_prepare env s = (r1, s1)" by (cases "restore_prepare env s")
  from runs_weaken_calls [OF quiet_prepare [OF names] quiet_guarded] I p obtain n1 where
    1: "restore_names name ns s1" "calls s1 = calls s @ n1" "ok_trace (guarded env name ns) (calls s) n1"
    "\<forall>c. r1 = Ok c \<longrightarrow> om_Name (myc_Meta c) = HashWithPrefix ''db'' name \<and> om_Namespace (myc_Meta c) = ns"
    by (rule runsD)
  show "restore_names name ns s' \<and> (\<exists>new. calls s' = calls s @ new \<and> ok_trace (guarded env name ns) (calls s) new)
     \<and> (\<forall>x. r = Ok x \<longrightarrow> True)"
  proof (cases r1)
    case (Ok c)
    obtain r2 s2 where k: "check_scaled_down env c s1 = (r2, s2)" by (cases "check_scaled_down env c s1")
    from runs_weaken_calls [OF quiet_check_scaled_down quiet_guarded] 1(1) k obtain n2 where
      2: "restore_names name ns s2" "calls s2 = calls s1 @ n2" "ok_trace (guarded env name ns) (calls s1) n2" by (rule runsD)
    show ?thesis
    proof (cases r2)
      case (Ok u)
      have c: "om_Name (myc_Meta c) = HashWithPrefix ''db'' name" "om_Namespace (myc_Meta c) = ns"
        using 1(4) \<open>r1 = Ok c\<close> by simp_all
      have ev: "stopped env (calls s1) (HashWithPrefix ''db'' name) ns"
        using check_scaled_down_evidence [of env c s1 s2 ns] k Ok c 1(1) by (simp add: restore_names_def)
      have "restore_apply env c s2 = (r, s')"
        using run p k Ok \<open>r1 = Ok c\<close> by (simp add: restore_body_phases bindM_def)
      from claims_apply [OF names c(1)] 2(1) this obtain n3 where
        3: "restore_names name ns s'" "calls s' = calls s2 @ n3" "ok_trace (claims_only name ns) (calls s2) n3" by (rule runsD)
      have "ok_trace (guarded env name ns) (calls s2) n3"
      proof (rule ok_trace_history [OF 3(3)])
        fix h c assume "prefix (calls s2) h" "claims_only name ns h c"
        moreover have "prefix (calls s1) h" using \<open>prefix (calls s2) h\<close> 2(2) by (auto dest: append_prefixD)
        ultimately show "guarded env name ns h c" using ev by (auto split: option.splits action.splits)
      qed
      with 1 2 3 show ?thesis by (intro conjI exI [of _ "n1 @ n2 @ n3"]) auto
    qed (use run p k Ok 1 2 in \<open>auto simp: restore_body_phases bindM_def\<close>)
  qed (use run p 1 in \<open>auto simp: restore_body_phases bindM_def\<close>)
qed

section \<open>Properties\<close>

lemma k_api_restore: "k_api RestoreDBK env = e_RestoreDB env" "k_kind RestoreDBK = RestoreDBKind" "k_obj RestoreDBK = KRestoreDB"
  "k_api ClusterInstallationK env = e_ClusterInstallation env" "k_kind ClusterInstallationK = ClusterInstallationKind"
  "k_obj ClusterInstallationK = KClusterInstallation"
  by (simp_all add: RestoreDBK_def ClusterInstallationK_def)

text \<open>
  C9. A restore deletes nothing but volume claims of the database of the installation it names, in its
  own namespace, and only after the stateful set was read with no ready replica and no pod of the MySQL
  operator was listed, whatever else the API server answers.
\<close>

theorem restore_deletes_only_stopped_claims:
  assumes "restore_names_kept env"
    and "restore_Reconcile env request s = (r, s')"
    and "api_get (e_RestoreDB env) (calls s) request = Inr rdb"
  shows "\<exists>new. calls s' = calls s @ new \<and> ok_trace (\<lambda>h c. case write_of c of
     Some (ToDelete, k, key) \<Rightarrow> k = PVCKind
       \<and> (\<exists>i\<ge>0. key = (db_claim_name (HashWithPrefix ''db'' (rsp_MattermostClusterName (rdb_Spec rdb))) i, snd request))
       \<and> (\<exists>h1. prefix h1 h \<and> stopped env h1 (HashWithPrefix ''db'' (rsp_MattermostClusterName (rdb_Spec rdb))) (snd request))
     | _ \<Rightarrow> True) (calls s) new"
proof -
  let ?name = "rsp_MattermostClusterName (rdb_Spec rdb)"
  let ?c1 = "CGet RestoreDBKind request" and ?c2 = "CGet ClusterInstallationKind (?name, om_Namespace (rdb_Meta rdb))"
  let ?P = "guarded env ?name (snd request)"
  have ns: "om_Namespace (rdb_Meta rdb) = snd request"
    using keeps_namesD(1) [OF restore_names_keptD(1) [OF assms(1)]] assms(3)
    by (cases request) (auto simp: k_api_restore k_key_def RestoreDBK_def)
  let ?s1 = "s\<lparr>calls := calls s @ [?c1], b_restore := rdb\<rparr>"
  let ?h = "calls s @ [?c1, ?c2]"
  show ?thesis
  proof (cases "api_get (e_ClusterInstallation env) (calls ?s1) (?name, om_Namespace (rdb_Meta rdb))")
    case (Inl e)
    let ?s2 = "?s1\<lparr>calls := ?h\<rparr>"
    have run: "restore_failed env ?s2 = (r, s')"
      using assms(2,3) Inl
      by (simp add: restore_Reconcile_def io_defs client_Get_def of_sum_def put_restore_def k_api_restore)
    have "k_key ClusterInstallationK (b_ci s) = k_key ClusterInstallationK (b_ci ?s2)" by simp
    let ?n = "fst (k_key ClusterInstallationK (b_ci s))"
    have tr: "runs (\<lambda>_. True) not_deleting (restore_failed env) (\<lambda>_. True)"
      unfolding restore_failed_def setFailed_def get_restore_def restore_updateStatus_def put_restore_def Let_def
      by (auto intro!: emits_intros runs_StatusUpdate)
    from tr _ run obtain new where "calls s' = calls ?s2 @ new" "ok_trace not_deleting (calls ?s2) new"
      by (rule runsD) auto
    moreover from this(2) have "ok_trace ?P (calls ?s2) new" by (rule ok_trace_mono [where P = not_deleting, rotated]) (rule quiet_guarded)
    ultimately show ?thesis by (intro exI [of _ "[?c1, ?c2] @ new"]) simp
  next
    case (Inr ci)
    let ?s2 = "?s1\<lparr>calls := ?h, b_ci := ci\<rparr>"
    have run: "restore_body env ?s2 = (r, s')"
      using assms(2,3) Inr
      by (simp add: restore_Reconcile_def io_defs client_Get_def of_sum_def put_restore_def put_installation_def k_api_restore)
    have "k_key ClusterInstallationK ci = (?name, snd request)"
      using keeps_namesD(1) [OF restore_names_keptD(2) [OF assms(1)]] Inr ns by (simp add: k_api_restore)
    then have I: "restore_names ?name (snd request) ?s2" using ns by (simp add: restore_names_def)
    from guarded_body [OF assms(1)] I run obtain new where
      "calls s' = calls ?s2 @ new" "ok_trace ?P (calls ?s2) new" by (rule runsD)
    then show ?thesis by (intro exI [of _ "[?c1, ?c2] @ new"]) simp
  qed
qed

definition demo_restore :: MattermostRestoreDB where
  "demo_restore = \<lparr>rdb_Meta = empty_meta\<lparr>om_Name := ''restore'', om_Namespace := ''apps''\<rparr>,
     rdb_Spec = \<lparr>rsp_MattermostClusterName = ''mm'', rsp_RestoreSecret = ''backup'', rsp_InitBucketURL = ''s3://backups/mm.gz'',
       rsp_MattermostDBUser = [], rsp_MattermostDBPassword = [], rsp_MattermostDBName = []\<rparr>,
     rdb_Status = \<lparr>rst_State = [], rst_OriginalDBReplicas = 0\<rparr>\<rparr>"

definition demo_restore_state :: restore_state where
  "demo_restore_state = \<lparr>calls = [], b_restore = demo_restore, b_ci = demo_ci, b_state = []\<rparr>"

definition demo_restore_env :: env where
  "demo_restore_env = demo_env\<lparr>
     e_RestoreDB := empty_api\<lparr>api_get := \<lambda>_ key. if key = (''restore'', ''apps'') then Inr demo_restore else Inl (ApiError NotFound)\<rparr>,
     e_ClusterInstallation := empty_api\<lparr>api_get := \<lambda>_ key. if key = (''mm'', ''apps'') then Inr demo_ci else Inl (ApiError NotFound)\<rparr>\<rparr>"

lemma demo_restore_env_names: "restore_names_kept demo_restore_env"
  by (auto simp: restore_names_kept_def keeps_names_def demo_restore_env_def demo_env_def empty_api_def kind_defs k_key_def
      demo_restore_def demo_ci_def)

theorem restore_deletes_only_stopped_claims_witness:
  "\<exists>new. calls (snd (restore_Reconcile demo_restore_env (''restore'', ''apps'') demo_restore_state)) = new
     \<and> ok_trace (\<lambda>h c. case write_of c of Some (ToDelete, k, key) \<Rightarrow> k = PVCKind \<and> snd key = ''apps'' | _ \<Rightarrow> True) [] new"
proof -
  have get: "api_get (e_RestoreDB demo_restore_env) (calls demo_restore_state) (''restore'', ''apps'') = Inr demo_restore"
    by (simp add: demo_restore_env_def)
  have start: "calls demo_restore_state = []" by (simp add: demo_restore_state_def)
  show ?thesis
    using restore_deletes_only_stopped_claims [OF demo_restore_env_names prod.collapse [symmetric] get]
    by (auto simp: start intro: ok_trace_mono [rotated] split: option.splits action.splits)
qed

text \<open>The state of the first run over a new restore resource, and the calls that leave the claims alone.\<close>

definition fresh_restore :: "restore_state \<Rightarrow> bool" where
  "fresh_restore s = (b_state s = [] \<and> rdb_Status (b_restore s) = \<lparr>rst_State = [], rst_OriginalDBReplicas = 0\<rparr>)"

definition keeps_claims :: "call list \<Rightarrow> call \<Rightarrow> bool" where
  "keeps_claims h c = (not_deleting h c \<and> (\<forall>ci. c = CUpdate (KClusterInstallation ci) \<longrightarrow>
     cid_Replicas (csp_Database (ci_Spec ci)) \<in> {0, 1}))"

lemma keeps_claims_simps [simp]:
  "keeps_claims h (CGet k key)" "keeps_claims h (CList k ns' sel)" "keeps_claims h (CStatusUpdate x)"
  "keeps_claims h (CUpdate (KSecret sec))"
  "keeps_claims h (CUpdate (KClusterInstallation ci)) \<longleftrightarrow> cid_Replicas (csp_Database (ci_Spec ci)) \<in> {0, 1}"
  by (simp_all add: keeps_claims_def)

lemma keeps_claims_all: "ok_trace keeps_claims h cs \<longleftrightarrow> (\<forall>c \<in> set cs. keeps_claims [] c)"
proof -
  have "keeps_claims = (\<lambda>_. keeps_claims [])" by (intro ext) (simp add: keeps_claims_def not_deleting_def)
  then show ?thesis by (metis ok_trace_all)
qed

lemma fresh_call_free [simp]: "call_free fresh_restore"
  by (simp add: call_free_def fresh_restore_def)

abbreviation keeping :: "'a bio \<Rightarrow> ('a \<Rightarrow> bool) \<Rightarrow> bool" where
  "keeping \<equiv> runs fresh_restore keeps_claims"

lemma keeping_get: "keeping get_state fresh_restore"
  "keeping get_restore (\<lambda>rdb. rst_OriginalDBReplicas (rdb_Status rdb) = 0)" "keeping get_installation (\<lambda>_. True)"
  by (auto simp: runs_def get_restore_def get_installation_def bindM_run fresh_restore_def)

lemma keeping_reads: "keeping (client_Get env K key) (\<lambda>_. True)" "keeping (client_List env K' ns' sel) (\<lambda>_. True)"
  by (rule runs_client; simp)+

lemma keeping_put: "keeping (put_installation ci) (\<lambda>_. True)"
  by (auto simp: runs_def put_installation_def fresh_restore_def)

lemma keeping_write:
  assumes "cid_Replicas (csp_Database (ci_Spec ci)) \<in> {0, 1}"
  shows "keeping (write_installation env ci) (\<lambda>_. True)"
  using assms unfolding write_installation_def
  by (auto intro!: emits_intros keeping_put runs_client_Update simp: k_api_restore)

lemma keeping_record: "keeping (record_state env) (\<lambda>_. True)"
  unfolding record_state_def Let_def
  by (rule runs_bind [OF keeping_get(1)]) (simp add: fresh_restore_def runs_ret)

lemma keeping_scale: "keeping (scale_down env) (\<lambda>_. True)" "keeping (scale_up env) (\<lambda>_. True)"
proof -
  show "keeping (scale_down env) (\<lambda>_. True)"
    unfolding scale_down_def
    by (rule runs_bind [OF keeping_get(1)]) (simp add: runs_ret keeping_write scaled_down_def)
  show "keeping (scale_up env) (\<lambda>_. True)"
    unfolding scale_up_def
    by (rule runs_bind [OF keeping_get(1)])
       (simp add: keeping_write set_db_replicas_def restored_replicas_def fresh_restore_def)
qed

lemma keeping_rest:
  "keeping (update_credentials env) (\<lambda>_. True)" "keeping (check_scaled_down env c) (\<lambda>_. True)"
  "keeping (delete_claims env c) (\<lambda>_. True)"
proof -
  have "keeping (client_Update env SecretK x) (\<lambda>_. True)" for x
    by (rule runs_client_Update) (auto simp: SecretK_def)
  then have "keeping (updateMySQLSecrets env) (\<lambda>_. True)"
    unfolding updateMySQLSecrets_def Let_def
    by (auto intro!: emits_intros keeping_reads runs_weaken [OF keeping_get(2)])
  then show "keeping (update_credentials env) (\<lambda>_. True)"
    unfolding update_credentials_def Let_def
    by (auto intro!: emits_intros runs_weaken [OF keeping_get(2)])
  show "keeping (check_scaled_down env c) (\<lambda>_. True)"
    unfolding check_scaled_down_def
    by (auto intro!: emits_intros keeping_reads runs_weaken [OF keeping_get(2)] split: sum.splits)
  show "keeping (delete_claims env c) (\<lambda>_. True)"
    unfolding delete_claims_def
    by (rule runs_bind [OF keeping_get(2)]) (simp add: count_up_def runs_ret)
qed



text \<open>
  C38. A finished restore is not left alone: when the operator has been restarted, the next run over the
  finished resource resets its state, records the number of replicas and scales the database down to be
  initialised from the old backup again; the next run will then delete the claims.
\<close>

theorem finished_restore_starts_over:
  assumes "api_get (e_RestoreDB env) (calls s) request = Inr rdb" and "rst_State (rdb_Status rdb) = Finished"
    and "b_state s = []"
    and "api_get (e_ClusterInstallation env) (calls s @ [CGet RestoreDBKind request])
           (rsp_MattermostClusterName (rdb_Spec rdb), om_Namespace (rdb_Meta rdb)) = Inr ci"
    and "cid_Replicas (csp_Database (ci_Spec ci)) = n" "n \<noteq> 0"
    and "\<And>h x. api_status_update (e_RestoreDB env) h x = Inr x"
  shows "\<exists>rest. calls (snd (restore_Reconcile env request s)) = calls s @
     [CGet RestoreDBKind request,
      CGet ClusterInstallationKind (rsp_MattermostClusterName (rdb_Spec rdb), om_Namespace (rdb_Meta rdb)),
      CStatusUpdate (KRestoreDB (rdb\<lparr>rdb_Status := \<lparr>rst_State = [], rst_OriginalDBReplicas = n\<rparr>\<rparr>)),
      CUpdate (KClusterInstallation (scaled_down (rdb_Spec rdb) ci))] @ rest"
proof -
  let ?key = "(rsp_MattermostClusterName (rdb_Spec rdb), om_Namespace (rdb_Meta rdb))"
  let ?rdb = "rdb\<lparr>rdb_Status := \<lparr>rst_State = [], rst_OriginalDBReplicas = n\<rparr>\<rparr>"
  let ?st = "(rdb_Status rdb)\<lparr>rst_State := [], rst_OriginalDBReplicas := n\<rparr>"
  have st: "?st = \<lparr>rst_State = [], rst_OriginalDBReplicas = n\<rparr>" "rdb_Status rdb \<noteq> ?st"
    using assms(2) by (auto dest: arg_cong [where f = rst_State])
  let ?h = "calls s @ [CGet RestoreDBKind request, CGet ClusterInstallationKind ?key]"
  let ?s1 = "s\<lparr>calls := ?h @ [CStatusUpdate (KRestoreDB ?rdb)], b_restore := ?rdb, b_ci := ci\<rparr>"
  let ?rest = "bindM (update_credentials env) (\<lambda>_. bindM get_installation (\<lambda>ci.
     bindM (lift (ci_Cluster (e_quantity env) ci)) (\<lambda>c. bindM (check_scaled_down env c) (\<lambda>_. restore_apply env c))))"
  have rec: "record_state env (s\<lparr>calls := ?h, b_restore := rdb, b_ci := ci\<rparr>) = (Ok (), ?s1)"
    using assms(2,3,5,7) st(2)
    by (simp add: st(1) record_state_def restore_updateStatus_def get_restore_def put_restore_def io_defs client_StatusUpdate_def
        of_sum_def k_api_restore Let_def)
  obtain r2 s2 where down: "scale_down env ?s1 = (r2, s2)" by (cases "scale_down env ?s1")
  have c2: "calls s2 = calls ?s1 @ [CUpdate (KClusterInstallation (scaled_down (rdb_Spec rdb) ci))]"
    using down assms(5,6)
    by (cases "api_update (e_ClusterInstallation env) (calls ?s1) (scaled_down (rdb_Spec rdb) ci)")
       (auto simp: scale_down_def write_installation_def put_installation_def io_defs client_Update_def of_sum_def k_api_restore)
  have rest: "writes_kinds UNIV ?rest"
    unfolding update_credentials_def updateMySQLSecrets_def check_scaled_down_def restore_apply_def delete_claims_def
      delete_claim_def scale_up_def write_installation_def finish_restore_def restore_updateStatus_def get_restore_def
      put_restore_def get_installation_def put_installation_def setFinished_def Let_def
    by (auto intro!: emits_intros runs_client simp: touches_def split: sum.splits option.splits)
  let ?s0 = "s\<lparr>calls := ?h, b_restore := rdb, b_ci := ci\<rparr>"
  have s0: "s\<lparr>b_restore := rdb, calls := ?h, b_ci := ci\<rparr> = ?s0" by simp
  have start: "restore_Reconcile env request s = restore_body env ?s0"
    unfolding s0 [symmetric] using assms(1,4)
    by (simp add: restore_Reconcile_def put_restore_def put_installation_def io_defs client_Get_def of_sum_def k_api_restore)
  have "restore_body env ?s0 = bindM (record_state env) (\<lambda>_. bindM (scale_down env) (\<lambda>_. ?rest)) ?s0"
    by (simp add: restore_body_phases restore_prepare_def bindM_assoc)
  also have "\<dots> = bindM (scale_down env) (\<lambda>_. ?rest) ?s1"
    unfolding bindM_def [of "record_state env"] rec by simp
  finally have run: "restore_Reconcile env request s = bindM (scale_down env) (\<lambda>_. ?rest) ?s1"
    unfolding start .
  obtain r s' where fin: "restore_Reconcile env request s = (r, s')" by (cases "restore_Reconcile env request s")
  have "\<exists>more. calls s' = calls s2 @ more"
  proof (cases r2)
    case (Ok u)
    then have "?rest s2 = (r, s')" using run fin down by (simp add: bindM_def)
    with rest show ?thesis by (rule kinds_no_write) auto
  qed (use run fin down in \<open>auto simp: bindM_def\<close>)
  with c2 fin show ?thesis by auto
qed

definition demo_finished_restore :: MattermostRestoreDB where
  "demo_finished_restore = demo_restore\<lparr>rdb_Status := \<lparr>rst_State = Finished, rst_OriginalDBReplicas = 0\<rparr>\<rparr>"

theorem finished_restore_starts_over_witness:
  "\<exists>rest. calls (snd (restore_Reconcile (demo_restore_env\<lparr>e_RestoreDB := empty_api\<lparr>api_get := \<lambda>_ _. Inr demo_finished_restore\<rparr>\<rparr>)
       (''restore'', ''apps'') demo_restore_state)) =
     [CGet RestoreDBKind (''restore'', ''apps''), CGet ClusterInstallationKind (''mm'', ''apps''),
      CStatusUpdate (KRestoreDB (demo_restore\<lparr>rdb_Status := \<lparr>rst_State = [], rst_OriginalDBReplicas = 2\<rparr>\<rparr>)),
      CUpdate (KClusterInstallation (scaled_down (rdb_Spec demo_restore) demo_ci))] @ rest"
  using finished_restore_starts_over [of "demo_restore_env\<lparr>e_RestoreDB := empty_api\<lparr>api_get := \<lambda>_ _. Inr demo_finished_restore\<rparr>\<rparr>"
      demo_restore_state "(''restore'', ''apps'')" demo_finished_restore demo_ci 2]
  by (simp add: demo_finished_restore_def demo_restore_def demo_restore_state_def demo_restore_env_def demo_ci_def
      demo_ci_spec_def zero_ci_database_def empty_api_def Finished_def)

section \<open>The scaling meets the defaults\<close>

lemma ci_SetDefaults_keeps:
  "csp_Size (ci_Spec (fst (ci_SetDefaults ci))) = csp_Size (ci_Spec ci)"
  "cid_Replicas (csp_Database (ci_Spec (fst (ci_SetDefaults ci)))) = cid_Replicas (csp_Database (ci_Spec ci))"
  "cid_InitBucketURL (csp_Database (ci_Spec (fst (ci_SetDefaults ci)))) = cid_InitBucketURL (csp_Database (ci_Spec ci))"
  "cid_BackupRestoreSecretName (csp_Database (ci_Spec (fst (ci_SetDefaults ci)))) =
     cid_BackupRestoreSecretName (csp_Database (ci_Spec ci))"
  by (simp_all add: ci_SetDefaults_def cid_SetDefaults_def Let_def split: prod.splits outcome.splits)

lemma installation_database:
  "cid_InitBucketURL (csp_Database (ci_Spec (defaulted_installation ci))) = cid_InitBucketURL (csp_Database (ci_Spec ci))"
  "cid_BackupRestoreSecretName (csp_Database (ci_Spec (defaulted_installation ci))) = cid_BackupRestoreSecretName (csp_Database (ci_Spec ci))"
  by (simp_all add: defaulted_installation_def ci_SetReplicasAndResourcesFromSize_def ci_setDefaultReplicasAndResources_def
      ci_overrideReplicasAndResourcesFromSize_def ci_SetDefaults_keeps Let_def split: outcome.splits)

lemma installation_replicas:
  "cid_Replicas (csp_Database (ci_Spec (defaulted_installation ci))) =
     (let db = csp_Database (ci_Spec ci); size = csp_Size (ci_Spec ci)
      in case (if size = [] then None else map_of validSizes size) of
           Some sz \<Rightarrow> cs_Replicas (cis_Database sz)
         | None \<Rightarrow> if cid_Replicas db = 0 \<and> cid_InitBucketURL db = [] then cs_Replicas (cis_Database DefaultSize)
                   else cid_Replicas db)"
  by (simp add: defaulted_installation_def ci_SetReplicasAndResourcesFromSize_def ci_setDefaultReplicasAndResources_def
      ci_overrideReplicasAndResourcesFromSize_def ci_SetDefaults_keeps GetClusterSize_def Let_def split: outcome.splits option.splits)

lemma demo_scaled_cluster:
  "\<exists>c. ci_Cluster (\<lambda>q. q = ''50Gi'') (defaulted_installation (scaled_down (rdb_Spec demo_restore) demo_ci)) = Ok c"
proof -
  have "cid_StorageSize (csp_Database (ci_Spec (defaulted_installation (scaled_down (rdb_Spec demo_restore) demo_ci)))) = ''50Gi''"
    by (simp add: defaulted_installation_def ci_SetReplicasAndResourcesFromSize_def ci_setDefaultReplicasAndResources_def ci_SetDefaults_keeps
        ci_SetDefaults_def cid_SetDefaults_def scaled_down_def demo_ci_def demo_ci_spec_def zero_ci_spec_def zero_ci_database_def
        ci_DefaultStorageSize_def or_default_def Let_def split: prod.splits outcome.splits)
  then show ?thesis by (simp add: ci_Cluster_def MustParse_def Let_def)
qed



end
