(* ===== verification/RestoreInterleaving.thy ===== *)
theory RestoreInterleaving
  imports RestoreSafety
begin

text \<open>
  A restore, the controller of the installations and the MySQL operator at work on one installation: a step
  relation that interleaves their calls, with the optimistic locking of the API server and a cache that
  lags behind, built from what each of the programs writes.
\<close>

section \<open>The shared state\<close>

text \<open>
  The versions of the installation's resource, oldest first, of which the operator's cache shows the one at
  \<open>w_cache\<close>; the members the MySQL cluster asks for, the ones that run, and how many the cache shows;
  and where the two controllers are in their runs, with the version they read.
\<close>

datatype install_run = Between | Got nat | Settled nat
datatype restore_run = Waiting | Holding nat | Checking nat | Clearing nat | Restored

record world =
  w_versions :: "ClusterInstallation list"
  w_cache :: nat
  w_asked :: int
  w_members :: int
  w_observed :: int
  w_install :: install_run
  w_restore :: restore_run

definition newest :: "world \<Rightarrow> nat \<Rightarrow> bool" where
  "newest w v = (Suc v = length (w_versions w))"

definition db_replicas :: "ClusterInstallation \<Rightarrow> int" where
  "db_replicas ci = cid_Replicas (csp_Database (ci_Spec ci))"

text \<open>
  One call of one of the programs, or one event of the cluster.  The API server refuses an update that is based on
  an older version, and a cluster with a negative number of members; every run may end early with an error.
\<close>

inductive world_step :: "(string \<Rightarrow> bool) \<Rightarrow> MattermostRestoreDBSpec \<Rightarrow> world \<Rightarrow> world \<Rightarrow> bool"
  for quantity :: "string \<Rightarrow> bool" and sp :: MattermostRestoreDBSpec where
  cache_follows: "w_cache w \<le> v \<Longrightarrow> v < length (w_versions w) \<Longrightarrow> world_step quantity sp w (w\<lparr>w_cache := v\<rparr>)"
| members_follow: "min (w_members w) (w_asked w) \<le> m \<Longrightarrow> m \<le> max (w_members w) (w_asked w) \<Longrightarrow>
     world_step quantity sp w (w\<lparr>w_members := m\<rparr>)"
| members_observed: "world_step quantity sp w (w\<lparr>w_observed := w_members w\<rparr>)"
| status_written: "ci_Spec ci = ci_Spec (last (w_versions w)) \<Longrightarrow>
     world_step quantity sp w (w\<lparr>w_versions := w_versions w @ [ci]\<rparr>)"
| install_reads: "w_install w = Between \<Longrightarrow> world_step quantity sp w (w\<lparr>w_install := Got (w_cache w)\<rparr>)"
| install_unchanged: "w_install w = Got v \<Longrightarrow>
     ci_Spec (defaulted_installation (w_versions w ! v)) = ci_Spec (w_versions w ! v) \<Longrightarrow>
     world_step quantity sp w (w\<lparr>w_install := Settled v\<rparr>)"
| install_writes: "w_install w = Got v \<Longrightarrow> newest w v \<Longrightarrow>
     world_step quantity sp w (w\<lparr>w_versions := w_versions w @ [defaulted_installation (w_versions w ! v)],
       w_install := Settled (Suc v)\<rparr>)"
| install_scales: "w_install w = Settled v \<Longrightarrow> ci_Cluster quantity (w_versions w ! v) = Ok c \<Longrightarrow>
     myc_Replicas c = Some m \<Longrightarrow> 0 \<le> m \<Longrightarrow> world_step quantity sp w (w\<lparr>w_asked := m, w_install := Between\<rparr>)"
| install_stops: "world_step quantity sp w (w\<lparr>w_install := Between\<rparr>)"
| restore_reads: "w_restore w = Waiting \<Longrightarrow> world_step quantity sp w (w\<lparr>w_restore := Holding (w_cache w)\<rparr>)"
| restore_scales_down: "w_restore w = Holding v \<Longrightarrow> db_replicas (w_versions w ! v) \<noteq> 0 \<Longrightarrow> newest w v \<Longrightarrow>
     world_step quantity sp w (w\<lparr>w_versions := w_versions w @ [scaled_down sp (w_versions w ! v)],
       w_restore := Checking (Suc v)\<rparr>)"
| restore_finds_zero: "w_restore w = Holding v \<Longrightarrow> db_replicas (w_versions w ! v) = 0 \<Longrightarrow>
     world_step quantity sp w (w\<lparr>w_restore := Checking v\<rparr>)"
| restore_sees_stopped: "w_restore w = Checking v \<Longrightarrow> w_observed w = 0 \<Longrightarrow>
     world_step quantity sp w (w\<lparr>w_restore := Clearing v\<rparr>)"
| restore_scales_up: "w_restore w = Clearing v \<Longrightarrow> newest w v \<Longrightarrow>
     world_step quantity sp w (w\<lparr>w_versions := w_versions w @ [set_db_replicas (restored_replicas n) (w_versions w ! v)],
       w_restore := Restored\<rparr>)"
| restore_stops: "w_restore w \<noteq> Restored \<Longrightarrow> world_step quantity sp w (w\<lparr>w_restore := Waiting\<rparr>)"

inductive world_reach :: "(string \<Rightarrow> bool) \<Rightarrow> MattermostRestoreDBSpec \<Rightarrow> world \<Rightarrow> world \<Rightarrow> bool"
  for quantity :: "string \<Rightarrow> bool" and sp :: MattermostRestoreDBSpec and w0 :: world where
  start: "world_reach quantity sp w0 w0"
| step: "world_reach quantity sp w0 w \<Longrightarrow> world_step quantity sp w w' \<Longrightarrow> world_reach quantity sp w0 w'"

text \<open>An installation whose database runs, with no run of a controller under way.\<close>

definition running :: "world \<Rightarrow> bool" where
  "running w = (w_cache w < length (w_versions w) \<and> 0 < w_asked w \<and> 0 < w_members w \<and> 0 < w_observed w
     \<and> w_install w = Between \<and> w_restore w = Waiting)"

section \<open>Installations that ask for no member\<close>

definition asks_none :: "ClusterInstallation \<Rightarrow> bool" where
  "asks_none ci = (db_replicas ci = 0 \<and> cid_InitBucketURL (csp_Database (ci_Spec ci)) \<noteq> []
     \<and> (csp_Size (ci_Spec ci) = [] \<or> map_of validSizes (csp_Size (ci_Spec ci)) = None))"

lemma asks_none_spec: "ci_Spec ci = ci_Spec ci' \<Longrightarrow> asks_none ci = asks_none ci'"
  by (simp add: asks_none_def db_replicas_def)

lemma defaulted_size: "csp_Size (ci_Spec (defaulted_installation ci)) = []"
  by (simp add: defaulted_installation_def ci_SetReplicasAndResourcesFromSize_def ci_setDefaultReplicasAndResources_def
      ci_overrideReplicasAndResourcesFromSize_def GetClusterSize_def Let_def split: option.splits)

lemma defaulted_replicas: "db_replicas (defaulted_installation ci) = 0 \<longleftrightarrow> asks_none ci"
proof -
  have pos: "0 < cs_Replicas (cis_Database sz)" if "map_of validSizes k = Some sz" for k sz
    using sane_validSizes [OF map_of_SomeD [OF that]] by (simp add: sane_size_def)
  have "0 < cs_Replicas (cis_Database DefaultSize)" using sane_DefaultSize by (simp add: sane_size_def)
  then show ?thesis
    unfolding db_replicas_def installation_replicas asks_none_def
    by (auto simp: Let_def dest!: pos split: option.splits if_splits)
qed

lemma defaulted_asks_none [simp]: "asks_none (defaulted_installation ci) = asks_none ci"
  using defaulted_replicas [of ci]
  by (auto simp: asks_none_def [of "defaulted_installation ci"] defaulted_size installation_database) (simp add: asks_none_def)

lemma settled_asks_none: "ci_Spec (defaulted_installation ci) = ci_Spec ci \<Longrightarrow> db_replicas ci = 0 \<longleftrightarrow> asks_none ci"
  using defaulted_replicas [of ci] by (simp add: db_replicas_def)

lemma Cluster_replicas: "ci_Cluster quantity ci = Ok c \<Longrightarrow> myc_Replicas c = Some (db_replicas ci)"
  by (auto simp: ci_Cluster_def bindO_eq_Ok db_replicas_def Let_def)

section \<open>The invariant\<close>

text \<open>
  Until the restore is done: once a version asks for no member every later one does, a controller that settled
  on a version without members knows from its cache that it is so, and the database stops only when no member is asked for.
\<close>

definition stopping :: "world \<Rightarrow> bool" where
  "stopping w = (w_cache w < length (w_versions w) \<and> sorted (map asks_none (w_versions w))
     \<and> (\<forall>v. w_install w = Got v \<longrightarrow> v \<le> w_cache w)
     \<and> (\<forall>v. w_install w = Settled v \<longrightarrow> v < length (w_versions w)
          \<and> (db_replicas (w_versions w ! v) = 0 \<longrightarrow> asks_none (w_versions w ! v) \<and> asks_none (w_versions w ! w_cache w)))
     \<and> 0 \<le> w_members w \<and> 0 \<le> w_asked w
     \<and> (w_asked w = 0 \<longrightarrow> asks_none (w_versions w ! w_cache w)
          \<and> (\<forall>v. w_install w = Got v \<or> w_install w = Settled v \<longrightarrow> asks_none (w_versions w ! v)))
     \<and> (w_members w = 0 \<longrightarrow> w_asked w = 0) \<and> (w_observed w = 0 \<longrightarrow> w_members w = 0)
     \<and> (\<forall>v. w_restore w = Clearing v \<longrightarrow> w_members w = 0))"

lemma running_stopping:
  assumes "running w" and "list_all (\<lambda>ci. \<not> asks_none ci) (w_versions w)"
  shows "stopping w"
proof -
  have "map asks_none (w_versions w) = replicate (length (w_versions w)) False"
    using assms(2) by (intro replicate_eqI) (auto simp: list_all_iff)
  then show ?thesis using assms(1) by (simp add: running_def stopping_def)
qed

lemma later_asks_none:
  assumes "sorted (map asks_none vs)" and "i \<le> j" and "j < length vs" and "asks_none (vs ! i)"
  shows "asks_none (vs ! j)"
  using sorted_nth_mono [OF assms(1), of i j] assms(2-4) by simp

lemma newest_asks_none:
  assumes "sorted (map asks_none vs)" and "Suc v = length vs" and "ci \<in> set vs" and "asks_none ci"
  shows "asks_none (vs ! v)"
proof -
  from assms(3) obtain i where "i < length vs" "ci = vs ! i" by (auto simp: in_set_conv_nth)
  with assms show ?thesis by (auto intro: later_asks_none [of vs i])
qed

text \<open>A version is added that asks for no member if the newest one does.\<close>

lemma stopping_added:
  assumes "stopping w" and "Suc v = length (w_versions w)" and "asks_none (w_versions w ! v) \<Longrightarrow> asks_none ci"
  shows "stopping (w\<lparr>w_versions := w_versions w @ [ci]\<rparr>)"
proof -
  have "asks_none x \<longrightarrow> asks_none ci" if "x \<in> set (w_versions w)" for x
    using newest_asks_none [of "w_versions w" v x] that assms by (auto simp: stopping_def)
  then have "sorted (map asks_none (w_versions w @ [ci]))"
    using assms(1) by (auto simp: stopping_def sorted_append)
  then show ?thesis
    using assms(1) unfolding stopping_def by (auto simp: nth_append)
qed

lemma stopping_step:
  assumes "world_step quantity sp w w'" and "stopping w" and "w_restore w' \<noteq> Restored"
  shows "stopping w'"
  using assms(1)
proof cases
  case (cache_follows v)
  have "asks_none (w_versions w ! v)" if "asks_none (w_versions w ! w_cache w)"
    using assms(2) cache_follows that by (auto simp: stopping_def intro: later_asks_none [of _ "w_cache w"])
  then show ?thesis using assms(2) cache_follows by (auto simp: stopping_def)
next
  case (members_follow m)
  then have "m = 0 \<Longrightarrow> w_asked w = 0" "w_members w = 0 \<Longrightarrow> m = 0" "0 \<le> m"
    using assms(2) by (auto simp: stopping_def min_def max_def split: if_splits)
  then show ?thesis using assms(2) members_follow by (auto simp: stopping_def)
next
  case members_observed
  then show ?thesis using assms(2) by (auto simp: stopping_def)
next
  case (status_written ci)
  from assms(2) have v: "Suc (length (w_versions w) - 1) = length (w_versions w)" by (auto simp: stopping_def)
  then have "last (w_versions w) = w_versions w ! (length (w_versions w) - 1)" by (intro last_conv_nth) auto
  with stopping_added [OF assms(2) v, of ci] asks_none_spec [of ci "last (w_versions w)"] status_written show ?thesis by simp
next
  case install_reads
  then show ?thesis using assms(2) by (auto simp: stopping_def)
next
  case (install_unchanged v)
  then have v: "v \<le> w_cache w" "w_cache w < length (w_versions w)" using assms(2) by (auto simp: stopping_def)
  moreover from this have "asks_none (w_versions w ! w_cache w)" if "asks_none (w_versions w ! v)"
    using assms(2) that by (auto simp: stopping_def intro: later_asks_none [of _ v])
  moreover note settled_asks_none [of "w_versions w ! v"] install_unchanged
  ultimately show ?thesis using assms(2) by (auto simp: stopping_def)
next
  case (install_writes v)
  then have v: "Suc v = length (w_versions w)" "w_cache w = v" using assms(2) by (auto simp: stopping_def newest_def)
  let ?ci = "defaulted_installation (w_versions w ! v)"
  have "stopping (w\<lparr>w_versions := w_versions w @ [?ci]\<rparr>)" by (rule stopping_added [OF assms(2) v(1)]) simp
  then show ?thesis using install_writes v assms(2) defaulted_replicas [of "w_versions w ! v"]
    by (auto simp: stopping_def nth_append)
next
  case (install_scales v c m)
  then have "m = db_replicas (w_versions w ! v)" using Cluster_replicas by fastforce
  then show ?thesis using install_scales assms(2) by (auto simp: stopping_def asks_none_def)
next
  case install_stops
  then show ?thesis using assms(2) by (auto simp: stopping_def)
next
  case restore_reads
  then show ?thesis using assms(2) by (auto simp: stopping_def)
next
  case (restore_scales_down v)
  then have v: "Suc v = length (w_versions w)" and "\<not> asks_none (w_versions w ! v)" by (auto simp: newest_def asks_none_def)
  then have "stopping (w\<lparr>w_versions := w_versions w @ [scaled_down sp (w_versions w ! v)]\<rparr>)"
    by (intro stopping_added [OF assms(2) v]) simp
  then show ?thesis using restore_scales_down by (auto simp: stopping_def)
next
  case (restore_finds_zero v)
  then show ?thesis using assms(2) by (auto simp: stopping_def)
next
  case (restore_sees_stopped v)
  then show ?thesis using assms(2) by (auto simp: stopping_def)
next
  case (restore_scales_up v n)
  then show ?thesis using assms(3) by simp
next
  case restore_stops
  then show ?thesis using assms(2) by (auto simp: stopping_def)
qed

lemma restored_stays: "world_step quantity sp w w' \<Longrightarrow> w_restore w = Restored \<Longrightarrow> w_restore w' = Restored"
  by (cases rule: world_step.cases) auto

lemma stopping_reach:
  assumes "world_reach quantity sp w0 w" and "stopping w0" and "w_restore w \<noteq> Restored"
  shows "stopping w"
  using assms by (induction rule: world_reach.induct) (auto intro: stopping_step dest: restored_stays)

section \<open>The moves of the restore\<close>

text \<open>
  What the steps \<open>restore_scales_down\<close>, \<open>restore_sees_stopped\<close> and \<open>restore_scales_up\<close> stand for: the writes of the
  program of \<open>RestoreDB\<close>, with the copy of the installation it holds, and the evidence it asks for.
\<close>

lemma restore_moves:
  "calls (snd (scale_down env s)) = calls s @ (if db_replicas (b_ci s) \<noteq> 0
     then [CUpdate (KClusterInstallation (scaled_down (rdb_Spec (b_restore s)) (b_ci s)))] else [])"
  "calls (snd (scale_up env s)) = calls s @ [CUpdate (KClusterInstallation
     (set_db_replicas (restored_replicas (rst_OriginalDBReplicas (rdb_Status (b_restore s)))) (b_ci s)))]"
  "check_scaled_down env c s = (Ok (), s') \<Longrightarrow> om_Namespace (myc_Meta c) = ns \<Longrightarrow> om_Namespace (rdb_Meta (b_restore s)) = ns \<Longrightarrow>
     stopped env (calls s) (om_Name (myc_Meta c)) ns"
proof -
  show "calls (snd (scale_down env s)) = calls s @ (if db_replicas (b_ci s) \<noteq> 0
     then [CUpdate (KClusterInstallation (scaled_down (rdb_Spec (b_restore s)) (b_ci s)))] else [])"
    by (cases "api_update (e_ClusterInstallation env) (calls s) (scaled_down (rdb_Spec (b_restore s)) (b_ci s))")
      (auto simp: scale_down_def write_installation_def put_installation_def io_defs client_Update_def of_sum_def k_api_restore db_replicas_def)
  let ?ci = "set_db_replicas (restored_replicas (rst_OriginalDBReplicas (rdb_Status (b_restore s)))) (b_ci s)"
  show "calls (snd (scale_up env s)) = calls s @ [CUpdate (KClusterInstallation ?ci)]"
    by (cases "api_update (e_ClusterInstallation env) (calls s) ?ci")
      (auto simp: scale_up_def write_installation_def put_installation_def io_defs client_Update_def of_sum_def k_api_restore)
qed (rule check_scaled_down_evidence)

section \<open>Properties\<close>


definition demo_world :: world where
  "demo_world = \<lparr>w_versions = [demo_ci], w_cache = 0, w_asked = 2, w_members = 2, w_observed = 2,
     w_install = Between, w_restore = Waiting\<rparr>"

lemma demo_world_clears:
  "\<exists>w. world_reach (\<lambda>q. q = ''50Gi'') (rdb_Spec demo_restore) demo_world w \<and> w_restore w = Clearing 1"
proof -
  let ?R = "world_reach (\<lambda>q. q = ''50Gi'') (rdb_Spec demo_restore) demo_world"
  let ?down = "scaled_down (rdb_Spec demo_restore) demo_ci"
  let ?set = "defaulted_installation ?down"
  obtain c where c: "ci_Cluster (\<lambda>q. q = ''50Gi'') ?set = Ok c" using demo_scaled_cluster by blast
  have "asks_none ?down"
    by (simp add: asks_none_def db_replicas_def scaled_down_def demo_restore_def demo_ci_def demo_ci_spec_def zero_ci_spec_def)
  then have zero: "myc_Replicas c = Some 0" using Cluster_replicas [OF c] defaulted_replicas by simp
  have two: "db_replicas demo_ci \<noteq> 0" by (simp add: db_replicas_def demo_ci_def demo_ci_spec_def zero_ci_database_def)
  have "?R demo_world" by (rule world_reach.start)
  then have "?R (demo_world\<lparr>w_restore := Holding 0\<rparr>)"
    using world_reach.step [OF _ restore_reads] by (fastforce simp: demo_world_def)
  then have "?R (demo_world\<lparr>w_versions := [demo_ci, ?down], w_restore := Checking 1\<rparr>)"
    using world_reach.step [OF _ restore_scales_down [of _ 0]] two by (fastforce simp: demo_world_def newest_def)
  then have "?R (demo_world\<lparr>w_versions := [demo_ci, ?down], w_restore := Checking 1, w_cache := 1\<rparr>)"
    using world_reach.step [OF _ cache_follows [of _ 1]] by (fastforce simp: demo_world_def)
  then have "?R (demo_world\<lparr>w_versions := [demo_ci, ?down], w_restore := Checking 1, w_cache := 1, w_install := Got 1\<rparr>)"
    using world_reach.step [OF _ install_reads] by (fastforce simp: demo_world_def)
  then have "?R (demo_world\<lparr>w_versions := [demo_ci, ?down, ?set], w_restore := Checking 1, w_cache := 1, w_install := Settled 2\<rparr>)"
    using world_reach.step [OF _ install_writes [of _ 1]] by (fastforce simp: demo_world_def newest_def numeral_2_eq_2)
  then have "?R (demo_world\<lparr>w_versions := [demo_ci, ?down, ?set], w_restore := Checking 1, w_cache := 1, w_asked := 0\<rparr>)"
    using world_reach.step [OF _ install_scales [of _ 2 _ c 0]] c zero by (fastforce simp: demo_world_def)
  then have "?R (demo_world\<lparr>w_versions := [demo_ci, ?down, ?set], w_restore := Checking 1, w_cache := 1, w_asked := 0, w_members := 0\<rparr>)"
    using world_reach.step [OF _ members_follow [of _ 0]] by (fastforce simp: demo_world_def)
  then have "?R (demo_world\<lparr>w_versions := [demo_ci, ?down, ?set], w_restore := Checking 1, w_cache := 1, w_asked := 0, w_members := 0,
      w_observed := 0\<rparr>)"
    using world_reach.step [OF _ members_observed] by (fastforce simp: demo_world_def)
  then have "?R (demo_world\<lparr>w_versions := [demo_ci, ?down, ?set], w_restore := Clearing 1, w_cache := 1, w_asked := 0, w_members := 0,
      w_observed := 0\<rparr>)"
    using world_reach.step [OF _ restore_sees_stopped [of _ 1]] by (fastforce simp: demo_world_def)
  then show ?thesis by (intro exI conjI) (assumption, simp)
qed


text \<open>
  The check of the restore sees the pods, not what the MySQL cluster asks for.  When they are down for another
  reason at that moment, claims are deleted while the MySQL operator starts members again.
\<close>

lemma crashed_database_cleared:
  "\<exists>w. world_reach quantity (rdb_Spec demo_restore) (demo_world\<lparr>w_members := 0, w_observed := 0\<rparr>) w
     \<and> w_restore w = Clearing 1 \<and> w_asked w = 2 \<and> w_members w = 2"
proof -
  let ?w = "demo_world\<lparr>w_members := 0, w_observed := 0\<rparr>"
  let ?R = "world_reach quantity (rdb_Spec demo_restore) ?w"
  let ?down = "scaled_down (rdb_Spec demo_restore) demo_ci"
  have two: "db_replicas demo_ci \<noteq> 0" by (simp add: db_replicas_def demo_ci_def demo_ci_spec_def zero_ci_database_def)
  have "?R ?w" by (rule world_reach.start)
  then have "?R (?w\<lparr>w_restore := Holding 0\<rparr>)"
    using world_reach.step [OF _ restore_reads] by (fastforce simp: demo_world_def)
  then have "?R (?w\<lparr>w_versions := [demo_ci, ?down], w_restore := Checking 1\<rparr>)"
    using world_reach.step [OF _ restore_scales_down [of _ 0]] two by (fastforce simp: demo_world_def newest_def)
  then have "?R (?w\<lparr>w_versions := [demo_ci, ?down], w_restore := Clearing 1\<rparr>)"
    using world_reach.step [OF _ restore_sees_stopped [of _ 1]] by (fastforce simp: demo_world_def)
  then have "?R (?w\<lparr>w_versions := [demo_ci, ?down], w_restore := Clearing 1, w_members := 2\<rparr>)"
    using world_reach.step [OF _ members_follow [of _ 2]] by (fastforce simp: demo_world_def)
  then show ?thesis by (intro exI conjI) (assumption, simp_all add: demo_world_def)
qed


end
