(* ===== verification/MysqlOperator.thy ===== *)
theory MysqlOperator
  imports Components
begin

text \<open>
  The API types of the MySQL operator and their defaults (\<^verbatim>\<open>pkg/database/mysql_operator/v1alpha1\<close>), and what
  these defaults make of the cluster that the Mattermost operator asks for.  The record \<^verbatim>\<open>MysqlCluster\<close> of
  the theory Components has the fields the operator sets; \<open>cluster_object\<close> is the whole object with the other
  fields zero.  Affinities, tolerations, lifecycles, times and quantities nobody looks into are opaque.
\<close>

section \<open>Types (\<^verbatim>\<open>mysqlcluster_types.go\<close>)\<close>

datatype IntOrString = IntVal int | StringVal string

text \<open>\<open>None\<close> is the nil map.\<close>

type_synonym MysqlConf = "(string \<times> IntOrString) list option"

record MysqlPodSpec =
  mps_ImagePullPolicy :: string
  mps_ImagePullSecrets :: "string list"
  mps_Labels :: strmap
  mps_Annotations :: strmap
  mps_Resources :: ResourceRequirements
  mps_Affinity :: "opaque option"
  mps_MysqlLifecycle :: "opaque option"
  mps_NodeSelector :: strmap
  mps_PriorityClassName :: string
  mps_Tolerations :: "opaque list"
  mps_ServiceAccountName :: string
  mps_BackupAffinity :: "opaque option"
  mps_BackupNodeSelector :: strmap
  mps_BackupPriorityClassName :: string
  mps_BackupTolerations :: "opaque list"
  mps_Volumes :: "Volume list"
  mps_VolumeMounts :: "VolumeMount list"
  mps_InitContainers :: "Container list"
  mps_Containers :: "Container list"
  mps_MetricsExporterResources :: ResourceRequirements
  mps_MySQLOperatorSidecarResources :: ResourceRequirements

text \<open>A claim's resources have requests and limits only.\<close>

record ClaimSpec =
  cl_AccessModes :: "string list"
  cl_Requests :: resource_list
  cl_Limits :: resource_list
  cl_Rest :: opaque

record VolumeSpec =
  vsp_EmptyDir :: "opaque option"
  vsp_HostPath :: "opaque option"
  vsp_PersistentVolumeClaim :: "ClaimSpec option"

record QueryLimits =
  ql_MaxIdleTime :: "int option"
  ql_MaxQueryTime :: int
  ql_Kill :: string
  ql_KillMode :: string
  ql_IgnoreDb :: "string list"
  ql_IgnoreCommand :: "string list"
  ql_IgnoreUser :: "string list"

record MysqlClusterSpec =
  mcs_Replicas :: "int option"
  mcs_SecretName :: string
  mcs_MysqlVersion :: string
  mcs_Image :: string
  mcs_InitBucketURL :: string
  mcs_InitBucketURI :: string
  mcs_InitBucketSecretName :: string
  mcs_MinAvailable :: string
  mcs_BackupSchedule :: string
  mcs_BackupURL :: string
  mcs_BackupRemoteDeletePolicy :: string
  mcs_BackupSecretName :: string
  mcs_BackupScheduleJobsHistoryLimit :: "int option"
  mcs_MysqlConf :: MysqlConf
  mcs_PodSpec :: MysqlPodSpec
  mcs_VolumeSpec :: VolumeSpec
  mcs_TmpfsSize :: "string option"
  mcs_MaxSlaveLatency :: "int option"
  mcs_QueryLimits :: "QueryLimits option"
  mcs_ReadOnly :: bool
  mcs_ServerIDOffset :: "int option"
  mcs_BackupCompressCommand :: "string list"
  mcs_BackupDecompressCommand :: "string list"
  mcs_MetricsExporterExtraArgs :: "string list"
  mcs_RcloneExtraArgs :: "string list"
  mcs_XbstreamExtraArgs :: "string list"
  mcs_XtrabackupExtraArgs :: "string list"
  mcs_XtrabackupPrepareExtraArgs :: "string list"
  mcs_XtrabackupTargetDir :: string
  mcs_InitFileExtraSQL :: "string list"

record ClusterCondition =
  cc_Type :: string
  cc_Status :: string
  cc_LastTransitionTime :: opaque
  cc_Reason :: string
  cc_Message :: string

record NodeCondition =
  nc_Type :: string
  nc_Status :: string
  nc_LastTransitionTime :: opaque

record NodeStatus =
  ns_Name :: string
  ns_Conditions :: "NodeCondition list"

record MysqlClusterStatus =
  mcst_ReadyNodes :: int
  mcst_Conditions :: "ClusterCondition list"
  mcst_Nodes :: "NodeStatus list"

record MysqlClusterObject =
  mco_Meta :: ObjectMeta
  mco_Spec :: MysqlClusterSpec
  mco_Status :: MysqlClusterStatus

section \<open>Types (\<^verbatim>\<open>mysqlbackup_types.go\<close>)\<close>

definition RetainPolicy :: string where "RetainPolicy = ''retain''"

record MysqlBackupSpec =
  mbs_ClusterName :: string
  mbs_BackupURL :: string
  mbs_BackupSecretName :: string
  mbs_RemoteDeletePolicy :: string

record BackupCondition =
  bc_Type :: string
  bc_Status :: string
  bc_LastTransitionTime :: opaque
  bc_Reason :: string
  bc_Message :: string

record MysqlBackupStatus =
  mbst_Completed :: bool
  mbst_Conditions :: "BackupCondition list"

record MysqlBackup =
  mb_Meta :: ObjectMeta
  mb_Spec :: MysqlBackupSpec
  mb_Status :: MysqlBackupStatus

section \<open>Defaults (\<^verbatim>\<open>mysqlcluster_defaults.go\<close>, \<^verbatim>\<open>mysqlbackup_defaults.go\<close>)\<close>

definition defaultMinAvailable :: string where "defaultMinAvailable = ''50%''"
definition resourceStorage :: string where "resourceStorage = ''1Gi''"
definition resourceRequestCPU :: string where "resourceRequestCPU = ''200m''"
definition resourceRequestMemory :: string where "resourceRequestMemory = ''1Gi''"
definition mysql_one :: int where "mysql_one = 1"

text \<open>
  Without requests the whole of the resources is replaced, the limits included.  The side car's limits are
  the ones of the main container after that.
\<close>

definition setPodSpecDefaults :: "MysqlPodSpec \<Rightarrow> MysqlPodSpec" where
  "setPodSpecDefaults spec =
     (let r = (if rr_Requests (mps_Resources spec) = []
               then no_resources\<lparr>rr_Requests := [(''cpu'', resourceRequestCPU), (''memory'', resourceRequestMemory)]\<rparr>
               else mps_Resources spec);
          m = mps_MetricsExporterResources spec;
          m1 = (if rr_Requests m = [] then m\<lparr>rr_Requests := [(''cpu'', ''10m''), (''memory'', ''32Mi'')]\<rparr> else m);
          m2 = (if rr_Limits m1 = [] then m1\<lparr>rr_Limits := [(''cpu'', ''100m''), (''memory'', ''128Mi'')]\<rparr> else m1);
          o0 = mps_MySQLOperatorSidecarResources spec;
          o1 = (if rr_Requests o0 = [] then o0\<lparr>rr_Requests := [(''cpu'', ''10m''), (''memory'', ''64Mi'')]\<rparr> else o0);
          o2 = (if rr_Limits o1 = [] then o1\<lparr>rr_Limits := rr_Limits r\<rparr> else o1)
      in spec\<lparr>mps_Resources := r, mps_MetricsExporterResources := m2, mps_MySQLOperatorSidecarResources := o2\<rparr>)"

definition setVolumeSpecDefaults :: "ClaimSpec \<Rightarrow> ClaimSpec" where
  "setVolumeSpecDefaults spec =
     (let s1 = (if cl_AccessModes spec = [] then spec\<lparr>cl_AccessModes := [''ReadWriteOnce'']\<rparr> else spec)
      in if cl_Requests s1 = [] then s1\<lparr>cl_Requests := [(''storage'', resourceStorage)], cl_Limits := []\<rparr> else s1)"

text \<open>The number of replicas is dereferenced only after it was set.\<close>

definition SetDefaults_MysqlClusterSpec :: "MysqlClusterSpec \<Rightarrow> MysqlClusterSpec" where
  "SetDefaults_MysqlClusterSpec sp =
     (let pod = setPodSpecDefaults (mcs_PodSpec sp);
          vol = (mcs_VolumeSpec sp)\<lparr>vsp_PersistentVolumeClaim :=
                   map_option setVolumeSpecDefaults (vsp_PersistentVolumeClaim (mcs_VolumeSpec sp))\<rparr>;
          replicas = (case mcs_Replicas sp of None \<Rightarrow> mysql_one | Some n \<Rightarrow> n);
          conf = (case mcs_MysqlConf sp of Some (x # xs) \<Rightarrow> Some (x # xs) | _ \<Rightarrow> Some [])
      in sp\<lparr>mcs_PodSpec := pod, mcs_VolumeSpec := vol, mcs_Replicas := Some replicas, mcs_MysqlConf := conf,
           mcs_MinAvailable := (if mcs_MinAvailable sp = [] \<and> replicas > 1 then defaultMinAvailable
                                else mcs_MinAvailable sp)\<rparr>)"

definition SetDefaults_MysqlCluster :: "MysqlClusterObject \<Rightarrow> MysqlClusterObject" where
  "SetDefaults_MysqlCluster c = c\<lparr>mco_Spec := SetDefaults_MysqlClusterSpec (mco_Spec c)\<rparr>"

definition SetDefaults_MysqlBackup :: "MysqlBackup \<Rightarrow> MysqlBackup" where
  "SetDefaults_MysqlBackup b =
     (if mbs_RemoteDeletePolicy (mb_Spec b) = []
      then b\<lparr>mb_Spec := (mb_Spec b)\<lparr>mbs_RemoteDeletePolicy := RetainPolicy\<rparr>\<rparr> else b)"

section \<open>The cluster the operator asks for\<close>

definition zero_mysql_pod :: MysqlPodSpec where
  "zero_mysql_pod = \<lparr>mps_ImagePullPolicy = [], mps_ImagePullSecrets = [], mps_Labels = Map.empty, mps_Annotations = Map.empty,
     mps_Resources = no_resources, mps_Affinity = None, mps_MysqlLifecycle = None, mps_NodeSelector = Map.empty,
     mps_PriorityClassName = [], mps_Tolerations = [], mps_ServiceAccountName = [], mps_BackupAffinity = None,
     mps_BackupNodeSelector = Map.empty, mps_BackupPriorityClassName = [], mps_BackupTolerations = [], mps_Volumes = [],
     mps_VolumeMounts = [], mps_InitContainers = [], mps_Containers = [], mps_MetricsExporterResources = no_resources,
     mps_MySQLOperatorSidecarResources = no_resources\<rparr>"

definition cluster_spec :: "MysqlCluster \<Rightarrow> MysqlClusterSpec" where
  "cluster_spec c = \<lparr>mcs_Replicas = myc_Replicas c, mcs_SecretName = myc_SecretName c, mcs_MysqlVersion = myc_MysqlVersion c,
     mcs_Image = [], mcs_InitBucketURL = myc_InitBucketURL c, mcs_InitBucketURI = [],
     mcs_InitBucketSecretName = myc_InitBucketSecretName c, mcs_MinAvailable = [], mcs_BackupSchedule = myc_BackupSchedule c,
     mcs_BackupURL = myc_BackupURL c, mcs_BackupRemoteDeletePolicy = myc_BackupRemoteDeletePolicy c,
     mcs_BackupSecretName = myc_BackupSecretName c, mcs_BackupScheduleJobsHistoryLimit = None, mcs_MysqlConf = None,
     mcs_PodSpec = zero_mysql_pod,
     mcs_VolumeSpec = \<lparr>vsp_EmptyDir = None, vsp_HostPath = None, vsp_PersistentVolumeClaim = Some
        \<lparr>cl_AccessModes = myc_AccessModes c, cl_Requests = [(''storage'', myc_Storage c)], cl_Limits = [], cl_Rest = Opaque []\<rparr>\<rparr>,
     mcs_TmpfsSize = None, mcs_MaxSlaveLatency = None, mcs_QueryLimits = None, mcs_ReadOnly = False, mcs_ServerIDOffset = None,
     mcs_BackupCompressCommand = [], mcs_BackupDecompressCommand = [], mcs_MetricsExporterExtraArgs = [],
     mcs_RcloneExtraArgs = [], mcs_XbstreamExtraArgs = [], mcs_XtrabackupExtraArgs = [], mcs_XtrabackupPrepareExtraArgs = [],
     mcs_XtrabackupTargetDir = [], mcs_InitFileExtraSQL = []\<rparr>"

definition cluster_object :: "MysqlCluster \<Rightarrow> MysqlClusterObject" where
  "cluster_object c = \<lparr>mco_Meta = myc_Meta c, mco_Spec = cluster_spec c,
     mco_Status = \<lparr>mcst_ReadyNodes = 0, mcst_Conditions = [], mcst_Nodes = []\<rparr>\<rparr>"

section \<open>Facts\<close>

lemma setPodSpecDefaults_idem: "setPodSpecDefaults (setPodSpecDefaults p) = setPodSpecDefaults p"
  by (simp add: setPodSpecDefaults_def Let_def no_resources_def)

lemma setVolumeSpecDefaults_idem: "setVolumeSpecDefaults (setVolumeSpecDefaults v) = setVolumeSpecDefaults v"
  by (simp add: setVolumeSpecDefaults_def Let_def)

lemma SetDefaults_MysqlClusterSpec_idem:
  "SetDefaults_MysqlClusterSpec (SetDefaults_MysqlClusterSpec sp) = SetDefaults_MysqlClusterSpec sp"
proof -
  have "map_option setVolumeSpecDefaults (map_option setVolumeSpecDefaults v) = map_option setVolumeSpecDefaults v" for v
    by (cases v) (simp_all add: setVolumeSpecDefaults_idem)
  then show ?thesis
    by (simp add: SetDefaults_MysqlClusterSpec_def Let_def setPodSpecDefaults_idem split: option.split list.split)
qed

lemma mysql_defaults_idem:
  "SetDefaults_MysqlCluster (SetDefaults_MysqlCluster c) = SetDefaults_MysqlCluster c"
  "SetDefaults_MysqlBackup (SetDefaults_MysqlBackup b) = SetDefaults_MysqlBackup b"
  by (simp_all add: SetDefaults_MysqlCluster_def SetDefaults_MysqlClusterSpec_idem SetDefaults_MysqlBackup_def RetainPolicy_def)

lemma ClusterV1Beta_fields:
  assumes "ClusterV1Beta quantity mm = Ok c" and "db_OperatorManaged (s_Database (mm_Spec mm)) = Some omd"
  shows "myc_Replicas c = omd_Replicas omd" "myc_Storage c = omd_StorageSize omd" "myc_AccessModes c = [''ReadWriteOnce'']"
  using assms by (auto simp: ClusterV1Beta_def bindO_eq_Ok Let_def)

definition with_db_resources :: "ResourceRequirements \<Rightarrow> Mattermost \<Rightarrow> Mattermost" where
  "with_db_resources r mm = mm\<lparr>mm_Spec := (mm_Spec mm)\<lparr>s_Database := (s_Database (mm_Spec mm))\<lparr>db_OperatorManaged :=
     map_option (\<lambda>omd. omd\<lparr>omd_Resources := r\<rparr>) (db_OperatorManaged (s_Database (mm_Spec mm)))\<rparr>\<rparr>\<rparr>"

section \<open>The managed database\<close>

text \<open>
  The database cluster of a Mattermost resource has, under the defaults of the MySQL operator, the replicas
  and the storage of the resource, one replica where none is given, at most half of several unavailable, and
  always the same requests and no limit: neither the user's resources nor those of the size reach it.
\<close>

lemma managed_database_defaults:
  assumes "ClusterV1Beta quantity mm = Ok c" and "db_OperatorManaged (s_Database (mm_Spec mm)) = Some omd"
  shows "let d = mco_Spec (SetDefaults_MysqlCluster (cluster_object c)) in
      mcs_Replicas d = Some (case omd_Replicas omd of None \<Rightarrow> 1 | Some n \<Rightarrow> n)
    \<and> mcs_MinAvailable d = (case omd_Replicas omd of None \<Rightarrow> [] | Some n \<Rightarrow> if n > 1 then ''50%'' else [])
    \<and> map_option cl_Requests (vsp_PersistentVolumeClaim (mcs_VolumeSpec d)) = Some [(''storage'', omd_StorageSize omd)]
    \<and> mps_Resources (mcs_PodSpec d) = \<lparr>rr_Requests = [(''cpu'', ''200m''), (''memory'', ''1Gi'')], rr_Limits = [], rr_Claims = []\<rparr>
    \<and> (\<forall>r. ClusterV1Beta quantity (with_db_resources r mm) = Ok c)
    \<and> SetDefaults_MysqlClusterSpec d = d"
proof -
  note c = ClusterV1Beta_fields [OF assms]
  have "ClusterV1Beta quantity (with_db_resources r mm) = Ok c" for r
    using assms by (simp add: ClusterV1Beta_def with_db_resources_def MattermostOwnerReference_def Let_def cong: if_cong)
  then show ?thesis
    by (simp add: SetDefaults_MysqlCluster_def cluster_object_def SetDefaults_MysqlClusterSpec_idem)
      (simp add: SetDefaults_MysqlClusterSpec_def cluster_spec_def Let_def c mysql_one_def defaultMinAvailable_def
        setVolumeSpecDefaults_def setPodSpecDefaults_def zero_mysql_pod_def no_resources_def resourceRequestCPU_def
        resourceRequestMemory_def split: option.split)
qed

definition demo_managed_mm :: Mattermost where
  "demo_managed_mm = new_mattermost ''mm'' ''apps'' (demo_spec\<lparr>s_Database := (s_Database demo_spec)\<lparr>db_OperatorManaged :=
     Some (zero_omd\<lparr>omd_StorageSize := ''50Gi'', omd_Replicas := Some 2, omd_Version := ''8.0''\<rparr>)\<rparr>\<rparr>)"

lemma managed_database_defaults_witness:
  "\<exists>c. ClusterV1Beta (\<lambda>q. q = ''50Gi'') demo_managed_mm = Ok c
     \<and> (let d = mco_Spec (SetDefaults_MysqlCluster (cluster_object c)) in mcs_Replicas d = Some 2 \<and> mcs_MinAvailable d = ''50%'')"
proof -
  have db: "db_OperatorManaged (s_Database (mm_Spec demo_managed_mm)) =
      Some (zero_omd\<lparr>omd_StorageSize := ''50Gi'', omd_Replicas := Some 2, omd_Version := ''8.0''\<rparr>)"
    by (simp add: demo_managed_mm_def)
  then obtain c where "ClusterV1Beta (\<lambda>q. q = ''50Gi'') demo_managed_mm = Ok c"
    by (simp add: ClusterV1Beta_def MustParse_def Let_def)
  with managed_database_defaults [OF this db] show ?thesis by (auto simp: Let_def)
qed

end
