(* ===== verification/Identifiers.thy ===== *)
theory Identifiers
  imports Prelude "HOL-Library.Word"
begin

text \<open>
  The random identifiers of \<^verbatim>\<open>pkg/components/utils/utils.go\<close>, which are the credentials of the MinIO
  instance and the passwords of the database.  They are the base 32 encoding, in an alphabet of its own, of
  the 16 bytes of a random UUID, cut to a length.  The bytes are an argument; the encoder of Go's standard
  library is written out, on numbers: a group of 5 bytes is a number below \<open>256 ^ 5 = 32 ^ 8\<close>.
\<close>

section \<open>Digits\<close>

fun to_digits :: "nat \<Rightarrow> nat \<Rightarrow> nat \<Rightarrow> nat list" where
  "to_digits b 0 v = []"
| "to_digits b (Suc n) v = to_digits b n (v div b) @ [v mod b]"

definition of_digits :: "nat \<Rightarrow> nat list \<Rightarrow> nat" where
  "of_digits b ds = foldl (\<lambda>v d. v * b + d) 0 ds"

lemma of_digits_snoc [simp]: "of_digits b [] = 0" "of_digits b (ds @ [d]) = of_digits b ds * b + d"
  by (simp_all add: of_digits_def)

lemma length_to_digits [simp]: "length (to_digits b n v) = n"
  by (induction n arbitrary: v) simp_all

lemma to_digits_less: "0 < b \<Longrightarrow> d \<in> set (to_digits b n v) \<Longrightarrow> d < b"
  by (induction n arbitrary: v) auto

lemma of_to_digits: "of_digits b (to_digits b n v) = v mod b ^ n"
proof (induction n arbitrary: v)
  case (Suc n)
  have "v mod (b * b ^ n) = b * (v div b mod b ^ n) + v mod b" by (rule mod_mult2_eq)
  with Suc show ?case by (simp add: algebra_simps)
qed simp

lemma to_of_digits: "\<forall>d \<in> set ds. d < b \<Longrightarrow> to_digits b (length ds) (of_digits b ds) = ds"
  by (induction ds rule: rev_induct) simp_all

lemma of_digits_less: "0 < b \<Longrightarrow> \<forall>d \<in> set ds. d < b \<Longrightarrow> of_digits b ds < b ^ length ds"
proof (induction ds rule: rev_induct)
  case (snoc d ds)
  then have "Suc (of_digits b ds) * b \<le> b ^ length ds * b" by (intro mult_le_mono1) simp
  with snoc.prems show ?case by (simp add: algebra_simps)
qed simp

lemma of_digits_zeros: "of_digits b (ds @ replicate k 0) = of_digits b ds * b ^ k"
  by (induction k) (simp_all add: replicate_append_same [symmetric] flip: append_assoc)

lemma to_digits_zeros: "0 < b \<Longrightarrow> to_digits b (n + k) (v * b ^ k) = to_digits b n v @ replicate k 0"
  by (induction k) (simp_all add: replicate_append_same mult.assoc [symmetric] mult.commute)

section \<open>Base 32\<close>

definition encoding :: string where
  "encoding = ''ybndrfg8ejkmcpqxot1uwisza345h769''"

text \<open>The symbols of a group of at most 5 bytes, of which the last may be padded with zero bits.\<close>

definition base32_symbols :: "nat \<Rightarrow> nat" where
  "base32_symbols n = (8 * n + 4) div 5"

definition base32_group :: "nat list \<Rightarrow> nat list" where
  "base32_group bs = take (base32_symbols (length bs)) (to_digits 32 8 (of_digits 256 (bs @ replicate (5 - length bs) 0)))"

function base32_digits :: "nat list \<Rightarrow> nat list" where
  "base32_digits bs = (if length bs \<le> 5 then (if bs = [] then [] else base32_group bs)
     else base32_group (take 5 bs) @ base32_digits (drop 5 bs))"
  by pat_completeness auto
termination by (relation "measure length") auto

declare base32_digits.simps [simp del]

text \<open>What the stream encoder has written when it is closed: the last group is padded to 8 symbols.\<close>

definition base32_padding :: "nat \<Rightarrow> nat" where
  "base32_padding n = (8 - base32_symbols (n mod 5)) mod 8"

definition base32_encode :: "nat list \<Rightarrow> string" where
  "base32_encode bs = map ((!) encoding) (base32_digits bs) @ replicate (base32_padding (length bs)) CHR ''=''"

section \<open>Decoding\<close>

text \<open>The inverse, as a specification: padding is left out, and bits that do not fill a byte are dropped.\<close>

definition base32_ungroup :: "nat list \<Rightarrow> nat list" where
  "base32_ungroup qs = take (5 * length qs div 8) (to_digits 256 5 (of_digits 32 (qs @ replicate (8 - length qs) 0)))"

function base32_undigits :: "nat list \<Rightarrow> nat list" where
  "base32_undigits qs = (if length qs \<le> 8 then base32_ungroup qs
     else base32_ungroup (take 8 qs) @ base32_undigits (drop 8 qs))"
  by pat_completeness auto
termination by (relation "measure length") auto

declare base32_undigits.simps [simp del]

definition symbol_value :: "char \<Rightarrow> nat" where
  "symbol_value c = length (takeWhile ((\<noteq>) c) encoding)"

definition base32_decode :: "string \<Rightarrow> nat list" where
  "base32_decode s = base32_undigits (map symbol_value (takeWhile ((\<noteq>) CHR ''='') s))"

lemma base32_symbols_le: "n \<le> 5 \<Longrightarrow> base32_symbols n \<le> 8"
  by (auto simp: base32_symbols_def)

lemma length_base32_group: "length bs \<le> 5 \<Longrightarrow> length (base32_group bs) = base32_symbols (length bs)"
  using base32_symbols_le by (simp add: base32_group_def)

text \<open>The bits that do not fit are zero, so a group of any length is read back.\<close>

lemma base32_group_fills:
  assumes "length bs \<le> 5"
  shows "base32_group bs @ replicate (8 - base32_symbols (length bs)) 0 = to_digits 32 8 (of_digits 256 (bs @ replicate (5 - length bs) 0))"
proof -
  let ?m = "length bs" and ?n = "base32_symbols (length bs)"
  have n: "?n \<le> 8" using assms by (rule base32_symbols_le)
  have "40 - 5 * ?n \<le> 40 - 8 * ?m" by (auto simp: base32_symbols_def)
  then have "(2::nat) ^ (40 - 8 * ?m) = 2 ^ ((40 - 8 * ?m) - (40 - 5 * ?n)) * 2 ^ (40 - 5 * ?n)"
    by (simp flip: power_add)
  moreover have "(256::nat) ^ (5 - ?m) = 2 ^ (40 - 8 * ?m)" "(32::nat) ^ (8 - ?n) = 2 ^ (40 - 5 * ?n)"
    using power_mult [of "2::nat" 8 "5 - ?m"] power_mult [of "2::nat" 5 "8 - ?n"] by (simp_all add: diff_mult_distrib2)
  ultimately obtain c :: nat where c: "(256::nat) ^ (5 - ?m) = c * 32 ^ (8 - ?n)" by simp
  have "to_digits 32 (?n + (8 - ?n)) ((of_digits 256 bs * c) * 32 ^ (8 - ?n))
      = to_digits 32 ?n (of_digits 256 bs * c) @ replicate (8 - ?n) 0"
    by (rule to_digits_zeros) simp
  then have "to_digits 32 8 (of_digits 256 (bs @ replicate (5 - ?m) 0))
      = to_digits 32 ?n (of_digits 256 bs * c) @ replicate (8 - ?n) 0"
    using n by (simp add: of_digits_zeros c mult.assoc)
  then show ?thesis by (simp add: base32_group_def)
qed

lemma base32_ungroup_group:
  assumes "length bs \<le> 5" and "\<forall>b \<in> set bs. b < 256"
  shows "base32_ungroup (base32_group bs) = bs"
proof -
  let ?bs = "bs @ replicate (5 - length bs) 0"
  have len: "length ?bs = 5" and less: "\<forall>b \<in> set ?bs. b < 256" using assms by auto
  have "of_digits 32 (to_digits 32 8 (of_digits 256 ?bs)) = of_digits 256 ?bs"
    using of_digits_less [OF _ less] len by (simp add: of_to_digits)
  moreover have "to_digits 256 5 (of_digits 256 ?bs) = ?bs" using to_of_digits [OF less] len by simp
  moreover have "5 * base32_symbols (length bs) div 8 = length bs"
  proof (rule div_nat_eqI)
    have "5 * base32_symbols (length bs) + (8 * length bs + 4) mod 5 = 8 * length bs + 4"
      unfolding base32_symbols_def by (rule mult_div_mod_eq)
    moreover have "(8 * length bs + 4) mod 5 < 5" by simp
    ultimately have "8 * length bs \<le> 5 * base32_symbols (length bs)" "5 * base32_symbols (length bs) < 8 * length bs + 8"
      by linarith+
    then show "8 * length bs \<le> 5 * base32_symbols (length bs)" "5 * base32_symbols (length bs) < 8 * Suc (length bs)"
      by simp_all
  qed
  ultimately show ?thesis
    using assms(1) by (simp add: base32_ungroup_def length_base32_group base32_group_fills)
qed

lemma base32_digits_roundtrip:
  "\<forall>b \<in> set bs. b < 256 \<Longrightarrow> base32_undigits (base32_digits bs) = bs"
proof (induction bs rule: base32_digits.induct)
  case (1 bs)
  show ?case
  proof (cases "length bs \<le> 5")
    case True
    then have "length (base32_group bs) \<le> 8" using base32_symbols_le by (simp add: length_base32_group)
    with True 1(2) base32_ungroup_group [of bs] show ?thesis
      by (cases "bs = []") (simp_all add: base32_digits.simps base32_undigits.simps base32_ungroup_def)
  next
    case False
    then have full: "length (base32_group (take 5 bs)) = 8" by (simp add: length_base32_group base32_symbols_def)
    have rest: "base32_undigits (base32_digits (drop 5 bs)) = drop 5 bs"
      using 1(1) [OF False] 1(2) by (auto dest: in_set_dropD)
    moreover have "drop 5 bs \<noteq> []" using False by simp
    moreover have "base32_undigits [] = []" by (simp add: base32_undigits.simps base32_ungroup_def)
    ultimately have ne: "base32_digits (drop 5 bs) \<noteq> []" by metis
    have "base32_ungroup (base32_group (take 5 bs)) = take 5 bs"
      using 1(2) by (intro base32_ungroup_group) (auto dest: in_set_takeD)
    with False full rest ne show ?thesis
      by (subst base32_digits.simps, subst base32_undigits.simps) simp
  qed
qed

section \<open>The identifiers\<close>

text \<open>
  The argument are the bytes that \<^verbatim>\<open>uuid.NewRandom\<close> returns: 16, or none when there is no randomness.
  Cutting the buffer beyond its length is a panic.
\<close>

definition Truncate :: "nat \<Rightarrow> string \<Rightarrow> string outcome" where
  "Truncate n b = (if n > length b then Panic ''bytes.Buffer: truncation out of range'' else Ok (take n b))"

definition New16ID :: "8 word list \<Rightarrow> string outcome" where
  "New16ID uuid = Truncate 16 (base32_encode (map unat uuid))"

definition New28ID :: "8 word list \<Rightarrow> string outcome" where
  "New28ID uuid = Truncate 28 (base32_encode (map unat uuid))"

section \<open>Properties\<close>

lemma encoding_symbols: "\<forall>d \<in> set [0..<32]. symbol_value (encoding ! d) = d \<and> encoding ! d \<noteq> CHR ''=''"
  by code_simp

lemma symbols_decode:
  assumes "\<forall>d \<in> set ds. d < 32"
  shows "map symbol_value (map ((!) encoding) ds) = ds" and "CHR ''='' \<notin> set (map ((!) encoding) ds)"
  using assms encoding_symbols by (induction ds) auto

lemma base32_group_less: "d \<in> set (base32_group bs) \<Longrightarrow> d < 32"
  unfolding base32_group_def by (auto dest!: in_set_takeD elim!: to_digits_less [rotated])

lemma base32_digits_less: "d \<in> set (base32_digits bs) \<Longrightarrow> d < 32"
proof (induction bs rule: base32_digits.induct)
  case (1 bs)
  then show ?case by (subst (asm) (2) base32_digits.simps) (auto dest: base32_group_less split: if_splits)
qed

text \<open>Whatever padding follows is left out.\<close>

lemma base32_decode_encoded:
  assumes "\<forall>b \<in> set bs. b < 256"
  shows "base32_decode (map ((!) encoding) (base32_digits bs) @ replicate k CHR ''='') = bs"
proof -
  have ds: "\<forall>d \<in> set (base32_digits bs). d < 32" by (simp add: base32_digits_less)
  have "takeWhile ((\<noteq>) CHR ''='') (map ((!) encoding) (base32_digits bs) @ replicate k CHR ''='') = map ((!) encoding) (base32_digits bs)"
    using symbols_decode(2) [OF ds] by (subst takeWhile_append2) (auto simp: takeWhile_replicate)
  then show ?thesis
    using base32_digits_roundtrip [OF assms] by (simp add: base32_decode_def symbols_decode(1) [OF ds] del: map_map)
qed

text \<open>A UUID is three groups of 5 bytes and one byte: 26 symbols, of which the first 16 are the first two groups.\<close>

lemma base32_digits_uuid:
  assumes "length bs = 16"
  shows "length (base32_digits bs) = 26" and "take 16 (base32_digits bs) = base32_digits (take 10 bs)"
proof -
  have digits: "base32_digits xs = (if xs = [] then [] else base32_group (take 5 xs) @ base32_digits (drop 5 xs))" for xs
    by (cases "xs = []") (auto simp: base32_digits.simps [of xs] base32_digits.simps [of "[]"])
  have all: "base32_digits bs = base32_group (take 5 bs) @ base32_group (take 5 (drop 5 bs))
      @ base32_group (take 5 (drop 10 bs)) @ base32_group (drop 15 bs)"
    using assms by (subst (1) digits, subst (1) digits, subst (1) digits, subst (1) digits, subst (1) digits) auto
  have ten: "base32_digits (take 10 bs) = base32_group (take 5 bs) @ base32_group (take 5 (drop 5 bs))"
    using assms by (subst (1) digits, subst (1) digits, subst (1) digits) (auto simp: take_drop min_def)
  show "length (base32_digits bs) = 26" "take 16 (base32_digits bs) = base32_digits (take 10 bs)"
    using assms unfolding all ten by (simp_all add: length_base32_group base32_symbols_def)
qed



text \<open>Without randomness \<^verbatim>\<open>uuid.NewRandom\<close> returns no bytes, and cutting the empty buffer is a panic.\<close>

lemma identifiers_need_randomness:
  "New16ID [] = Panic ''bytes.Buffer: truncation out of range''" "New28ID [] = Panic ''bytes.Buffer: truncation out of range''"
  by (simp_all add: New16ID_def New28ID_def Truncate_def base32_encode_def base32_padding_def base32_symbols_def base32_digits.simps)

end
