(* ===== verification/Spec2Isabelle.thy ===== *)
theory Spec2Isabelle
  imports ControllerLiveness ClusterInstallationSafety MigrationProtocol RestoreInterleaving MysqlOperator Identifiers
begin

text \<open>
  The Mattermost operator: a Kubernetes controller that turns a \<^verbatim>\<open>Mattermost\<close> custom resource into the
  objects that run a Mattermost installation.

  \<^bold>\<open>The program.\<close>  A worker takes the name of a resource from a queue and calls \<^verbatim>\<open>Reconcile\<close>
  (\<^verbatim>\<open>controllers/mattermost/mattermost/controller.go\<close>).  It reads the resource, asks the rate limiter whether
  it may work on it, fills in defaults and sizes (\<^verbatim>\<open>apis/mattermost/v1beta1\<close>), makes sure of the database and
  the file store (\<^verbatim>\<open>pkg/components\<close>, \<^verbatim>\<open>pkg/mattermost/database_*.go\<close>, \<^verbatim>\<open>file_store.go\<close>), generates the desired
  objects (\<^verbatim>\<open>pkg/mattermost/mattermost_v1beta.go\<close>), applies the user's patches to two of them
  (\<^verbatim>\<open>patch_apply.go\<close>), creates or updates each (\<^verbatim>\<open>pkg/resources\<close>), runs an update job before a new image is
  rolled out (\<^verbatim>\<open>update_job.go\<close>), checks the rollout (\<^verbatim>\<open>pkg/mattermost/healthcheck\<close>) and writes the status.

  Two more controllers serve the older API (\<^verbatim>\<open>apis/mattermost/v1alpha1\<close>).  That of the \<^verbatim>\<open>ClusterInstallation\<close>
  (\<^verbatim>\<open>controllers/mattermost/clusterinstallation\<close>) has a reconcile loop of its own, with blue/green and
  canary deployments, and migrates a resource to the newer kind: it converts it, replaces the deployment
  by one with the newer labels while the pods go on running, creates the \<^verbatim>\<open>Mattermost\<close> resource, from
  where the first controller takes over, and deletes the old resource when the new one is stable.  That of
  the \<^verbatim>\<open>MattermostRestoreDB\<close> (\<^verbatim>\<open>controllers/mattermost/mattermostrestoredb\<close>) changes the specification of a
  \<^verbatim>\<open>ClusterInstallation\<close> to stop its database, deletes the volume claims and starts it from a backup.

  \<^bold>\<open>The theories\<close>, each importing the ones it calls:

  \<^item> \<open>Prelude\<close>: Go strings, integers, errors, and outcomes (value, error, panic) with their laws.
  \<^item> \<open>K8sTypes\<close>: the Kubernetes objects as records; labels and annotations are maps or locations of maps.
  \<^item> \<open>MattermostTypes\<close>, \<open>ClusterSize\<close>, \<open>MattermostApi\<close>: the custom resource, the size table, the resource's
    methods (\<^verbatim>\<open>mattermost_types.go\<close>, \<^verbatim>\<open>clusterinstallation_sizes.go\<close>, \<^verbatim>\<open>mattermost_utils.go\<close>, \<^verbatim>\<open>db_util.go\<close>,
    \<^verbatim>\<open>file_store_util.go\<close>, \<^verbatim>\<open>mattermost_sizes.go\<close>).
  \<^item> \<open>ResourcePatch\<close>: validation and application of the user's JSON patches (\<^verbatim>\<open>patch_apply.go\<close>).
  \<^item> \<open>AppConfig\<close>, \<open>Names\<close>, \<open>DatabaseConfig\<close>, \<open>FileStoreConfig\<close>: environment, probes, hashed names (with MD5),
    database and file store connections.  The two Go interfaces are records of functions, as the
    code passes them around.
  \<^item> \<open>Generators\<close>, \<open>Components\<close>: the desired objects.  \<open>Identifiers\<close>: the random identifiers, which are passwords
    and keys (\<^verbatim>\<open>pkg/components/utils/utils.go\<close>).  \<open>MysqlOperator\<close>: the types and the defaults of the MySQL operator
    (\<^verbatim>\<open>pkg/database/mysql_operator\<close>), under which the managed database runs.
  \<^item> \<open>Cluster\<close>: the API server and the client.  A controller is a function from a state to an outcome
    and a state; the state has the list of API calls made so far, and what the server answers to a
    call is a function of that list and of the call, given by an \<open>env\<close>.  Theorems hold for every \<open>env\<close>.
  \<^item> \<open>ResourceHelper\<close>, \<open>HealthCheck\<close>: \<^verbatim>\<open>pkg/resources\<close> and the health checker over that client.
  \<^item> \<open>RateLimiter\<close>: the admission of installations, as functions and as a step relation of workers.
  \<^item> \<open>MattermostController\<close>, \<open>MattermostReconcile\<close>: the controller's state, its handlers, the reconcile loop.
  \<^item> \<open>WritePolicy\<close>: the interface between the controllers and the resource helper as far as writes go, a locale
    with two providers: any cluster, and one in which every object is in place.  Each controller follows
    its handlers once over this interface, in a locale that extends it.
  \<^item> \<open>ControllerFootprint\<close>, \<open>ControllerKinds\<close>: which objects, and which kinds of objects, a run writes;
    \<open>ControllerProgress\<close>: that a run asks for another until the state is stable, and gives its place back.
  \<^item> \<open>TotalCorrectness\<close>, \<open>ComponentSuccess\<close>, \<open>ControllerLiveness\<close>: a calculus of programs that succeed, each
    check of the controller in it, and that a run over a healthy cluster ends in the state stable.
  \<^item> \<open>ClusterInstallationTypes\<close>, \<open>ClusterInstallationApi\<close>: the custom resources of the older API and the methods
    of \<^verbatim>\<open>clusterinstallation_utils.go\<close> and \<^verbatim>\<open>clusterinstallation_sizes.go\<close>; \<open>LegacyGenerators\<close>: \<^verbatim>\<open>pkg/mattermost/mattermost.go\<close>
    and the older generators of \<^verbatim>\<open>pkg/components\<close>.
  \<^item> \<open>ClusterInstallationController\<close>, \<open>ClusterInstallationReconcile\<close>: the handlers and the loop of the older
    controller; \<open>ClusterInstallationSafety\<close>: what a run writes, and what blue/green and canary lead to.
  \<^item> \<open>Conversion\<close>, \<open>Migration\<close>: \<^verbatim>\<open>conversion.go\<close> and \<^verbatim>\<open>migration.go\<close>; \<open>ConversionFacts\<close>: the two versions agree
    on a converted resource; \<open>MigrationSafety\<close>, \<open>MigrationProtocol\<close>: what a migration deletes and when, that
    its wait ends, and that its writes refine an abstract protocol.
  \<^item> \<open>RestoreDB\<close>, \<open>RestoreSafety\<close>: the restore controller, and what it deletes and when; \<open>RestoreInterleaving\<close>:
    its calls interleaved with those of the controller of the installations and the MySQL operator.

  \<^bold>\<open>Correspondence.\<close>  A definition has the name of the Go function, method, type or constant it models; methods
  of types whose names clash have a prefix (\<open>db_SetDefaults\<close>, \<open>External_EnvVars\<close>), and parts of a long
  function are definitions of their own, named after what they compute (\<open>deployment_env\<close>,
  \<open>init_status\<close>).  A pointer that can be nil is an \<open>option\<close>; an error return is \<open>Err\<close>; a panic is
  \<open>Panic\<close>; integers are unbounded where the code only compares or passes them on, and wrapped with
  \<open>wrap64\<close> where it computes with them; durations are nanoseconds.  The label maps of the resource are
  shared and mutated by the code, so they are locations in the model, read with \<open>deref\<close>.  The status
  that \<^verbatim>\<open>Reconcile\<close> keeps aside shares its patch status with the resource; \<open>r_shared\<close> says whether it does.

  \<^bold>\<open>What the theorems show.\<close>  Safety of a whole run: the footprint of its writes, what is never deleted,
  a settled cluster left alone, images guarded by the update job, the meaning of the state \<^verbatim>\<open>stable\<close>, the reconcile limit under
  concurrency.  Functional correctness of defaulting and sizing (idempotence, user values kept), of the
  generated deployment, job server, ingress, database and file store configuration.  What the
  validation of patches guarantees, and what it does not.  Error paths: failed patches, rejected
  secrets, the limit reached.  Progress of the loop, that it reaches the state stable when the cluster lets it, and the
  balance of the rate limiter's counter.  For the
  older API the same safety of a run, of the update job and of the state \<^verbatim>\<open>stable\<close>; for the migration that
  it keeps the pods, agrees with the defaults, follows its protocol and ends its wait; for a restore that
  only claims of a stopped database are deleted, however the controllers interleave, and when its scaling to zero
  reaches the database.  Some theorems state what the code does where it is
  surprising: the stale cache, leaking labels, the endpoint check with extra labels, the gaps of the patch
  validation, an interrupted migration, the first and the repeated restore, the ingresses of a canary.

  \<^bold>\<open>Parameters.\<close>  Code outside the repository is an argument: the API server and the object matcher (\<open>env\<close>),
  the JSON codecs and the patch library (\<open>codec\<close>), URL parsing, the quantity parser, random
  bytes, and in the controllers the identifiers made of them.  Hypotheses about them are named: \<open>env_names\<close> says that a read returns an object with the
  name it was asked for, \<open>patches_keep_names\<close> that the patches at hand do not rename the object,
  \<open>restore_names_kept\<close> the same for what a restore writes and reads, \<open>status_kept\<close> that a status update
  stores the status it is given, \<open>secrets_stored\<close> that a created secret keeps its name and data.
  The liveness of a run rests on \<open>healthy\<close>, which says of the cluster, check by check, what is there and
  what it accepts (\<open>resource_writable\<close>, \<open>database_ready\<close>, \<open>file_store_ready\<close>, \<open>application_ready\<close>, \<open>rolled_out\<close>),
  for a resource without patches; a closed instance of it is \<open>healthy_env\<close>.  In \<open>world_step\<close> the MySQL operator, which
  is not in the repository, moves the number of members towards the one that is asked for, and
  nobody but the two controllers edits the specification of the installation.

  \<^bold>\<open>Bounds.\<close>  Every function of the model is total without fuel: the code's loops run over lists or
  strings, but for the wait for a deletion, which ends by its timer: the time left decreases by at
  least the sleep of 2 seconds in each round (\<open>wait_loop\<close>, with the time a read takes as a parameter).
  The MD5 computation runs 64 steps for each block of the padded message.

  \<^bold>\<open>Not modelled.\<close>  Logging, generated clients and deep copies, CRD schemas, and the wiring of the manager in
  \<^verbatim>\<open>main.go\<close> are left out: they do no more than input and output.  So are the users and databases of the MySQL
  operator's API, data types that nothing uses.
\<close>

section \<open>Properties\<close>


lemma demo_cluster_names: "env_names demo_cluster" "patches_keep_names demo_cluster"
proof -
  show "env_names demo_cluster"
    by (auto simp: env_names_def keeps_names_def demo_cluster_def demo_env_def empty_api_def kind_defs k_key_def
        demo_mm_def split: if_splits)
  show "patches_keep_names demo_cluster"
    by (auto simp: patches_keep_names_def ApplyToDeployment_def ApplyToService_def demo_cluster_def
        validateDeploymentPatch_def validateServicePatch_def split: option.splits if_splits)
qed

text \<open>
  C2. Whatever the API server answers and whatever the resource says, a run of the reconcile loop
  never deletes a volume claim, a secret, a database cluster, a MinIO instance, access control or the
  resource itself: deletion is of services, ingresses, ingress classes, deployments and jobs only.
  It never creates a \<^verbatim>\<open>Mattermost\<close> resource and never writes pods, replica sets or stateful sets.
\<close>

theorem reconcile_never_deletes_data:
  assumes "Reconcile env cfg k s = (r, s')"
  shows "\<exists>new. calls s' = calls s @ new \<and> list_all (\<lambda>c. case c of
       CDelete x \<Rightarrow> kobj_kind x \<in> {ServiceKind, IngressKind, IngressClassKind, DeploymentKind, JobKind}
     | CDeleteWith _ x \<Rightarrow> kobj_kind x \<in> {ServiceKind, IngressKind, IngressClassKind, DeploymentKind, JobKind}
     | CCreate x \<Rightarrow> kobj_kind x \<notin> {MattermostKind, PodKind, ReplicaSetKind, StatefulSetKind}
     | CUpdate x \<Rightarrow> kobj_kind x \<notin> {PodKind, ReplicaSetKind, StatefulSetKind}
     | CStatusUpdate x \<Rightarrow> kobj_kind x = MattermostKind
     | _ \<Rightarrow> True) new"
proof -
  obtain new where new: "calls s' = calls s @ new" and ok: "ok_trace (\<lambda>_. touches reconcile_kinds) (calls s) new"
    using kinds_Reconcile [of "r_processing s" env cfg k] assms by (elim runsD) (auto simp: counted_def)
  have "case c of
       CDelete x \<Rightarrow> kobj_kind x \<in> {ServiceKind, IngressKind, IngressClassKind, DeploymentKind, JobKind}
     | CDeleteWith _ x \<Rightarrow> kobj_kind x \<in> {ServiceKind, IngressKind, IngressClassKind, DeploymentKind, JobKind}
     | CCreate x \<Rightarrow> kobj_kind x \<notin> {MattermostKind, PodKind, ReplicaSetKind, StatefulSetKind}
     | CUpdate x \<Rightarrow> kobj_kind x \<notin> {PodKind, ReplicaSetKind, StatefulSetKind}
     | CStatusUpdate x \<Rightarrow> kobj_kind x = MattermostKind
     | _ \<Rightarrow> True" if "touches reconcile_kinds c" for c
    using that by (cases c) (auto simp: touches_def maintained_def deletable_def)
  then show ?thesis using new ok by (auto simp: ok_trace_all list_all_iff)
qed

theorem reconcile_never_deletes_data_witness:
  "\<exists>new. calls (snd (Reconcile (demo_env\<lparr>e_Mattermost := empty_api\<lparr>api_get := \<lambda>_ _. Inr demo_mm\<rparr>\<rparr>)
       \<lparr>MaxReconciling = 5, RequeueOnLimitDelay = 20\<rparr> (''mm'', ''apps'') (demo_state demo_mm))) = new
     \<and> list_all (\<lambda>c. case c of CDelete x \<Rightarrow> kobj_kind x \<noteq> PVCKind | _ \<Rightarrow> True) new"
proof -
  let ?env = "demo_env\<lparr>e_Mattermost := empty_api\<lparr>api_get := \<lambda>_ _. Inr demo_mm\<rparr>\<rparr>"
  let ?run = "Reconcile ?env \<lparr>MaxReconciling = 5, RequeueOnLimitDelay = 20\<rparr> (''mm'', ''apps'') (demo_state demo_mm)"
  obtain new where "calls (snd ?run) = calls (demo_state demo_mm) @ new"
    and "list_all (\<lambda>c. case c of
       CDelete x \<Rightarrow> kobj_kind x \<in> {ServiceKind, IngressKind, IngressClassKind, DeploymentKind, JobKind}
     | CDeleteWith _ x \<Rightarrow> kobj_kind x \<in> {ServiceKind, IngressKind, IngressClassKind, DeploymentKind, JobKind}
     | CCreate x \<Rightarrow> kobj_kind x \<notin> {MattermostKind, PodKind, ReplicaSetKind, StatefulSetKind}
     | CUpdate x \<Rightarrow> kobj_kind x \<notin> {PodKind, ReplicaSetKind, StatefulSetKind}
     | CStatusUpdate x \<Rightarrow> kobj_kind x = MattermostKind
     | _ \<Rightarrow> True) new"
    using reconcile_never_deletes_data [of ?env _ _ "demo_state demo_mm", OF prod.collapse [symmetric]] by blast
  then show ?thesis
    by (auto simp: demo_state_def list_all_iff split: call.splits)
qed

end
